(* ===== verification/Prelude.thy ===== *)
theory Prelude
  imports Main "HOL-Library.Word" "HOL-Library.Monad_Syntax"
begin

unbundle bit_operations_syntax

text \<open>
  The shared base of the development: names for the machine integers of the ATmega328P
  (\<open>u8\<close>, \<open>u16\<close>, \<open>u32\<close>; avr-gcc's \<open>int\<close> and \<open>size_t\<close> have 16 bits),
  the bit macros of src/src/nuts_bolts.h, characters as bytes, the collections of rewrite rules
  that the component proofs share, and generic lemmas on lists and words.
\<close>

section \<open>Machine integers and bytes\<close>

type_synonym u8 = "8 word"
type_synonym u16 = "16 word"
type_synonym u32 = "32 word"

named_theorems grbl_consts \<open>values of the preprocessor constants\<close>
named_theorems wf_intros \<open>preservation of well-formedness by the operations\<close>
named_theorems frame_simps \<open>what an operation leaves unchanged\<close>

definition byte :: "char \<Rightarrow> u8" where
  "byte c = of_nat (of_char c)"

definition bytes :: "string \<Rightarrow> u8 list" where
  "bytes s = map byte s"

section \<open>The bit macros of nuts\_bolts.h\<close>

definition bitm :: "nat \<Rightarrow> 'a::len word" where
  "bitm n = push_bit n 1"

definition bit_istrue :: "'a::len word \<Rightarrow> 'a word \<Rightarrow> bool" where
  "bit_istrue x m \<longleftrightarrow> x AND m \<noteq> 0"

definition bit_isfalse :: "'a::len word \<Rightarrow> 'a word \<Rightarrow> bool" where
  "bit_isfalse x m \<longleftrightarrow> x AND m = 0"

definition bit_true :: "'a::len word \<Rightarrow> 'a word \<Rightarrow> 'a word" where
  "bit_true x m = x OR m"

definition bit_false :: "'a::len word \<Rightarrow> 'a word \<Rightarrow> 'a word" where
  "bit_false x m = x AND NOT m"

lemmas bit_macros = bit_istrue_def bit_isfalse_def bit_true_def bit_false_def

lemma bit_isfalse_iff: "bit_isfalse x m \<longleftrightarrow> \<not> bit_istrue x m"
  by (simp add: bit_macros)

lemma or_and_absorb [simp]: "(x OR m) AND m = (m :: 'a::len word)"
  by (rule bit_eqI) (auto simp: bit_simps)

lemma bit_istrue_true [simp]: "m \<noteq> 0 \<Longrightarrow> bit_istrue (bit_true x m) m"
  by (simp add: bit_macros)

lemma bit_istrue_false [simp]: "\<not> bit_istrue (bit_false x m) m"
  by (simp add: bit_macros and.assoc)

section \<open>Loops over a list with steps that may not return\<close>

fun each :: "('a \<Rightarrow> 's \<Rightarrow> 's option) \<Rightarrow> 'a list \<Rightarrow> 's \<Rightarrow> 's option" where
  "each f [] s = Some s"
| "each f (x # xs) s = Option.bind (f x s) (each f xs)"

section \<open>Results\<close>

lemma map_sum_eq_iff:
  "map_sum f h x = Inl y \<longleftrightarrow> (\<exists>z. x = Inl z \<and> f z = y)"
  "map_sum f h x = Inr w \<longleftrightarrow> (\<exists>z. x = Inr z \<and> h z = w)"
  by (cases x; auto)+

lemma case_error_eq_iff:
  "(case x of Inl e \<Rightarrow> Inl (f e) | Inr v \<Rightarrow> k v) = Inl y \<longleftrightarrow> (\<exists>e. x = Inl e \<and> f e = y) \<or> (\<exists>v. x = Inr v \<and> k v = Inl y)"
  "(case x of Inl e \<Rightarrow> Inl (f e) | Inr v \<Rightarrow> k v) = Inr w \<longleftrightarrow> (\<exists>v. x = Inr v \<and> k v = Inr w)"
  by (cases x; auto)+

section \<open>Sizes of machine integers\<close>

lemma unat_u8: "unat (w :: u8) < 256"
  by (rule less_le_trans [OF unsigned_less]) simp

lemma unat_of_nat_u8: "i < 256 \<Longrightarrow> unat (of_nat i :: u8) = i"
  by (simp add: unat_of_nat take_bit_eq_mod)

lemma unat_u32: "unat (w :: u32) < 4294967296"
  by (rule less_le_trans [OF unsigned_less]) simp

lemma unat_u16: "unat (w :: u16) < 65536"
  by (rule less_le_trans [OF unsigned_less]) simp

end
