(* ===== verification/Llp_Protocol.thy ===== *)
theory Llp_Protocol
  imports Prelude
begin

text \<open>
  The LLP v3.1 codec of src/src/llp\_protocol.h, configured as src/src/config.h does
  (\<open>LLP_MAX_PAYLOAD\<close> 64, \<open>LLP_ENABLE_STATS\<close> 0): the CRC, the byte-wise parser,
  the walk over the layer chain and the frame builder.
  \<open>llp_parser_process_byte\<close> is one C function; its three stretches (timeout, unstuffing,
  state switch) are three definitions here.
\<close>

section \<open>Constants\<close>

definition LLP_MAGIC_1 :: u8 where "LLP_MAGIC_1 = 0xAA"
definition LLP_MAGIC_2 :: u8 where "LLP_MAGIC_2 = 0x55"
definition LLP_MAX_PAYLOAD :: u16 where "LLP_MAX_PAYLOAD = 64"
definition LLP_FRAME_TIMEOUT_MS :: u16 where "LLP_FRAME_TIMEOUT_MS = 2000"
definition LLP_LAYER_ID_FINAL :: u8 where "LLP_LAYER_ID_FINAL = 0"

definition LLP_MAX_FRAME_SIZE :: "u16 \<Rightarrow> u16" where
  "LLP_MAX_FRAME_SIZE payload_len = 2 + 4 + payload_len * 2 + 4"

definition LLP_LAYER_IS_TRANSFORM :: "u8 \<Rightarrow> bool" where
  "LLP_LAYER_IS_TRANSFORM b \<longleftrightarrow> b \<ge> 0x80 \<and> b \<le> 0xFE"

definition LLP_LAYER_IS_FINAL :: "u8 \<Rightarrow> bool" where
  "LLP_LAYER_IS_FINAL b \<longleftrightarrow> b = LLP_LAYER_ID_FINAL"

definition LLP_ERR_OK :: u8 where "LLP_ERR_OK = 0"
definition LLP_ERR_CHECKSUM :: u8 where "LLP_ERR_CHECKSUM = 1"
definition LLP_ERR_PAYLOAD_LEN :: u8 where "LLP_ERR_PAYLOAD_LEN = 2"
definition LLP_ERR_TIMEOUT :: u8 where "LLP_ERR_TIMEOUT = 3"
definition LLP_ERR_SYNC :: u8 where "LLP_ERR_SYNC = 4"

definition LLP_STATE_WAIT_MAGIC1 :: u8 where "LLP_STATE_WAIT_MAGIC1 = 0"
definition LLP_STATE_WAIT_MAGIC2 :: u8 where "LLP_STATE_WAIT_MAGIC2 = 1"
definition LLP_STATE_READ_LEN_L :: u8 where "LLP_STATE_READ_LEN_L = 2"
definition LLP_STATE_READ_LEN_H :: u8 where "LLP_STATE_READ_LEN_H = 3"
definition LLP_STATE_READ_PAYLOAD :: u8 where "LLP_STATE_READ_PAYLOAD = 4"
definition LLP_STATE_READ_CRC_L :: u8 where "LLP_STATE_READ_CRC_L = 5"
definition LLP_STATE_READ_CRC_H :: u8 where "LLP_STATE_READ_CRC_H = 6"

lemmas llp_consts [grbl_consts] =
  LLP_MAGIC_1_def LLP_MAGIC_2_def LLP_MAX_PAYLOAD_def LLP_FRAME_TIMEOUT_MS_def
  LLP_LAYER_ID_FINAL_def
  LLP_ERR_OK_def LLP_ERR_CHECKSUM_def LLP_ERR_PAYLOAD_LEN_def LLP_ERR_TIMEOUT_def LLP_ERR_SYNC_def
  LLP_STATE_WAIT_MAGIC1_def LLP_STATE_WAIT_MAGIC2_def LLP_STATE_READ_LEN_L_def
  LLP_STATE_READ_LEN_H_def LLP_STATE_READ_PAYLOAD_def LLP_STATE_READ_CRC_L_def
  LLP_STATE_READ_CRC_H_def

section \<open>CRC16-CCITT\<close>

definition llp_crc_bit :: "u16 \<Rightarrow> u16" where
  "llp_crc_bit crc =
     (if crc AND 0x8000 \<noteq> 0 then push_bit 1 crc XOR 0x1021 else push_bit 1 crc)"

definition llp_crc16_update :: "u16 \<Rightarrow> u8 \<Rightarrow> u16" where
  "llp_crc16_update crc d = (llp_crc_bit ^^ 8) (crc XOR push_bit 8 (ucast d))"

section \<open>The parser\<close>

record llp_frame_t =
  payload :: "u8 list"
  payload_len :: u16

record llp_parser_t =
  frame :: llp_frame_t
  payload_idx :: u16
  crc_received :: u16
  crc_calculated :: u16
  last_byte_time :: u16
  state :: u8
  escape_pending :: u8
  error_code :: u8

text \<open>A parser in zeroed memory.\<close>

definition llp_parser_zero :: llp_parser_t where
  "llp_parser_zero =
     \<lparr>frame = \<lparr>payload = replicate 64 0, payload_len = 0\<rparr>, payload_idx = 0, crc_received = 0,
      crc_calculated = 0, last_byte_time = 0, state = 0, escape_pending = 0, error_code = 0\<rparr>"

definition llp_parser_reset :: "llp_parser_t \<Rightarrow> llp_parser_t" where
  "llp_parser_reset p =
     p\<lparr>state := LLP_STATE_WAIT_MAGIC1, escape_pending := 0, payload_idx := 0,
       crc_calculated := 0xFFFF\<rparr>"

definition llp_parser_init :: "llp_parser_t \<Rightarrow> llp_parser_t" where
  "llp_parser_init p =
     (let p = llp_parser_reset p;
          p = p\<lparr>crc_received := 0, last_byte_time := 0, error_code := LLP_ERR_OK\<rparr>
      in p\<lparr>frame := (frame p)\<lparr>payload_len := 0\<rparr>\<rparr>)"

text \<open>The CRC of the two sync bytes, as the parser restarts it.\<close>

definition llp_crc_sync :: u16 where
  "llp_crc_sync = llp_crc16_update (llp_crc16_update 0xFFFF LLP_MAGIC_1) LLP_MAGIC_2"

text \<open>
  The stretch before the switch handles a pending escape: \<open>Inl\<close> is an early
  return with its result, \<open>Inr\<close> the byte that the switch sees.
\<close>

definition llp_unescape ::
  "llp_parser_t \<Rightarrow> u8 \<Rightarrow> int \<times> llp_parser_t + llp_parser_t \<times> u8" where
  "llp_unescape p b =
     (if state p \<noteq> LLP_STATE_WAIT_MAGIC1 \<and> state p \<noteq> LLP_STATE_WAIT_MAGIC2 then
        if escape_pending p \<noteq> 0 then
          let p = p\<lparr>escape_pending := 0\<rparr> in
          if b = LLP_MAGIC_2 then
            Inl (-1, p\<lparr>error_code := LLP_ERR_SYNC, crc_calculated := llp_crc_sync,
                       payload_idx := 0, state := LLP_STATE_READ_LEN_L\<rparr>)
          else if b = 0 then Inr (p, LLP_MAGIC_1)
          else Inl (-1, llp_parser_reset (p\<lparr>error_code := LLP_ERR_SYNC\<rparr>))
        else if b = LLP_MAGIC_1 then Inl (0, p\<lparr>escape_pending := 1\<rparr>)
        else Inr (p, b)
      else Inr (p, b))"

definition llp_dispatch :: "llp_parser_t \<Rightarrow> u8 \<Rightarrow> int \<times> llp_parser_t" where
  "llp_dispatch p b =
     (if state p = LLP_STATE_WAIT_MAGIC1 then
        (0, if b = LLP_MAGIC_1 then p\<lparr>state := LLP_STATE_WAIT_MAGIC2\<rparr> else p)
      else if state p = LLP_STATE_WAIT_MAGIC2 then
        (0, if b = LLP_MAGIC_2 then
              p\<lparr>crc_calculated := llp_crc_sync, state := LLP_STATE_READ_LEN_L\<rparr>
            else if b = LLP_MAGIC_1 then p\<lparr>state := LLP_STATE_WAIT_MAGIC2\<rparr>
            else p\<lparr>state := LLP_STATE_WAIT_MAGIC1\<rparr>)
      else if state p = LLP_STATE_READ_LEN_L then
        (0, p\<lparr>frame := (frame p)\<lparr>payload_len := ucast b\<rparr>,
              crc_calculated := llp_crc16_update (crc_calculated p) b,
              state := LLP_STATE_READ_LEN_H\<rparr>)
      else if state p = LLP_STATE_READ_LEN_H then
        let len = payload_len (frame p) OR push_bit 8 (ucast b);
            p = p\<lparr>frame := (frame p)\<lparr>payload_len := len\<rparr>,
                  crc_calculated := llp_crc16_update (crc_calculated p) b\<rparr>
        in if len > LLP_MAX_PAYLOAD then
             (-1, llp_parser_reset (p\<lparr>error_code := LLP_ERR_PAYLOAD_LEN\<rparr>))
           else
             (0, p\<lparr>payload_idx := 0,
                   state := (if len = 0 then LLP_STATE_READ_CRC_L else LLP_STATE_READ_PAYLOAD)\<rparr>)
      else if state p = LLP_STATE_READ_PAYLOAD then
        let p = p\<lparr>frame := (frame p)\<lparr>payload := (payload (frame p))[unat (payload_idx p) := b]\<rparr>,
                  payload_idx := payload_idx p + 1,
                  crc_calculated := llp_crc16_update (crc_calculated p) b\<rparr>
        in (0, if payload_idx p = payload_len (frame p) then p\<lparr>state := LLP_STATE_READ_CRC_L\<rparr>
               else p)
      else if state p = LLP_STATE_READ_CRC_L then
        (0, p\<lparr>crc_received := ucast b, state := LLP_STATE_READ_CRC_H\<rparr>)
      else if state p = LLP_STATE_READ_CRC_H then
        let p = p\<lparr>crc_received := crc_received p OR push_bit 8 (ucast b)\<rparr>
        in if crc_received p \<noteq> crc_calculated p then
             (-1, llp_parser_reset (p\<lparr>error_code := LLP_ERR_CHECKSUM\<rparr>))
           else (1, llp_parser_reset p)
      else (0, llp_parser_reset p))"

text \<open>
  \<open>current_ms\<close> is an \<open>unsigned long\<close>; the C subtraction is in 32 bits and then cut to 16.
\<close>

definition llp_parser_process_byte ::
  "llp_parser_t \<Rightarrow> u8 \<Rightarrow> u32 \<Rightarrow> int \<times> llp_parser_t" where
  "llp_parser_process_byte p b current_ms =
     (if state p \<noteq> LLP_STATE_WAIT_MAGIC1
         \<and> (ucast (current_ms - ucast (last_byte_time p)) :: u16) > LLP_FRAME_TIMEOUT_MS
      then
        let p = llp_parser_reset (p\<lparr>error_code := LLP_ERR_TIMEOUT\<rparr>);
            p = p\<lparr>last_byte_time := ucast current_ms\<rparr>
        in (-1, if b = LLP_MAGIC_1 then p\<lparr>state := LLP_STATE_WAIT_MAGIC2\<rparr> else p)
      else
        case llp_unescape (p\<lparr>last_byte_time := ucast current_ms\<rparr>) b of
          Inl r \<Rightarrow> r
        | Inr (p, b) \<Rightarrow> llp_dispatch p b)"

section \<open>The layer chain\<close>

text \<open>Bytes consumed (0 is the failure) and the length read.\<close>

definition llp_read_meta_len :: "u8 list \<Rightarrow> u16 \<Rightarrow> u16 \<Rightarrow> u8 \<times> u16" where
  "llp_read_meta_len buf buf_len off =
     (if off \<ge> buf_len then (0, 0)
      else if buf ! unat off < 0xFF then (1, ucast (buf ! unat off))
      else if off + 3 > buf_len then (0, 0)
      else (3, push_bit 8 (ucast (buf ! unat (off + 1))) OR ucast (buf ! unat (off + 2))))"

text \<open>
  The walk of \<open>llp_get_final_payload_ptr\<close> from position \<open>pos\<close>. The outer
  \<open>None\<close> is a walk that does not end; the inner option is the C pointer, given as the
  position it points to with the length stored in \<open>out_len\<close>. All sums are of
  \<open>uint16_t\<close> operands and wrap at 16 bits, as avr-gcc computes them.
\<close>

partial_function (option) llp_final_walk ::
  "u8 list \<Rightarrow> u16 \<Rightarrow> u16 \<Rightarrow> (u16 \<times> u16) option option" where
  "llp_final_walk buf tot pos =
     (if pos < tot then
        let layer_id = buf ! unat pos; pos = pos + 1 in
        if LLP_LAYER_IS_FINAL layer_id then Some (Some (pos, tot - pos))
        else
          let (len_bytes, meta_len) = llp_read_meta_len buf tot pos in
          if len_bytes = 0 then Some None
          else
            let pos = pos + ucast len_bytes in
            if pos + meta_len > tot then Some None
            else if LLP_LAYER_IS_TRANSFORM layer_id then Some None
            else llp_final_walk buf tot (pos + meta_len)
      else Some None)"

definition llp_get_final_payload_ptr :: "llp_frame_t \<Rightarrow> (u16 \<times> u16) option option" where
  "llp_get_final_payload_ptr f = llp_final_walk (payload f) (payload_len f) 0"

text \<open>
  \<open>llp_get_final_payload\<close> copies the raw bytes into \<open>out_buf\<close>: the result is the
  returned \<open>int\<close> with the new buffer.
\<close>

definition llp_get_final_payload ::
  "llp_frame_t \<Rightarrow> u8 list \<Rightarrow> u16 \<Rightarrow> (int \<times> u8 list) option" where
  "llp_get_final_payload f out_buf out_buf_size =
     (case llp_get_final_payload_ptr f of
        None \<Rightarrow> None
      | Some None \<Rightarrow> Some (-1, out_buf)
      | Some (Some (pos, raw_len)) \<Rightarrow>
          if raw_len > out_buf_size then Some (-1, out_buf)
          else Some (sint raw_len,
                 take (unat raw_len) (drop (unat pos) (payload f)) @ drop (unat raw_len) out_buf))"

record llp_layer_info_t =
  layer_id :: u8
  meta_offset :: u16
  meta_len :: u16
  payload_offset :: u16
  info_payload_len :: u16

text \<open>
  \<open>llp_find_layer\<close>: the returned \<open>int\<close>, and what it stores through \<open>out\<close>
  (nothing where it does not return 1).
\<close>

partial_function (option) llp_find_walk ::
  "u8 list \<Rightarrow> u16 \<Rightarrow> u8 \<Rightarrow> u16 \<Rightarrow> (int \<times> llp_layer_info_t option) option" where
  "llp_find_walk buf tot target_id pos =
     (if pos < tot then
        let lid = buf ! unat pos; pos = pos + 1 in
        if LLP_LAYER_IS_FINAL lid then Some (0, None)
        else
          let (len_bytes, mlen) = llp_read_meta_len buf tot pos in
          if len_bytes = 0 then Some (-1, None)
          else
            let pos = pos + ucast len_bytes in
            if pos + mlen > tot then Some (-1, None)
            else if lid = target_id then
              Some (1, Some \<lparr>layer_id = lid, meta_offset = pos, meta_len = mlen,
                payload_offset = pos + mlen, info_payload_len = tot - (pos + mlen)\<rparr>)
            else if LLP_LAYER_IS_TRANSFORM lid then Some (-1, None)
            else llp_find_walk buf tot target_id (pos + mlen)
      else Some (0, None))"

definition llp_find_layer ::
  "llp_frame_t \<Rightarrow> u8 \<Rightarrow> (int \<times> llp_layer_info_t option) option" where
  "llp_find_layer f target_id = llp_find_walk (payload f) (payload_len f) target_id 0"

section \<open>The frame builder\<close>

text \<open>
  \<open>crc\<close> is a nullable pointer in C: \<open>None\<close> is \<open>NULL\<close>. Buffers are lists, the index a
  \<open>size_t\<close> of 16 bits.
\<close>

definition llp_write_stuffed ::
  "u8 list \<Rightarrow> u16 \<Rightarrow> u8 \<Rightarrow> u16 option \<Rightarrow> u8 list \<times> u16 \<times> u16 option" where
  "llp_write_stuffed buf idx b crc =
     (let crc = map_option (\<lambda>c. llp_crc16_update c b) crc;
          buf = buf[unat idx := b]; idx = idx + 1
      in if b = LLP_MAGIC_1 then (buf[unat idx := 0], idx + 1, crc) else (buf, idx, crc))"

text \<open>\<open>raw_data = None\<close> is the null pointer.\<close>

definition llp_build_final_payload ::
  "u8 list \<Rightarrow> u16 \<Rightarrow> u8 list option \<Rightarrow> u16 \<Rightarrow> u8 list \<times> u16" where
  "llp_build_final_payload out_buf out_buf_size raw_data raw_len =
     (if out_buf_size < raw_len + 1 then (out_buf, 0)
      else
        let out_buf = out_buf[0 := LLP_LAYER_ID_FINAL] in
        (case raw_data of
           Some d \<Rightarrow>
             if raw_len > 0 then
               take 1 out_buf @ take (unat raw_len) d @ drop (Suc (unat raw_len)) out_buf
             else out_buf
         | None \<Rightarrow> out_buf, raw_len + 1))"

fun llp_write_all ::
  "u8 list \<Rightarrow> u16 \<Rightarrow> u8 list \<Rightarrow> u16 option \<Rightarrow> u8 list \<times> u16 \<times> u16 option" where
  "llp_write_all buf idx [] crc = (buf, idx, crc)"
| "llp_write_all buf idx (b # bs) crc =
     (let (buf, idx, crc) = llp_write_stuffed buf idx b crc in llp_write_all buf idx bs crc)"

definition llp_build_frame ::
  "u8 list \<Rightarrow> u16 \<Rightarrow> u8 list \<Rightarrow> u16 \<Rightarrow> u8 list \<times> u16" where
  "llp_build_frame out_buf out_buf_size llp_payload llp_payload_len =
     (if llp_payload_len > LLP_MAX_PAYLOAD then (out_buf, 0)
      else if out_buf_size < LLP_MAX_FRAME_SIZE llp_payload_len then (out_buf, 0)
      else
        let out_buf = out_buf[0 := LLP_MAGIC_1, 1 := LLP_MAGIC_2];
            (out_buf, idx, crc) =
              llp_write_stuffed out_buf 2 (ucast (llp_payload_len AND 0xFF)) (Some llp_crc_sync);
            (out_buf, idx, crc) =
              llp_write_stuffed out_buf idx (ucast (drop_bit 8 llp_payload_len)) crc;
            (out_buf, idx, crc) =
              llp_write_all out_buf idx (take (unat llp_payload_len) llp_payload) crc;
            c = the crc;
            (out_buf, idx, _) = llp_write_stuffed out_buf idx (ucast (c AND 0xFF)) None;
            (out_buf, idx, _) = llp_write_stuffed out_buf idx (ucast (drop_bit 8 c)) None
        in (out_buf, idx))"

end
