(* ===== verification/Cfloat.thy ===== *)
theory Cfloat
  imports Prelude
begin

text \<open>
  The floats of the firmware. With avr-gcc \<open>float\<close> and \<open>double\<close> are both IEEE 754
  binary32, so every floating expression of the source is evaluated in this one format, rounding
  to nearest, ties to even. A float is its 32 bits (\<open>f32\<close>), as the EEPROM images and
  \<open>memcmp\<close> see it. The operations decode to an integer significand and a binary exponent,
  compute exactly, and round once.

  Conversions to an integer type are undefined in C outside the range of that type; they take
  the function \<open>ub\<close> that stands for what the compiled code does there.
\<close>

type_synonym f32 = "32 word"

section \<open>Decoding and rounding\<close>

text \<open>\<open>FNum s m e\<close> is the number $(-1)^s \cdot m \cdot 2^e$.\<close>

datatype fval = FNan | FInf bool | FNum bool nat int

definition f_decode :: "f32 \<Rightarrow> fval" where
  "f_decode w =
     (let s = bit w 31; ex = unat w div 2 ^ 23 mod 256; fr = unat w mod 2 ^ 23 in
      if ex = 255 then (if fr = 0 then FInf s else FNan)
      else if ex = 0 then FNum s fr (-149)
      else FNum s (2 ^ 23 + fr) (int ex - 150))"

definition f_nan :: f32 where "f_nan = 0x7FC00000"
definition f_inf :: "bool \<Rightarrow> f32" where "f_inf s = (if s then 0xFF800000 else 0x7F800000)"

fun bit_len :: "nat \<Rightarrow> nat" where
  "bit_len n = (if n = 0 then 0 else Suc (bit_len (n div 2)))"

declare bit_len.simps [simp del]

definition sign_bits :: "bool \<Rightarrow> nat \<Rightarrow> f32" where
  "sign_bits s n = of_nat (if s then 2 ^ 31 + n else n)"

text \<open>
  The bits of a finite result: with \<open>q\<close> the exponent of its last place, the encoding is the
  rounded significand plus \<open>q + 149\<close> units of the exponent field; a carry out of the
  significand moves into that field by itself.
\<close>

definition f_round :: "bool \<Rightarrow> nat \<Rightarrow> int \<Rightarrow> f32" where
  "f_round s m e =
     (if m = 0 then sign_bits s 0
      else
        let q = max (e + int (bit_len m) - 24) (-149);
            sig = (if q \<le> e then m * 2 ^ nat (e - q)
                   else
                     let d = 2 ^ nat (q - e); a = m div d; r = m mod d in
                     if 2 * r > d \<or> (2 * r = d \<and> odd a) then a + 1 else a);
            n = nat (int sig + (q + 149) * 2 ^ 23)
        in if n \<ge> 255 * 2 ^ 23 then f_inf s else sign_bits s n)"

section \<open>Arithmetic\<close>

definition f_neg :: "f32 \<Rightarrow> f32" where "f_neg x = x XOR 0x80000000"
definition f_abs :: "f32 \<Rightarrow> f32" where "f_abs x = x AND 0x7FFFFFFF"

definition signed_sig :: "bool \<Rightarrow> nat \<Rightarrow> int" where
  "signed_sig s m = (if s then - int m else int m)"

definition f_add :: "f32 \<Rightarrow> f32 \<Rightarrow> f32" where
  "f_add x y =
     (case (f_decode x, f_decode y) of
        (FNan, _) \<Rightarrow> f_nan
      | (_, FNan) \<Rightarrow> f_nan
      | (FInf s, FInf t) \<Rightarrow> if s = t then f_inf s else f_nan
      | (FInf s, _) \<Rightarrow> f_inf s
      | (_, FInf t) \<Rightarrow> f_inf t
      | (FNum s m e, FNum t n k) \<Rightarrow>
          let q = min e k;
              v = signed_sig s m * 2 ^ nat (e - q) + signed_sig t n * 2 ^ nat (k - q)
          in if v = 0 then sign_bits (s \<and> t) 0 else f_round (v < 0) (nat \<bar>v\<bar>) q)"

definition f_sub :: "f32 \<Rightarrow> f32 \<Rightarrow> f32" where
  "f_sub x y = f_add x (f_neg y)"

definition f_mul :: "f32 \<Rightarrow> f32 \<Rightarrow> f32" where
  "f_mul x y =
     (case (f_decode x, f_decode y) of
        (FNan, _) \<Rightarrow> f_nan
      | (_, FNan) \<Rightarrow> f_nan
      | (FInf s, FInf t) \<Rightarrow> f_inf (s \<noteq> t)
      | (FInf s, FNum t n k) \<Rightarrow> if n = 0 then f_nan else f_inf (s \<noteq> t)
      | (FNum s m e, FInf t) \<Rightarrow> if m = 0 then f_nan else f_inf (s \<noteq> t)
      | (FNum s m e, FNum t n k) \<Rightarrow> f_round (s \<noteq> t) (m * n) (e + k))"

text \<open>The quotient has at least 27 bits; a remainder is kept as one more, odd bit.\<close>

definition f_div :: "f32 \<Rightarrow> f32 \<Rightarrow> f32" where
  "f_div x y =
     (case (f_decode x, f_decode y) of
        (FNan, _) \<Rightarrow> f_nan
      | (_, FNan) \<Rightarrow> f_nan
      | (FInf s, FInf t) \<Rightarrow> f_nan
      | (FInf s, FNum t n k) \<Rightarrow> f_inf (s \<noteq> t)
      | (FNum s m e, FInf t) \<Rightarrow> sign_bits (s \<noteq> t) 0
      | (FNum s m e, FNum t n k) \<Rightarrow>
          if n = 0 then (if m = 0 then f_nan else f_inf (s \<noteq> t))
          else
            let sh = 27 + bit_len n; a = m * 2 ^ sh in
            f_round (s \<noteq> t) (2 * (a div n) + (if a mod n = 0 then 0 else 1))
              (e - k - int sh - 1))"

fun isqrt :: "nat \<Rightarrow> nat" where
  "isqrt n =
     (if n = 0 then 0
      else let r = 2 * isqrt (n div 4) in if (r + 1) * (r + 1) \<le> n then r + 1 else r)"

declare isqrt.simps [simp del]

definition f_sqrt :: "f32 \<Rightarrow> f32" where
  "f_sqrt x =
     (case f_decode x of
        FNan \<Rightarrow> f_nan
      | FInf s \<Rightarrow> if s then f_nan else f_inf False
      | FNum s m e \<Rightarrow>
          if m = 0 then sign_bits s 0
          else if s then f_nan
          else
            let sh = (if even e then 54 else 55); a = m * 2 ^ sh; r = isqrt a in
            f_round False (2 * r + (if r * r = a then 0 else 1)) ((e - int sh) div 2 - 1))"

section \<open>Comparison\<close>

definition f_cmp :: "(int \<Rightarrow> int \<Rightarrow> bool) \<Rightarrow> f32 \<Rightarrow> f32 \<Rightarrow> bool" where
  "f_cmp R x y =
     (let key = (\<lambda>v. case v of
                   FNan \<Rightarrow> 0
                 | FInf s \<Rightarrow> signed_sig s (2 ^ 300)
                 | FNum s m e \<Rightarrow> signed_sig s (m * 2 ^ nat (e + 149)))
      in f_decode x \<noteq> FNan \<and> f_decode y \<noteq> FNan \<and> R (key (f_decode x)) (key (f_decode y)))"

definition f_lt :: "f32 \<Rightarrow> f32 \<Rightarrow> bool" where "f_lt = f_cmp (<)"
definition f_le :: "f32 \<Rightarrow> f32 \<Rightarrow> bool" where "f_le = f_cmp (\<le>)"
definition f_eq :: "f32 \<Rightarrow> f32 \<Rightarrow> bool" where "f_eq = f_cmp (=)"

text \<open>The macros \<open>min\<close> and \<open>max\<close> of nuts\_bolts.h on floats.\<close>

definition f_min :: "f32 \<Rightarrow> f32 \<Rightarrow> f32" where "f_min a b = (if f_lt a b then a else b)"
definition f_max :: "f32 \<Rightarrow> f32 \<Rightarrow> f32" where "f_max a b = (if f_lt b a then a else b)"

section \<open>Conversions\<close>

definition f_of_int :: "int \<Rightarrow> f32" where
  "f_of_int i = f_round (i < 0) (nat \<bar>i\<bar>) 0"

text \<open>A decimal constant $m \cdot 10^{-d}$ of the source, rounded by the compiler.\<close>

definition f_dec :: "nat \<Rightarrow> nat \<Rightarrow> f32" where
  "f_dec m d =
     (let n = 10 ^ d; sh = 27 + bit_len n; a = m * 2 ^ sh in
      f_round False (2 * (a div n) + (if a mod n = 0 then 0 else 1)) (- int sh - 1))"

text \<open>The integer parts, exact: towards zero, down, up, and to the nearest with halves away from 0.\<close>

definition f_trunc_int :: "f32 \<Rightarrow> int option" where
  "f_trunc_int x =
     (case f_decode x of
        FNum s m e \<Rightarrow>
          Some (signed_sig s (if 0 \<le> e then m * 2 ^ nat e else m div 2 ^ nat (- e)))
      | _ \<Rightarrow> None)"

definition f_is_int :: "f32 \<Rightarrow> bool" where
  "f_is_int x =
     (case f_decode x of FNum s m e \<Rightarrow> 0 \<le> e \<or> m mod 2 ^ nat (- e) = 0 | _ \<Rightarrow> True)"

definition f_sign :: "f32 \<Rightarrow> bool" where "f_sign x = bit x 31"

definition f_of_part :: "f32 \<Rightarrow> int \<Rightarrow> f32" where
  "f_of_part x i = (if i = 0 then sign_bits (f_sign x) 0 else f_of_int i)"

definition f_trunc :: "f32 \<Rightarrow> f32" where
  "f_trunc x = (case f_trunc_int x of Some i \<Rightarrow> f_of_part x i | None \<Rightarrow> x)"

definition f_floor :: "f32 \<Rightarrow> f32" where
  "f_floor x =
     (case f_trunc_int x of
        Some i \<Rightarrow> f_of_part x (if f_sign x \<and> \<not> f_is_int x then i - 1 else i)
      | None \<Rightarrow> x)"

definition f_ceil :: "f32 \<Rightarrow> f32" where
  "f_ceil x =
     (case f_trunc_int x of
        Some i \<Rightarrow> f_of_part x (if \<not> f_sign x \<and> \<not> f_is_int x then i + 1 else i)
      | None \<Rightarrow> x)"

definition f_round_int :: "f32 \<Rightarrow> int option" where
  "f_round_int x =
     (case f_decode x of
        FNum s m e \<Rightarrow>
          Some (signed_sig s (if 0 \<le> e then m * 2 ^ nat e
                              else (m + 2 ^ nat (- e - 1)) div 2 ^ nat (- e)))
      | _ \<Rightarrow> None)"

definition f_roundf :: "f32 \<Rightarrow> f32" where
  "f_roundf x = (case f_round_int x of Some i \<Rightarrow> f_of_part x i | None \<Rightarrow> x)"

text \<open>
  The assignment of a float to an integer variable with the range from \<open>lo\<close> to \<open>hi\<close>.
\<close>

definition f_to_int :: "(f32 \<Rightarrow> int) \<Rightarrow> int \<Rightarrow> int \<Rightarrow> f32 \<Rightarrow> int" where
  "f_to_int ub lo hi x =
     (case f_trunc_int x of
        Some i \<Rightarrow> if lo \<le> i \<and> i \<le> hi then i else ub x
      | None \<Rightarrow> ub x)"

definition f_to_u8 :: "(f32 \<Rightarrow> int) \<Rightarrow> f32 \<Rightarrow> u8" where
  "f_to_u8 ub x = of_int (f_to_int ub 0 255 x)"

definition f_to_u16 :: "(f32 \<Rightarrow> int) \<Rightarrow> f32 \<Rightarrow> u16" where
  "f_to_u16 ub x = of_int (f_to_int ub 0 65535 x)"

definition f_to_u32 :: "(f32 \<Rightarrow> int) \<Rightarrow> f32 \<Rightarrow> u32" where
  "f_to_u32 ub x = of_int (f_to_int ub 0 4294967295 x)"

definition f_to_i32 :: "(f32 \<Rightarrow> int) \<Rightarrow> f32 \<Rightarrow> u32" where
  "f_to_i32 ub x = of_int (f_to_int ub (-2147483648) 2147483647 x)"

definition f_lround :: "(f32 \<Rightarrow> int) \<Rightarrow> f32 \<Rightarrow> u32" where
  "f_lround ub x =
     of_int (case f_round_int x of
               Some i \<Rightarrow> if -2147483648 \<le> i \<and> i \<le> 2147483647 then i else ub x
             | None \<Rightarrow> ub x)"

definition f_of_u32 :: "u32 \<Rightarrow> f32" where "f_of_u32 w = f_of_int (uint w)"
definition f_of_i32 :: "u32 \<Rightarrow> f32" where "f_of_i32 w = f_of_int (sint w)"

text \<open>Bits to and from memory, low byte first.\<close>

definition f_bytes :: "f32 \<Rightarrow> u8 list" where
  "f_bytes x = [ucast x, ucast (drop_bit 8 x), ucast (drop_bit 16 x), ucast (drop_bit 24 x)]"

definition f_of_bytes :: "u8 list \<Rightarrow> f32" where
  "f_of_bytes bs =
     ucast (bs ! 0) OR push_bit 8 (ucast (bs ! 1)) OR push_bit 16 (ucast (bs ! 2))
       OR push_bit 24 (ucast (bs ! 3))"

lemma f_of_bytes_bytes [simp]: "f_of_bytes (f_bytes x) = x"
proof (rule bit_word_eqI)
  fix n :: nat
  assume "n < LENGTH(32)"
  then show "bit (f_of_bytes (f_bytes x)) n = bit x n"
    by (cases "n < 8"; cases "n < 16"; cases "n < 24")
      (auto simp: f_of_bytes_def f_bytes_def bit_simps)
qed

lemma f_bytes_length [simp]: "length (f_bytes x) = 4"
  by (simp add: f_bytes_def)

end
