(* ===== verification/Grbl_State.thy ===== *)
theory Grbl_State
  imports Llp_Protocol Cfloat
begin

text \<open>
  The data of the firmware: the structs and global variables of src/src, one record per module,
  and the machine state \<open>grbl\<close> that holds them all. Fields of different C structs share names;
  each record prefixes its fields. Pointers into a static buffer are indices, \<open>None\<close> the null
  pointer. Signed 32-bit counters are \<open>u32\<close> words read with \<open>sint\<close>.
\<close>

section \<open>Constants of system.h\<close>

definition EXEC_STATUS_REPORT :: u8 where "EXEC_STATUS_REPORT = 0x01"
definition EXEC_CYCLE_START :: u8 where "EXEC_CYCLE_START = 0x02"
definition EXEC_CYCLE_STOP :: u8 where "EXEC_CYCLE_STOP = 0x04"
definition EXEC_FEED_HOLD :: u8 where "EXEC_FEED_HOLD = 0x08"
definition EXEC_RESET :: u8 where "EXEC_RESET = 0x10"
definition EXEC_SAFETY_DOOR :: u8 where "EXEC_SAFETY_DOOR = 0x20"
definition EXEC_MOTION_CANCEL :: u8 where "EXEC_MOTION_CANCEL = 0x40"
definition EXEC_SLEEP :: u8 where "EXEC_SLEEP = 0x80"

lemmas exec_consts [grbl_consts] =
  EXEC_STATUS_REPORT_def EXEC_CYCLE_START_def EXEC_CYCLE_STOP_def EXEC_FEED_HOLD_def
  EXEC_RESET_def EXEC_SAFETY_DOOR_def EXEC_MOTION_CANCEL_def EXEC_SLEEP_def

definition EXEC_ALARM_HARD_LIMIT :: u8 where "EXEC_ALARM_HARD_LIMIT = 1"
definition EXEC_ALARM_SOFT_LIMIT :: u8 where "EXEC_ALARM_SOFT_LIMIT = 2"
definition EXEC_ALARM_ABORT_CYCLE :: u8 where "EXEC_ALARM_ABORT_CYCLE = 3"
definition EXEC_ALARM_PROBE_FAIL_INITIAL :: u8 where "EXEC_ALARM_PROBE_FAIL_INITIAL = 4"
definition EXEC_ALARM_PROBE_FAIL_CONTACT :: u8 where "EXEC_ALARM_PROBE_FAIL_CONTACT = 5"
definition EXEC_ALARM_HOMING_FAIL_RESET :: u8 where "EXEC_ALARM_HOMING_FAIL_RESET = 6"
definition EXEC_ALARM_HOMING_FAIL_DOOR :: u8 where "EXEC_ALARM_HOMING_FAIL_DOOR = 7"
definition EXEC_ALARM_HOMING_FAIL_PULLOFF :: u8 where "EXEC_ALARM_HOMING_FAIL_PULLOFF = 8"
definition EXEC_ALARM_HOMING_FAIL_APPROACH :: u8 where "EXEC_ALARM_HOMING_FAIL_APPROACH = 9"

lemmas alarm_consts [grbl_consts] =
  EXEC_ALARM_HARD_LIMIT_def EXEC_ALARM_SOFT_LIMIT_def EXEC_ALARM_ABORT_CYCLE_def
  EXEC_ALARM_PROBE_FAIL_INITIAL_def EXEC_ALARM_PROBE_FAIL_CONTACT_def
  EXEC_ALARM_HOMING_FAIL_RESET_def EXEC_ALARM_HOMING_FAIL_DOOR_def
  EXEC_ALARM_HOMING_FAIL_PULLOFF_def EXEC_ALARM_HOMING_FAIL_APPROACH_def

definition EXEC_FEED_OVR_RESET :: u8 where "EXEC_FEED_OVR_RESET = 0x01"
definition EXEC_FEED_OVR_COARSE_PLUS :: u8 where "EXEC_FEED_OVR_COARSE_PLUS = 0x02"
definition EXEC_FEED_OVR_COARSE_MINUS :: u8 where "EXEC_FEED_OVR_COARSE_MINUS = 0x04"
definition EXEC_FEED_OVR_FINE_PLUS :: u8 where "EXEC_FEED_OVR_FINE_PLUS = 0x08"
definition EXEC_FEED_OVR_FINE_MINUS :: u8 where "EXEC_FEED_OVR_FINE_MINUS = 0x10"
definition EXEC_RAPID_OVR_RESET :: u8 where "EXEC_RAPID_OVR_RESET = 0x20"
definition EXEC_RAPID_OVR_MEDIUM :: u8 where "EXEC_RAPID_OVR_MEDIUM = 0x40"
definition EXEC_RAPID_OVR_LOW :: u8 where "EXEC_RAPID_OVR_LOW = 0x80"
definition EXEC_SPINDLE_OVR_RESET :: u8 where "EXEC_SPINDLE_OVR_RESET = 0x01"
definition EXEC_SPINDLE_OVR_COARSE_PLUS :: u8 where "EXEC_SPINDLE_OVR_COARSE_PLUS = 0x02"
definition EXEC_SPINDLE_OVR_COARSE_MINUS :: u8 where "EXEC_SPINDLE_OVR_COARSE_MINUS = 0x04"
definition EXEC_SPINDLE_OVR_FINE_PLUS :: u8 where "EXEC_SPINDLE_OVR_FINE_PLUS = 0x08"
definition EXEC_SPINDLE_OVR_FINE_MINUS :: u8 where "EXEC_SPINDLE_OVR_FINE_MINUS = 0x10"
definition EXEC_SPINDLE_OVR_STOP :: u8 where "EXEC_SPINDLE_OVR_STOP = 0x20"
definition EXEC_COOLANT_FLOOD_OVR_TOGGLE :: u8 where "EXEC_COOLANT_FLOOD_OVR_TOGGLE = 0x40"
definition EXEC_COOLANT_MIST_OVR_TOGGLE :: u8 where "EXEC_COOLANT_MIST_OVR_TOGGLE = 0x80"

lemmas ovr_consts [grbl_consts] =
  EXEC_FEED_OVR_RESET_def EXEC_FEED_OVR_COARSE_PLUS_def EXEC_FEED_OVR_COARSE_MINUS_def
  EXEC_FEED_OVR_FINE_PLUS_def EXEC_FEED_OVR_FINE_MINUS_def EXEC_RAPID_OVR_RESET_def
  EXEC_RAPID_OVR_MEDIUM_def EXEC_RAPID_OVR_LOW_def EXEC_SPINDLE_OVR_RESET_def
  EXEC_SPINDLE_OVR_COARSE_PLUS_def EXEC_SPINDLE_OVR_COARSE_MINUS_def
  EXEC_SPINDLE_OVR_FINE_PLUS_def EXEC_SPINDLE_OVR_FINE_MINUS_def EXEC_SPINDLE_OVR_STOP_def
  EXEC_COOLANT_FLOOD_OVR_TOGGLE_def EXEC_COOLANT_MIST_OVR_TOGGLE_def

definition STATE_IDLE :: u8 where "STATE_IDLE = 0"
definition STATE_ALARM :: u8 where "STATE_ALARM = 0x01"
definition STATE_CHECK_MODE :: u8 where "STATE_CHECK_MODE = 0x02"
definition STATE_HOMING :: u8 where "STATE_HOMING = 0x04"
definition STATE_CYCLE :: u8 where "STATE_CYCLE = 0x08"
definition STATE_HOLD :: u8 where "STATE_HOLD = 0x10"
definition STATE_JOG :: u8 where "STATE_JOG = 0x20"
definition STATE_SAFETY_DOOR :: u8 where "STATE_SAFETY_DOOR = 0x40"
definition STATE_SLEEP :: u8 where "STATE_SLEEP = 0x80"

lemmas state_consts [grbl_consts] =
  STATE_IDLE_def STATE_ALARM_def STATE_CHECK_MODE_def STATE_HOMING_def STATE_CYCLE_def
  STATE_HOLD_def STATE_JOG_def STATE_SAFETY_DOOR_def STATE_SLEEP_def

definition SUSPEND_DISABLE :: u8 where "SUSPEND_DISABLE = 0"
definition SUSPEND_HOLD_COMPLETE :: u8 where "SUSPEND_HOLD_COMPLETE = 0x01"
definition SUSPEND_RESTART_RETRACT :: u8 where "SUSPEND_RESTART_RETRACT = 0x02"
definition SUSPEND_RETRACT_COMPLETE :: u8 where "SUSPEND_RETRACT_COMPLETE = 0x04"
definition SUSPEND_INITIATE_RESTORE :: u8 where "SUSPEND_INITIATE_RESTORE = 0x08"
definition SUSPEND_RESTORE_COMPLETE :: u8 where "SUSPEND_RESTORE_COMPLETE = 0x10"
definition SUSPEND_SAFETY_DOOR_AJAR :: u8 where "SUSPEND_SAFETY_DOOR_AJAR = 0x20"
definition SUSPEND_MOTION_CANCEL :: u8 where "SUSPEND_MOTION_CANCEL = 0x40"
definition SUSPEND_JOG_CANCEL :: u8 where "SUSPEND_JOG_CANCEL = 0x80"

lemmas suspend_consts [grbl_consts] =
  SUSPEND_DISABLE_def SUSPEND_HOLD_COMPLETE_def SUSPEND_RESTART_RETRACT_def
  SUSPEND_RETRACT_COMPLETE_def SUSPEND_INITIATE_RESTORE_def SUSPEND_RESTORE_COMPLETE_def
  SUSPEND_SAFETY_DOOR_AJAR_def SUSPEND_MOTION_CANCEL_def SUSPEND_JOG_CANCEL_def

definition STEP_CONTROL_NORMAL_OP :: u8 where "STEP_CONTROL_NORMAL_OP = 0"
definition STEP_CONTROL_END_MOTION :: u8 where "STEP_CONTROL_END_MOTION = 0x01"
definition STEP_CONTROL_EXECUTE_HOLD :: u8 where "STEP_CONTROL_EXECUTE_HOLD = 0x02"
definition STEP_CONTROL_EXECUTE_SYS_MOTION :: u8 where "STEP_CONTROL_EXECUTE_SYS_MOTION = 0x04"
definition STEP_CONTROL_UPDATE_SPINDLE_PWM :: u8 where "STEP_CONTROL_UPDATE_SPINDLE_PWM = 0x08"

lemmas step_control_consts [grbl_consts] =
  STEP_CONTROL_NORMAL_OP_def STEP_CONTROL_END_MOTION_def STEP_CONTROL_EXECUTE_HOLD_def
  STEP_CONTROL_EXECUTE_SYS_MOTION_def STEP_CONTROL_UPDATE_SPINDLE_PWM_def

definition CONTROL_PIN_INDEX_RESET :: u8 where "CONTROL_PIN_INDEX_RESET = 0x01"
definition CONTROL_PIN_INDEX_FEED_HOLD :: u8 where "CONTROL_PIN_INDEX_FEED_HOLD = 0x02"
definition CONTROL_PIN_INDEX_CYCLE_START :: u8 where "CONTROL_PIN_INDEX_CYCLE_START = 0x04"
definition SPINDLE_STOP_OVR_DISABLED :: u8 where "SPINDLE_STOP_OVR_DISABLED = 0"
definition SPINDLE_STOP_OVR_ENABLED :: u8 where "SPINDLE_STOP_OVR_ENABLED = 0x01"
definition SPINDLE_STOP_OVR_INITIATE :: u8 where "SPINDLE_STOP_OVR_INITIATE = 0x02"
definition SPINDLE_STOP_OVR_RESTORE :: u8 where "SPINDLE_STOP_OVR_RESTORE = 0x04"
definition SPINDLE_STOP_OVR_RESTORE_CYCLE :: u8 where "SPINDLE_STOP_OVR_RESTORE_CYCLE = 0x08"

lemmas pin_consts [grbl_consts] =
  CONTROL_PIN_INDEX_RESET_def CONTROL_PIN_INDEX_FEED_HOLD_def CONTROL_PIN_INDEX_CYCLE_START_def
  SPINDLE_STOP_OVR_DISABLED_def SPINDLE_STOP_OVR_ENABLED_def SPINDLE_STOP_OVR_INITIATE_def
  SPINDLE_STOP_OVR_RESTORE_def SPINDLE_STOP_OVR_RESTORE_CYCLE_def

section \<open>Records\<close>

record system_t =
  sys_state :: u8
  sys_abort :: u8
  sys_suspend :: u8
  sys_soft_limit :: u8
  sys_step_control :: u8
  sys_probe_succeeded :: u8
  sys_homing_axis_lock :: u8
  sys_f_override :: u8
  sys_r_override :: u8
  sys_spindle_speed_ovr :: u8
  sys_spindle_stop_ovr :: u8
  sys_report_ovr_counter :: u8
  sys_report_wco_counter :: u8

record settings_t =
  set_steps_per_mm :: "f32 list"
  set_max_rate :: "f32 list"
  set_acceleration :: "f32 list"
  set_max_travel :: "f32 list"
  set_pulse_microseconds :: u8
  set_step_invert_mask :: u8
  set_dir_invert_mask :: u8
  set_stepper_idle_lock_time :: u8
  set_status_report_mask :: u8
  set_junction_deviation :: f32
  set_arc_tolerance :: f32
  set_rpm_max :: f32
  set_rpm_min :: f32
  set_flags :: u8
  set_homing_dir_mask :: u8
  set_homing_feed_rate :: f32
  set_homing_seek_rate :: f32
  set_homing_debounce_delay :: u16
  set_homing_pulloff :: f32

record gc_modal_t =
  mod_motion :: u8
  mod_feed_rate :: u8
  mod_units :: u8
  mod_distance :: u8
  mod_plane_select :: u8
  mod_tool_length :: u8
  mod_coord_select :: u8
  mod_program_flow :: u8
  mod_coolant :: u8
  mod_spindle :: u8
  mod_override :: u8

record gc_values_t =
  val_f :: f32
  val_ijk :: "f32 list"
  val_l :: u8
  val_n :: u32
  val_p :: f32
  val_r :: f32
  val_s :: f32
  val_t :: u8
  val_xyz :: "f32 list"

record parser_state_t =
  gc_modal :: gc_modal_t
  gc_spindle_speed :: f32
  gc_feed_rate :: f32
  gc_tool :: u8
  gc_line_number :: u32
  gc_position :: "f32 list"
  gc_coord_system :: "f32 list"
  gc_coord_offset :: "f32 list"
  gc_tool_length_offset :: f32

record parser_block_t =
  blk_non_modal_command :: u8
  blk_modal :: gc_modal_t
  blk_values :: gc_values_t

record plan_block_t =
  pb_steps :: "u32 list"
  pb_step_event_count :: u32
  pb_direction_bits :: u8
  pb_condition :: u8
  pb_entry_speed_sqr :: f32
  pb_max_entry_speed_sqr :: f32
  pb_acceleration :: f32
  pb_millimeters :: f32
  pb_max_junction_speed_sqr :: f32
  pb_rapid_rate :: f32
  pb_programmed_rate :: f32

record plan_line_data_t =
  pd_feed_rate :: f32
  pd_spindle_speed :: f32
  pd_condition :: u8

text \<open>The static variables of planner.c; \<open>pl\<close> is the struct \<open>planner_t\<close>.\<close>

record planner_t =
  pl_position :: "u32 list"
  pl_previous_unit_vec :: "f32 list"
  pl_previous_nominal_speed :: f32

record planner_vars =
  block_buffer :: "plan_block_t list"
  block_buffer_tail :: u8
  block_buffer_head :: u8
  next_buffer_head :: u8
  block_buffer_planned :: u8
  pl :: planner_t

record st_block_t =
  sb_steps :: "u32 list"
  sb_step_event_count :: u32
  sb_direction_bits :: u8

record segment_t =
  seg_n_step :: u16
  seg_cycles_per_tick :: u16
  seg_st_block_index :: u8
  seg_amass_level :: u8

record stepper_t =
  st_counter_x :: u32
  st_counter_y :: u32
  st_counter_z :: u32
  st_execute_step :: u8
  st_step_pulse_time :: u8
  st_step_outbits :: u8
  st_dir_outbits :: u8
  st_steps :: "u32 list"
  st_step_count :: u16
  st_exec_block_index :: u8
  st_exec_block :: "u8 option"
  st_exec_segment :: "u8 option"

record st_prep_t =
  prep_st_block_index :: u8
  prep_recalculate_flag :: u8
  prep_dt_remainder :: f32
  prep_steps_remaining :: f32
  prep_step_per_mm :: f32
  prep_req_mm_increment :: f32
  prep_ramp_type :: u8
  prep_mm_complete :: f32
  prep_current_speed :: f32
  prep_maximum_speed :: f32
  prep_exit_speed :: f32
  prep_accelerate_until :: f32
  prep_decelerate_after :: f32

text \<open>The static variables of stepper.c.\<close>

record stepper_vars =
  st_block_buffer :: "st_block_t list"
  segment_buffer :: "segment_t list"
  st :: stepper_t
  segment_buffer_tail :: u8
  segment_buffer_head :: u8
  segment_next_head :: u8
  step_port_invert_mask :: u8
  dir_port_invert_mask :: u8
  busy :: bool
  pl_block :: "u8 option"
  st_prep_block :: "u8 option"
  prep :: st_prep_t

text \<open>The buffers of serial.c.\<close>

record serial_vars =
  serial_rx_buffer :: "u8 list"
  serial_rx_buffer_head :: u8
  serial_rx_buffer_tail :: u8
  serial_tx_buffer :: "u8 list"
  serial_tx_buffer_head :: u8
  serial_tx_buffer_tail :: u8

text \<open>The static variables of llp\_transport.c.\<close>

record llp_vars =
  llp_rx_parser :: llp_parser_t
  llp_tx_line_buf :: "u8 list"
  llp_tx_line_idx :: u8
  llp_ms_counter :: u32
  llp_rx_frame_count :: u16
  llp_rx_error_count :: u16
  llp_rx_timeout_count :: u16
  llp_rx_dropped_count :: u16
  llp_tx_dropped_count :: u16
  llp_rx_raw_bytes :: u16
  llp_tx_payload_buf :: "u8 list"
  llp_tx_frame_buf :: "u8 list"

text \<open>
  The peripherals the program touches: output ports, the input pins, the interrupt enable bits
  the code tests or sets, and \<open>uart_out\<close>, the bytes written to \<open>UDR0\<close> so far, oldest first.
\<close>

text \<open>The registers that configure ports, timers and UART. \<open>UDRIE0\<close>, a bit of UCSR0B, is kept apart below.\<close>

record config_t =
  DDRB :: u8
  DDRC :: u8
  DDRD :: u8
  TCCR0A :: u8
  TIMSK0 :: u8
  TCCR1A :: u8
  TCCR1B :: u8
  TCCR2A :: u8
  TCCR2B :: u8
  TIMSK2 :: u8
  UBRR0H :: u8
  UBRR0L :: u8
  UCSR0A :: u8
  UCSR0B :: u8

record hw_t =
  PORTB :: u8
  PORTC :: u8
  PORTD :: u8
  PINB :: u8
  PINC :: u8
  TIMSK1_OCIE1A :: bool
  TCCR0B :: u8
  TCNT0 :: u8
  OCR1A :: u16
  UDRIE0 :: bool
  LIMIT_INT_enabled :: bool
  CONTROL_INT_enabled :: bool
  config :: config_t
  uart_out :: "u8 list"

text \<open>
  What happens outside the main program. \<open>irq\<close> names the interrupts with their data;
  \<open>sched\<close> holds, for each point where the main program can observe them, the interrupts
  that have run since the point before (none once the list is used up), \<open>tx_sched\<close> the same
  for the data-register-empty interrupts while a byte waits for room in the transmit ring.
  \<open>w_sin\<close>, \<open>w_cos\<close> and \<open>w_atan2\<close> are the functions of the C library,
  \<open>w_cast\<close> the value of a float-to-integer conversion that C leaves undefined.
\<close>

datatype irq =
    Irq_Timer1_Compa
  | Irq_Timer0_Ovf
  | Irq_Timer2_Ovf
  | Irq_Rx u8
  | Irq_Udre
  | Irq_Limit u8
  | Irq_Control u8
  | Pin_Probe bool

record world_t =
  sched :: "irq list list"
  tx_sched :: "nat list"
  w_sin :: "f32 \<Rightarrow> f32"
  w_cos :: "f32 \<Rightarrow> f32"
  w_atan2 :: "f32 \<Rightarrow> f32 \<Rightarrow> f32"
  w_cast :: "f32 \<Rightarrow> int"

record grbl =
  sys :: system_t
  sys_position :: "u32 list"
  sys_probe_position :: "u32 list"
  sys_probe_state :: u8
  sys_rt_exec_state :: u8
  sys_rt_exec_alarm :: u8
  sys_rt_exec_motion_override :: u8
  sys_rt_exec_accessory_override :: u8
  settings :: settings_t
  gc_state :: parser_state_t
  planner :: planner_vars
  stepper :: stepper_vars
  serial :: serial_vars
  llp :: llp_vars
  eeprom :: "u16 \<Rightarrow> u8"
  probe_invert_mask :: u8
  line :: "u8 list"
  hw :: hw_t
  world :: world_t

section \<open>Memory at power-up\<close>

text \<open>
  Static variables start as zero. The EEPROM is erased and the outside world is the one in which
  no interrupt occurs and the library functions are constant.
\<close>

definition vec0 :: "f32 list" where "vec0 = [0, 0, 0]"

definition plan_block_zero :: plan_block_t where
  "plan_block_zero =
     \<lparr>pb_steps = [0, 0, 0], pb_step_event_count = 0, pb_direction_bits = 0, pb_condition = 0,
      pb_entry_speed_sqr = 0, pb_max_entry_speed_sqr = 0, pb_acceleration = 0, pb_millimeters = 0,
      pb_max_junction_speed_sqr = 0, pb_rapid_rate = 0, pb_programmed_rate = 0\<rparr>"

definition planner_t_zero :: planner_t where
  "planner_t_zero =
     \<lparr>pl_position = [0, 0, 0], pl_previous_unit_vec = vec0, pl_previous_nominal_speed = 0\<rparr>"

definition planner_zero :: planner_vars where
  "planner_zero =
     \<lparr>block_buffer = replicate 12 plan_block_zero, block_buffer_tail = 0, block_buffer_head = 0,
      next_buffer_head = 0, block_buffer_planned = 0, pl = planner_t_zero\<rparr>"

definition st_prep_zero :: st_prep_t where
  "st_prep_zero =
     \<lparr>prep_st_block_index = 0, prep_recalculate_flag = 0, prep_dt_remainder = 0,
      prep_steps_remaining = 0, prep_step_per_mm = 0, prep_req_mm_increment = 0,
      prep_ramp_type = 0, prep_mm_complete = 0, prep_current_speed = 0, prep_maximum_speed = 0,
      prep_exit_speed = 0, prep_accelerate_until = 0, prep_decelerate_after = 0\<rparr>"

definition stepper_t_zero :: stepper_t where
  "stepper_t_zero =
     \<lparr>st_counter_x = 0, st_counter_y = 0, st_counter_z = 0, st_execute_step = 0,
      st_step_pulse_time = 0, st_step_outbits = 0, st_dir_outbits = 0, st_steps = [0, 0, 0],
      st_step_count = 0, st_exec_block_index = 0, st_exec_block = None, st_exec_segment = None\<rparr>"

definition stepper_zero :: stepper_vars where
  "stepper_zero =
     \<lparr>st_block_buffer = replicate 5 \<lparr>sb_steps = [0, 0, 0], sb_step_event_count = 0, sb_direction_bits = 0\<rparr>,
      segment_buffer = replicate 6 \<lparr>seg_n_step = 0, seg_cycles_per_tick = 0, seg_st_block_index = 0,
        seg_amass_level = 0\<rparr>,
      st = stepper_t_zero, segment_buffer_tail = 0, segment_buffer_head = 0, segment_next_head = 0,
      step_port_invert_mask = 0, dir_port_invert_mask = 0, busy = False, pl_block = None,
      st_prep_block = None, prep = st_prep_zero\<rparr>"

definition system_zero :: system_t where
  "system_zero =
     \<lparr>sys_state = 0, sys_abort = 0, sys_suspend = 0, sys_soft_limit = 0, sys_step_control = 0,
      sys_probe_succeeded = 0, sys_homing_axis_lock = 0, sys_f_override = 0, sys_r_override = 0,
      sys_spindle_speed_ovr = 0, sys_spindle_stop_ovr = 0, sys_report_ovr_counter = 0,
      sys_report_wco_counter = 0\<rparr>"

definition settings_zero :: settings_t where
  "settings_zero =
     \<lparr>set_steps_per_mm = vec0, set_max_rate = vec0, set_acceleration = vec0, set_max_travel = vec0,
      set_pulse_microseconds = 0, set_step_invert_mask = 0, set_dir_invert_mask = 0,
      set_stepper_idle_lock_time = 0, set_status_report_mask = 0, set_junction_deviation = 0,
      set_arc_tolerance = 0, set_rpm_max = 0, set_rpm_min = 0, set_flags = 0,
      set_homing_dir_mask = 0, set_homing_feed_rate = 0, set_homing_seek_rate = 0,
      set_homing_debounce_delay = 0, set_homing_pulloff = 0\<rparr>"

definition gc_modal_zero :: gc_modal_t where
  "gc_modal_zero =
     \<lparr>mod_motion = 0, mod_feed_rate = 0, mod_units = 0, mod_distance = 0, mod_plane_select = 0,
      mod_tool_length = 0, mod_coord_select = 0, mod_program_flow = 0, mod_coolant = 0,
      mod_spindle = 0, mod_override = 0\<rparr>"

definition gc_values_zero :: gc_values_t where
  "gc_values_zero =
     \<lparr>val_f = 0, val_ijk = vec0, val_l = 0, val_n = 0, val_p = 0, val_r = 0, val_s = 0, val_t = 0,
      val_xyz = vec0\<rparr>"

definition parser_state_zero :: parser_state_t where
  "parser_state_zero =
     \<lparr>gc_modal = gc_modal_zero, gc_spindle_speed = 0, gc_feed_rate = 0, gc_tool = 0,
      gc_line_number = 0, gc_position = vec0, gc_coord_system = vec0, gc_coord_offset = vec0,
      gc_tool_length_offset = 0\<rparr>"

definition serial_zero :: serial_vars where
  "serial_zero =
     \<lparr>serial_rx_buffer = replicate 81 0, serial_rx_buffer_head = 0, serial_rx_buffer_tail = 0,
      serial_tx_buffer = replicate 129 0, serial_tx_buffer_head = 0, serial_tx_buffer_tail = 0\<rparr>"

definition llp_zero :: llp_vars where
  "llp_zero =
     \<lparr>llp_rx_parser = llp_parser_zero, llp_tx_line_buf = replicate 64 0, llp_tx_line_idx = 0,
      llp_ms_counter = 0, llp_rx_frame_count = 0, llp_rx_error_count = 0, llp_rx_timeout_count = 0,
      llp_rx_dropped_count = 0, llp_tx_dropped_count = 0, llp_rx_raw_bytes = 0,
      llp_tx_payload_buf = replicate 64 0, llp_tx_frame_buf = replicate 138 0\<rparr>"

definition config_zero :: config_t where
  "config_zero =
     \<lparr>DDRB = 0, DDRC = 0, DDRD = 0, TCCR0A = 0, TIMSK0 = 0, TCCR1A = 0, TCCR1B = 0, TCCR2A = 0, TCCR2B = 0,
      TIMSK2 = 0, UBRR0H = 0, UBRR0L = 0, UCSR0A = 0, UCSR0B = 0\<rparr>"

definition hw_zero :: hw_t where
  "hw_zero =
     \<lparr>PORTB = 0, PORTC = 0, PORTD = 0, PINB = 0xFF, PINC = 0xFF, TIMSK1_OCIE1A = False, TCCR0B = 0,
      TCNT0 = 0, OCR1A = 0, UDRIE0 = False, LIMIT_INT_enabled = False, CONTROL_INT_enabled = False,
      config = config_zero, uart_out = []\<rparr>"

definition world_idle :: world_t where
  "world_idle =
     \<lparr>sched = [], tx_sched = [], w_sin = (\<lambda>x. 0), w_cos = (\<lambda>x. 0), w_atan2 = (\<lambda>y x. 0),
      w_cast = (\<lambda>x. 0)\<rparr>"

definition grbl_zero :: grbl where
  "grbl_zero =
     \<lparr>sys = system_zero, sys_position = [0, 0, 0], sys_probe_position = [0, 0, 0],
      sys_probe_state = 0, sys_rt_exec_state = 0, sys_rt_exec_alarm = 0,
      sys_rt_exec_motion_override = 0, sys_rt_exec_accessory_override = 0,
      settings = settings_zero, gc_state = parser_state_zero, planner = planner_zero,
      stepper = stepper_zero, serial = serial_zero, llp = llp_zero, eeprom = (\<lambda>a. 0xFF),
      probe_invert_mask = 0, line = replicate 48 0, hw = hw_zero, world = world_idle\<rparr>"

lemmas grbl_zero_defs =
  grbl_zero_def system_zero_def settings_zero_def parser_state_zero_def planner_zero_def
  stepper_zero_def serial_zero_def llp_zero_def hw_zero_def world_idle_def

end
