(* ===== verification/Reset.thy ===== *)
theory Reset
  imports Grbl_State
begin

text \<open>
  The operations that interrupts and main program share: the realtime flags and control pins of
  system.c, the stepper enable and idle of stepper.c, the probe of probe.c, the limit pins of
  limits.c, the spindle and coolant stubs, and \<open>mc_reset\<close> of motion\_control.c with the
  interrupts that call it.
\<close>

section \<open>Realtime flags (system.c)\<close>

definition system_set_exec_state_flag :: "u8 \<Rightarrow> grbl \<Rightarrow> grbl" where
  "system_set_exec_state_flag m g = g\<lparr>sys_rt_exec_state := bit_true (sys_rt_exec_state g) m\<rparr>"

definition system_clear_exec_state_flag :: "u8 \<Rightarrow> grbl \<Rightarrow> grbl" where
  "system_clear_exec_state_flag m g = g\<lparr>sys_rt_exec_state := bit_false (sys_rt_exec_state g) m\<rparr>"

definition system_set_exec_alarm :: "u8 \<Rightarrow> grbl \<Rightarrow> grbl" where
  "system_set_exec_alarm code g = g\<lparr>sys_rt_exec_alarm := code\<rparr>"

definition system_clear_exec_alarm :: "grbl \<Rightarrow> grbl" where
  "system_clear_exec_alarm g = g\<lparr>sys_rt_exec_alarm := 0\<rparr>"

definition system_set_exec_motion_override_flag :: "u8 \<Rightarrow> grbl \<Rightarrow> grbl" where
  "system_set_exec_motion_override_flag m g =
     g\<lparr>sys_rt_exec_motion_override := bit_true (sys_rt_exec_motion_override g) m\<rparr>"

definition system_set_exec_accessory_override_flag :: "u8 \<Rightarrow> grbl \<Rightarrow> grbl" where
  "system_set_exec_accessory_override_flag m g =
     g\<lparr>sys_rt_exec_accessory_override := bit_true (sys_rt_exec_accessory_override g) m\<rparr>"

definition system_clear_exec_motion_overrides :: "grbl \<Rightarrow> grbl" where
  "system_clear_exec_motion_overrides g = g\<lparr>sys_rt_exec_motion_override := 0\<rparr>"

definition system_clear_exec_accessory_overrides :: "grbl \<Rightarrow> grbl" where
  "system_clear_exec_accessory_overrides g = g\<lparr>sys_rt_exec_accessory_override := 0\<rparr>"

section \<open>Settings bits and pin masks (settings.h, settings.c, cpu\_map.h)\<close>

definition BITFLAG_REPORT_INCHES :: u8 where "BITFLAG_REPORT_INCHES = 0x01"
definition BITFLAG_LASER_MODE :: u8 where "BITFLAG_LASER_MODE = 0x02"
definition BITFLAG_INVERT_ST_ENABLE :: u8 where "BITFLAG_INVERT_ST_ENABLE = 0x04"
definition BITFLAG_HARD_LIMIT_ENABLE :: u8 where "BITFLAG_HARD_LIMIT_ENABLE = 0x08"
definition BITFLAG_HOMING_ENABLE :: u8 where "BITFLAG_HOMING_ENABLE = 0x10"
definition BITFLAG_SOFT_LIMIT_ENABLE :: u8 where "BITFLAG_SOFT_LIMIT_ENABLE = 0x20"
definition BITFLAG_INVERT_LIMIT_PINS :: u8 where "BITFLAG_INVERT_LIMIT_PINS = 0x40"
definition BITFLAG_INVERT_PROBE_PIN :: u8 where "BITFLAG_INVERT_PROBE_PIN = 0x80"

lemmas bitflag_consts [grbl_consts] =
  BITFLAG_REPORT_INCHES_def BITFLAG_LASER_MODE_def BITFLAG_INVERT_ST_ENABLE_def
  BITFLAG_HARD_LIMIT_ENABLE_def BITFLAG_HOMING_ENABLE_def BITFLAG_SOFT_LIMIT_ENABLE_def
  BITFLAG_INVERT_LIMIT_PINS_def BITFLAG_INVERT_PROBE_PIN_def

definition STEP_MASK :: u8 where "STEP_MASK = 0x1C"
definition DIRECTION_MASK :: u8 where "DIRECTION_MASK = 0xE0"
definition LIMIT_MASK :: u8 where "LIMIT_MASK = 0x0E"
definition CONTROL_MASK :: u8 where "CONTROL_MASK = 0x07"
definition PROBE_MASK :: u8 where "PROBE_MASK = 0x20"
definition STEPPERS_DISABLE_MASK :: u8 where "STEPPERS_DISABLE_MASK = 0x01"

definition get_step_pin_mask :: "nat \<Rightarrow> u8" where
  "get_step_pin_mask axis_idx = (if axis_idx = 0 then bitm 2 else if axis_idx = 1 then bitm 3 else bitm 4)"

definition get_direction_pin_mask :: "nat \<Rightarrow> u8" where
  "get_direction_pin_mask axis_idx =
     (if axis_idx = 0 then bitm 5 else if axis_idx = 1 then bitm 6 else bitm 7)"

definition get_limit_pin_mask :: "nat \<Rightarrow> u8" where
  "get_limit_pin_mask axis_idx = (if axis_idx = 0 then bitm 1 else if axis_idx = 1 then bitm 2 else bitm 3)"

definition setting_true :: "u8 \<Rightarrow> grbl \<Rightarrow> bool" where
  "setting_true m g \<longleftrightarrow> bit_istrue (set_flags (settings g)) m"

section \<open>Spindle and coolant stubs (spindle\_control.c, coolant\_control.c)\<close>

definition spindle_stop :: "grbl \<Rightarrow> grbl" where "spindle_stop g = g"
definition spindle_set_state :: "u8 \<Rightarrow> grbl \<Rightarrow> grbl" where "spindle_set_state m g = g"
definition spindle_sync :: "u8 \<Rightarrow> grbl \<Rightarrow> grbl" where "spindle_sync m g = g"
definition spindle_init :: "grbl \<Rightarrow> grbl" where "spindle_init g = g"
definition spindle_get_state :: "grbl \<Rightarrow> u8" where "spindle_get_state g = 0"
definition coolant_stop :: "grbl \<Rightarrow> grbl" where "coolant_stop g = g"
definition coolant_set_state :: "u8 \<Rightarrow> grbl \<Rightarrow> grbl" where "coolant_set_state m g = g"
definition coolant_init :: "grbl \<Rightarrow> grbl" where "coolant_init g = g"
definition coolant_get_state :: "grbl \<Rightarrow> u8" where "coolant_get_state g = 0"

lemmas stub_defs [simp] =
  spindle_stop_def spindle_set_state_def spindle_sync_def spindle_init_def spindle_get_state_def
  coolant_stop_def coolant_set_state_def coolant_init_def coolant_get_state_def

section \<open>Stepper enable and idle (stepper.c)\<close>

definition st_set_enable_pin :: "bool \<Rightarrow> grbl \<Rightarrow> grbl" where
  "st_set_enable_pin pin_state g =
     g\<lparr>hw := (hw g)\<lparr>PORTB := (if pin_state then bit_true (PORTB (hw g)) STEPPERS_DISABLE_MASK
                             else bit_false (PORTB (hw g)) STEPPERS_DISABLE_MASK)\<rparr>\<rparr>"

definition st_wake_up :: "grbl \<Rightarrow> grbl" where
  "st_wake_up g =
     (let g = st_set_enable_pin (setting_true BITFLAG_INVERT_ST_ENABLE g) g;
          t = signed_drop_bit 3 ((ucast (set_pulse_microseconds (settings g)) - 2) * 16 :: u32);
          s = (st (stepper g))\<lparr>st_step_outbits := step_port_invert_mask (stepper g),
                             st_step_pulse_time := ucast (- t)\<rparr>
      in g\<lparr>stepper := (stepper g)\<lparr>st := s\<rparr>, hw := (hw g)\<lparr>TIMSK1_OCIE1A := True\<rparr>\<rparr>)"

definition st_go_idle :: "grbl \<Rightarrow> grbl" where
  "st_go_idle g =
     (let r = config (hw g);
          g = g\<lparr>hw := (hw g)\<lparr>TIMSK1_OCIE1A := False, config := r\<lparr>TCCR1B := bit_true (bit_false (TCCR1B r) 0x06) 0x01\<rparr>\<rparr>,
                stepper := (stepper g)\<lparr>busy := False\<rparr>\<rparr>;
          pin_state =
            ((set_stepper_idle_lock_time (settings g) \<noteq> 0xff \<or> sys_rt_exec_alarm g \<noteq> 0
              \<or> sys_state (sys g) = STATE_SLEEP) \<and> sys_state (sys g) \<noteq> STATE_HOMING);
          pin_state = (if setting_true BITFLAG_INVERT_ST_ENABLE g then \<not> pin_state else pin_state)
      in st_set_enable_pin pin_state g)"

definition st_generate_step_dir_invert_masks :: "grbl \<Rightarrow> grbl" where
  "st_generate_step_dir_invert_masks g =
     (let masks = (\<lambda>m f. foldl (\<lambda>a idx. if bit_istrue m (bitm idx) then bit_true a (f idx) else a) 0 [0, 1, 2])
      in g\<lparr>stepper := (stepper g)
             \<lparr>step_port_invert_mask := masks (set_step_invert_mask (settings g)) get_step_pin_mask,
              dir_port_invert_mask := masks (set_dir_invert_mask (settings g)) get_direction_pin_mask\<rparr>\<rparr>)"

definition st_reset :: "grbl \<Rightarrow> grbl" where
  "st_reset g =
     (let g = st_go_idle g;
          g = g\<lparr>stepper := (stepper g)\<lparr>prep := st_prep_zero, st := stepper_t_zero, pl_block := None,
                 segment_buffer_tail := 0, segment_buffer_head := 0, segment_next_head := 1,
                 busy := False\<rparr>\<rparr>;
          g = st_generate_step_dir_invert_masks g;
          sm = step_port_invert_mask (stepper g); dm = dir_port_invert_mask (stepper g);
          g = g\<lparr>stepper := (stepper g)\<lparr>st := (st (stepper g))\<lparr>st_dir_outbits := dm\<rparr>\<rparr>\<rparr>;
          p = (PORTD (hw g) AND NOT STEP_MASK) OR sm;
          p = (p AND NOT DIRECTION_MASK) OR dm
      in g\<lparr>hw := (hw g)\<lparr>PORTD := p\<rparr>\<rparr>)"

section \<open>Probe and limit pins (probe.c, limits.c)\<close>

definition PROBE_OFF :: u8 where "PROBE_OFF = 0"
definition PROBE_ACTIVE :: u8 where "PROBE_ACTIVE = 1"

definition probe_configure_invert_mask :: "bool \<Rightarrow> grbl \<Rightarrow> grbl" where
  "probe_configure_invert_mask is_probe_away g =
     (let m = (if setting_true BITFLAG_INVERT_PROBE_PIN g then 0 else 0 XOR PROBE_MASK);
          m = (if is_probe_away then m XOR PROBE_MASK else m)
      in g\<lparr>probe_invert_mask := m\<rparr>)"

definition probe_init :: "grbl \<Rightarrow> grbl" where
  "probe_init g =
     (let r = config (hw g)
      in probe_configure_invert_mask False
           (g\<lparr>hw := (hw g)\<lparr>config := r\<lparr>DDRC := bit_false (DDRC r) PROBE_MASK\<rparr>,
                             PORTC := bit_true (PORTC (hw g)) PROBE_MASK\<rparr>\<rparr>))"

definition probe_get_state :: "grbl \<Rightarrow> u8" where
  "probe_get_state g = (PINC (hw g) AND PROBE_MASK) XOR probe_invert_mask g"

definition probe_state_monitor :: "grbl \<Rightarrow> grbl" where
  "probe_state_monitor g =
     (if probe_get_state g \<noteq> 0 then
        g\<lparr>sys_probe_state := PROBE_OFF, sys_probe_position := sys_position g,
          sys_rt_exec_state := bit_true (sys_rt_exec_state g) EXEC_MOTION_CANCEL\<rparr>
      else g)"

definition limits_disable :: "grbl \<Rightarrow> grbl" where
  "limits_disable g = g\<lparr>hw := (hw g)\<lparr>LIMIT_INT_enabled := False\<rparr>\<rparr>"

definition limits_init :: "grbl \<Rightarrow> grbl" where
  "limits_init g =
     (let r = config (hw g);
          g = g\<lparr>hw := (hw g)\<lparr>config := r\<lparr>DDRB := bit_false (DDRB r) LIMIT_MASK\<rparr>,
                             PORTB := bit_true (PORTB (hw g)) LIMIT_MASK\<rparr>\<rparr> in
      if setting_true BITFLAG_HARD_LIMIT_ENABLE g then g\<lparr>hw := (hw g)\<lparr>LIMIT_INT_enabled := True\<rparr>\<rparr>
      else limits_disable g)"

definition limits_get_state :: "grbl \<Rightarrow> u8" where
  "limits_get_state g =
     (let pin = PINB (hw g) AND LIMIT_MASK;
          pin = (if setting_true BITFLAG_INVERT_LIMIT_PINS g then pin else pin XOR LIMIT_MASK)
      in foldl (\<lambda>s idx. if pin AND get_limit_pin_mask idx \<noteq> 0 then bit_true s (bitm idx) else s) 0
           [0, 1, 2])"

definition system_control_get_state :: "grbl \<Rightarrow> u8" where
  "system_control_get_state g =
     (let pin = (PINC (hw g) AND CONTROL_MASK) XOR CONTROL_MASK;
          s = (if bit_istrue pin 0x02 then CONTROL_PIN_INDEX_FEED_HOLD else 0);
          s = (if bit_istrue pin 0x01 then bit_true s CONTROL_PIN_INDEX_RESET else s)
      in if bit_istrue pin 0x04 then bit_true s CONTROL_PIN_INDEX_CYCLE_START else s)"

definition system_check_safety_door_ajar :: "grbl \<Rightarrow> bool" where
  "system_check_safety_door_ajar g = False"

section \<open>Configuration at power-up (stepper.c, system.c)\<close>

text \<open>Timer 1 clears on compare (WGM12 alone) with its outputs disconnected; timer 0 is left stopped.\<close>

definition stepper_init :: "grbl \<Rightarrow> grbl" where
  "stepper_init g =
     (let r = config (hw g);
          r = r\<lparr>DDRD := bit_true (bit_true (DDRD r) STEP_MASK) DIRECTION_MASK, DDRB := bit_true (DDRB r) STEPPERS_DISABLE_MASK,
                TCCR1B := bit_true (bit_false (TCCR1B r) 0x10) 0x08,
                TCCR1A := bit_false (bit_false (TCCR1A r) 0x03) 0xF0,
                TCCR0A := 0, TIMSK0 := bit_true (bit_false (TIMSK0 r) 0x07) 0x01\<rparr>
      in g\<lparr>hw := (hw g)\<lparr>config := r, TCCR0B := 0\<rparr>\<rparr>)"

definition system_init :: "grbl \<Rightarrow> grbl" where
  "system_init g =
     (let r = config (hw g)
      in g\<lparr>hw := (hw g)\<lparr>config := r\<lparr>DDRC := bit_false (DDRC r) CONTROL_MASK\<rparr>,
                       PORTC := bit_true (PORTC (hw g)) CONTROL_MASK, CONTROL_INT_enabled := True\<rparr>\<rparr>)"

text \<open>Both leave everything but the ports and registers alone.\<close>

lemma init_hw:
  "stepper_init g = g\<lparr>hw := hw (stepper_init g)\<rparr>" "system_init g = g\<lparr>hw := hw (system_init g)\<rparr>"
  by (simp_all add: stepper_init_def system_init_def Let_def)

section \<open>System reset (motion\_control.c) and the pin interrupts\<close>

definition mc_reset :: "grbl \<Rightarrow> grbl" where
  "mc_reset g =
     (if bit_isfalse (sys_rt_exec_state g) EXEC_RESET then
        let g = coolant_stop (spindle_stop (system_set_exec_state_flag EXEC_RESET g)) in
        if sys_state (sys g) AND (STATE_CYCLE OR STATE_HOMING OR STATE_JOG) \<noteq> 0
           \<or> sys_step_control (sys g)
               AND (STEP_CONTROL_EXECUTE_HOLD OR STEP_CONTROL_EXECUTE_SYS_MOTION) \<noteq> 0
        then
          st_go_idle
            (if sys_state (sys g) = STATE_HOMING then
               if sys_rt_exec_alarm g = 0 then system_set_exec_alarm EXEC_ALARM_HOMING_FAIL_RESET g
               else g
             else system_set_exec_alarm EXEC_ALARM_ABORT_CYCLE g)
        else g
      else g)"

text \<open>The pin change interrupts, given the new levels of the port's pins.\<close>

definition isr_control :: "u8 \<Rightarrow> grbl \<Rightarrow> grbl" where
  "isr_control pins g =
     (let g = g\<lparr>hw := (hw g)\<lparr>PINC := pins\<rparr>\<rparr>; pin = system_control_get_state g in
      if pin \<noteq> 0 then
        let g = (if bit_istrue pin CONTROL_PIN_INDEX_RESET then mc_reset g else g);
            g = (if bit_istrue pin CONTROL_PIN_INDEX_CYCLE_START
                 then g\<lparr>sys_rt_exec_state := bit_true (sys_rt_exec_state g) EXEC_CYCLE_START\<rparr> else g)
        in if bit_istrue pin CONTROL_PIN_INDEX_FEED_HOLD
           then g\<lparr>sys_rt_exec_state := bit_true (sys_rt_exec_state g) EXEC_FEED_HOLD\<rparr> else g
      else g)"

definition isr_limit :: "u8 \<Rightarrow> grbl \<Rightarrow> grbl" where
  "isr_limit pins g =
     (let g = g\<lparr>hw := (hw g)\<lparr>PINB := pins\<rparr>\<rparr> in
      if LIMIT_INT_enabled (hw g) \<and> sys_state (sys g) \<noteq> STATE_ALARM \<and> sys_rt_exec_alarm g = 0
      then system_set_exec_alarm EXEC_ALARM_HARD_LIMIT (mc_reset g)
      else g)"

end
