(* ===== verification/Ring.thy ===== *)
theory Ring
  imports Prelude
begin

text \<open>
  The ring buffers of the program (receive, transmit, planner blocks, step segments) advance their
  8-bit indices in one way. The locale \<open>ring\<close> states what its users need of the index function
  and proves once that such a ring is a bounded queue; each component interprets it on its own
  index function. The locale \<open>fifo\<close> is the interface of a bounded queue inside a state,
  and shows that what is taken out is what was put in, in order.
\<close>

section \<open>Contents of a ring\<close>

text \<open>\<open>i++; if (i == n) i = 0\<close>\<close>

definition ring_next :: "u8 \<Rightarrow> u8 \<Rightarrow> u8" where
  "ring_next n i = (let i = i + 1 in if i = n then 0 else i)"

definition ring_len :: "nat \<Rightarrow> u8 \<Rightarrow> u8 \<Rightarrow> nat" where
  "ring_len n head tail = (unat head + n - unat tail) mod n"

definition ring_list :: "nat \<Rightarrow> 'a list \<Rightarrow> u8 \<Rightarrow> u8 \<Rightarrow> 'a list" where
  "ring_list n buf head tail =
     map (\<lambda>k. buf ! ((unat tail + k) mod n)) [0..<ring_len n head tail]"

lemma ring_list_length [simp]: "length (ring_list n buf head tail) = ring_len n head tail"
  by (simp add: ring_list_def)

lemma ring_next_nat:
  assumes "i < n"
  shows "unat (ring_next n i) = Suc (unat i) mod unat n"
proof -
  have i: "unat i < unat n" using assms by (simp add: word_less_nat_alt)
  then have "unat (i + 1) = Suc (unat i)"
    using unat_u8 [of n] by (simp add: unat_word_ariths)
  then show ?thesis
    using i by (auto simp: ring_next_def Let_def word_unat_eq_iff)
qed

lemma mod_small_cases: "a < 2 * n \<Longrightarrow> a mod n = (if a < n then a else a - n)" for a n :: nat
  by (auto simp: le_mod_geq)

section \<open>Rings\<close>

locale ring =
  fixes n :: u8 and nxt :: "u8 \<Rightarrow> u8"
  assumes size: "1 < n"
    and nxt: "i < n \<Longrightarrow> unat (nxt i) = Suc (unat i) mod unat n"
begin

lemma pos: "0 < unat n" "1 < unat n"
  using size by (simp_all add: word_less_nat_alt)

lemma nxt_less: "i < n \<Longrightarrow> nxt i < n"
  using nxt pos by (simp add: word_less_nat_alt)

lemma empty_iff: "h < n \<Longrightarrow> t < n \<Longrightarrow> ring_list (unat n) buf h t = [] \<longleftrightarrow> h = t"
  using mod_small_cases [of "unat h + unat n - unat t" "unat n"]
  by (auto simp: ring_list_def ring_len_def word_less_nat_alt word_unat_eq_iff split: if_splits)

lemma len_bound: "ring_len (unat n) h t < unat n"
  using pos by (simp add: ring_len_def)

lemma full_iff: "h < n \<Longrightarrow> t < n \<Longrightarrow> nxt h = t \<longleftrightarrow> ring_len (unat n) h t = unat n - 1"
  using mod_small_cases [of "unat h + unat n - unat t" "unat n"] mod_small_cases [of "Suc (unat h)" "unat n"]
    nxt [of h] pos
  by (auto simp: ring_len_def word_less_nat_alt word_unat_eq_iff split: if_splits)

lemma len_put:
  assumes "h < n" "t < n" "nxt h \<noteq> t"
  shows "ring_len (unat n) (nxt h) t = Suc (ring_len (unat n) h t)"
  using assms mod_small_cases [of "unat h + unat n - unat t" "unat n"]
    mod_small_cases [of "Suc (unat h)" "unat n"]
    mod_small_cases [of "unat (nxt h) + unat n - unat t" "unat n"] nxt [of h] pos
  by (auto simp: ring_len_def word_less_nat_alt word_unat_eq_iff split: if_splits)

lemma len_get:
  assumes "h < n" "t < n" "h \<noteq> t"
  shows "ring_len (unat n) h t = Suc (ring_len (unat n) h (nxt t))"
  using assms mod_small_cases [of "unat h + unat n - unat t" "unat n"]
    mod_small_cases [of "Suc (unat t)" "unat n"]
    mod_small_cases [of "unat h + unat n - unat (nxt t)" "unat n"] nxt [of t] pos
  by (auto simp: ring_len_def word_less_nat_alt word_unat_eq_iff split: if_splits)

lemma head_index:
  assumes "h < n" "t < n"
  shows "(unat t + ring_len (unat n) h t) mod unat n = unat h"
  using assms mod_small_cases [of "unat h + unat n - unat t" "unat n"]
    mod_small_cases [of "unat t + ring_len (unat n) h t" "unat n"] pos
  by (auto simp: ring_len_def word_less_nat_alt split: if_splits)

lemma index_neq_head:
  assumes "h < n" "t < n" "k < ring_len (unat n) h t"
  shows "unat h \<noteq> (unat t + k) mod unat n"
  using assms mod_small_cases [of "unat h + unat n - unat t" "unat n"]
    mod_small_cases [of "unat t + k" "unat n"] len_bound [of h t]
  by (auto simp: ring_len_def word_less_nat_alt split: if_splits)

lemma put:
  assumes "h < n" "t < n" "nxt h \<noteq> t" "length buf = unat n"
  shows "ring_list (unat n) (buf[unat h := x]) (nxt h) t = ring_list (unat n) buf h t @ [x]"
  using index_neq_head [OF assms(1,2)] head_index [OF assms(1,2)] assms(1,4)
  by (simp add: ring_list_def len_put [OF assms(1-3)] word_less_nat_alt)

lemma get:
  assumes "h < n" "t < n" "h \<noteq> t"
  shows "ring_list (unat n) buf h t = buf ! unat t # ring_list (unat n) buf h (nxt t)"
proof -
  have "(Suc (unat t) mod unat n + k) mod unat n = (unat t + Suc k) mod unat n" for k
    by (simp add: mod_add_left_eq)
  moreover have "unat t mod unat n = unat t" using assms(2) by (simp add: word_less_nat_alt)
  ultimately show ?thesis
    unfolding ring_list_def len_get [OF assms] nxt [OF assms(2)]
    by (simp add: upt_conv_Cons map_Suc_upt [symmetric] o_def del: upt_Suc)
qed

lemma count_formula:
  assumes "h < n" "t < n"
  shows "unat (if h \<ge> t then h - t else n - (t - h)) = ring_len (unat n) h t"
  using assms mod_small_cases [of "unat h + unat n - unat t" "unat n"]
  by (auto simp: ring_len_def word_less_nat_alt word_le_nat_alt unat_sub split: if_splits)

lemma available_formula:
  assumes "h < n" "t < n"
  shows "unat (if h \<ge> t then (n - 1) - (h - t) else t - h - 1) = unat n - 1 - ring_len (unat n) h t"
proof -
  have *: "unat (n - 1) = unat n - 1" using pos by (simp add: unat_sub word_le_nat_alt)
  show ?thesis
    using assms mod_small_cases [of "unat h + unat n - unat t" "unat n"]
    by (auto simp: ring_len_def word_less_nat_alt word_le_nat_alt unat_sub * split: if_splits)
qed

text \<open>The \<open>k\<close>-th place from index \<open>t\<close> on.\<close>

definition slot :: "u8 \<Rightarrow> nat \<Rightarrow> u8" where
  "slot t k = of_nat ((unat t + k) mod unat n)"

lemma slot_unat: "unat (slot t k) = (unat t + k) mod unat n"
proof -
  have "(unat t + k) mod unat n < unat n" using pos by simp
  then have "(unat t + k) mod unat n < 256" using unat_u8 [of n] by linarith
  then show ?thesis by (simp add: slot_def unat_of_nat_u8)
qed

lemma slot_less: "slot t k < n"
  using pos by (simp add: word_less_nat_alt slot_unat)

lemma nxt_slot: "nxt (slot t k) = slot t (Suc k)"
  by (simp add: word_unat_eq_iff nxt [OF slot_less] slot_unat mod_Suc_eq)

lemma slot_0: "t < n \<Longrightarrow> slot t 0 = t"
  by (simp add: word_unat_eq_iff slot_unat word_less_nat_alt)

lemma slot_head: "h < n \<Longrightarrow> t < n \<Longrightarrow> slot t (ring_len (unat n) h t) = h"
  by (simp add: word_unat_eq_iff slot_unat head_index)

lemma slot_eq: "t < n \<Longrightarrow> j < unat n \<Longrightarrow> k < unat n \<Longrightarrow> slot t j = slot t k \<longleftrightarrow> j = k"
  using mod_small_cases [of "unat t + j" "unat n"] mod_small_cases [of "unat t + k" "unat n"]
  by (auto simp: word_unat_eq_iff slot_unat word_less_nat_alt split: if_splits)

lemma list_nth: "k < ring_len (unat n) h t \<Longrightarrow> ring_list (unat n) buf h t ! k = buf ! unat (slot t k)"
  by (simp add: ring_list_def slot_unat)

end

section \<open>Queues inside a state\<close>

text \<open>
  A bounded queue of lists and a sequence of operations on it, \<open>Some x\<close> to store \<open>x\<close> and
  \<open>None\<close> to read: the values that the reads return (\<open>d\<close> when there is nothing), and what is left.
\<close>

fun queue_run :: "nat \<Rightarrow> 'a \<Rightarrow> 'a option list \<Rightarrow> 'a list \<Rightarrow> 'a list \<times> 'a list" where
  "queue_run n d [] q = ([], q)"
| "queue_run n d (Some x # ops) q = queue_run n d ops (if length q < n then q @ [x] else q)"
| "queue_run n d (None # ops) q =
     (let (r, left) = queue_run n d ops (tl q) in ((case q of [] \<Rightarrow> d | x # xs \<Rightarrow> x) # r, left))"

locale fifo =
  fixes inv :: "'s \<Rightarrow> bool" and abs :: "'s \<Rightarrow> 'a list" and n :: nat and d :: 'a
    and put :: "'a \<Rightarrow> 's \<Rightarrow> 's" and get :: "'s \<Rightarrow> 'a \<times> 's"
  assumes put_inv: "inv s \<Longrightarrow> inv (put x s)"
    and put_abs: "inv s \<Longrightarrow> abs (put x s) = (if length (abs s) < n then abs s @ [x] else abs s)"
    and get_inv: "inv s \<Longrightarrow> inv (snd (get s))"
    and get_abs: "inv s \<Longrightarrow> abs (snd (get s)) = tl (abs s)"
    and get_value: "inv s \<Longrightarrow> fst (get s) = (case abs s of [] \<Rightarrow> d | x # xs \<Rightarrow> x)"
begin

text \<open>The same operations on the state, with the values that the reads really return.\<close>

fun run :: "'a option list \<Rightarrow> 's \<Rightarrow> 'a list \<times> 's" where
  "run [] s = ([], s)"
| "run (Some x # ops) s = run ops (put x s)"
| "run (None # ops) s = (let (x, s) = get s; (r, s) = run ops s in (x # r, s))"

lemma run_inv: "inv s \<Longrightarrow> inv (snd (run ops s))"
proof (induction ops arbitrary: s)
  case (Cons a ops)
  then show ?case by (cases a) (simp_all add: put_inv get_inv split_def Let_def)
qed simp

lemma refines: "inv s \<Longrightarrow> (fst (run ops s), abs (snd (run ops s))) = queue_run n d ops (abs s)"
proof (induction ops arbitrary: s)
  case (Cons a ops)
  show ?case
  proof (cases a)
    case None
    then show ?thesis
      using Cons.IH [OF get_inv [OF Cons.prems]] Cons.prems unfolding prod_eq_iff by (simp add: split_def Let_def get_abs get_value)
  next
    case (Some x)
    then show ?thesis
      using Cons.IH [OF put_inv [OF Cons.prems]] Cons.prems by (simp add: put_abs)
  qed
qed simp

end

end
