(* ===== verification/Transport.thy ===== *)
theory Transport
  imports Reset Ring
begin

text \<open>
  The serial rings of serial.c and the LLP transport of llp\_transport.c: received bytes go
  through the frame parser, realtime commands act at once and the other characters enter the
  receive ring; written characters collect in a line that is sent as one frame.
\<close>

section \<open>Ring sizes\<close>

definition RX_RING_BUFFER :: u8 where "RX_RING_BUFFER = 81"
definition TX_RING_BUFFER :: u8 where "TX_RING_BUFFER = 129"
definition LLP_TX_LINE_BUF_SIZE :: u8 where "LLP_TX_LINE_BUF_SIZE = 64"
definition SERIAL_NO_DATA :: u8 where "SERIAL_NO_DATA = 0xff"

lemmas ring_consts [grbl_consts] =
  RX_RING_BUFFER_def TX_RING_BUFFER_def LLP_TX_LINE_BUF_SIZE_def SERIAL_NO_DATA_def

section \<open>serial.c\<close>

definition serial_get_rx_buffer_available :: "grbl \<Rightarrow> u8" where
  "serial_get_rx_buffer_available g =
     (let rtail = serial_rx_buffer_tail (serial g); rhead = serial_rx_buffer_head (serial g) in
      if rhead \<ge> rtail then 80 - (rhead - rtail) else rtail - rhead - 1)"

definition serial_get_rx_buffer_count :: "grbl \<Rightarrow> u8" where
  "serial_get_rx_buffer_count g =
     (let rtail = serial_rx_buffer_tail (serial g); rhead = serial_rx_buffer_head (serial g) in
      if rhead \<ge> rtail then rhead - rtail else RX_RING_BUFFER - (rtail - rhead))"

definition serial_get_tx_buffer_count :: "grbl \<Rightarrow> u8" where
  "serial_get_tx_buffer_count g =
     (let ttail = serial_tx_buffer_tail (serial g); thead = serial_tx_buffer_head (serial g) in
      if thead \<ge> ttail then thead - ttail else TX_RING_BUFFER - (ttail - thead))"

definition serial_read :: "grbl \<Rightarrow> u8 \<times> grbl" where
  "serial_read g =
     (let tail = serial_rx_buffer_tail (serial g); head = serial_rx_buffer_head (serial g) in
      if head = tail then (SERIAL_NO_DATA, g)
      else
        (serial_rx_buffer (serial g) ! unat tail,
         g\<lparr>serial := (serial g)\<lparr>serial_rx_buffer_tail := ring_next RX_RING_BUFFER tail\<rparr>\<rparr>))"

definition serial_reset_read_buffer :: "grbl \<Rightarrow> grbl" where
  "serial_reset_read_buffer g =
     g\<lparr>serial := (serial g)\<lparr>serial_rx_buffer_tail := serial_rx_buffer_head (serial g)\<rparr>\<rparr>"

text \<open>The data-register-empty interrupt, and its run at a time when it may be disabled.\<close>

definition isr_udre :: "grbl \<Rightarrow> grbl" where
  "isr_udre g =
     (let tail = serial_tx_buffer_tail (serial g); head = serial_tx_buffer_head (serial g);
          g = g\<lparr>hw := (hw g)\<lparr>uart_out := uart_out (hw g) @ [serial_tx_buffer (serial g) ! unat tail]\<rparr>\<rparr>;
          tail = ring_next TX_RING_BUFFER tail;
          g = g\<lparr>serial := (serial g)\<lparr>serial_tx_buffer_tail := tail\<rparr>\<rparr>
      in if tail = head then g\<lparr>hw := (hw g)\<lparr>UDRIE0 := False\<rparr>\<rparr> else g)"

definition irq_udre :: "grbl \<Rightarrow> grbl" where
  "irq_udre g = (if UDRIE0 (hw g) then isr_udre g else g)"

section \<open>Receiving\<close>

definition llp_rx_buffer_write :: "u8 \<Rightarrow> grbl \<Rightarrow> grbl" where
  "llp_rx_buffer_write b g =
     (let head = serial_rx_buffer_head (serial g); next_head = ring_next RX_RING_BUFFER head in
      if next_head \<noteq> serial_rx_buffer_tail (serial g) then
        g\<lparr>serial := (serial g)
            \<lparr>serial_rx_buffer := (serial_rx_buffer (serial g))[unat head := b],
             serial_rx_buffer_head := next_head\<rparr>\<rparr>
      else g\<lparr>llp := (llp g)\<lparr>llp_rx_dropped_count := llp_rx_dropped_count (llp g) + 1\<rparr>\<rparr>)"

definition CMD_RESET :: u8 where "CMD_RESET = 0x18"
definition CMD_STATUS_REPORT :: u8 where "CMD_STATUS_REPORT = byte CHR ''?''"
definition CMD_CYCLE_START :: u8 where "CMD_CYCLE_START = byte CHR ''~''"
definition CMD_FEED_HOLD :: u8 where "CMD_FEED_HOLD = byte CHR ''!''"
definition CMD_SAFETY_DOOR :: u8 where "CMD_SAFETY_DOOR = 0x84"
definition CMD_JOG_CANCEL :: u8 where "CMD_JOG_CANCEL = 0x85"

lemmas cmd_consts [grbl_consts] =
  CMD_RESET_def CMD_STATUS_REPORT_def CMD_CYCLE_START_def CMD_FEED_HOLD_def CMD_SAFETY_DOOR_def
  CMD_JOG_CANCEL_def byte_def

text \<open>The override commands 0x90 to 0xA0 (config.h): flag set by each, in their two variables.\<close>

definition cmd_override :: "u8 \<Rightarrow> grbl \<Rightarrow> grbl" where
  "cmd_override c g =
     (if c = 0x90 then system_set_exec_motion_override_flag EXEC_FEED_OVR_RESET g
      else if c = 0x91 then system_set_exec_motion_override_flag EXEC_FEED_OVR_COARSE_PLUS g
      else if c = 0x92 then system_set_exec_motion_override_flag EXEC_FEED_OVR_COARSE_MINUS g
      else if c = 0x93 then system_set_exec_motion_override_flag EXEC_FEED_OVR_FINE_PLUS g
      else if c = 0x94 then system_set_exec_motion_override_flag EXEC_FEED_OVR_FINE_MINUS g
      else if c = 0x95 then system_set_exec_motion_override_flag EXEC_RAPID_OVR_RESET g
      else if c = 0x96 then system_set_exec_motion_override_flag EXEC_RAPID_OVR_MEDIUM g
      else if c = 0x97 then system_set_exec_motion_override_flag EXEC_RAPID_OVR_LOW g
      else if c = 0x99 then system_set_exec_accessory_override_flag EXEC_SPINDLE_OVR_RESET g
      else if c = 0x9A then system_set_exec_accessory_override_flag EXEC_SPINDLE_OVR_COARSE_PLUS g
      else if c = 0x9B then system_set_exec_accessory_override_flag EXEC_SPINDLE_OVR_COARSE_MINUS g
      else if c = 0x9C then system_set_exec_accessory_override_flag EXEC_SPINDLE_OVR_FINE_PLUS g
      else if c = 0x9D then system_set_exec_accessory_override_flag EXEC_SPINDLE_OVR_FINE_MINUS g
      else if c = 0x9E then system_set_exec_accessory_override_flag EXEC_SPINDLE_OVR_STOP g
      else if c = 0xA0 then system_set_exec_accessory_override_flag EXEC_COOLANT_FLOOD_OVR_TOGGLE g
      else g)"

text \<open>One character of a payload.\<close>

definition llp_process_char :: "u8 \<Rightarrow> grbl \<Rightarrow> grbl" where
  "llp_process_char c g =
     (if c = CMD_RESET then mc_reset g
      else if c = CMD_STATUS_REPORT then system_set_exec_state_flag EXEC_STATUS_REPORT g
      else if c = CMD_CYCLE_START then system_set_exec_state_flag EXEC_CYCLE_START g
      else if c = CMD_FEED_HOLD then system_set_exec_state_flag EXEC_FEED_HOLD g
      else if c > 0x7F then
        if c = CMD_SAFETY_DOOR then system_set_exec_state_flag EXEC_SAFETY_DOOR g
        else if c = CMD_JOG_CANCEL then
          (if sys_state (sys g) AND STATE_JOG \<noteq> 0 then system_set_exec_state_flag EXEC_MOTION_CANCEL g
           else g)
        else cmd_override c g
      else llp_rx_buffer_write c g)"

definition llp_process_payload :: "u8 list \<Rightarrow> grbl \<Rightarrow> grbl" where
  "llp_process_payload cs g = fold llp_process_char cs g"

definition llp_transport_rx_byte :: "u8 \<Rightarrow> grbl \<Rightarrow> grbl option" where
  "llp_transport_rx_byte b g =
     (let g = g\<lparr>llp := (llp g)\<lparr>llp_rx_raw_bytes := llp_rx_raw_bytes (llp g) + 1\<rparr>\<rparr>;
          (result, p) = llp_parser_process_byte (llp_rx_parser (llp g)) b (llp_ms_counter (llp g));
          g = g\<lparr>llp := (llp g)\<lparr>llp_rx_parser := p\<rparr>\<rparr>
      in if result = 1 then
           case llp_get_final_payload_ptr (frame p) of
             None \<Rightarrow> None
           | Some None \<Rightarrow> Some g
           | Some (Some (pos, len)) \<Rightarrow>
               Some (if len > 0 then
                       llp_process_payload (take (unat len) (drop (unat pos) (payload (frame p))))
                         (g\<lparr>llp := (llp g)\<lparr>llp_rx_frame_count := llp_rx_frame_count (llp g) + 1\<rparr>\<rparr>)
                     else g)
         else if result < 0 then
           Some (let g = g\<lparr>llp := (llp g)\<lparr>llp_rx_error_count := llp_rx_error_count (llp g) + 1\<rparr>\<rparr> in
             if error_code p = LLP_ERR_TIMEOUT
             then g\<lparr>llp := (llp g)\<lparr>llp_rx_timeout_count := llp_rx_timeout_count (llp g) + 1\<rparr>\<rparr>
             else g)
         else Some g)"

definition isr_timer2_ovf :: "grbl \<Rightarrow> grbl" where
  "isr_timer2_ovf g = g\<lparr>llp := (llp g)\<lparr>llp_ms_counter := llp_ms_counter (llp g) + 1\<rparr>\<rparr>"

section \<open>Sending\<close>

definition tx_full :: "grbl \<Rightarrow> bool" where
  "tx_full g \<longleftrightarrow>
     ring_next TX_RING_BUFFER (serial_tx_buffer_head (serial g)) = serial_tx_buffer_tail (serial g)"

definition tx_put :: "u8 \<Rightarrow> grbl \<Rightarrow> grbl" where
  "tx_put b g =
     g\<lparr>serial := (serial g)
         \<lparr>serial_tx_buffer := (serial_tx_buffer (serial g))[unat (serial_tx_buffer_head (serial g)) := b],
          serial_tx_buffer_head := ring_next TX_RING_BUFFER (serial_tx_buffer_head (serial g))\<rparr>\<rparr>"

definition set_UDRIE :: "grbl \<Rightarrow> grbl" where
  "set_UDRIE g = g\<lparr>hw := (hw g)\<lparr>UDRIE0 := True\<rparr>\<rparr>"

text \<open>
  The interrupts that drain the ring before the next byte is stored. With a full ring the wait
  ends at the first of them; without one the spin counter runs out.
\<close>

definition tx_drain :: "grbl \<Rightarrow> grbl" where
  "tx_drain g =
     (case tx_sched (world g) of
        [] \<Rightarrow> g
      | n # ns \<Rightarrow> (irq_udre ^^ n) (g\<lparr>world := (world g)\<lparr>tx_sched := ns\<rparr>\<rparr>))"

fun llp_tx_push :: "u8 list \<Rightarrow> grbl \<Rightarrow> grbl" where
  "llp_tx_push [] g = set_UDRIE g"
| "llp_tx_push (b # bs) g =
     (let g = tx_drain (if tx_full g then set_UDRIE g else g) in
      if tx_full g then
        set_UDRIE (g\<lparr>llp := (llp g)\<lparr>llp_tx_dropped_count := llp_tx_dropped_count (llp g) + 1\<rparr>\<rparr>)
      else llp_tx_push bs (tx_put b g))"

definition llp_transport_tx_flush :: "grbl \<Rightarrow> grbl" where
  "llp_transport_tx_flush g =
     (let idx = llp_tx_line_idx (llp g) in
      if idx = 0 then g
      else
        let g = g\<lparr>llp := (llp g)\<lparr>llp_tx_line_idx := 0\<rparr>\<rparr>;
            (pb, payload_len) = llp_build_final_payload (llp_tx_payload_buf (llp g)) LLP_MAX_PAYLOAD
              (Some (llp_tx_line_buf (llp g))) (ucast idx);
            g = g\<lparr>llp := (llp g)\<lparr>llp_tx_payload_buf := pb\<rparr>\<rparr>
        in if payload_len = 0 then g
           else
             let (fb, frame_len) = llp_build_frame (llp_tx_frame_buf (llp g))
                   (LLP_MAX_FRAME_SIZE LLP_MAX_PAYLOAD) pb payload_len;
                 g = g\<lparr>llp := (llp g)\<lparr>llp_tx_frame_buf := fb\<rparr>\<rparr>
             in if frame_len = 0 then g else llp_tx_push (take (unat frame_len) fb) g)"

definition llp_transport_tx_byte :: "u8 \<Rightarrow> grbl \<Rightarrow> grbl" where
  "llp_transport_tx_byte b g =
     (let idx = llp_tx_line_idx (llp g);
          g = (if idx < LLP_TX_LINE_BUF_SIZE then
                 g\<lparr>llp := (llp g)\<lparr>llp_tx_line_buf := (llp_tx_line_buf (llp g))[unat idx := b],
                   llp_tx_line_idx := idx + 1\<rparr>\<rparr>
               else g)
      in if b = 10 \<or> llp_tx_line_idx (llp g) \<ge> LLP_TX_LINE_BUF_SIZE then llp_transport_tx_flush g
         else g)"

definition serial_write :: "u8 \<Rightarrow> grbl \<Rightarrow> grbl" where
  "serial_write b g = llp_transport_tx_byte b g"

definition llp_transport_tx_reset :: "grbl \<Rightarrow> grbl" where
  "llp_transport_tx_reset g = g\<lparr>llp := (llp g)\<lparr>llp_tx_line_idx := 0\<rparr>\<rparr>"

record llp_stats_t =
  stats_rx_frames :: u16
  stats_rx_errors :: u16
  stats_rx_timeouts :: u16
  stats_rx_dropped :: u16
  stats_tx_dropped :: u16
  stats_rx_raw_bytes :: u16

definition llp_transport_get_stats :: "grbl \<Rightarrow> llp_stats_t" where
  "llp_transport_get_stats g =
     \<lparr>stats_rx_frames = llp_rx_frame_count (llp g), stats_rx_errors = llp_rx_error_count (llp g),
      stats_rx_timeouts = llp_rx_timeout_count (llp g), stats_rx_dropped = llp_rx_dropped_count (llp g),
      stats_tx_dropped = llp_tx_dropped_count (llp g), stats_rx_raw_bytes = llp_rx_raw_bytes (llp g)\<rparr>"

definition llp_transport_reset_stats :: "grbl \<Rightarrow> grbl" where
  "llp_transport_reset_stats g =
     g\<lparr>llp := (llp g)\<lparr>llp_rx_frame_count := 0, llp_rx_error_count := 0, llp_rx_timeout_count := 0,
       llp_rx_dropped_count := 0, llp_tx_dropped_count := 0, llp_rx_raw_bytes := 0\<rparr>\<rparr>"

definition llp_transport_get_ms :: "grbl \<Rightarrow> u32" where
  "llp_transport_get_ms g = llp_ms_counter (llp g)"

text \<open>Timer 2 counts milliseconds: its prescaler is CS22, its overflow interrupt TOIE2.\<close>

definition llp_transport_init :: "grbl \<Rightarrow> grbl" where
  "llp_transport_init g =
     g\<lparr>llp := (llp g)\<lparr>llp_rx_parser := llp_parser_init (llp_rx_parser (llp g)), llp_tx_line_idx := 0\<rparr>,
       hw := (hw g)\<lparr>config := (config (hw g))
               \<lparr>TCCR2A := 0, TCCR2B := 0x04, TIMSK2 := bit_true (TIMSK2 (config (hw g))) 0x01\<rparr>\<rparr>\<rparr>"

definition F_CPU :: int where "F_CPU = 16000000"
definition BAUD_RATE :: int where "BAUD_RATE = 115200"
definition UBRR0_value :: u16 where "UBRR0_value = word_of_int ((F_CPU div (4 * BAUD_RATE) - 1) div 2)"

text \<open>The baud rate doubler is on (U2X0) for a rate of at least 57600.\<close>

definition serial_init :: "grbl \<Rightarrow> grbl" where
  "serial_init g =
     (let r = config (hw g); r = r\<lparr>UCSR0A := bit_true (UCSR0A r) 0x02\<rparr>;
          r = r\<lparr>UBRR0H := ucast (drop_bit 8 UBRR0_value), UBRR0L := ucast UBRR0_value\<rparr>;
          r = r\<lparr>UCSR0B := bit_true (UCSR0B r) 0x98\<rparr>
      in llp_transport_init (g\<lparr>hw := (hw g)\<lparr>config := r\<rparr>\<rparr>))"

end
