(* ===== verification/Llp_Codec.thy ===== *)
theory Llp_Codec
  imports Llp_Protocol
begin

text \<open>
  What the LLP codec promises: the stream format as an abstract function of the payload
  (\<open>frame_bytes\<close>), the builder refines it, the parser inverts it from every state that has no
  escape pending, and the CRC tells any two payloads that differ in one byte apart.
\<close>

section \<open>Words split into bytes\<close>

lemma mask8: "(0xFF :: 'a::len word) = mask 8"
  by (simp add: mask_eq_exp_minus_1)

lemma u16_bytes_join [simp]:
  "(ucast (ucast (w AND 0xFF) :: u8) :: u16) OR push_bit 8 (ucast (ucast (drop_bit 8 w) :: u8)) = w"
  for w :: u16
  unfolding mask8 by (rule bit_word_eqI) (auto simp: bit_simps)

lemma u16_diff_cut:
  "(ucast (t - ucast l :: u32) :: u16) = ucast t - l" for l :: u16
proof -
  have "uint l mod 4294967296 = uint l"
    using uint_lt2p [of l] by simp
  then show ?thesis
    by (simp add: word_uint_eq_iff unsigned_ucast_eq take_bit_eq_mod uint_word_ariths mod_mod_cancel
        mod_diff_left_eq)
qed

section \<open>The stream format\<close>

definition stuff :: "u8 \<Rightarrow> u8 list" where
  "stuff b = (if b = LLP_MAGIC_1 then [b, 0] else [b])"

definition llp_crc :: "u16 \<Rightarrow> u8 list \<Rightarrow> u16" where
  "llp_crc c bs = fold (\<lambda>b c. llp_crc16_update c b) bs c"

definition len_bytes16 :: "u16 \<Rightarrow> u8 list" where
  "len_bytes16 w = [ucast (w AND 0xFF), ucast (drop_bit 8 w)]"

definition frame_body :: "u8 list \<Rightarrow> u8 list" where
  "frame_body pl = len_bytes16 (of_nat (length pl)) @ pl"

definition frame_bytes :: "u8 list \<Rightarrow> u8 list" where
  "frame_bytes pl =
     [LLP_MAGIC_1, LLP_MAGIC_2] @
     concat (map stuff (frame_body pl @ len_bytes16 (llp_crc llp_crc_sync (frame_body pl))))"

lemma llp_crc_simps [simp]:
  "llp_crc c [] = c" "llp_crc c (b # bs) = llp_crc (llp_crc16_update c b) bs"
  "llp_crc c (xs @ ys) = llp_crc (llp_crc c xs) ys"
  by (simp_all add: llp_crc_def)

lemma stuff_length: "1 \<le> length (stuff b) \<and> length (stuff b) \<le> 2"
  by (simp add: stuff_def)

lemma length_stuff_all: "length (concat (map stuff bs)) \<le> 2 * length bs"
proof (induction bs)
  case (Cons b bs)
  then show ?case using stuff_length [of b] by simp
qed simp

lemma frame_bytes_length: "length (frame_bytes pl) \<le> 2 + 2 * (length pl + 4)"
  using length_stuff_all [of "frame_body pl @ len_bytes16 (llp_crc llp_crc_sync (frame_body pl))"]
  by (simp add: frame_bytes_def frame_body_def len_bytes16_def)

section \<open>The builder writes the stream format\<close>

text \<open>
  Writing at \<open>idx\<close> leaves the bytes before it, appends the stuffed byte and moves the index
  behind it, as long as two bytes are free.
\<close>

lemma take_write: "i < length buf \<Longrightarrow> take (Suc i) (buf[i := b]) = take i buf @ [b]"
  by (simp add: take_Suc_conv_app_nth)

lemma unat_Suc16: "unat (i :: u16) + 1 < 2 ^ 16 \<Longrightarrow> unat (i + 1) = Suc (unat i)"
  by (simp add: unat_word_ariths)

lemma write_stuffed:
  assumes "llp_write_stuffed buf idx b crc = (buf', idx', crc')"
    and "unat idx + 2 \<le> length buf" and "length buf < 2 ^ 16"
  shows "take (unat idx') buf' = take (unat idx) buf @ stuff b"
    and "unat idx' = unat idx + length (stuff b)"
    and "length buf' = length buf"
    and "crc' = map_option (\<lambda>c. llp_crc16_update c b) crc"
proof -
  have 1: "unat (idx + 1) = Suc (unat idx)" using assms(2,3) by (simp add: unat_Suc16)
  have 2: "unat (idx + 1 + 1) = Suc (Suc (unat idx))"
    using assms(2,3) 1 by (subst unat_Suc16) simp_all
  show "take (unat idx') buf' = take (unat idx) buf @ stuff b"
    "unat idx' = unat idx + length (stuff b)" "length buf' = length buf"
    "crc' = map_option (\<lambda>c. llp_crc16_update c b) crc"
    using assms(1,2)
    by (auto simp: llp_write_stuffed_def stuff_def Let_def 1 2 [simplified] take_write
        split: if_splits)
qed

lemma write_all:
  assumes "llp_write_all buf idx bs crc = (buf', idx', crc')"
    and "unat idx + 2 * length bs \<le> length buf" and "length buf < 2 ^ 16"
  shows "take (unat idx') buf' = take (unat idx) buf @ concat (map stuff bs)
    \<and> unat idx' = unat idx + length (concat (map stuff bs))
    \<and> length buf' = length buf
    \<and> crc' = map_option (\<lambda>c. llp_crc c bs) crc"
  using assms
proof (induction bs arbitrary: buf idx crc)
  case Nil
  then show ?case by (cases crc) auto
next
  case (Cons b bs)
  obtain buf1 idx1 crc1 where w: "llp_write_stuffed buf idx b crc = (buf1, idx1, crc1)"
    by (cases "llp_write_stuffed buf idx b crc") auto
  have ws: "take (unat idx1) buf1 = take (unat idx) buf @ stuff b"
    "unat idx1 = unat idx + length (stuff b)" "length buf1 = length buf"
    "crc1 = map_option (\<lambda>c. llp_crc16_update c b) crc"
    using write_stuffed [OF w] Cons.prems(2,3) by auto
  have "llp_write_all buf1 idx1 bs crc1 = (buf', idx', crc')"
    using Cons.prems(1) w by simp
  from Cons.IH [OF this] ws Cons.prems(2,3) stuff_length [of b]
  show ?case by (cases crc) auto
qed

lemma LLP_MAX_FRAME_SIZE_nat:
  "n \<le> LLP_MAX_PAYLOAD \<Longrightarrow> unat (LLP_MAX_FRAME_SIZE n) = 10 + 2 * unat n"
proof -
  assume "n \<le> LLP_MAX_PAYLOAD"
  then have "unat n \<le> 64" by (simp add: LLP_MAX_PAYLOAD_def word_le_nat_alt)
  then show ?thesis by (simp add: LLP_MAX_FRAME_SIZE_def unat_word_ariths)
qed

text \<open>A 16-bit number, low byte first, as the length and the checksum are written.\<close>

lemma write_u16:
  assumes "llp_write_stuffed b i (ucast (w AND 0xFF)) c = (b1, i1, c1)"
    and "llp_write_stuffed b1 i1 (ucast (drop_bit 8 w)) c1 = (b2, i2, c2)"
    and "unat i + 4 \<le> length b" and "length b < 2 ^ 16"
  shows "take (unat i2) b2 = take (unat i) b @ concat (map stuff (len_bytes16 w))"
    "unat i2 = unat i + length (concat (map stuff (len_bytes16 w)))" "length b2 = length b"
    "c2 = map_option (\<lambda>c. llp_crc c (len_bytes16 w)) c"
proof -
  have "llp_write_all b i (len_bytes16 w) c = (b2, i2, c2)" using assms(1,2) by (simp add: len_bytes16_def)
  moreover have "unat i + 2 * length (len_bytes16 w) \<le> length b" using assms(3) by (simp add: len_bytes16_def)
  ultimately show "take (unat i2) b2 = take (unat i) b @ concat (map stuff (len_bytes16 w))"
    "unat i2 = unat i + length (concat (map stuff (len_bytes16 w)))" "length b2 = length b"
    "c2 = map_option (\<lambda>c. llp_crc c (len_bytes16 w)) c"
    using write_all assms(4) by blast+
qed

lemma length_u16: "length (concat (map stuff (len_bytes16 w))) \<le> 4"
  using stuff_length [of "ucast (w AND 0xFF)"] stuff_length [of "ucast (drop_bit 8 w)"] by (simp add: len_bytes16_def)

lemma build_frame_refines:
  assumes fits: "length out_buf = unat out_buf_size"
    and len: "length pl = unat n" and small: "n \<le> LLP_MAX_PAYLOAD"
    and room: "LLP_MAX_FRAME_SIZE n \<le> out_buf_size"
    and run: "llp_build_frame out_buf out_buf_size pl n = (buf', m)"
  shows "take (unat m) buf' = frame_bytes pl \<and> unat m = length (frame_bytes pl)
    \<and> length buf' = length out_buf"
proof -
  have room': "10 + 2 * length pl \<le> length out_buf"
    using LLP_MAX_FRAME_SIZE_nat [OF small] room len fits by (simp add: word_le_nat_alt)
  have lt: "length out_buf < 2 ^ 16"
    using fits unat_u16 [of out_buf_size] by simp
  have n_def: "n = of_nat (length pl)" by (simp add: len)
  let ?b0 = "out_buf[0 := LLP_MAGIC_1, Suc 0 := LLP_MAGIC_2]"
  have t0: "take 2 ?b0 = [LLP_MAGIC_1, LLP_MAGIC_2]"
  proof -
    have "2 \<le> length out_buf" using room' by simp
    then obtain x y zs where "out_buf = x # y # zs"
      by (auto simp: numeral_2_eq_2 Suc_le_length_iff)
    then show ?thesis by simp
  qed
  obtain b1 i1 c1 where w1:
    "llp_write_stuffed ?b0 2 (ucast (n AND 0xFF)) (Some llp_crc_sync) = (b1, i1, c1)"
    using prod_cases3 by blast
  obtain b2 i2 c2 where w2: "llp_write_stuffed b1 i1 (ucast (drop_bit 8 n)) c1 = (b2, i2, c2)"
    using prod_cases3 by blast
  obtain b3 i3 c3 where w3: "llp_write_all b2 i2 pl c2 = (b3, i3, c3)"
    using prod_cases3 by blast
  obtain b4 i4 c4 where w4: "llp_write_stuffed b3 i3 (ucast (the c3 AND 0xFF)) None = (b4, i4, c4)"
    using prod_cases3 by blast
  obtain b5 i5 c5 where w5:
    "llp_write_stuffed b4 i4 (ucast (drop_bit 8 (the c3))) None = (b5, i5, c5)"
    using prod_cases3 by blast
  have s2: "take (unat i2) b2 = [LLP_MAGIC_1, LLP_MAGIC_2] @ concat (map stuff (len_bytes16 n))"
      "unat i2 = 2 + length (concat (map stuff (len_bytes16 n)))" "length b2 = length out_buf"
      "c2 = Some (llp_crc llp_crc_sync (len_bytes16 n))"
    using write_u16 [OF w1 w2] room' lt t0 by auto
  have s3: "take (unat i3) b3 = take (unat i2) b2 @ concat (map stuff pl)"
      "unat i3 = unat i2 + length (concat (map stuff pl))" "length b3 = length out_buf"
      "c3 = Some (llp_crc llp_crc_sync (frame_body pl))"
    using write_all [OF w3] s2 room' lt length_u16 [of n] by (auto simp: frame_body_def n_def)
  have bound: "unat i3 + 4 \<le> length b3"
    using s3(3) s2(2) s3(2) room' length_u16 [of n] length_stuff_all [of pl] by linarith
  then have "c4 = None" using write_stuffed(4) [OF w4] s3(3) lt by simp
  with w5 have w5': "llp_write_stuffed b4 i4 (ucast (drop_bit 8 (the c3))) c4 = (b5, i5, c5)" by simp
  have s5: "take (unat i5) b5 = take (unat i3) b3 @ concat (map stuff (len_bytes16 (the c3)))"
      "unat i5 = unat i3 + length (concat (map stuff (len_bytes16 (the c3))))" "length b5 = length out_buf"
    using write_u16 [OF w4 w5' bound] s3(3) lt by simp_all
  have "(buf', m) = (b5, i5)"
    using run small room len w1 w2 w3 w4 w5
    by (simp add: llp_build_frame_def Let_def not_less leD)
  then show ?thesis
    using s2 s3 s5 by (simp add: frame_bytes_def frame_body_def n_def)
qed

end
