(* ===== verification/Llp_Parser.thy ===== *)
theory Llp_Parser
  imports Llp_Codec
begin

text \<open>
  Runs of the LLP parser over timed byte streams: the well-formedness invariant that keeps the
  payload write inside its array, and the round trip with the stream format.
\<close>

section \<open>Runs\<close>

fun llp_run :: "llp_parser_t \<Rightarrow> (u8 \<times> u32) list \<Rightarrow> int list \<times> llp_parser_t" where
  "llp_run p [] = ([], p)"
| "llp_run p ((b, t) # xs) =
     (let (r, p1) = llp_parser_process_byte p b t; (rs, p2) = llp_run p1 xs in (r # rs, p2))"

text \<open>No gap between two bytes, cut to 16 bits as the parser cuts it, exceeds the timeout.\<close>

fun timely :: "u16 \<Rightarrow> u32 list \<Rightarrow> bool" where
  "timely l [] = True"
| "timely l (t # ts) = (ucast t - l \<le> LLP_FRAME_TIMEOUT_MS \<and> timely (ucast t) ts)"

fun last_time :: "u16 \<Rightarrow> u32 list \<Rightarrow> u16" where
  "last_time l [] = l"
| "last_time l (t # ts) = last_time (ucast t) ts"

lemma llp_run_append:
  "llp_run p (xs @ ys) =
     (let (rs, p1) = llp_run p xs; (rs', p2) = llp_run p1 ys in (rs @ rs', p2))"
  by (induction p xs rule: llp_run.induct) (auto simp: Let_def split: prod.splits)

lemma timely_append [simp]:
  "timely l (ts @ us) \<longleftrightarrow> timely l ts \<and> timely (last_time l ts) us"
  by (induction l ts rule: timely.induct) auto

lemma last_time_append [simp]: "last_time l (ts @ us) = last_time (last_time l ts) us"
  by (induction l ts rule: last_time.induct) auto

section \<open>The parser's invariant\<close>

definition llp_parser_wf :: "llp_parser_t \<Rightarrow> bool" where
  "llp_parser_wf p \<longleftrightarrow>
     length (payload (frame p)) = unat LLP_MAX_PAYLOAD \<and>
     state p \<le> LLP_STATE_READ_CRC_H \<and>
     (state p = LLP_STATE_READ_LEN_H \<longrightarrow> payload_len (frame p) \<le> 0xFF) \<and>
     (state p = LLP_STATE_READ_PAYLOAD \<longrightarrow>
        payload_idx p < payload_len (frame p) \<and> payload_len (frame p) \<le> LLP_MAX_PAYLOAD) \<and>
     (state p = LLP_STATE_READ_CRC_L \<or> state p = LLP_STATE_READ_CRC_H \<longrightarrow>
        payload_len (frame p) \<le> LLP_MAX_PAYLOAD)"

lemma llp_reset_wf [wf_intros]:
  "length (payload (frame p)) = unat LLP_MAX_PAYLOAD \<Longrightarrow> llp_parser_wf (llp_parser_reset p)"
  by (simp add: llp_parser_wf_def llp_parser_reset_def grbl_consts)

lemma ucast_u8_le: "(ucast (b :: u8) :: u16) \<le> 255"
  using unat_u8 [of b] by (simp add: word_le_nat_alt unsigned_ucast_eq take_bit_eq_mod)

lemma word_inc_less: "i < n \<Longrightarrow> i + 1 \<noteq> n \<Longrightarrow> i + 1 < n" for i :: "'a::len word"
  by (metis inc_le order_le_less)

lemma llp_dispatch_wf:
  assumes "llp_parser_wf p" and "llp_dispatch p b = (r, q)"
  shows "llp_parser_wf q"
  using assms
  by (auto simp: llp_parser_wf_def llp_dispatch_def llp_parser_reset_def grbl_consts Let_def
      ucast_u8_le word_neq_0_conv word_inc_less split: if_splits)

lemma llp_unescape_wf:
  assumes "llp_parser_wf p"
  shows "llp_unescape p b = Inl (r, q) \<Longrightarrow> llp_parser_wf q"
    and "llp_unescape p b = Inr (q, b') \<Longrightarrow> llp_parser_wf q"
  using assms
  by (auto simp: llp_parser_wf_def llp_unescape_def llp_parser_reset_def grbl_consts Let_def
      split: if_splits)

lemma llp_wf_time [simp]: "llp_parser_wf (p\<lparr>last_byte_time := t\<rparr>) = llp_parser_wf p"
  by (simp add: llp_parser_wf_def)

lemma llp_process_byte_wf:
  assumes wf: "llp_parser_wf p" and run: "llp_parser_process_byte p b t = (r, q)"
  shows "llp_parser_wf q"
proof (cases "state p \<noteq> LLP_STATE_WAIT_MAGIC1
    \<and> (ucast (t - ucast (last_byte_time p)) :: u16) > LLP_FRAME_TIMEOUT_MS")
  case True
  with run wf show ?thesis
    by (auto simp: llp_parser_process_byte_def llp_parser_wf_def llp_parser_reset_def grbl_consts
        Let_def split: if_splits)
next
  case False
  let ?p = "p\<lparr>last_byte_time := ucast t\<rparr>"
  have wf': "llp_parser_wf ?p" using wf by simp
  show ?thesis
  proof (cases "llp_unescape ?p b")
    case (Inl rq)
    with False run have "llp_unescape ?p b = Inl (r, q)"
      by (auto simp: llp_parser_process_byte_def)
    then show ?thesis by (rule llp_unescape_wf(1) [OF wf'])
  next
    case (Inr pb)
    obtain p' b' where pb: "pb = (p', b')" by fastforce
    with Inr have "llp_parser_wf p'" using llp_unescape_wf(2) [OF wf'] by blast
    moreover have "llp_dispatch p' b' = (r, q)"
      using False run Inr pb by (auto simp: llp_parser_process_byte_def)
    ultimately show ?thesis by (rule llp_dispatch_wf)
  qed
qed

lemma llp_run_wf: "llp_parser_wf p \<Longrightarrow> llp_run p xs = (rs, q) \<Longrightarrow> llp_parser_wf q"
proof (induction p xs arbitrary: rs rule: llp_run.induct)
  case (2 p b t xs)
  then show ?case by (auto simp: Let_def split: prod.splits dest: llp_process_byte_wf)
qed simp

lemma llp_init_wf:
  "length (payload (frame p)) = unat LLP_MAX_PAYLOAD \<Longrightarrow> llp_parser_wf (llp_parser_init p)"
  by (simp add: llp_parser_wf_def llp_parser_init_def llp_parser_reset_def grbl_consts Let_def)

section \<open>Bytes of a frame, unstuffed\<close>

definition llp_reading :: "llp_parser_t \<Rightarrow> bool" where
  "llp_reading p \<longleftrightarrow> state p \<noteq> LLP_STATE_WAIT_MAGIC1 \<and> state p \<noteq> LLP_STATE_WAIT_MAGIC2
     \<and> escape_pending p = 0"

text \<open>Inside a frame, the stuffed form of a byte acts as the byte on the switch.\<close>

lemma llp_run_stuff:
  assumes reading: "llp_reading p" and fst: "map fst xs = stuff b"
    and time: "timely (last_byte_time p) (map snd xs)"
  shows "llp_run p xs =
    (let (r, q) = llp_dispatch (p\<lparr>last_byte_time := last_time (last_byte_time p) (map snd xs)\<rparr>) b
     in (replicate (length (stuff b) - 1) 0 @ [r], q))"
proof (cases "b = LLP_MAGIC_1")
  case True
  then obtain t u where xs: "xs = [(LLP_MAGIC_1, t), (0, u)]"
    using fst by (auto simp: stuff_def)
  have 1: "llp_parser_process_byte p LLP_MAGIC_1 t =
      (0, p\<lparr>last_byte_time := ucast t, escape_pending := 1\<rparr>)"
    using reading time xs
    by (simp add: llp_parser_process_byte_def llp_unescape_def llp_reading_def u16_diff_cut leD)
  have eq: "p\<lparr>last_byte_time := ucast u, escape_pending := 0\<rparr> = p\<lparr>last_byte_time := ucast u\<rparr>"
    using reading by (cases p) (simp add: llp_reading_def)
  have 2: "llp_parser_process_byte (p\<lparr>last_byte_time := ucast t, escape_pending := 1\<rparr>) 0 u =
      llp_dispatch (p\<lparr>last_byte_time := ucast u\<rparr>) LLP_MAGIC_1"
    using reading time xs
    by (simp add: llp_parser_process_byte_def llp_unescape_def llp_reading_def u16_diff_cut leD
        LLP_MAGIC_2_def eq)
  show ?thesis using xs True 1 2 by (simp add: stuff_def Let_def split: prod.split)
next
  case False
  then obtain t where xs: "xs = [(b, t)]" using fst by (auto simp: stuff_def)
  show ?thesis
    using reading time False xs
    by (simp add: llp_parser_process_byte_def llp_unescape_def llp_reading_def u16_diff_cut leD
        stuff_def Let_def split: prod.split)
qed

lemma llp_run_stuff_next:
  assumes "llp_reading p" and "map fst xs = stuff b" and "timely (last_byte_time p) (map snd xs)"
    and "llp_dispatch (p\<lparr>last_byte_time := last_time (last_byte_time p) (map snd xs)\<rparr>) b = (r, q)"
  shows "\<exists>rs. llp_run p xs = (rs @ [r], q) \<and> set rs \<subseteq> {0}"
  using llp_run_stuff [OF assms(1-3)] assms(4) by auto

section \<open>The phases of a frame\<close>

lemma llp_run_sync:
  assumes esc: "escape_pending p = 0" and fst: "map fst xs = [LLP_MAGIC_1, LLP_MAGIC_2]"
    and time: "timely (last_byte_time p) (map snd xs)"
    and run: "llp_run p xs = (rs, q)"
  shows "1 \<notin> set rs \<and> llp_reading q \<and> state q = LLP_STATE_READ_LEN_L
    \<and> crc_calculated q = llp_crc_sync \<and> payload (frame q) = payload (frame p)
    \<and> last_byte_time q = last_time (last_byte_time p) (map snd xs)"
proof -
  obtain t u where xs: "xs = [(LLP_MAGIC_1, t), (LLP_MAGIC_2, u)]" using fst by auto
  have t: "\<not> LLP_FRAME_TIMEOUT_MS < ucast t - last_byte_time p"
    and u: "\<not> LLP_FRAME_TIMEOUT_MS < ucast u - ucast t"
    using time xs by (auto simp: not_less)
  show ?thesis
    using run esc t u unfolding xs
    by (auto simp: llp_parser_process_byte_def llp_unescape_def llp_dispatch_def llp_reading_def
        u16_diff_cut grbl_consts Let_def split: if_splits)
qed

text \<open>The length bytes: two steps of the switch, then the first payload or checksum byte.\<close>

lemma llp_dispatch_len:
  fixes n :: u16
  assumes "state p = LLP_STATE_READ_LEN_L" and "n \<le> LLP_MAX_PAYLOAD"
    and "llp_dispatch p (ucast (n AND 0xFF)) = (r1, p1)"
    and "llp_dispatch (p1\<lparr>last_byte_time := l\<rparr>) (ucast (drop_bit 8 n)) = (r2, p2)"
  shows "r1 = 0 \<and> r2 = 0 \<and> state p1 = LLP_STATE_READ_LEN_H
    \<and> escape_pending p1 = escape_pending p \<and> last_byte_time p1 = last_byte_time p
    \<and> payload_len (frame p2) = n \<and> payload (frame p2) = payload (frame p) \<and> payload_idx p2 = 0
    \<and> state p2 = (if n = 0 then LLP_STATE_READ_CRC_L else LLP_STATE_READ_PAYLOAD)
    \<and> crc_calculated p2 = llp_crc (crc_calculated p) (len_bytes16 n)
    \<and> escape_pending p2 = escape_pending p \<and> last_byte_time p2 = l"
proof -
  from assms(1,3) have p1: "r1 = 0" "p1 = p\<lparr>frame := (frame p)\<lparr>payload_len := ucast (ucast (n AND 0xFF) :: u8)\<rparr>,
      crc_calculated := llp_crc16_update (crc_calculated p) (ucast (n AND 0xFF)),
      state := LLP_STATE_READ_LEN_H\<rparr>"
    by (simp_all add: llp_dispatch_def grbl_consts)
  have len: "\<not> LLP_MAX_PAYLOAD < n" using assms(2) by simp
  from assms(4) show ?thesis
    unfolding p1(2) using p1(1) len
    by (auto simp: llp_dispatch_def Let_def len_bytes16_def LLP_STATE_WAIT_MAGIC1_def
        LLP_STATE_WAIT_MAGIC2_def LLP_STATE_READ_LEN_L_def LLP_STATE_READ_LEN_H_def)
qed

text \<open>One byte of the payload; after the last one the checksum is expected.\<close>

lemma llp_run_payload_byte:
  assumes rd: "llp_reading p" "state p = LLP_STATE_READ_PAYLOAD" and sizes: "length (payload (frame p)) = 64" "payload_len (frame p) \<le> 64"
    and room: "unat (payload_idx p) < unat (payload_len (frame p))"
    and xs: "map fst xs = stuff b" "timely (last_byte_time p) (map snd xs)"
  shows "\<exists>rs q. llp_run p xs = (rs @ [0], q) \<and> set rs \<subseteq> {0} \<and> llp_reading q
    \<and> state q = (if Suc (unat (payload_idx p)) = unat (payload_len (frame p)) then LLP_STATE_READ_CRC_L else LLP_STATE_READ_PAYLOAD)
    \<and> length (payload (frame q)) = 64 \<and> payload_len (frame q) = payload_len (frame p) \<and> unat (payload_idx q) = Suc (unat (payload_idx p))
    \<and> last_byte_time q = last_time (last_byte_time p) (map snd xs) \<and> crc_calculated q = llp_crc16_update (crc_calculated p) b
    \<and> take (Suc (unat (payload_idx p))) (payload (frame q)) = take (unat (payload_idx p)) (payload (frame p)) @ [b]"
proof -
  let ?t = "last_time (last_byte_time p) (map snd xs)" and ?i = "unat (payload_idx p)" and ?n = "payload_len (frame p)"
  have n: "unat ?n \<le> 64" using sizes(2) by (simp add: word_le_nat_alt)
  have i1: "unat (payload_idx p + 1) = Suc ?i" using room n by (simp add: unat_word_ariths)
  define q where "q = p\<lparr>last_byte_time := ?t, frame := (frame p)\<lparr>payload := (payload (frame p))[?i := b]\<rparr>,
      payload_idx := payload_idx p + 1, crc_calculated := llp_crc16_update (crc_calculated p) b\<rparr>"
  have last: "payload_idx p + 1 = ?n \<longleftrightarrow> Suc ?i = unat ?n" using i1 unfolding word_unat_eq_iff by simp
  have d: "llp_dispatch (p\<lparr>last_byte_time := ?t\<rparr>) b =
      (0, if Suc ?i = unat ?n then q\<lparr>state := LLP_STATE_READ_CRC_L\<rparr> else q)"
    using rd(2) last by (simp add: llp_dispatch_def q_def grbl_consts Let_def)
  have "take (Suc ?i) (payload (frame q)) = take ?i (payload (frame p)) @ [b]"
    using room n sizes(1) by (simp add: q_def take_write)
  moreover have "llp_reading q" "state q = LLP_STATE_READ_PAYLOAD" "length (payload (frame q)) = 64"
    using rd sizes(1) by (simp_all add: llp_reading_def q_def)
  ultimately show ?thesis
    using llp_run_stuff_next [OF rd(1) xs d] i1 by (auto simp: llp_reading_def q_def grbl_consts)
qed

lemma llp_run_payload:
  assumes "llp_reading p" and "state p = LLP_STATE_READ_PAYLOAD"
    and "length (payload (frame p)) = 64" and "payload_len (frame p) \<le> 64" and "bs \<noteq> []"
    and "unat (payload_idx p) + length bs = unat (payload_len (frame p))"
    and "map fst xs = concat (map stuff bs)" and "timely (last_byte_time p) (map snd xs)"
  shows "\<exists>rs q. llp_run p xs = (rs, q) \<and> set rs \<subseteq> {0} \<and> llp_reading q
    \<and> state q = LLP_STATE_READ_CRC_L \<and> payload_len (frame q) = payload_len (frame p)
    \<and> last_byte_time q = last_time (last_byte_time p) (map snd xs)
    \<and> crc_calculated q = llp_crc (crc_calculated p) bs
    \<and> take (unat (payload_len (frame p))) (payload (frame q)) =
        take (unat (payload_idx p)) (payload (frame p)) @ bs"
  using assms
proof (induction bs arbitrary: p xs)
  case (Cons b bs)
  obtain xs1 xs2 where xs: "xs = xs1 @ xs2" and f1: "map fst xs1 = stuff b"
    and f2: "map fst xs2 = concat (map stuff bs)"
    using Cons.prems(7) by (auto simp: map_eq_append_conv)
  let ?t = "last_time (last_byte_time p) (map snd xs1)" and ?i = "unat (payload_idx p)" and ?n = "payload_len (frame p)"
  have tm: "timely (last_byte_time p) (map snd xs1)" "timely ?t (map snd xs2)"
    using Cons.prems(8) xs by auto
  have i: "?i < unat ?n" "Suc ?i = unat ?n \<longleftrightarrow> bs = []" using Cons.prems(6) by (cases bs; auto)+
  obtain rs1 p1 where r1: "llp_run p xs1 = (rs1 @ [0], p1)" "set rs1 \<subseteq> {0}" "llp_reading p1"
    "state p1 = (if bs = [] then LLP_STATE_READ_CRC_L else LLP_STATE_READ_PAYLOAD)"
    "length (payload (frame p1)) = 64" "payload_len (frame p1) = ?n" "unat (payload_idx p1) = Suc ?i" "last_byte_time p1 = ?t"
    "crc_calculated p1 = llp_crc16_update (crc_calculated p) b"
    "take (Suc ?i) (payload (frame p1)) = take ?i (payload (frame p)) @ [b]"
    using llp_run_payload_byte [OF Cons.prems(1-4) i(1) f1 tm(1)] unfolding i(2) by blast
  show ?case
  proof (cases "bs = []")
    case True
    then have "unat ?n = Suc ?i" and "xs2 = []" using i f2 by auto
    with True r1 xs show ?thesis by auto
  next
    case False
    then obtain rs q where "llp_run p1 xs2 = (rs, q)" "set rs \<subseteq> {0}" "llp_reading q"
        "state q = LLP_STATE_READ_CRC_L" "payload_len (frame q) = ?n" "last_byte_time q = last_time ?t (map snd xs2)"
        "crc_calculated q = llp_crc (crc_calculated p) (b # bs)"
        "take (unat ?n) (payload (frame q)) = take ?i (payload (frame p)) @ b # bs"
      using Cons.IH [of p1 xs2] r1 Cons.prems(4,6) f2 tm(2) by auto
    with r1 False xs show ?thesis by (auto simp: llp_run_append)
  qed
qed simp

text \<open>The checksum bytes: the parser compares and returns.\<close>

lemma llp_run_crc:
  assumes rd: "llp_reading p" and st: "state p = LLP_STATE_READ_CRC_L"
    and fst: "map fst xs = concat (map stuff (len_bytes16 c))"
    and time: "timely (last_byte_time p) (map snd xs)"
  shows "\<exists>rs q. llp_run p xs = (rs @ [if c = crc_calculated p then 1 else -1], q)
    \<and> set rs \<subseteq> {0} \<and> state q = LLP_STATE_WAIT_MAGIC1 \<and> frame q = frame p
    \<and> escape_pending q = 0
    \<and> (c \<noteq> crc_calculated p \<longrightarrow> error_code q = LLP_ERR_CHECKSUM)"
proof -
  let ?lo = "ucast (c AND 0xFF) :: u8" and ?hi = "ucast (drop_bit 8 c) :: u8"
  obtain xs1 xs2 where xs: "xs = xs1 @ xs2" and f1: "map fst xs1 = stuff ?lo"
    and f2: "map fst xs2 = stuff ?hi"
    using fst by (auto simp: map_eq_append_conv len_bytes16_def)
  let ?t = "last_time (last_byte_time p) (map snd xs1)"
  have tm: "timely (last_byte_time p) (map snd xs1)" "timely ?t (map snd xs2)"
    using time xs by auto
  define p1 where
    "p1 = p\<lparr>last_byte_time := ?t, crc_received := ucast ?lo, state := LLP_STATE_READ_CRC_H\<rparr>"
  have "llp_dispatch (p\<lparr>last_byte_time := ?t\<rparr>) ?lo = (0, p1)"
    using st by (simp add: llp_dispatch_def p1_def grbl_consts)
  from llp_run_stuff_next [OF rd f1 tm(1) this]
  obtain rs1 where r1: "llp_run p xs1 = (rs1 @ [0], p1)" "set rs1 \<subseteq> {0}" by auto
  have rd1: "llp_reading p1" "timely (last_byte_time p1) (map snd xs2)"
    using rd tm by (simp_all add: llp_reading_def p1_def grbl_consts)
  obtain r q where d: "llp_dispatch
      (p1\<lparr>last_byte_time := last_time (last_byte_time p1) (map snd xs2)\<rparr>) ?hi = (r, q)"
    by fastforce
  from llp_run_stuff_next [OF rd1(1) f2 rd1(2) d]
  obtain rs2 where r2: "llp_run p1 xs2 = (rs2 @ [r], q)" "set rs2 \<subseteq> {0}" by auto
  have "r = (if c = crc_calculated p then 1 else -1) \<and> state q = LLP_STATE_WAIT_MAGIC1
      \<and> frame q = frame p \<and> escape_pending q = 0
      \<and> (c \<noteq> crc_calculated p \<longrightarrow> error_code q = LLP_ERR_CHECKSUM)"
    using d by (auto simp: llp_dispatch_def p1_def grbl_consts Let_def llp_parser_reset_def
        split: if_splits)
  with r1 r2 xs show ?thesis by (auto simp: llp_run_append)
qed

section \<open>A frame with an arbitrary checksum\<close>

definition frame_with_crc :: "u8 list \<Rightarrow> u16 \<Rightarrow> u8 list" where
  "frame_with_crc pl c =
     [LLP_MAGIC_1, LLP_MAGIC_2] @ concat (map stuff (frame_body pl @ len_bytes16 c))"

lemma frame_bytes_with_crc: "frame_bytes pl = frame_with_crc pl (llp_crc llp_crc_sync (frame_body pl))"
  by (simp add: frame_bytes_def frame_with_crc_def)

lemma map_fst_split3:
  assumes "map f xs = a @ b @ c"
  obtains xa xb xc where "xs = xa @ xb @ xc" "map f xa = a" "map f xb = b" "map f xc = c"
proof -
  obtain xa x1 where 1: "xs = xa @ x1" "a = map f xa" "b @ c = map f x1"
    using assms unfolding map_eq_append_conv by blast
  obtain xb xc where 2: "x1 = xb @ xc" "b = map f xb" "c = map f xc"
    using 1(3) [symmetric] unfolding map_eq_append_conv by blast
  from 1 2 show ?thesis by (intro that) simp_all
qed

text \<open>The sync bytes and the length.\<close>

lemma llp_run_header:
  assumes wf: "llp_parser_wf p" and esc: "escape_pending p = 0" and n: "n \<le> LLP_MAX_PAYLOAD"
    and fst: "map fst xs = [LLP_MAGIC_1, LLP_MAGIC_2] @ stuff (ucast (n AND 0xFF)) @ stuff (ucast (drop_bit 8 n))"
    and time: "timely (last_byte_time p) (map snd xs)"
  shows "\<exists>rs q. llp_run p xs = (rs, q) \<and> 1 \<notin> set rs \<and> llp_reading q \<and> length (payload (frame q)) = 64
    \<and> payload_len (frame q) = n \<and> payload_idx q = 0 \<and> crc_calculated q = llp_crc llp_crc_sync (len_bytes16 n)
    \<and> state q = (if n = 0 then LLP_STATE_READ_CRC_L else LLP_STATE_READ_PAYLOAD)
    \<and> last_byte_time q = last_time (last_byte_time p) (map snd xs)"
proof -
  let ?lo = "ucast (n AND 0xFF) :: u8" and ?hi = "ucast (drop_bit 8 n) :: u8"
  obtain xa xb xc where xs: "xs = xa @ xb @ xc" and fa: "map fst xa = [LLP_MAGIC_1, LLP_MAGIC_2]"
    and fb: "map fst xb = stuff ?lo" and fc: "map fst xc = stuff ?hi"
    using fst by (rule map_fst_split3)
  obtain ra pa where A: "llp_run p xa = (ra, pa)" by fastforce
  have tm: "timely (last_byte_time p) (map snd xa)"
    "timely (last_time (last_byte_time p) (map snd xa)) (map snd (xb @ xc))"
    using time xs by auto
  note pa = llp_run_sync [OF esc fa tm(1) A]
  obtain r1 pb where db: "llp_dispatch
      (pa\<lparr>last_byte_time := last_time (last_byte_time pa) (map snd xb)\<rparr>) ?lo = (r1, pb)" by fastforce
  obtain rb where B: "llp_run pa xb = (rb @ [r1], pb)" "set rb \<subseteq> {0}"
    using llp_run_stuff_next [OF _ fb _ db] pa tm(2) by auto
  obtain r2 pc where dc: "llp_dispatch
      (pb\<lparr>last_byte_time := last_time (last_byte_time pb) (map snd xc)\<rparr>) ?hi = (r2, pc)" by fastforce
  have st: "state (pa\<lparr>last_byte_time := last_time (last_byte_time pa) (map snd xb)\<rparr>) = LLP_STATE_READ_LEN_L"
    using pa by simp
  note L = llp_dispatch_len [OF st n db dc]
  have rdb: "llp_reading pb" "timely (last_byte_time pb) (map snd xc)"
    using L pa tm(2) by (auto simp: llp_reading_def grbl_consts)
  obtain rc where C: "llp_run pb xc = (rc @ [r2], pc)" "set rc \<subseteq> {0}"
    using llp_run_stuff_next [OF rdb(1) fc rdb(2) dc] by auto
  have "llp_run p xs = (ra @ (rb @ [r1]) @ rc @ [r2], pc)" using A B(1) C(1) unfolding xs by (simp add: llp_run_append)
  moreover have "1 \<notin> set (ra @ (rb @ [r1]) @ rc @ [r2])" using pa B(2) C(2) L by auto
  moreover have "length (payload (frame pc)) = 64" using L pa wf by (simp add: llp_parser_wf_def LLP_MAX_PAYLOAD_def)
  ultimately show ?thesis using L pa by (auto simp: llp_reading_def grbl_consts xs)
qed

text \<open>The payload of a frame, if it has one.\<close>

lemma llp_run_content:
  assumes rd: "llp_reading p" and st: "state p = (if pl = [] then LLP_STATE_READ_CRC_L else LLP_STATE_READ_PAYLOAD)"
    and sizes: "length (payload (frame p)) = 64" "length pl \<le> 64" "unat (payload_len (frame p)) = length pl" "payload_idx p = 0"
    and xs: "map fst xs = concat (map stuff pl)" "timely (last_byte_time p) (map snd xs)"
  shows "\<exists>rs q. llp_run p xs = (rs, q) \<and> set rs \<subseteq> {0} \<and> llp_reading q
    \<and> state q = LLP_STATE_READ_CRC_L \<and> payload_len (frame q) = payload_len (frame p)
    \<and> last_byte_time q = last_time (last_byte_time p) (map snd xs)
    \<and> crc_calculated q = llp_crc (crc_calculated p) pl \<and> take (length pl) (payload (frame q)) = pl"
proof (cases "pl = []")
  case True
  then have "xs = []" using xs(1) by simp
  with True rd st show ?thesis by auto
next
  case False
  have "payload_len (frame p) \<le> 64" using sizes by (simp add: word_le_nat_alt)
  with False rd st sizes xs show ?thesis using llp_run_payload [of p pl xs] by auto
qed

text \<open>
  From any well-formed state with no escape pending, in the middle of another frame or not, a
  complete frame whose bytes arrive in time is accepted exactly when its checksum is right; no
  byte before the last reports a frame.
\<close>

lemma llp_run_frame:
  assumes wf: "llp_parser_wf p" and esc: "escape_pending p = 0" and len: "length pl \<le> 64"
    and fst: "map fst xs = frame_with_crc pl c"
    and time: "timely (last_byte_time p) (map snd xs)"
  shows "\<exists>rs q. llp_run p xs =
      (rs @ [if c = llp_crc llp_crc_sync (frame_body pl) then 1 else -1], q)
    \<and> 1 \<notin> set rs \<and> state q = LLP_STATE_WAIT_MAGIC1
    \<and> escape_pending q = 0 \<and> unat (payload_len (frame q)) = length pl
    \<and> take (length pl) (payload (frame q)) = pl
    \<and> (c \<noteq> llp_crc llp_crc_sync (frame_body pl) \<longrightarrow> error_code q = LLP_ERR_CHECKSUM)"
proof -
  define n :: u16 where "n = of_nat (length pl)"
  have n: "unat n = length pl" "n \<le> LLP_MAX_PAYLOAD"
    using len by (simp_all add: n_def word_le_nat_alt unat_of_nat LLP_MAX_PAYLOAD_def)
  let ?lo = "ucast (n AND 0xFF) :: u8" and ?hi = "ucast (drop_bit 8 n) :: u8"
  have "map fst xs = ([LLP_MAGIC_1, LLP_MAGIC_2] @ stuff ?lo @ stuff ?hi) @ concat (map stuff pl) @ concat (map stuff (len_bytes16 c))"
    using fst by (simp add: frame_with_crc_def frame_body_def len_bytes16_def n_def)
  then obtain xc xd xe where xs: "xs = xc @ xd @ xe"
    and fc: "map fst xc = [LLP_MAGIC_1, LLP_MAGIC_2] @ stuff ?lo @ stuff ?hi" and fd: "map fst xd = concat (map stuff pl)"
    and fe: "map fst xe = concat (map stuff (len_bytes16 c))"
    by (rule map_fst_split3)
  have tm: "timely (last_byte_time p) (map snd xc)"
    "timely (last_time (last_byte_time p) (map snd xc)) (map snd (xd @ xe))"
    using time xs by auto
  obtain rc pc where C: "llp_run p xc = (rc, pc)" "1 \<notin> set rc" "llp_reading pc" "length (payload (frame pc)) = 64"
    "payload_len (frame pc) = n" "payload_idx pc = 0" "crc_calculated pc = llp_crc llp_crc_sync (len_bytes16 n)"
    "state pc = (if n = 0 then LLP_STATE_READ_CRC_L else LLP_STATE_READ_PAYLOAD)"
    "last_byte_time pc = last_time (last_byte_time p) (map snd xc)"
    using llp_run_header [OF wf esc n(2) fc tm(1)] by blast
  have "n = 0 \<longleftrightarrow> pl = []" using n(1) by (auto simp: word_unat_eq_iff)
  then obtain rd pd where D: "llp_run pc xd = (rd, pd)" "set rd \<subseteq> {0}" "llp_reading pd"
      "state pd = LLP_STATE_READ_CRC_L" "payload_len (frame pd) = n"
      "last_byte_time pd = last_time (last_byte_time pc) (map snd xd)"
      "crc_calculated pd = llp_crc llp_crc_sync (frame_body pl)" "take (length pl) (payload (frame pd)) = pl"
    using llp_run_content [of pc pl xd] C len n(1) fd tm(2) by (auto simp: frame_body_def n_def)
  have te: "timely (last_byte_time pd) (map snd xe)" using tm(2) C(9) D(6) by simp
  from llp_run_crc [OF D(3,4) fe te] D(7)
  obtain re pe where E: "llp_run pd xe =
      (re @ [if c = llp_crc llp_crc_sync (frame_body pl) then 1 else -1], pe)" "set re \<subseteq> {0}"
      "state pe = LLP_STATE_WAIT_MAGIC1" "frame pe = frame pd" "escape_pending pe = 0"
      "c \<noteq> llp_crc llp_crc_sync (frame_body pl) \<longrightarrow> error_code pe = LLP_ERR_CHECKSUM" by auto
  have "llp_run p xs = ((rc @ rd @ re) @ [if c = llp_crc llp_crc_sync (frame_body pl) then 1 else -1], pe)"
    using C(1) D(1) E(1) unfolding xs by (simp add: llp_run_append)
  moreover have "1 \<notin> set (rc @ rd @ re)" using C(2) D(2) E(2) by auto
  ultimately show ?thesis using D E n by auto
qed

end
