(* ===== verification/Llp_Crc.thy ===== *)
theory Llp_Crc
  imports Llp_Codec
begin

text \<open>
  Error detection of the CRC: the register update is linear and injective, so a change confined
  to one byte, or to two neighbouring bytes, always changes the checksum.
\<close>

section \<open>The register update\<close>

lemma test_bit15: "x AND 0x8000 \<noteq> 0 \<longleftrightarrow> bit x 15" for x :: u16
  using and_exp_eq_0_iff_not_bit [of x 15] by simp

lemma xor_cancel_left [simp]: "c XOR a = c XOR b \<longleftrightarrow> a = b" for a b c :: "'a::len word"
  by (metis xor.assoc xor.left_neutral xor_self_eq)

lemma xor_cancel_right [simp]: "a XOR c = b XOR c \<longleftrightarrow> a = b" for a b c :: "'a::len word"
  by (simp add: xor.commute [of _ c])

lemma llp_crc_bit_alt: "llp_crc_bit x = push_bit 1 x XOR (if bit x 15 then 0x1021 else 0)"
  by (simp add: llp_crc_bit_def test_bit15)

lemma llp_crc_bit_xor: "llp_crc_bit (x XOR y) = llp_crc_bit x XOR llp_crc_bit y"
  by (rule bit_word_eqI) (auto simp: llp_crc_bit_alt bit_simps)

lemma llp_crc_bit_inj: "llp_crc_bit x = llp_crc_bit y \<Longrightarrow> x = y"
proof -
  assume eq: "llp_crc_bit x = llp_crc_bit y"
  have "bit (llp_crc_bit z) 0 = bit z 15" for z
    by (simp add: llp_crc_bit_alt bit_simps bit_0 even_xor_iff)
  with eq have top: "bit x 15 = bit y 15" by metis
  with eq have "push_bit 1 x = push_bit 1 y"
    by (simp add: llp_crc_bit_alt split: if_splits)
  then have "bit (push_bit 1 x) (Suc n) = bit (push_bit 1 y) (Suc n)" for n by simp
  then have low: "bit x n = bit y n" if "n < 15" for n
    using that unfolding bit_push_bit_iff by (auto simp: exp_eq_zero_iff)
  show ?thesis
  proof (rule bit_word_eqI)
    fix n assume "n < LENGTH(16)"
    then have "n < 15 \<or> n = 15" by auto
    then show "bit x n = bit y n" using low top by auto
  qed
qed

section \<open>Eight steps\<close>

lemma crc_steps_inj: "(llp_crc_bit ^^ n) x = (llp_crc_bit ^^ n) y \<Longrightarrow> x = y"
proof -
  have "inj llp_crc_bit" by (rule injI) (rule llp_crc_bit_inj)
  then have "inj (llp_crc_bit ^^ n)" by (rule inj_fn)
  then show "(llp_crc_bit ^^ n) x = (llp_crc_bit ^^ n) y \<Longrightarrow> x = y" by (rule injD)
qed

lemma crc_steps_xor:
  "(llp_crc_bit ^^ n) (x XOR y) = (llp_crc_bit ^^ n) x XOR (llp_crc_bit ^^ n) y"
  by (induction n) (simp_all add: llp_crc_bit_xor)

lemma llp_crc16_update_inj:
  assumes "llp_crc16_update c b = llp_crc16_update c' b'"
  shows "c XOR push_bit 8 (ucast b) = c' XOR push_bit 8 (ucast b')"
  using assms unfolding llp_crc16_update_def by (rule crc_steps_inj)

lemma llp_crc16_update_inj_crc: "llp_crc16_update c b = llp_crc16_update c' b \<Longrightarrow> c = c'"
  by (drule llp_crc16_update_inj) simp

lemma push_ucast_inj: "push_bit 8 (ucast b :: u16) = push_bit 8 (ucast b') \<longleftrightarrow> b = b'" for b b' :: u8
proof
  assume eq: "push_bit 8 (ucast b :: u16) = push_bit 8 (ucast b')"
  show "b = b'"
  proof (rule bit_word_eqI)
    fix n assume "n < LENGTH(8)"
    moreover have "bit (push_bit 8 (ucast b :: u16)) (n + 8) = bit (push_bit 8 (ucast b' :: u16)) (n + 8)"
      by (simp only: eq)
    ultimately show "bit b n = bit b' n" by (simp add: bit_simps)
  qed
qed simp

lemma llp_crc16_update_inj_byte: "llp_crc16_update c b = llp_crc16_update c b' \<Longrightarrow> b = b'"
  by (drule llp_crc16_update_inj) (simp add: push_ucast_inj)

lemma llp_crc_inj: "llp_crc c bs = llp_crc c' bs \<Longrightarrow> c = c'"
  by (induction bs arbitrary: c c') (auto dest: llp_crc16_update_inj_crc)

text \<open>The eight steps move a register that holds a byte in its low half to the high half.\<close>

lemma crc_shift_low:
  "n \<le> 8 \<Longrightarrow> (llp_crc_bit ^^ n) (ucast (b :: u8)) = push_bit n (ucast b)"
proof (induction n)
  case (Suc n)
  then have top: "\<not> bit (push_bit n (ucast b) :: u16) 15"
    by (auto simp: bit_simps dest!: bit_imp_le_length)
  have "(llp_crc_bit ^^ Suc n) (ucast b) = llp_crc_bit (push_bit n (ucast b))"
    using Suc by (simp del: push_bit_eq_mult)
  also have "\<dots> = push_bit 1 (push_bit n (ucast b))"
    using top by (simp only: llp_crc_bit_alt if_False xor.right_neutral)
  finally show ?case by (simp add: push_bit_eq_mult)
qed simp

lemma llp_crc_two_inj:
  assumes "llp_crc c [a, b] = llp_crc c [a', b']"
  shows "a = a' \<and> b = b'"
proof -
  have fold: "(llp_crc_bit ^^ 8) (c XOR push_bit 8 (ucast a)) XOR push_bit 8 (ucast b)
      = (llp_crc_bit ^^ 8) (c XOR push_bit 8 (ucast a) XOR ucast b)" for a b :: u8
    using crc_shift_low [of 8 b] by (simp add: crc_steps_xor xor.assoc)
  from assms have "llp_crc16_update (llp_crc16_update c a) b =
      llp_crc16_update (llp_crc16_update c a') b'" by simp
  then have "llp_crc16_update c a XOR push_bit 8 (ucast b) =
      llp_crc16_update c a' XOR push_bit 8 (ucast b')" by (rule llp_crc16_update_inj)
  then have "(llp_crc_bit ^^ 8) (c XOR push_bit 8 (ucast a) XOR ucast b) =
      (llp_crc_bit ^^ 8) (c XOR push_bit 8 (ucast a') XOR ucast b')"
    by (simp only: llp_crc16_update_def fold)
  then have "c XOR push_bit 8 (ucast a) XOR ucast b = c XOR push_bit 8 (ucast a') XOR ucast b'"
    by (rule crc_steps_inj)
  then have eq: "push_bit 8 (ucast a :: u16) XOR ucast b = push_bit 8 (ucast a') XOR ucast b'"
    by (simp add: xor.assoc)
  have hi: "bit a n = bit a' n" if "n < 8" for n
    using that arg_cong [OF eq, of "\<lambda>w. bit w (n + 8)"]
    by (auto simp: bit_simps dest: bit_imp_le_length)
  have lo: "bit b n = bit b' n" if "n < 8" for n
    using that arg_cong [OF eq, of "\<lambda>w. bit w n"] by (simp add: bit_simps)
  show ?thesis by (auto intro!: bit_word_eqI simp: hi lo)
qed

section \<open>Payloads\<close>

lemma llp_crc_detects_burst:
  assumes "llp_crc c (xs @ [a, b] @ ys) = llp_crc c (xs @ [a', b'] @ ys)"
  shows "a = a' \<and> b = b'"
proof -
  from assms have "llp_crc (llp_crc (llp_crc c xs) [a, b]) ys
      = llp_crc (llp_crc (llp_crc c xs) [a', b']) ys" by simp
  then have "llp_crc (llp_crc c xs) [a, b] = llp_crc (llp_crc c xs) [a', b']" by (rule llp_crc_inj)
  then show ?thesis by (rule llp_crc_two_inj)
qed

lemma llp_crc_detects_byte:
  assumes "llp_crc c (xs @ [a] @ ys) = llp_crc c (xs @ [a'] @ ys)"
  shows "a = a'"
proof -
  from assms have "llp_crc (llp_crc16_update (llp_crc c xs) a) ys
      = llp_crc (llp_crc16_update (llp_crc c xs) a') ys" by simp
  then have "llp_crc16_update (llp_crc c xs) a = llp_crc16_update (llp_crc c xs) a'"
    by (rule llp_crc_inj)
  then show ?thesis by (rule llp_crc16_update_inj_byte)
qed

text \<open>A run of at most two changed bytes.\<close>

lemma llp_crc_detects_run:
  assumes "llp_crc c (xs @ ds @ ys) = llp_crc c (xs @ ds' @ ys)" and "length ds \<le> 2" and "length ds' = length ds"
  shows "ds' = ds"
proof -
  from assms(2,3) consider "ds = []" "ds' = []" | a a' where "ds = [a]" "ds' = [a']"
    | a b a' b' where "ds = [a, b]" "ds' = [a', b']"
    by (cases ds; cases ds'; cases "tl ds"; cases "tl ds'") auto
  then show ?thesis
    using assms(1) llp_crc_detects_byte [of c xs] llp_crc_detects_burst [of c xs] by cases metis+
qed

end
