(* ===== verification/Llp_Layers.thy ===== *)
theory Llp_Layers
  imports Llp_Codec
begin

text \<open>
  The layer-chain walk: where it ends it points inside the payload and depends on nothing beyond
  it; it ends on every payload without an extended metadata length near 65536, and for one valid
  four-byte payload it never ends, because \<open>pos + meta_len\<close> wraps at 16 bits.
\<close>

section \<open>Single steps\<close>

lemma read_meta_len_cases:
  assumes "llp_read_meta_len buf tot pos = (k, m)" and "k \<noteq> 0"
  shows "pos < tot \<and> (k = 1 \<and> m \<le> 254 \<and> m = ucast (buf ! unat pos) \<or>
    k = 3 \<and> buf ! unat pos = 0xFF \<and> pos + 3 \<le> tot)"
proof -
  have "(ucast b :: u16) \<le> 254" if "b < 255" for b :: u8
    using that by (simp add: word_le_nat_alt word_less_nat_alt unsigned_ucast_eq take_bit_eq_mod)
  moreover have "b = 255" if "\<not> b < 255" for b :: u8
    using that unat_u8 [of b] by (simp add: word_less_nat_alt word_unat_eq_iff)
  ultimately show ?thesis
    using assms by (auto simp: llp_read_meta_len_def not_le not_less split: if_splits)
qed

lemma llp_final_walk_final:
  "pos < tot \<Longrightarrow> buf ! unat pos = 0 \<Longrightarrow>
   llp_final_walk buf tot pos = Some (Some (pos + 1, tot - (pos + 1)))"
  by (subst llp_final_walk.simps) (simp add: LLP_LAYER_IS_FINAL_def LLP_LAYER_ID_FINAL_def Let_def)

section \<open>The pointer returned\<close>

text \<open>The pointer and the length describe a suffix of the payload.\<close>

lemma llp_final_walk_suffix:
  assumes "llp_final_walk buf tot pos = Some r"
  shows "\<forall>q n. r = Some (q, n) \<longrightarrow> 0 < unat q \<and> unat q + unat n = unat tot"
proof (rule llp_final_walk.raw_induct [OF _ assms])
  fix f :: "u8 list \<Rightarrow> u16 \<Rightarrow> u16 \<Rightarrow> (u16 \<times> u16) option option" and buf tot pos r
  assume IH: "\<And>buf tot pos r. f buf tot pos = Some r \<Longrightarrow>
      \<forall>q n. r = Some (q, n) \<longrightarrow> 0 < unat q \<and> unat q + unat n = unat tot"
    and eq: "(if pos < tot then
        let layer_id = buf ! unat pos; pos = pos + 1 in
        if LLP_LAYER_IS_FINAL layer_id then Some (Some (pos, tot - pos))
        else
          let (len_bytes, meta_len) = llp_read_meta_len buf tot pos in
          if len_bytes = 0 then Some None
          else
            let pos = pos + ucast len_bytes in
            if pos + meta_len > tot then Some None
            else if LLP_LAYER_IS_TRANSFORM layer_id then Some None
            else f buf tot (pos + meta_len)
      else Some None) = Some r"
  have fin: "0 < unat (pos + 1) \<and> unat (pos + 1) + unat (tot - (pos + 1)) = unat tot" if "pos < tot"
  proof -
    have "unat (pos + 1) = Suc (unat pos)"
      using that unat_u16 [of tot] by (intro unat_Suc16) (simp add: word_less_nat_alt)
    moreover have "unat (tot - (pos + 1)) = unat tot - unat (pos + 1)"
      using inc_le [OF that] by (rule unat_sub)
    ultimately show ?thesis using that by (simp add: word_less_nat_alt)
  qed
  show "\<forall>q n. r = Some (q, n) \<longrightarrow> 0 < unat q \<and> unat q + unat n = unat tot"
    using eq fin by (auto simp: Let_def split: if_splits prod.splits dest: IH)
qed

section \<open>No read beyond the payload\<close>

lemma unat_small_add:
  "unat pos < 64 \<Longrightarrow> unat (pos + 1) = unat pos + 1 \<and> unat (pos + 2) = unat pos + 2
    \<and> unat (pos + 3) = unat pos + 3" for pos :: u16
  by (simp add: unat_word_ariths)

lemma read_meta_len_cong:
  assumes small: "unat tot \<le> 64" and eq: "\<And>i. i < unat tot \<Longrightarrow> buf ! i = buf' ! i"
  shows "llp_read_meta_len buf tot pos = llp_read_meta_len buf' tot pos"
proof (cases "pos < tot")
  case True
  then have p: "unat pos < unat tot" "unat pos < 64" using small by (auto simp: word_less_nat_alt)
  show ?thesis
    using True eq p unat_small_add [OF p(2)]
    by (auto simp: llp_read_meta_len_def word_le_nat_alt word_less_nat_alt not_le not_less)
qed (simp add: llp_read_meta_len_def not_less)

lemma llp_final_walk_cong_half:
  assumes "llp_final_walk buf tot pos = Some r"
    and "unat tot \<le> 64" and "\<And>i. i < unat tot \<Longrightarrow> buf ! i = buf' ! i"
  shows "llp_final_walk buf' tot pos = Some r"
proof -
  have "unat tot \<le> 64 \<longrightarrow> (\<forall>i < unat tot. buf ! i = buf' ! i) \<longrightarrow>
      llp_final_walk buf' tot pos = Some r"
  proof (rule llp_final_walk.raw_induct
      [where P = "\<lambda>buf tot pos r. unat tot \<le> 64 \<longrightarrow> (\<forall>i < unat tot. buf ! i = buf' ! i) \<longrightarrow>
        llp_final_walk buf' tot pos = Some r", OF _ assms(1)], intro impI, goal_cases)
    case (1 f buf tot pos r)
    have eq: "pos < tot \<Longrightarrow> buf ! unat pos = buf' ! unat pos"
      using 1(4) by (simp add: word_less_nat_alt)
    have meta: "llp_read_meta_len buf' tot pos' = llp_read_meta_len buf tot pos'" for pos'
      using 1(3,4) by (intro read_meta_len_cong) simp_all
    show ?case
      using 1(1,2,3,4) eq meta
      by (subst llp_final_walk.simps) (auto simp: Let_def split: if_splits prod.splits)
  qed
  then show ?thesis using assms(2,3) by blast
qed

lemma llp_final_walk_cong:
  assumes "unat tot \<le> 64" and "\<And>i. i < unat tot \<Longrightarrow> buf ! i = buf' ! i"
  shows "llp_final_walk buf tot pos = llp_final_walk buf' tot pos"
proof (cases "llp_final_walk buf tot pos")
  case None
  then show ?thesis
    using llp_final_walk_cong_half [of buf' tot pos _ buf] assms by (cases "llp_final_walk buf' tot pos") auto
next
  case (Some r)
  then show ?thesis using llp_final_walk_cong_half [OF Some assms] by simp
qed

section \<open>Ending and not ending\<close>

text \<open>
  The layers that the walk passes, down to the final one: none of them has an extended length above
  65471, the greatest that cannot wrap around behind a position of at most 64. What the metadata and the final data
  contain does not matter.
\<close>

fun layer_lengths_ok :: "u8 list \<Rightarrow> bool" where
  "layer_lengths_ok (layer # len # rest) =
     (if layer = LLP_LAYER_ID_FINAL then True
      else if len \<noteq> 0xFF then layer_lengths_ok (drop (unat len) rest)
      else case rest of
          hi # lo # rest \<Rightarrow> 256 * unat hi + unat lo \<le> 65471 \<and> layer_lengths_ok (drop (256 * unat hi + unat lo) rest)
        | _ \<Rightarrow> True)"
| "layer_lengths_ok _ = True"

lemma extended_length: "unat (push_bit 8 (ucast (hi :: u8)) OR ucast (lo :: u8) :: u16) = 256 * unat hi + unat lo"
proof -
  have "push_bit 8 (ucast hi) OR ucast lo = (push_bit 8 (ucast hi) + ucast lo :: u16)"
    by (rule disjunctive_add_eq_or [symmetric]) (rule bit_word_eqI, auto simp: bit_simps dest: bit_imp_le_length)
  moreover have "unat (push_bit 8 (ucast hi) :: u16) = 256 * unat hi"
    using unat_u8 [of hi] by (simp add: push_bit_eq_mult unat_word_ariths unsigned_ucast_eq take_bit_eq_mod)
  moreover have "unat (ucast lo :: u16) = unat lo"
    using unat_u8 [of lo] by (simp add: unsigned_ucast_eq take_bit_eq_mod)
  ultimately show ?thesis using unat_u8 [of hi] unat_u8 [of lo] by (simp add: unat_word_ariths)
qed

text \<open>One step of the walk, to a position that is further on.\<close>

lemma walk_advances:
  assumes "unat tot \<le> 64" and "pos < tot" and "unat tot \<le> length buf"
    and "layer_lengths_ok (drop (unat pos) (take (unat tot) buf))" and "buf ! unat pos \<noteq> LLP_LAYER_ID_FINAL"
    and "llp_read_meta_len buf tot (pos + 1) = (k, m)" and "k \<noteq> 0"
    and "\<not> tot < pos + 1 + ucast k + m"
  shows "unat pos < unat (pos + 1 + ucast k + m) \<and> unat (pos + 1 + ucast k + m) \<le> unat tot
    \<and> layer_lengths_ok (drop (unat (pos + 1 + ucast k + m)) (take (unat tot) buf))"
proof -
  let ?d = "\<lambda>i. drop i (take (unat tot) buf)" and ?p = "unat pos"
  have p: "?p < unat tot" "?p < 64" using assms(1,2) by (auto simp: word_less_nat_alt)
  note small = unat_small_add [OF p(2)]
  have c: "?p + 1 < unat tot" "k = 1 \<and> m = ucast (buf ! (?p + 1)) \<and> buf ! (?p + 1) \<noteq> 0xFF \<or> k = 3
      \<and> buf ! (?p + 1) = 0xFF \<and> ?p + 4 \<le> unat tot"
    using read_meta_len_cases [OF assms(6,7)] small assms(1) by (auto simp: word_less_nat_alt word_le_nat_alt unat_word_ariths)
  have d: "?d i = buf ! i # ?d (Suc i)" if "i < unat tot" for i
    using that assms(3) by (subst Cons_nth_drop_Suc [symmetric]) simp_all
  show ?thesis
  proof (cases "k = 1")
    case True
    with c have m: "m = ucast (buf ! (?p + 1))" "buf ! (?p + 1) \<noteq> 0xFF" by auto
    have next_pos: "unat (pos + 1 + ucast k + m) = ?p + 2 + unat (buf ! (?p + 1))"
      using p(2) unat_u8 [of "buf ! (?p + 1)"] by (simp add: True m unat_word_ariths unsigned_ucast_eq take_bit_eq_mod)
    have "?d ?p = buf ! ?p # buf ! (?p + 1) # ?d (?p + 2)" using d [of ?p] d [of "?p + 1"] p(1) c(1) by simp
    then have "layer_lengths_ok (?d (?p + 2 + unat (buf ! (?p + 1))))"
      using assms(4,5) m(2) by (simp add: add.commute)
    with next_pos assms(8) show ?thesis by (simp add: word_less_nat_alt)
  next
    case False
    with c(2) have k: "k = 3" "buf ! (?p + 1) = 0xFF" "?p + 4 \<le> unat tot" by auto
    let ?l = "256 * unat (buf ! (?p + 2)) + unat (buf ! (?p + 3))"
    have "\<not> tot < pos + 1 + 3 " using k(3) p(2) by (simp add: word_less_nat_alt unat_word_ariths)
    then have m: "unat m = ?l"
      using assms(6,7) k(2) small c(1) extended_length [of "buf ! (?p + 2)" "buf ! (?p + 3)"]
      by (auto simp: llp_read_meta_len_def add.commute word_less_nat_alt split: if_splits)
    have ok: "?l \<le> 65471" "layer_lengths_ok (?d (?p + 4 + ?l))"
    proof -
      have "?d ?p = buf ! ?p # buf ! (?p + 1) # buf ! (?p + 2) # buf ! (?p + 3) # ?d (?p + 4)"
        using d [of ?p] d [of "?p + 1"] d [of "?p + 2"] d [of "?p + 3"] k(3) by (simp add: eval_nat_numeral)
      with assms(4,5) k(2) show "?l \<le> 65471" "layer_lengths_ok (?d (?p + 4 + ?l))"
        by (simp_all add: add.commute add.left_commute)
    qed
    have next_pos: "unat (pos + 1 + ucast k + m) = ?p + 4 + ?l"
      using k m ok(1) p assms(1) by (simp add: unat_word_ariths)
    with ok assms(8) show ?thesis by (simp add: word_less_nat_alt)
  qed
qed

lemma llp_final_walk_ends:
  assumes "unat tot \<le> 64" and "unat tot \<le> length buf" and "layer_lengths_ok (drop (unat pos) (take (unat tot) buf))"
  shows "llp_final_walk buf tot pos \<noteq> None"
  using assms(3)
proof (induction "unat tot - unat pos" arbitrary: pos rule: less_induct)
  case less
  show ?case
  proof (cases "pos < tot \<and> buf ! unat pos \<noteq> LLP_LAYER_ID_FINAL")
    case True
    obtain k m where km: "llp_read_meta_len buf tot (pos + 1) = (k, m)" by fastforce
    have "llp_final_walk buf tot (pos + 1 + ucast k + m) \<noteq> None"
      if "k \<noteq> 0" "\<not> tot < pos + 1 + ucast k + m"
      using walk_advances [OF assms(1) _ assms(2) less.prems _ km that] True by (intro less.hyps) auto
    with True km show ?thesis
      by (subst llp_final_walk.simps) (auto simp: Let_def LLP_LAYER_IS_FINAL_def)
  next
    case False
    then show ?thesis by (subst llp_final_walk.simps) (auto simp: Let_def LLP_LAYER_IS_FINAL_def)
  qed
qed

text \<open>
  The payload \<open>01 FF FF FC\<close>: layer 1 announces 0xFFFC bytes of metadata; from position 4 the
  sum is 0 modulo 65536, which passes the bound check and restarts the walk.
\<close>

lemma llp_final_walk_diverges:
  assumes "take 4 buf = [0x01, 0xFF, 0xFF, 0xFC]"
  shows "llp_final_walk buf 4 0 = None"
proof (rule ccontr)
  assume "llp_final_walk buf 4 0 \<noteq> None"
  then obtain r where r: "llp_final_walk buf 4 0 = Some r" by blast
  have "buf = b0 \<longrightarrow> tot = 4 \<longrightarrow> pos = 0 \<longrightarrow> False"
    if "llp_final_walk buf tot pos = Some r" and b0: "take 4 b0 = [0x01, 0xFF, 0xFF, 0xFC]"
    for buf b0 tot pos r
  proof (rule llp_final_walk.raw_induct
      [where P = "\<lambda>buf tot pos r. buf = b0 \<longrightarrow> tot = 4 \<longrightarrow> pos = 0 \<longrightarrow> False", OF _ that(1)],
      intro impI, goal_cases)
    case (1 f buf tot pos r)
    have b: "b0 ! 0 = 0x01" "b0 ! 1 = 0xFF" "b0 ! 2 = 0xFF" "b0 ! 3 = 0xFC"
      using b0 nth_take [of 0 4 b0] nth_take [of 1 4 b0] nth_take [of 2 4 b0] nth_take [of 3 4 b0]
      by simp_all
    have "llp_read_meta_len b0 4 1 = (3, 0xFFFC)"
      using b by (simp add: llp_read_meta_len_def word_le_nat_alt)
    then have "f b0 4 (4 + 65532) = Some r"
      using 1 b by (simp add: LLP_LAYER_IS_FINAL_def LLP_LAYER_IS_TRANSFORM_def
          LLP_LAYER_ID_FINAL_def word_le_nat_alt)
    moreover have "(4 + 65532 :: u16) = 0" by (simp add: word_unat_eq_iff)
    ultimately have "f b0 4 0 = Some r" by metis
    then show False using 1(1) by blast
  qed
  from this [OF r assms] show False by simp
qed

end
