(* ===== verification/Llp_Properties.thy ===== *)
theory Llp_Properties
  imports Llp_Parser Llp_Crc Llp_Layers
begin

text \<open>
  The properties of the LLP codec: round trip, error detection, resynchronisation and its one
  gap, bounds of builder and parser, and the ends of the layer walk.
\<close>

section \<open>Helpers\<close>

lemma llp_zero_wf [simp]: "llp_parser_wf llp_parser_zero" "escape_pending llp_parser_zero = 0"
    "last_byte_time llp_parser_zero = 0"
  by (simp_all add: llp_parser_zero_def llp_parser_wf_def grbl_consts)

definition at_once :: "u8 list \<Rightarrow> (u8 \<times> u32) list" where
  "at_once bs = map (\<lambda>b. (b, 0)) bs"

lemma at_once_simps [simp]: "map fst (at_once bs) = bs" "timely 0 (map snd (at_once bs))"
proof -
  show "map fst (at_once bs) = bs" by (simp add: at_once_def o_def)
  show "timely 0 (map snd (at_once bs))"
    by (induction bs) (simp_all add: at_once_def LLP_FRAME_TIMEOUT_MS_def)
qed

text \<open>Waiting for a sync sequence, the parser passes over stuffed bytes.\<close>

lemma llp_wait_stuff:
  assumes "state p = LLP_STATE_WAIT_MAGIC1" and "map fst xs = stuff b" and "b \<noteq> LLP_MAGIC_1"
  shows "\<exists>q. llp_run p xs = ([0], q) \<and> state q = LLP_STATE_WAIT_MAGIC1"
  using assms
  by (auto simp: stuff_def llp_parser_process_byte_def llp_unescape_def llp_dispatch_def Let_def)

lemma llp_wait_stuff_magic:
  assumes st: "state p = LLP_STATE_WAIT_MAGIC1" and xs: "map fst xs = [LLP_MAGIC_1, 0]"
  shows "\<exists>rs q. llp_run p xs = (rs, q) \<and> 1 \<notin> set rs \<and> state q = LLP_STATE_WAIT_MAGIC1"
proof -
  obtain t u where x: "xs = [(LLP_MAGIC_1, t), (0, u)]" using xs by auto
  show ?thesis
    unfolding x using st
    by (auto simp: llp_parser_process_byte_def llp_unescape_def llp_dispatch_def Let_def
        llp_parser_reset_def grbl_consts)
qed

lemma llp_wait_stuffed:
  assumes "state p = LLP_STATE_WAIT_MAGIC1" and "map fst xs = concat (map stuff bs)"
  shows "\<exists>rs q. llp_run p xs = (rs, q) \<and> 1 \<notin> set rs"
  using assms
proof (induction bs arbitrary: p xs)
  case (Cons b bs)
  then obtain x1 x2 where xs: "xs = x1 @ x2" "map fst x1 = stuff b" "map fst x2 = concat (map stuff bs)"
    by (auto simp: map_eq_append_conv)
  have "\<exists>rs q. llp_run p x1 = (rs, q) \<and> 1 \<notin> set rs \<and> state q = LLP_STATE_WAIT_MAGIC1"
    using llp_wait_stuff [OF Cons.prems(1) xs(2)] llp_wait_stuff_magic [OF Cons.prems(1)] xs(2)
    by (cases "b = LLP_MAGIC_1") (auto simp: stuff_def)
  then obtain rs q where "llp_run p x1 = (rs, q)" "1 \<notin> set rs" "state q = LLP_STATE_WAIT_MAGIC1"
    by blast
  with Cons.IH [OF _ xs(3)] xs(1) show ?case by (fastforce simp: llp_run_append)
qed simp

text \<open>A result of 1 comes only from the last checksum byte, in a well-formed state.\<close>

lemma llp_accept_len:
  assumes "llp_parser_wf p" and "llp_parser_process_byte p b t = (1, q)"
  shows "unat (payload_len (frame q)) \<le> 64"
  using assms
  by (auto simp: llp_parser_process_byte_def llp_parser_wf_def llp_unescape_def llp_dispatch_def
      llp_parser_reset_def grbl_consts Let_def word_le_nat_alt split: if_splits sum.splits)

lemma llp_run_accepts_len:
  assumes "llp_parser_wf p" and "llp_run p xs = (rs, q)"
  shows "rs \<noteq> [] \<and> last rs = 1 \<Longrightarrow> unat (payload_len (frame q)) \<le> 64"
  using assms
proof (induction p xs arbitrary: rs rule: llp_run.induct)
  case (2 p b t xs)
  obtain r p1 where 1: "llp_parser_process_byte p b t = (r, p1)" by fastforce
  obtain rs' q' where r: "llp_run p1 xs = (rs', q')" by fastforce
  have q: "q' = q" "rs = r # rs'" using 2(4) 1 r by (auto simp: Let_def)
  show ?case
  proof (cases "xs = []")
    case True
    then show ?thesis using llp_accept_len [OF 2(3)] 1 r q 2(2) by auto
  next
    case False
    then obtain x t' ys where "xs = (x, t') # ys" by (cases xs) auto
    then have "rs' \<noteq> []" using r by (auto simp: Let_def split: prod.splits)
    then show ?thesis
      using 2(1) [OF 1 [symmetric] refl, of rs'] 2(2) llp_process_byte_wf [OF 2(3) 1] r q by auto
  qed
qed simp

text \<open>The builder's frame, as the parser sees it.\<close>

lemma llp_frame_accepted:
  assumes "llp_parser_wf p" and "escape_pending p = 0"
    and "length pl = unat n" and "n \<le> LLP_MAX_PAYLOAD"
    and "length out_buf = unat sz" and "LLP_MAX_FRAME_SIZE n \<le> sz"
    and "llp_build_frame out_buf sz pl n = (buf, m)"
    and "map fst xs = take (unat m) buf" and "timely (last_byte_time p) (map snd xs)"
  shows "\<exists>rs q. llp_run p xs = (rs @ [1], q) \<and> 1 \<notin> set rs
    \<and> unat (payload_len (frame q)) = length pl \<and> take (length pl) (payload (frame q)) = pl"
proof -
  from build_frame_refines [OF assms(5,3,4,6,7)] have "take (unat m) buf = frame_bytes pl" by blast
  then have "map fst xs = frame_with_crc pl (llp_crc llp_crc_sync (frame_body pl))"
    using assms(8) by (simp only: frame_bytes_with_crc)
  moreover have "length pl \<le> 64"
    using assms(3,4) by (simp add: LLP_MAX_PAYLOAD_def word_le_nat_alt)
  ultimately show ?thesis
    using llp_run_frame [OF assms(1,2) _ _ assms(9)] by fastforce
qed

lemma llp_build_final_take:
  assumes "length pb = 64" and "unat k \<le> length d" and "unat k < 64"
    and "llp_build_final_payload pb 64 (Some d) k = (pl, n)"
  shows "n = k + 1 \<and> take (unat n) pl = 0 # take (unat k) d \<and> length pl = 64"
proof -
  have k1: "unat (k + 1) = Suc (unat k)" using assms(3) by (simp add: unat_word_ariths)
  obtain x xs where pb: "pb = x # xs" using assms(1) by (cases pb) auto
  show ?thesis
  proof (cases "k = 0")
    case True
    with assms pb show ?thesis by (auto simp: llp_build_final_payload_def LLP_LAYER_ID_FINAL_def)
  next
    case False
    then have "k > 0" by (simp add: word_neq_0_conv)
    with assms pb k1 show ?thesis
      by (auto simp: llp_build_final_payload_def LLP_LAYER_ID_FINAL_def word_less_nat_alt)
  qed
qed

lemma llp_build_final_refines:
  assumes "length pb = 64" and "length d = unat k" and "unat k < 64"
    and "llp_build_final_payload pb 64 (Some d) k = (pl, n)"
  shows "n = k + 1 \<and> take (unat n) pl = 0 # d \<and> length pl = 64"
  using llp_build_final_take [OF assms(1) _ assms(3,4)] assms(2) by auto

lemma sint_small: "unat k < 64 \<Longrightarrow> sint k = int (unat k)" for k :: u16
  unfolding sint_uint uint_nat by (rule signed_take_bit_int_eq_self) (simp_all del: of_nat_unat)

lemma llp_get_final_of_final:
  assumes "unat (payload_len f) = Suc (length d)" and "take (Suc (length d)) (payload f) = 0 # d"
    and "length d = unat k" and "unat k < 64" and "k \<le> sz"
  shows "llp_get_final_payload f ob sz = Some (int (length d), d @ drop (length d) ob)"
proof -
  obtain ys where ys: "payload f = 0 # d @ ys"
    using assms(2) by (metis append_take_drop_id append_Cons)
  have len: "payload_len f = k + 1"
    using assms(1,3,4) by (simp add: word_unat_eq_iff unat_word_ariths)
  have "llp_get_final_payload_ptr f = Some (Some (1, k))"
    unfolding llp_get_final_payload_ptr_def
    using llp_final_walk_final [of 0 "payload_len f" "payload f"] assms(1) ys len
    by (auto simp: word_less_nat_alt)
  moreover have "sint k = int (length d)"
    using sint_small [OF assms(4)] assms(3) by simp
  ultimately show ?thesis
    using ys assms(3,5) by (auto simp: llp_get_final_payload_def dest: leD)
qed

section \<open>Properties\<close>

text \<open>
  C22. Round trip and resynchronisation: whatever the parser was doing, as long as no escape is
  pending, the bytes that \<open>llp_build_frame\<close> writes for a payload of at most 64 bytes, arriving
  without a timeout gap, end in the result 1 with exactly this payload in the frame, and no
  earlier byte reports a frame.
\<close>
theorem llp_frame_roundtrip:
  assumes "llp_parser_wf p" and "escape_pending p = 0"
    and "length pl = unat n" and "n \<le> LLP_MAX_PAYLOAD"
    and "length out_buf = unat sz" and "LLP_MAX_FRAME_SIZE n \<le> sz"
    and "llp_build_frame out_buf sz pl n = (buf, m)"
    and "map fst xs = take (unat m) buf" and "timely (last_byte_time p) (map snd xs)"
  shows "\<exists>rs q. llp_run p xs = (rs @ [1], q) \<and> 1 \<notin> set rs
    \<and> unat (payload_len (frame q)) = length pl \<and> take (length pl) (payload (frame q)) = pl"
  using assms by (rule llp_frame_accepted)

definition witness_payload :: "u8 list" where
  "witness_payload = [0xAA, 0x55, 0x00, 0x47]"

theorem llp_frame_roundtrip_witness:
  "\<exists>rs q. llp_run llp_parser_zero
      (at_once (take (unat (snd (llp_build_frame (replicate 138 0) 138 witness_payload 4)))
        (fst (llp_build_frame (replicate 138 0) 138 witness_payload 4)))) = (rs @ [1], q)
    \<and> take 4 (payload (frame q)) = witness_payload"
proof -
  let ?r = "llp_build_frame (replicate 138 0) 138 witness_payload 4"
  have "\<exists>rs q. llp_run llp_parser_zero (at_once (take (unat (snd ?r)) (fst ?r))) = (rs @ [1], q)
    \<and> 1 \<notin> set rs \<and> unat (payload_len (frame q)) = length witness_payload
    \<and> take (length witness_payload) (payload (frame q)) = witness_payload"
    by (rule llp_frame_roundtrip [where n = 4 and sz = 138 and out_buf = "replicate 138 0"])
      (simp_all add: witness_payload_def LLP_MAX_PAYLOAD_def LLP_MAX_FRAME_SIZE_def)
  moreover have "length witness_payload = 4" by (simp add: witness_payload_def)
  ultimately show ?thesis by metis
qed

text \<open>
  C13. Error detection on the wire: when one byte or two neighbouring bytes of the payload of a frame
  arrive changed, the frame is rejected; its last byte returns -1 with \<open>LLP_ERR_CHECKSUM\<close>. The changed bytes
  must be bytes that travel as they are: neither the sent nor the received ones are 0xAA, so no escape is
  destroyed or forged (lemma \<open>llp_lost_escape_accepted\<close> shows that this is needed).
\<close>
theorem llp_burst_rejected:
  assumes "llp_parser_wf p" and "escape_pending p = 0" and "length (xs @ ds @ ys) \<le> 64"
    and "frame_bytes (xs @ ds @ ys) = front @ ds @ back"
    and "front = [LLP_MAGIC_1, LLP_MAGIC_2] @ concat (map stuff (len_bytes16 (of_nat (length (xs @ ds @ ys))) @ xs))"
    and "length ds \<le> 2" and "length ds' = length ds" and "ds' \<noteq> ds" and "LLP_MAGIC_1 \<notin> set ds \<union> set ds'"
    and "map fst zs = front @ ds' @ back" and "timely (last_byte_time p) (map snd zs)"
  shows "\<exists>rs q. llp_run p zs = (rs @ [-1], q) \<and> 1 \<notin> set rs \<and> error_code q = LLP_ERR_CHECKSUM"
proof -
  have plain: "concat (map stuff bs) = bs" if "LLP_MAGIC_1 \<notin> set bs" for bs
    using that by (induction bs) (auto simp: stuff_def)
  let ?c = "llp_crc llp_crc_sync (frame_body (xs @ ds @ ys))"
  have "map fst zs = frame_with_crc (xs @ ds' @ ys) ?c"
    using assms(4,5,7,9,10) plain [of ds] plain [of ds'] by (auto simp: frame_bytes_def frame_with_crc_def frame_body_def)
  moreover have c: "?c \<noteq> llp_crc llp_crc_sync (frame_body (xs @ ds' @ ys))"
    using llp_crc_detects_run [of llp_crc_sync "len_bytes16 (of_nat (length (xs @ ds @ ys))) @ xs" ds ys ds'] assms(6-8)
    by (auto simp: frame_body_def)
  moreover have "length (xs @ ds' @ ys) \<le> 64" using assms(3,7) by simp
  ultimately obtain rs q where "llp_run p zs = (rs @ [-1], q)" "1 \<notin> set rs" "error_code q = LLP_ERR_CHECKSUM"
    using llp_run_frame [OF assms(1,2) _ _ assms(11), of "xs @ ds' @ ys" ?c] by auto
  then show ?thesis by blast
qed

theorem llp_burst_rejected_witness:
  "\<exists>bs rs q. frame_bytes [1, 2, 0xAA, 3] = [0xAA, 0x55, 4, 0, 1, 2, 0xAA, 0] @ [3] @ bs
    \<and> llp_run llp_parser_zero (at_once ([0xAA, 0x55, 4, 0, 1, 2, 0xAA, 0] @ [7] @ bs)) = (rs @ [-1], q)
    \<and> error_code q = LLP_ERR_CHECKSUM"
proof -
  define bs where "bs = concat (map stuff (len_bytes16 (llp_crc llp_crc_sync (frame_body [1, 2, 0xAA, 3]))))"
  have "frame_bytes [1, 2, 0xAA, 3] = [0xAA, 0x55, 4, 0, 1, 2, 0xAA, 0] @ [3] @ bs"
    by (simp add: frame_bytes_def bs_def frame_body_def len_bytes16_def stuff_def grbl_consts del: llp_crc_simps)
  then show ?thesis
    using llp_burst_rejected [of llp_parser_zero "[1, 2, 0xAA]" "[3]" "[]" _ bs "[7]"
        "at_once ([0xAA, 0x55, 4, 0, 1, 2, 0xAA, 0] @ [7] @ bs)", OF _ _ _ _ refl]
    by (auto simp: len_bytes16_def stuff_def grbl_consts)
qed

text \<open>
  A changed 0xAA is another matter: the 0x00 stuffed behind it then counts as payload and every later byte moves
  up by one, the first byte of the checksum into the payload. The receiver accepts a payload that was never sent.
\<close>
lemma llp_lost_escape_accepted:
  "frame_bytes [0x00, 0x6C, 0x3E, 0x25, 0xAA, 0x56, 0x7A, 0x46]
     = [0xAA, 0x55, 8, 0, 0x00, 0x6C, 0x3E, 0x25] @ [0xAA] @ [0, 0x56, 0x7A, 0x46, 0x89, 0x4B]"
  "\<exists>rs q. llp_run llp_parser_zero (at_once ([0xAA, 0x55, 8, 0, 0x00, 0x6C, 0x3E, 0x25] @ [0x41] @ [0, 0x56, 0x7A, 0x46, 0x89]))
     = (rs @ [1], q) \<and> take 8 (payload (frame q)) = [0x00, 0x6C, 0x3E, 0x25, 0x41, 0, 0x56, 0x7A]"
proof -
  have crc: "llp_crc llp_crc_sync (frame_body [0x00, 0x6C, 0x3E, 0x25, 0xAA, 0x56, 0x7A, 0x46]) = 0x4B89"
    "llp_crc llp_crc_sync (frame_body [0x00, 0x6C, 0x3E, 0x25, 0x41, 0, 0x56, 0x7A]) = 0x8946"
    by code_simp+
  show "frame_bytes [0x00, 0x6C, 0x3E, 0x25, 0xAA, 0x56, 0x7A, 0x46]
     = [0xAA, 0x55, 8, 0, 0x00, 0x6C, 0x3E, 0x25] @ [0xAA] @ [0, 0x56, 0x7A, 0x46, 0x89, 0x4B]"
    unfolding frame_bytes_def crc(1) by (simp add: frame_body_def len_bytes16_def stuff_def grbl_consts)
  have "frame_bytes [0x00, 0x6C, 0x3E, 0x25, 0x41, 0, 0x56, 0x7A]
     = [0xAA, 0x55, 8, 0, 0x00, 0x6C, 0x3E, 0x25] @ [0x41] @ [0, 0x56, 0x7A, 0x46, 0x89]"
    unfolding frame_bytes_def crc(2) by (simp add: frame_body_def len_bytes16_def stuff_def grbl_consts)
  then show "\<exists>rs q. llp_run llp_parser_zero (at_once ([0xAA, 0x55, 8, 0, 0x00, 0x6C, 0x3E, 0x25] @ [0x41] @ [0, 0x56, 0x7A, 0x46, 0x89]))
     = (rs @ [1], q) \<and> take 8 (payload (frame q)) = [0x00, 0x6C, 0x3E, 0x25, 0x41, 0, 0x56, 0x7A]"
    using llp_run_frame [where p = llp_parser_zero and c = "0x8946" and pl = "[0x00, 0x6C, 0x3E, 0x25, 0x41, 0, 0x56, 0x7A]"
        and xs = "at_once ([0xAA, 0x55, 8, 0, 0x00, 0x6C, 0x3E, 0x25] @ [0x41] @ [0, 0x56, 0x7A, 0x46, 0x89])"] crc(2)
    by (auto simp: frame_bytes_with_crc numeral_eq_Suc simp del: llp_run.simps llp_crc_simps)
qed

text \<open>
  C36. The gap of the resynchronisation: if the stream broke off between a 0xAA and the 0x00
  stuffed behind it (an escape is pending inside a frame), the next complete frame is lost: its
  first 0xAA resets the parser, its 0x55 is skipped and none of its bytes reports a frame.
\<close>
theorem llp_pending_escape_loses_frame:
  assumes "state p \<noteq> LLP_STATE_WAIT_MAGIC1" and "state p \<noteq> LLP_STATE_WAIT_MAGIC2"
    and "escape_pending p \<noteq> 0"
    and "map fst xs = frame_bytes pl" and "timely (last_byte_time p) (map snd xs)"
  shows "1 \<notin> set (fst (llp_run p xs))"
proof -
  let ?body = "frame_body pl @ len_bytes16 (llp_crc llp_crc_sync (frame_body pl))"
  obtain t u ys where xs: "xs = (LLP_MAGIC_1, t) # (LLP_MAGIC_2, u) # ys"
    and ys: "map fst ys = concat (map stuff ?body)"
    using assms(4) by (auto simp: frame_bytes_def)
  let ?q = "llp_parser_reset (p\<lparr>last_byte_time := ucast t, escape_pending := 0, error_code := LLP_ERR_SYNC\<rparr>)"
  have 1: "llp_parser_process_byte p LLP_MAGIC_1 t = (-1, ?q)"
    using assms xs
    by (simp add: llp_parser_process_byte_def llp_unescape_def u16_diff_cut leD LLP_MAGIC_1_def
        LLP_MAGIC_2_def)
  have 2: "llp_parser_process_byte ?q LLP_MAGIC_2 u = (0, ?q\<lparr>last_byte_time := ucast u\<rparr>)"
    by (simp add: llp_parser_process_byte_def llp_unescape_def llp_dispatch_def
        llp_parser_reset_def grbl_consts)
  obtain rs r where "llp_run (?q\<lparr>last_byte_time := ucast u\<rparr>) ys = (rs, r)" "1 \<notin> set rs"
    using llp_wait_stuffed [OF _ ys, of "?q\<lparr>last_byte_time := ucast u\<rparr>"]
    by (auto simp: llp_parser_reset_def)
  then show ?thesis using 1 2 by (simp add: xs)
qed

theorem llp_pending_escape_loses_frame_witness:
  "1 \<notin> set (fst (llp_run (llp_parser_zero\<lparr>state := LLP_STATE_READ_PAYLOAD, escape_pending := 1\<rparr>)
     (at_once (frame_bytes [0, 65]))))"
  by (rule llp_pending_escape_loses_frame [where pl = "[0, 65]"]) (simp_all add: grbl_consts)

text \<open>
  C23. Memory safety of the parser: from initialisation on and for every stream of bytes and every
  timing, the write \<open>payload[payload_idx]\<close> stays inside its array of 64 bytes, and a frame that
  is reported has a length of at most 64.
\<close>
theorem llp_parser_in_bounds:
  assumes "length (payload (frame p)) = 64" and "llp_run (llp_parser_init p) xs = (rs, q)"
  shows "length (payload (frame q)) = 64
    \<and> (state q = LLP_STATE_READ_PAYLOAD \<longrightarrow> unat (payload_idx q) < length (payload (frame q)))
    \<and> (rs \<noteq> [] \<and> last rs = 1 \<longrightarrow> unat (payload_len (frame q)) \<le> 64)"
proof -
  have wf: "llp_parser_wf (llp_parser_init p)"
    using assms(1) by (intro llp_init_wf) (simp add: LLP_MAX_PAYLOAD_def)
  have q: "llp_parser_wf q" by (rule llp_run_wf [OF wf assms(2)])
  then have "length (payload (frame q)) = 64"
    "state q = LLP_STATE_READ_PAYLOAD \<Longrightarrow> unat (payload_idx q) < 64"
    by (auto simp: llp_parser_wf_def LLP_MAX_PAYLOAD_def word_less_nat_alt word_le_nat_alt)
  with llp_run_accepts_len [OF wf assms(2)] show ?thesis by auto
qed

theorem llp_parser_in_bounds_witness:
  "length (payload (frame (snd (llp_run (llp_parser_init llp_parser_zero)
      (at_once [0xAA, 0x55, 1, 0]))))) = 64"
proof -
  have "length (payload (frame llp_parser_zero)) = 64" by (simp add: llp_parser_zero_def)
  from llp_parser_in_bounds [OF this prod.collapse [symmetric]] show ?thesis by blast
qed

text \<open>
  C1. The message level: what the sender passes to \<open>llp_build_final_payload\<close> and
  \<open>llp_build_frame\<close> is what \<open>llp_get_final_payload\<close> of the receiver copies out
  after its parser saw the bytes of the frame, for messages of at most 63 bytes.
\<close>
theorem llp_message_roundtrip:
  assumes "llp_parser_wf p" and "escape_pending p = 0"
    and "length d = unat k" and "k < LLP_MAX_PAYLOAD"
    and "length pb = 64" and "llp_build_final_payload pb 64 (Some d) k = (pl, n)"
    and "length fb = 138" and "llp_build_frame fb 138 (take (unat n) pl) n = (buf, m)"
    and "map fst xs = take (unat m) buf" and "timely (last_byte_time p) (map snd xs)"
    and "k \<le> sz" and "length ob = unat sz"
  shows "\<exists>rs q ob'. llp_run p xs = (rs @ [1], q)
    \<and> llp_get_final_payload (frame q) ob sz = Some (int (length d), ob') \<and> take (length d) ob' = d"
proof -
  have k: "unat k < 64" using assms(4) by (simp add: LLP_MAX_PAYLOAD_def word_less_nat_alt)
  then have k1: "unat (k + 1) = Suc (unat k)" by (simp add: unat_word_ariths)
  have n: "n = k + 1" and pl: "take (unat n) pl = 0 # d"
    using llp_build_final_refines [OF assms(5,3) k assms(6)] by auto
  have "length (take (unat n) pl) = unat n" using pl n k1 assms(3) by simp
  moreover have "n \<le> LLP_MAX_PAYLOAD" using n k k1 by (simp add: LLP_MAX_PAYLOAD_def word_le_nat_alt)
  moreover have "LLP_MAX_FRAME_SIZE n \<le> 138"
    using LLP_MAX_FRAME_SIZE_nat [OF calculation(2)] n k k1 by (simp add: word_le_nat_alt)
  ultimately obtain rs q where q: "llp_run p xs = (rs @ [1], q)"
      "unat (payload_len (frame q)) = Suc (length d)" "take (Suc (length d)) (payload (frame q)) = 0 # d"
    using llp_frame_accepted [OF assms(1,2) _ _ _ _ assms(8-10)] assms(7) pl by force
  have "llp_get_final_payload (frame q) ob sz
      = Some (int (length d), d @ drop (length d) ob)"
    using llp_get_final_of_final [OF q(2,3)] assms(3,11) k by simp
  with q(1) show ?thesis by auto
qed

theorem llp_message_roundtrip_witness:
  "\<exists>rs q ob'. llp_run llp_parser_zero (at_once (frame_bytes (0 # bytes ''ok''))) = (rs @ [1], q)
    \<and> llp_get_final_payload (frame q) (replicate 8 0) 8 = Some (2, ob') \<and> take 2 ob' = bytes ''ok''"
proof -
  let ?d = "bytes ''ok''"
  have d: "length ?d = 2" by (simp add: bytes_def)
  let ?f = "llp_build_final_payload (replicate 64 0) 64 (Some ?d) 2"
  let ?b = "llp_build_frame (replicate 138 0) 138 (take (unat (snd ?f)) (fst ?f)) (snd ?f)"
  have f: "snd ?f = 3" "take 3 (fst ?f) = 0 # ?d"
    using llp_build_final_refines [of "replicate 64 0" ?d 2 "fst ?f" "snd ?f"] d by auto
  have b: "take (unat (snd ?b)) (fst ?b) = frame_bytes (0 # ?d)"
    using build_frame_refines [of "replicate 138 0" 138 "take (unat (snd ?f)) (fst ?f)" "snd ?f"
        "fst ?b" "snd ?b", THEN conjunct1] f d
    by (simp add: LLP_MAX_PAYLOAD_def LLP_MAX_FRAME_SIZE_def)
  show ?thesis
    using llp_message_roundtrip [of llp_parser_zero ?d 2 "replicate 64 0" "fst ?f" "snd ?f"
        "replicate 138 0" "fst ?b" "snd ?b" "at_once (frame_bytes (0 # ?d))" 8 "replicate 8 0"] b d
    by (simp add: LLP_MAX_PAYLOAD_def)
qed

text \<open>
  C32. The layer walk of an accepted frame reads only the payload bytes of this frame (never the
  rest of the array, which an earlier frame may have filled), and the pointer it returns with its
  length is a suffix of them.
\<close>
theorem llp_walk_in_frame:
  assumes "unat (payload_len f) \<le> 64" and "payload_len g = payload_len f"
    and "take (unat (payload_len f)) (payload g) = take (unat (payload_len f)) (payload f)"
    and "length (payload f) = 64" and "length (payload g) = 64"
  shows "llp_get_final_payload_ptr g = llp_get_final_payload_ptr f
    \<and> (\<forall>q n. llp_get_final_payload_ptr f = Some (Some (q, n)) \<longrightarrow>
        unat q + unat n = unat (payload_len f))"
proof -
  have "payload g ! i = payload f ! i" if "i < unat (payload_len f)" for i
    using assms(3) that by (metis nth_take)
  then have "llp_get_final_payload_ptr g = llp_get_final_payload_ptr f"
    unfolding llp_get_final_payload_ptr_def assms(2) using assms(1) by (intro llp_final_walk_cong) auto
  then show ?thesis
    using llp_final_walk_suffix unfolding llp_get_final_payload_ptr_def by blast
qed

theorem llp_walk_in_frame_witness:
  "llp_get_final_payload_ptr \<lparr>payload = [0, 65] @ replicate 62 1, payload_len = 2\<rparr>
    = llp_get_final_payload_ptr \<lparr>payload = [0, 65] @ replicate 62 9, payload_len = 2\<rparr>"
  using llp_walk_in_frame [of "\<lparr>payload = [0, 65] @ replicate 62 9, payload_len = 2\<rparr>"
      "\<lparr>payload = [0, 65] @ replicate 62 1, payload_len = 2\<rparr>"]
  by simp

text \<open>
  C33. The layer walk ends on every frame of at most 64 bytes in which no layer that the walk reaches
  announces, in the extended form, more than 65471 bytes of metadata. Metadata and final data may contain any
  bytes, and the lengths of a broken chain may point anywhere.
\<close>
theorem llp_walk_ends:
  assumes "unat (payload_len f) \<le> 64" and "unat (payload_len f) \<le> length (payload f)"
    and "layer_lengths_ok (take (unat (payload_len f)) (payload f))"
  shows "llp_get_final_payload_ptr f \<noteq> None"
  unfolding llp_get_final_payload_ptr_def by (rule llp_final_walk_ends) (use assms in simp_all)

theorem llp_walk_ends_witness:
  "llp_get_final_payload_ptr \<lparr>payload = [1, 2, 0xFF, 7, 2, 0xFF, 0, 1, 9, 0, 0xFF], payload_len = 11\<rparr> \<noteq> None
   \<and> llp_get_final_payload_ptr \<lparr>payload = [1, 0xFF, 0xFF, 0x10], payload_len = 4\<rparr> \<noteq> None"
  using llp_walk_ends [of "\<lparr>payload = [1, 2, 0xFF, 7, 2, 0xFF, 0, 1, 9, 0, 0xFF], payload_len = 11\<rparr>"]
    llp_walk_ends [of "\<lparr>payload = [1, 0xFF, 0xFF, 0x10], payload_len = 4\<rparr>"]
  by (simp add: LLP_LAYER_ID_FINAL_def)

text \<open>
  C34. The layer walk does not end on the payload 01 FF FF FC: the extended length 0xFFFC added to
  the position 4 wraps to 0 in 16 bits, passes the bound check and restarts the walk. The frame
  with this payload has a right checksum and is accepted by the parser, so the receive interrupt
  that runs the walk never returns.
\<close>
theorem llp_walk_diverges:
  assumes "llp_parser_wf p" and "escape_pending p = 0"
    and "map fst xs = frame_bytes [0x01, 0xFF, 0xFF, 0xFC]"
    and "timely (last_byte_time p) (map snd xs)"
  shows "\<exists>rs q. llp_run p xs = (rs @ [1], q) \<and> llp_get_final_payload_ptr (frame q) = None"
proof -
  obtain rs q where "llp_run p xs = (rs @ [1], q)" "unat (payload_len (frame q)) = 4"
      "take 4 (payload (frame q)) = [0x01, 0xFF, 0xFF, 0xFC]"
    using llp_run_frame [OF assms(1,2) _ assms(3) [unfolded frame_bytes_with_crc] assms(4)]
    by (auto simp: numeral_eq_Suc)
  moreover from this(2) have "payload_len (frame q) = 4" by (simp add: word_unat_eq_iff)
  ultimately show ?thesis
    unfolding llp_get_final_payload_ptr_def using llp_final_walk_diverges by auto
qed

theorem llp_walk_diverges_witness:
  "\<exists>rs q. llp_run llp_parser_zero (at_once (frame_bytes [0x01, 0xFF, 0xFF, 0xFC])) = (rs @ [1], q)
    \<and> llp_get_final_payload_ptr (frame q) = None"
  by (rule llp_walk_diverges) simp_all

end
