(* ===== verification/Transport_Queues.thy ===== *)
theory Transport_Queues
  imports Transport Llp_Properties
begin

text \<open>
  The rings of serial.c as queues, what reaches the receive ring from a payload, and the stream
  that the transmit path puts on the wire.
\<close>

section \<open>What the operations leave alone\<close>

lemma flags_frame [frame_simps]:
  "serial (system_set_exec_state_flag m g) = serial g"
  "serial (system_set_exec_motion_override_flag m g) = serial g"
  "serial (system_set_exec_accessory_override_flag m g) = serial g"
  "serial (system_set_exec_alarm m g) = serial g"
  "llp (system_set_exec_state_flag m g) = llp g"
  "llp (system_set_exec_motion_override_flag m g) = llp g"
  "llp (system_set_exec_accessory_override_flag m g) = llp g"
  "llp (system_set_exec_alarm m g) = llp g"
  by (simp_all add: system_set_exec_state_flag_def system_set_exec_motion_override_flag_def
      system_set_exec_accessory_override_flag_def system_set_exec_alarm_def)

lemma st_go_idle_frame [frame_simps]:
  "serial (st_go_idle g) = serial g" "llp (st_go_idle g) = llp g" "sys (st_go_idle g) = sys g"
  "sys_rt_exec_state (st_go_idle g) = sys_rt_exec_state g"
  "sys_rt_exec_alarm (st_go_idle g) = sys_rt_exec_alarm g"
  "settings (st_go_idle g) = settings g" "gc_state (st_go_idle g) = gc_state g"
  "eeprom (st_go_idle g) = eeprom g" "planner (st_go_idle g) = planner g"
  by (simp_all add: st_go_idle_def st_set_enable_pin_def Let_def)

lemma mc_reset_frame [frame_simps]:
  "serial (mc_reset g) = serial g" "llp (mc_reset g) = llp g" "sys (mc_reset g) = sys g"
  by (simp_all add: mc_reset_def Let_def frame_simps)
    (simp_all add: system_set_exec_state_flag_def system_set_exec_alarm_def)

lemma cmd_override_frame [frame_simps]:
  "serial (cmd_override c g) = serial g" "llp (cmd_override c g) = llp g"
  by (simp_all add: cmd_override_def frame_simps)

section \<open>The receive ring\<close>

interpretation rx: ring RX_RING_BUFFER "ring_next RX_RING_BUFFER"
  by unfold_locales (simp_all add: RX_RING_BUFFER_def ring_next_nat)

interpretation tx: ring TX_RING_BUFFER "ring_next TX_RING_BUFFER"
  by unfold_locales (simp_all add: TX_RING_BUFFER_def ring_next_nat)

definition rx_wf :: "grbl \<Rightarrow> bool" where
  "rx_wf g \<longleftrightarrow> length (serial_rx_buffer (serial g)) = unat RX_RING_BUFFER
     \<and> serial_rx_buffer_head (serial g) < RX_RING_BUFFER
     \<and> serial_rx_buffer_tail (serial g) < RX_RING_BUFFER"

definition rx_contents :: "grbl \<Rightarrow> u8 list" where
  "rx_contents g = ring_list (unat RX_RING_BUFFER) (serial_rx_buffer (serial g))
     (serial_rx_buffer_head (serial g)) (serial_rx_buffer_tail (serial g))"

definition rx_room :: "grbl \<Rightarrow> bool" where
  "rx_room g \<longleftrightarrow> length (rx_contents g) < 80"

lemma rx_wf_serial: "serial g' = serial g \<Longrightarrow> rx_wf g' = rx_wf g"
  "serial g' = serial g \<Longrightarrow> rx_contents g' = rx_contents g"
  by (simp_all add: rx_wf_def rx_contents_def)

lemma rx_full_iff:
  "rx_wf g \<Longrightarrow> ring_next RX_RING_BUFFER (serial_rx_buffer_head (serial g))
     = serial_rx_buffer_tail (serial g) \<longleftrightarrow> \<not> rx_room g"
  using rx.len_bound [of "serial_rx_buffer_head (serial g)" "serial_rx_buffer_tail (serial g)"]
  by (simp add: rx_wf_def rx_room_def rx_contents_def rx.full_iff) (auto simp: RX_RING_BUFFER_def)

lemma rx_write_wf [wf_intros]: "rx_wf g \<Longrightarrow> rx_wf (llp_rx_buffer_write b g)"
  by (auto simp: rx_wf_def llp_rx_buffer_write_def Let_def rx.nxt_less)

lemma rx_write_contents:
  "rx_wf g \<Longrightarrow> rx_contents (llp_rx_buffer_write b g) =
     (if rx_room g then rx_contents g @ [b] else rx_contents g)"
  using rx_full_iff [of g]
  by (auto simp: rx_contents_def llp_rx_buffer_write_def Let_def rx_wf_def rx.put)

lemma serial_read_wf [wf_intros]: "rx_wf g \<Longrightarrow> rx_wf (snd (serial_read g))"
  by (auto simp: rx_wf_def serial_read_def Let_def rx.nxt_less)

lemma serial_read_contents:
  assumes "rx_wf g"
  shows "rx_contents (snd (serial_read g)) = tl (rx_contents g)"
    and "fst (serial_read g) = (case rx_contents g of [] \<Rightarrow> SERIAL_NO_DATA | c # cs \<Rightarrow> c)"
  using assms rx.empty_iff [of "serial_rx_buffer_head (serial g)" "serial_rx_buffer_tail (serial g)"
      "serial_rx_buffer (serial g)"]
    rx.get [of "serial_rx_buffer_head (serial g)" "serial_rx_buffer_tail (serial g)"
      "serial_rx_buffer (serial g)"]
  by (auto simp: rx_wf_def rx_contents_def serial_read_def Let_def split: list.splits)

interpretation rxq: fifo rx_wf rx_contents 80 SERIAL_NO_DATA llp_rx_buffer_write serial_read
  by unfold_locales (auto simp: rx_write_contents rx_room_def serial_read_contents intro: wf_intros)

section \<open>What a payload delivers\<close>

text \<open>The characters that act at once instead of entering the ring.\<close>

definition is_realtime :: "u8 \<Rightarrow> bool" where
  "is_realtime c \<longleftrightarrow> c = CMD_RESET \<or> c = CMD_STATUS_REPORT \<or> c = CMD_CYCLE_START
     \<or> c = CMD_FEED_HOLD \<or> c > 0x7F"

lemma process_char_serial: "is_realtime c \<Longrightarrow> serial (llp_process_char c g) = serial g"
  by (auto simp: is_realtime_def llp_process_char_def frame_simps)

lemma process_char_write: "\<not> is_realtime c \<Longrightarrow> llp_process_char c g = llp_rx_buffer_write c g"
  by (simp add: is_realtime_def llp_process_char_def)

lemma rx_contents_bound: "rx_wf g \<Longrightarrow> length (rx_contents g) \<le> 80"
  using rx.len_bound [of "serial_rx_buffer_head (serial g)" "serial_rx_buffer_tail (serial g)"]
  by (simp add: rx_contents_def RX_RING_BUFFER_def)

lemma process_payload_delivers:
  assumes "rx_wf g"
  shows "rx_wf (llp_process_payload cs g) \<and> rx_contents (llp_process_payload cs g) =
    take 80 (rx_contents g @ filter (\<lambda>c. \<not> is_realtime c) cs)"
  using assms
proof (induction cs arbitrary: g)
  case Nil
  then show ?case using rx_contents_bound by (simp add: llp_process_payload_def)
next
  case (Cons c cs)
  show ?case
  proof (cases "is_realtime c")
    case True
    then show ?thesis
      using Cons.IH [of "llp_process_char c g"] Cons.prems rx_wf_serial [OF process_char_serial [OF True]]
      by (simp add: llp_process_payload_def)
  next
    case False
    then show ?thesis
      using Cons.IH [of "llp_rx_buffer_write c g"] Cons.prems rx_write_contents [OF Cons.prems]
        rx_contents_bound [OF Cons.prems]
      by (auto simp: llp_process_payload_def process_char_write rx_room_def rx_write_wf take_Cons'
          not_less)
  qed
qed

section \<open>The transmit ring\<close>

definition tx_wf :: "grbl \<Rightarrow> bool" where
  "tx_wf g \<longleftrightarrow> length (serial_tx_buffer (serial g)) = unat TX_RING_BUFFER
     \<and> serial_tx_buffer_head (serial g) < TX_RING_BUFFER
     \<and> serial_tx_buffer_tail (serial g) < TX_RING_BUFFER
     \<and> (UDRIE0 (hw g) \<longrightarrow> serial_tx_buffer_head (serial g) \<noteq> serial_tx_buffer_tail (serial g))"

definition tx_contents :: "grbl \<Rightarrow> u8 list" where
  "tx_contents g = ring_list (unat TX_RING_BUFFER) (serial_tx_buffer (serial g))
     (serial_tx_buffer_head (serial g)) (serial_tx_buffer_tail (serial g))"

text \<open>Sent already, or waiting in the ring.\<close>

definition wire :: "grbl \<Rightarrow> u8 list" where
  "wire g = uart_out (hw g) @ tx_contents g"

lemma tx_frame:
  "serial g' = serial g \<Longrightarrow> hw g' = hw g \<Longrightarrow> tx_wf g' = tx_wf g"
  "serial g' = serial g \<Longrightarrow> hw g' = hw g \<Longrightarrow> wire g' = wire g"
  by (simp_all add: tx_wf_def wire_def tx_contents_def)

lemma irq_udre_wire:
  assumes "tx_wf g"
  shows "tx_wf (irq_udre g)" "wire (irq_udre g) = wire g" "llp (irq_udre g) = llp g"
  using assms tx.get [of "serial_tx_buffer_head (serial g)" "serial_tx_buffer_tail (serial g)"
      "serial_tx_buffer (serial g)"]
  by (auto simp: irq_udre_def isr_udre_def tx_wf_def wire_def tx_contents_def Let_def tx.nxt_less)

lemma irq_udre_pow:
  "tx_wf g \<Longrightarrow> tx_wf ((irq_udre ^^ n) g) \<and> wire ((irq_udre ^^ n) g) = wire g
     \<and> llp ((irq_udre ^^ n) g) = llp g"
  by (induction n) (simp_all add: irq_udre_wire)

lemma tx_drain_wire:
  assumes "tx_wf g"
  shows "tx_wf (tx_drain g)" "wire (tx_drain g) = wire g" "llp (tx_drain g) = llp g"
proof -
  have "tx_wf (g\<lparr>world := (world g)\<lparr>tx_sched := ns\<rparr>\<rparr>)" for ns using assms by (simp add: tx_wf_def)
  then show "tx_wf (tx_drain g)" "wire (tx_drain g) = wire g" "llp (tx_drain g) = llp g"
    using assms irq_udre_pow by (auto simp: tx_drain_def wire_def tx_contents_def split: list.splits)
qed

lemma set_UDRIE_wire:
  assumes "tx_wf g" "tx_contents g \<noteq> []"
  shows "tx_wf (set_UDRIE g)" "wire (set_UDRIE g) = wire g" "llp (set_UDRIE g) = llp g"
    "tx_contents (set_UDRIE g) = tx_contents g"
  using assms tx.empty_iff [of "serial_tx_buffer_head (serial g)" "serial_tx_buffer_tail (serial g)"]
  by (auto simp: set_UDRIE_def tx_wf_def wire_def tx_contents_def)

lemma tx_full_contents: "tx_wf g \<Longrightarrow> tx_full g \<Longrightarrow> tx_contents g \<noteq> []"
  using tx.full_iff [of "serial_tx_buffer_head (serial g)" "serial_tx_buffer_tail (serial g)"]
  by (simp add: tx_full_def tx_wf_def tx_contents_def tx.empty_iff)
    (auto simp: TX_RING_BUFFER_def ring_len_def)

lemma tx_put_wire:
  assumes "tx_wf g" "\<not> tx_full g"
  shows "tx_wf (tx_put b g)" "wire (tx_put b g) = wire g @ [b]" "tx_contents (tx_put b g) \<noteq> []"
    "llp (tx_put b g) = llp g"
  using assms
    tx.put [of "serial_tx_buffer_head (serial g)" "serial_tx_buffer_tail (serial g)"
      "serial_tx_buffer (serial g)" b]
    tx.empty_iff [of "ring_next TX_RING_BUFFER (serial_tx_buffer_head (serial g))"
      "serial_tx_buffer_tail (serial g)"
      "(serial_tx_buffer (serial g))[unat (serial_tx_buffer_head (serial g)) := b]"]
  by (auto simp: tx_put_def tx_wf_def wire_def tx_contents_def tx_full_def tx.nxt_less)

text \<open>A frame goes out whole, or a prefix of it and the loss is counted.\<close>

lemma llp_tx_push_wire:
  assumes "tx_wf g" and "bs \<noteq> [] \<or> tx_contents g \<noteq> []"
  shows "tx_wf (llp_tx_push bs g) \<and>
    (wire (llp_tx_push bs g) = wire g @ bs \<and> llp (llp_tx_push bs g) = llp g \<or>
     (\<exists>k < length bs. wire (llp_tx_push bs g) = wire g @ take k bs \<and>
        llp (llp_tx_push bs g) = (llp g)\<lparr>llp_tx_dropped_count := llp_tx_dropped_count (llp g) + 1\<rparr>))"
  using assms
proof (induction bs arbitrary: g)
  case Nil
  then show ?case by (simp add: set_UDRIE_wire)
next
  case (Cons b bs)
  define g1 where "g1 = tx_drain (if tx_full g then set_UDRIE g else g)"
  have 1: "tx_wf g1" "wire g1 = wire g" "llp g1 = llp g"
    using Cons.prems set_UDRIE_wire [of g] tx_full_contents [of g] tx_drain_wire
    by (auto simp: g1_def)
  show ?case
  proof (cases "tx_full g1")
    case True
    let ?g2 = "g1\<lparr>llp := (llp g1)\<lparr>llp_tx_dropped_count := llp_tx_dropped_count (llp g1) + 1\<rparr>\<rparr>"
    have "tx_wf ?g2" "wire ?g2 = wire g" "tx_contents ?g2 = tx_contents g1"
      using 1 by (simp_all add: tx_wf_def wire_def tx_contents_def)
    then have "tx_wf (set_UDRIE ?g2) \<and> wire (set_UDRIE ?g2) = wire g @ take 0 (b # bs)
        \<and> llp (set_UDRIE ?g2) = (llp g)\<lparr>llp_tx_dropped_count := llp_tx_dropped_count (llp g) + 1\<rparr>"
      using set_UDRIE_wire [of ?g2] tx_full_contents [OF 1(1) True] 1(3) by simp
    moreover have "llp_tx_push (b # bs) g = set_UDRIE ?g2"
      using True by (simp add: g1_def Let_def)
    ultimately show ?thesis by (metis length_greater_0_conv list.distinct(1))
  next
    case False
    note p = tx_put_wire [OF 1(1) False, of b]
    have eq: "llp_tx_push (b # bs) g = llp_tx_push bs (tx_put b g1)"
      using False by (simp add: g1_def Let_def)
    have w: "wire (tx_put b g1) @ bs = wire g @ b # bs"
      "wire (tx_put b g1) @ take k bs = wire g @ take (Suc k) (b # bs)" for k
      using p(2) 1(2) by simp_all
    show ?thesis
      unfolding eq using Cons.IH [OF p(1) disjI2 [OF p(3)]] p(4) 1(3) w
      by (metis length_Cons Suc_less_eq)
  qed
qed

section \<open>A line becomes a frame\<close>

lemma build_frame_take: "llp_build_frame fb sz (take (unat n) pb) n = llp_build_frame fb sz pb n"
  by (simp only: llp_build_frame_def take_take min.idem)

definition llp_bufs_wf :: "grbl \<Rightarrow> bool" where
  "llp_bufs_wf g \<longleftrightarrow> length (llp_tx_line_buf (llp g)) = 64 \<and> length (llp_tx_payload_buf (llp g)) = 64
     \<and> length (llp_tx_frame_buf (llp g)) = 138 \<and> llp_tx_line_idx (llp g) \<le> 64"

text \<open>The line collected so far.\<close>

definition tx_line :: "grbl \<Rightarrow> u8 list" where
  "tx_line g = take (unat (llp_tx_line_idx (llp g))) (llp_tx_line_buf (llp g))"

text \<open>With 64 bytes in the line the payload has no room for the layer byte: all of it is lost.\<close>

lemma tx_flush_full:
  assumes "llp_tx_line_idx (llp g) = 64"
  shows "\<exists>pb. llp_transport_tx_flush g = g\<lparr>llp := (llp g)\<lparr>llp_tx_line_idx := 0, llp_tx_payload_buf := pb\<rparr>\<rparr>"
  using assms
  by (intro exI [of _ "llp_tx_payload_buf (llp g)"])
    (simp add: llp_transport_tx_flush_def llp_build_final_payload_def LLP_MAX_PAYLOAD_def Let_def)

lemma tx_flush_frame:
  assumes wf: "tx_wf g" and bufs: "llp_bufs_wf g"
    and idx: "0 < llp_tx_line_idx (llp g)" "llp_tx_line_idx (llp g) < 64"
  shows "tx_wf (llp_transport_tx_flush g) \<and> llp_bufs_wf (llp_transport_tx_flush g)
    \<and> tx_line (llp_transport_tx_flush g) = []
    \<and> (wire (llp_transport_tx_flush g) = wire g @ frame_bytes (0 # tx_line g)
         \<and> llp_tx_dropped_count (llp (llp_transport_tx_flush g)) = llp_tx_dropped_count (llp g)
       \<or> (\<exists>k < length (frame_bytes (0 # tx_line g)).
           wire (llp_transport_tx_flush g) = wire g @ take k (frame_bytes (0 # tx_line g))
         \<and> llp_tx_dropped_count (llp (llp_transport_tx_flush g)) = llp_tx_dropped_count (llp g) + 1))"
proof -
  let ?idx = "llp_tx_line_idx (llp g)"
  have u: "unat (ucast ?idx :: u16) = unat ?idx" "unat ?idx < 64"
    using idx(2) by (simp_all add: word_less_nat_alt unsigned_ucast_eq take_bit_eq_mod)
  obtain pb n where P: "llp_build_final_payload (llp_tx_payload_buf (llp g)) 64
      (Some (llp_tx_line_buf (llp g))) (ucast ?idx) = (pb, n)" by fastforce
  have pb: "n = ucast ?idx + 1 \<and> take (unat n) pb = 0 # tx_line g \<and> length pb = 64"
    using llp_build_final_take [OF _ _ _ P] bufs u by (auto simp: llp_bufs_wf_def tx_line_def)
  have n: "unat n = Suc (unat ?idx)" using pb u by (simp add: unat_word_ariths)
  obtain fb m where F: "llp_build_frame (llp_tx_frame_buf (llp g)) 138 pb n = (fb, m)" by fastforce
  have F': "llp_build_frame (llp_tx_frame_buf (llp g)) 138 (take (unat n) pb) n = (fb, m)"
    using F by (simp only: build_frame_take)
  have len: "length (take (unat n) pb) = unat n"
    unfolding length_take using pb n u(2) by linarith
  have small: "n \<le> LLP_MAX_PAYLOAD" using n u by (simp add: LLP_MAX_PAYLOAD_def word_le_nat_alt)
  have room: "LLP_MAX_FRAME_SIZE n \<le> 138"
    using LLP_MAX_FRAME_SIZE_nat [OF small] n u by (simp add: word_le_nat_alt)
  have fb: "take (unat m) fb = frame_bytes (0 # tx_line g)" "length fb = 138"
    "unat m = length (frame_bytes (0 # tx_line g))"
    using build_frame_refines [OF _ len small room F'] bufs pb by (auto simp: llp_bufs_wf_def)
  have ne: "frame_bytes (0 # tx_line g) \<noteq> []" by (simp add: frame_bytes_def)
  have nz: "n \<noteq> 0" "m \<noteq> 0" using n fb(3) ne by auto
  define g1 where "g1 = g\<lparr>llp := (llp g)\<lparr>llp_tx_line_idx := 0, llp_tx_payload_buf := pb,
    llp_tx_frame_buf := fb\<rparr>\<rparr>"
  have eq: "llp_transport_tx_flush g = llp_tx_push (frame_bytes (0 # tx_line g)) g1"
    using idx(1) P F nz fb(1)
    by (simp add: llp_transport_tx_flush_def Let_def LLP_MAX_PAYLOAD_def LLP_MAX_FRAME_SIZE_def g1_def)
  have g1: "tx_wf g1" "wire g1 = wire g"
    using wf by (simp_all add: g1_def tx_wf_def wire_def tx_contents_def)
  show ?thesis
    using llp_tx_push_wire [OF g1(1) disjI1 [OF ne]] g1 bufs pb fb(2)
    unfolding eq by (auto simp: llp_bufs_wf_def tx_line_def g1_def)
qed

section \<open>Writing characters\<close>

definition tx_ok :: "grbl \<Rightarrow> bool" where
  "tx_ok g \<longleftrightarrow> tx_wf g \<and> llp_bufs_wf g \<and> llp_tx_line_idx (llp g) < 64"

lemma tx_ok_line_length: "tx_ok g \<Longrightarrow> length (tx_line g) = unat (llp_tx_line_idx (llp g))"
  by (simp add: tx_ok_def llp_bufs_wf_def tx_line_def word_less_nat_alt)

text \<open>Before the line is complete a character only joins it.\<close>

definition tx_store :: "u8 \<Rightarrow> grbl \<Rightarrow> grbl" where
  "tx_store b g = g\<lparr>llp := (llp g)\<lparr>
     llp_tx_line_buf := (llp_tx_line_buf (llp g))[unat (llp_tx_line_idx (llp g)) := b],
     llp_tx_line_idx := llp_tx_line_idx (llp g) + 1\<rparr>\<rparr>"

lemma tx_store_line:
  assumes "tx_ok g"
  shows "tx_line (tx_store b g) = tx_line g @ [b]" "wire (tx_store b g) = wire g"
    "tx_wf (tx_store b g)" "llp_bufs_wf (tx_store b g)"
    "llp_tx_dropped_count (llp (tx_store b g)) = llp_tx_dropped_count (llp g)"
    "unat (llp_tx_line_idx (llp (tx_store b g))) = Suc (unat (llp_tx_line_idx (llp g)))"
proof -
  have i: "unat (llp_tx_line_idx (llp g)) < 64" "length (llp_tx_line_buf (llp g)) = 64"
    using assms by (simp_all add: tx_ok_def llp_bufs_wf_def word_less_nat_alt)
  then have s: "unat (llp_tx_line_idx (llp g) + 1) = Suc (unat (llp_tx_line_idx (llp g)))"
    by (simp add: unat_word_ariths)
  then show "unat (llp_tx_line_idx (llp (tx_store b g))) = Suc (unat (llp_tx_line_idx (llp g)))"
    "tx_line (tx_store b g) = tx_line g @ [b]" "llp_bufs_wf (tx_store b g)"
    using i assms by (simp_all add: tx_store_def tx_line_def take_Suc_conv_app_nth tx_ok_def
        llp_bufs_wf_def word_le_nat_alt)
  show "wire (tx_store b g) = wire g" "tx_wf (tx_store b g)"
    "llp_tx_dropped_count (llp (tx_store b g)) = llp_tx_dropped_count (llp g)"
    using assms by (simp_all add: tx_store_def wire_def tx_contents_def tx_wf_def tx_ok_def)
qed

lemma serial_write_store:
  "tx_ok g \<Longrightarrow> serial_write b g =
     (if b = 10 \<or> length (tx_line g) = 63 then llp_transport_tx_flush (tx_store b g) else tx_store b g)"
  using tx_store_line(6) [of g b] tx_ok_line_length [of g]
  by (auto simp: serial_write_def llp_transport_tx_byte_def Let_def tx_ok_def LLP_TX_LINE_BUF_SIZE_def
      tx_store_def word_le_nat_alt word_less_nat_alt)

lemma tx_store_ok:
  "tx_ok g \<Longrightarrow> length (tx_line g) < 63 \<Longrightarrow> tx_ok (tx_store b g)"
  using tx_store_line [of g b] tx_ok_line_length [of g]
  by (simp add: tx_ok_def word_less_nat_alt)

lemma serial_write_many:
  assumes "tx_ok g" and "10 \<notin> set cs" and "length (tx_line g) + length cs \<le> 63"
  shows "tx_ok (fold serial_write cs g) \<and> tx_line (fold serial_write cs g) = tx_line g @ cs
    \<and> wire (fold serial_write cs g) = wire g
    \<and> llp_tx_dropped_count (llp (fold serial_write cs g)) = llp_tx_dropped_count (llp g)"
  using assms
proof (induction cs arbitrary: g)
  case (Cons c cs)
  have 1: "serial_write c g = tx_store c g"
    using Cons.prems serial_write_store [of g c] by auto
  show ?case
    using Cons.IH [of "tx_store c g"] Cons.prems tx_store_line [OF Cons.prems(1), of c]
      tx_store_ok [OF Cons.prems(1), of c]
    by (simp add: 1)
qed simp

lemma tx_flush_line:
  assumes "tx_ok g" and "length (tx_line g) < 63"
  shows "tx_ok (llp_transport_tx_flush (tx_store b g))
    \<and> tx_line (llp_transport_tx_flush (tx_store b g)) = []
    \<and> (wire (llp_transport_tx_flush (tx_store b g)) = wire g @ frame_bytes (0 # tx_line g @ [b])
         \<and> llp_tx_dropped_count (llp (llp_transport_tx_flush (tx_store b g))) = llp_tx_dropped_count (llp g)
       \<or> (\<exists>k < length (frame_bytes (0 # tx_line g @ [b])).
           wire (llp_transport_tx_flush (tx_store b g))
             = wire g @ take k (frame_bytes (0 # tx_line g @ [b]))
         \<and> llp_tx_dropped_count (llp (llp_transport_tx_flush (tx_store b g)))
             = llp_tx_dropped_count (llp g) + 1))"
proof -
  note s = tx_store_line [OF assms(1), of b]
  have i: "0 < llp_tx_line_idx (llp (tx_store b g))" "llp_tx_line_idx (llp (tx_store b g)) < 64"
    using s(6) tx_ok_line_length [OF assms(1)] assms(2) by (simp_all add: word_less_nat_alt)
  note f = tx_flush_frame [OF s(3,4) i]
  have "llp_tx_line_idx (llp (llp_transport_tx_flush (tx_store b g))) < 64"
    using f by (auto simp: tx_line_def llp_bufs_wf_def word_less_nat_alt)
  then show ?thesis using f s by (simp add: tx_ok_def)
qed

section \<open>Properties\<close>

text \<open>
  C14. What a received payload delivers: its characters other than the realtime commands enter the
  receive ring in order as long as there is room (80 characters), the realtime commands (reset,
  status, cycle start, feed hold, and every byte from 0x80) never do.
\<close>
theorem payload_delivery:
  assumes "rx_wf g"
  shows "rx_contents (llp_process_payload cs g)
    = take 80 (rx_contents g @ filter (\<lambda>c. \<not> is_realtime c) cs)"
  using process_payload_delivers [OF assms] by blast

lemma grbl_zero_ok [simp]:
  "rx_wf grbl_zero" "tx_wf grbl_zero" "tx_ok grbl_zero"
  "rx_contents grbl_zero = []" "tx_line grbl_zero = []" "wire grbl_zero = []"
  by (simp_all add: grbl_zero_defs rx_wf_def tx_wf_def tx_ok_def llp_bufs_wf_def rx_contents_def
      tx_line_def wire_def tx_contents_def ring_list_def ring_len_def RX_RING_BUFFER_def
      TX_RING_BUFFER_def)

theorem payload_delivery_witness:
  "rx_contents (llp_process_payload (bytes ''G1?X2'') grbl_zero) = bytes ''G1X2''"
  using payload_delivery [of grbl_zero "bytes ''G1?X2''"]
  by (simp add: bytes_def is_realtime_def grbl_consts)

text \<open>
  C21. The receive ring is a queue of 80 bytes: over any sequence of stores (\<open>Some\<close>) and reads
  (\<open>None\<close>), the bytes that \<open>serial_read\<close> returns and the bytes left in the ring are those of a
  list to whose end a byte is stored while there are fewer than 80, and from whose front it is read; a read of
  the empty ring returns \<open>SERIAL_NO_DATA\<close>.
\<close>
theorem rx_ring_in_order:
  assumes "rx_wf g"
  shows "(fst (rxq.run ops g), rx_contents (snd (rxq.run ops g))) = queue_run 80 SERIAL_NO_DATA ops (rx_contents g)"
  by (rule rxq.refines [OF assms])

theorem rx_ring_in_order_witness:
  "fst (rxq.run [None, Some 71, Some 49, None, Some 88, None] grbl_zero) = [SERIAL_NO_DATA, 71, 49]
   \<and> rx_contents (snd (rxq.run [None, Some 71, Some 49, None, Some 88, None] grbl_zero)) = [88]"
  using rx_ring_in_order [of grbl_zero "[None, Some 71, Some 49, None, Some 88, None]"]
  by (simp del: rxq.run.simps)

text \<open>
  C9. A line written character by character leaves as one frame: with at most 63 characters, the
  line feed included, the wire gets exactly the frame of layer 0 with the line as payload,
  whatever interrupts drain the ring meanwhile; or the transmit ring stalled, a proper prefix of
  the frame is on the wire and the loss is counted in \<open>llp_tx_dropped_count\<close>.
\<close>
theorem line_sent_as_frame:
  assumes "tx_ok g" and "10 \<notin> set cs" and "length (tx_line g) + length cs < 63"
  shows "tx_ok (fold serial_write (cs @ [10]) g) \<and> tx_line (fold serial_write (cs @ [10]) g) = []
    \<and> (wire (fold serial_write (cs @ [10]) g) = wire g @ frame_bytes (0 # tx_line g @ cs @ [10])
         \<and> llp_tx_dropped_count (llp (fold serial_write (cs @ [10]) g)) = llp_tx_dropped_count (llp g)
       \<or> (\<exists>k < length (frame_bytes (0 # tx_line g @ cs @ [10])).
           wire (fold serial_write (cs @ [10]) g)
             = wire g @ take k (frame_bytes (0 # tx_line g @ cs @ [10]))
         \<and> llp_tx_dropped_count (llp (fold serial_write (cs @ [10]) g))
             = llp_tx_dropped_count (llp g) + 1))"
proof -
  have m: "tx_ok (fold serial_write cs g) \<and> tx_line (fold serial_write cs g) = tx_line g @ cs
    \<and> wire (fold serial_write cs g) = wire g
    \<and> llp_tx_dropped_count (llp (fold serial_write cs g)) = llp_tx_dropped_count (llp g)"
    using assms by (intro serial_write_many) auto
  show ?thesis
    using m tx_flush_line [of "fold serial_write cs g" 10] assms(3)
      serial_write_store [of "fold serial_write cs g" 10]
    by simp
qed

theorem line_sent_as_frame_witness:
  "tx_line (fold serial_write (bytes ''ok'' @ [10]) grbl_zero) = []"
  using line_sent_as_frame [of grbl_zero "bytes ''ok''"] by (simp add: bytes_def byte_def)

text \<open>
  C35. A line that reaches 64 characters is lost: the 64th character flushes the line, the payload
  of 64 bytes leaves no room for the layer byte, and the 64 characters vanish with nothing on the
  wire and nothing counted.
\<close>
theorem long_line_vanishes:
  assumes "tx_ok g" and "tx_line g = []" and "length cs = 63" and "10 \<notin> set cs"
  shows "wire (fold serial_write (cs @ [c]) g) = wire g
    \<and> tx_line (fold serial_write (cs @ [c]) g) = []
    \<and> llp_tx_dropped_count (llp (fold serial_write (cs @ [c]) g)) = llp_tx_dropped_count (llp g)"
proof -
  let ?g = "fold serial_write cs g"
  have m: "tx_ok ?g" "tx_line ?g = cs" "wire ?g = wire g"
    "llp_tx_dropped_count (llp ?g) = llp_tx_dropped_count (llp g)"
    using serial_write_many [OF assms(1,4)] assms(2,3) by auto
  note s = tx_store_line [OF m(1), of c]
  have "llp_tx_line_idx (llp (tx_store c ?g)) = 64"
    using s(6) tx_ok_line_length [OF m(1)] m(2) assms(3) by (simp add: word_unat_eq_iff)
  from tx_flush_full [OF this] obtain pb where f: "llp_transport_tx_flush (tx_store c ?g)
      = (tx_store c ?g)\<lparr>llp := (llp (tx_store c ?g))\<lparr>llp_tx_line_idx := 0, llp_tx_payload_buf := pb\<rparr>\<rparr>"
    by blast
  have w: "serial_write c ?g = llp_transport_tx_flush (tx_store c ?g)"
    using serial_write_store [OF m(1), of c] m(2) assms(3) by simp
  have "wire (llp_transport_tx_flush (tx_store c ?g)) = wire (tx_store c ?g)"
    "tx_line (llp_transport_tx_flush (tx_store c ?g)) = []"
    "llp_tx_dropped_count (llp (llp_transport_tx_flush (tx_store c ?g)))
      = llp_tx_dropped_count (llp (tx_store c ?g))"
    unfolding f by (simp_all add: wire_def tx_contents_def tx_line_def)
  then show ?thesis using s m w by simp
qed

theorem long_line_vanishes_witness:
  "wire (fold serial_write (replicate 63 65 @ [66]) grbl_zero) = []"
  using long_line_vanishes [of grbl_zero "replicate 63 65" 66] by simp

section \<open>Draining the transmit ring\<close>

lemma isr_udre_sends:
  assumes "tx_wf g" and "tx_contents g = b # bs" and "UDRIE0 (hw g)"
  shows "tx_wf (irq_udre g)" "tx_contents (irq_udre g) = bs" "uart_out (hw (irq_udre g)) = uart_out (hw g) @ [b]"
    "UDRIE0 (hw (irq_udre g)) \<longleftrightarrow> bs \<noteq> []"
proof -
  let ?h = "serial_tx_buffer_head (serial g)" and ?t = "serial_tx_buffer_tail (serial g)"
  have ix: "?h < TX_RING_BUFFER" "?t < TX_RING_BUFFER" "?h \<noteq> ?t" using assms(1,3) by (simp_all add: tx_wf_def)
  have "b # bs = serial_tx_buffer (serial g) ! unat ?t
      # ring_list (unat TX_RING_BUFFER) (serial_tx_buffer (serial g)) ?h (ring_next TX_RING_BUFFER ?t)"
    using tx.get [OF ix, of "serial_tx_buffer (serial g)"] assms(2) by (simp add: tx_contents_def)
  then have b: "b = serial_tx_buffer (serial g) ! unat ?t"
    and bs: "bs = ring_list (unat TX_RING_BUFFER) (serial_tx_buffer (serial g)) ?h (ring_next TX_RING_BUFFER ?t)"
    by simp_all
  show "tx_wf (irq_udre g)" by (rule irq_udre_wire) (rule assms(1))
  show "tx_contents (irq_udre g) = bs" "uart_out (hw (irq_udre g)) = uart_out (hw g) @ [b]"
    using assms(3) by (auto simp: irq_udre_def isr_udre_def tx_contents_def Let_def b bs)
  show "UDRIE0 (hw (irq_udre g)) \<longleftrightarrow> bs \<noteq> []"
    using assms(3) tx.empty_iff [OF ix(1) tx.nxt_less [OF ix(2)], of "serial_tx_buffer (serial g)"]
    by (auto simp: irq_udre_def isr_udre_def Let_def bs)
qed

lemma tx_enabled_nonempty: "tx_wf g \<Longrightarrow> UDRIE0 (hw g) \<Longrightarrow> tx_contents g \<noteq> []"
  using tx.empty_iff [of "serial_tx_buffer_head (serial g)" "serial_tx_buffer_tail (serial g)" "serial_tx_buffer (serial g)"]
  by (auto simp: tx_wf_def tx_contents_def)

lemma isr_udre_idle: "\<not> UDRIE0 (hw g) \<Longrightarrow> (irq_udre ^^ n) g = g"
  by (induction n) (simp_all add: irq_udre_def)

text \<open>
  C20. What has been queued for transmission is transmitted: once the interrupt is enabled, as many data
  register interrupts as there are bytes in the ring put exactly these bytes on the wire, in order; the
  ring is then empty and the interrupt has switched itself off, so that further ones change nothing.
\<close>
theorem tx_ring_drains:
  assumes "tx_wf g" and "UDRIE0 (hw g)" and "length (tx_contents g) \<le> n"
  shows "uart_out (hw ((irq_udre ^^ n) g)) = uart_out (hw g) @ tx_contents g
    \<and> tx_contents ((irq_udre ^^ n) g) = [] \<and> \<not> UDRIE0 (hw ((irq_udre ^^ n) g))"
  using assms
proof (induction n arbitrary: g)
  case 0
  then show ?case using tx_enabled_nonempty by auto
next
  case (Suc n)
  have "tx_contents g \<noteq> []" using Suc.prems(1,2) by (rule tx_enabled_nonempty)
  then obtain b bs where c: "tx_contents g = b # bs" by (cases "tx_contents g") auto
  note sent = isr_udre_sends [OF Suc.prems(1) c Suc.prems(2)]
  have split: "(irq_udre ^^ Suc n) g = (irq_udre ^^ n) (irq_udre g)" by (simp only: funpow_Suc_right o_apply)
  show ?case
  proof (cases "bs = []")
    case True
    then show ?thesis using sent c isr_udre_idle [of "irq_udre g" n] unfolding split by simp
  next
    case False
    then show ?thesis using Suc.IH [OF sent(1)] sent c Suc.prems(3) unfolding split by simp
  qed
qed

theorem tx_ring_drains_witness:
  "uart_out (hw ((irq_udre ^^ 5) (set_UDRIE (tx_put 7 (tx_put 9 grbl_zero))))) = [9, 7]"
proof -
  let ?g = "set_UDRIE (tx_put 7 (tx_put 9 grbl_zero))"
  have "tx_wf ?g" "UDRIE0 (hw ?g)" "tx_contents ?g = [9, 7]" "uart_out (hw ?g) = []"
    by (simp_all add: tx_wf_def set_UDRIE_def tx_put_def grbl_zero_defs TX_RING_BUFFER_def ring_next_def tx_contents_def
        ring_list_def ring_len_def upt_conv_Cons Let_def)
  with tx_ring_drains [of ?g 5] show ?thesis by simp
qed

end
