(* ===== verification/Nuts_Bolts.thy ===== *)
theory Nuts_Bolts
  imports Reset
begin

text \<open>
  The helpers of nuts\_bolts.c (number reading, vectors) and the position conversions and the travel
  check of system.c.
\<close>

section \<open>Reading a number\<close>

text \<open>
  The digit loop of \<open>read_float\<close>, over the characters from \<open>ptr\<close> on: \<open>exp\<close> is
  an \<open>int8_t\<close> and \<open>ndigit\<close> an \<open>uint8_t\<close>. The result holds the position behind the
  character that ended the loop. A line ends with a zero byte, so the loop ends in it; past the
  end of the buffer the model reads that byte.
\<close>

fun read_digits ::
  "u8 list \<Rightarrow> u32 \<Rightarrow> u8 \<Rightarrow> u8 \<Rightarrow> bool \<Rightarrow> nat \<Rightarrow> u32 \<times> u8 \<times> u8 \<times> nat" where
  "read_digits [] intval exp ndigit isdecimal p = (intval, exp, ndigit, p + 1)"
| "read_digits (ch # cs) intval exp ndigit isdecimal p =
     (let c = ch - 48 in
      if c \<le> 9 then
        let ndigit = ndigit + 1 in
        if ndigit \<le> 8 then
          read_digits cs (push_bit 1 (push_bit 2 intval + intval) + ucast c)
            (if isdecimal then exp - 1 else exp) ndigit isdecimal (p + 1)
        else
          read_digits cs intval (if isdecimal then exp else exp + 1) ndigit isdecimal (p + 1)
      else if c = 46 - 48 \<and> \<not> isdecimal then read_digits cs intval exp ndigit True (p + 1)
      else (intval, exp, ndigit, p + 1))"

text \<open>\<open>while (exp <= -2)\<close>, \<open>else if (exp > 0) do \<dots> while (--exp > 0)\<close>, with \<open>exp\<close> read as signed.\<close>

fun scale_down :: "nat \<Rightarrow> f32 \<Rightarrow> f32" where
  "scale_down n v = (if n \<ge> 2 then scale_down (n - 2) (f_mul v (f_dec 1 2)) else
                     if n = 1 then f_mul v (f_dec 1 1) else v)"

declare scale_down.simps [simp del]

fun scale_up :: "nat \<Rightarrow> f32 \<Rightarrow> f32" where
  "scale_up 0 v = v"
| "scale_up (Suc n) v = scale_up n (f_mul v (f_of_int 10))"

definition apply_exp :: "int \<Rightarrow> f32 \<Rightarrow> f32" where
  "apply_exp e v =
     (if f_eq v 0 then v else if e < 0 then scale_down (nat (- e)) v else scale_up (nat e) v)"

text \<open>\<open>None\<close> is the return value false; then \<open>char_counter\<close> is unchanged.\<close>

definition read_float :: "u8 list \<Rightarrow> u8 \<Rightarrow> (f32 \<times> u8) option" where
  "read_float buf char_counter =
     (let p = unat char_counter;
          c = (if p < length buf then buf ! p else 0);
          isnegative = (c = byte CHR ''-'');
          p = (if isnegative \<or> c = byte CHR ''+'' then p + 1 else p);
          (intval, exp, ndigit, p) = read_digits (drop p buf) 0 0 0 False p
      in if ndigit = 0 then None
         else
           let fval = apply_exp (sint exp) (f_of_u32 intval) in
           Some (if isnegative then f_neg fval else fval, of_nat (p - 1)))"

section \<open>Vectors\<close>

definition SOME_LARGE_VALUE :: f32 where "SOME_LARGE_VALUE = f_dec (10 ^ 38) 0"
definition MM_PER_INCH :: f32 where "MM_PER_INCH = f_dec 2540 2"
definition INCH_PER_MM :: f32 where "INCH_PER_MM = f_dec 393701 7"

definition f_nonzero :: "f32 \<Rightarrow> bool" where "f_nonzero x \<longleftrightarrow> \<not> f_eq x 0"

definition hypot_f :: "f32 \<Rightarrow> f32 \<Rightarrow> f32" where
  "hypot_f x y = f_sqrt (f_add (f_mul x x) (f_mul y y))"

definition convert_delta_vector_to_unit_vector :: "f32 list \<Rightarrow> f32 list \<times> f32" where
  "convert_delta_vector_to_unit_vector vec =
     (let magnitude = f_sqrt (foldl (\<lambda>m v. if f_nonzero v then f_add m (f_mul v v) else m) 0 vec);
          inv_magnitude = f_div (f_of_int 1) magnitude
      in (map (\<lambda>v. f_mul v inv_magnitude) vec, magnitude))"

definition limit_value_by_axis_maximum :: "f32 list \<Rightarrow> f32 list \<Rightarrow> f32" where
  "limit_value_by_axis_maximum max_value unit_vec =
     foldl (\<lambda>lim (m, u). if f_nonzero u then f_min lim (f_abs (f_div m u)) else lim)
       SOME_LARGE_VALUE (zip max_value unit_vec)"

section \<open>Positions (system.c)\<close>

definition system_convert_axis_steps_to_mpos :: "grbl \<Rightarrow> u32 list \<Rightarrow> nat \<Rightarrow> f32" where
  "system_convert_axis_steps_to_mpos g steps idx =
     f_div (f_of_i32 (steps ! idx)) (set_steps_per_mm (settings g) ! idx)"

definition system_convert_array_steps_to_mpos :: "grbl \<Rightarrow> u32 list \<Rightarrow> f32 list" where
  "system_convert_array_steps_to_mpos g steps =
     map (system_convert_axis_steps_to_mpos g steps) [0, 1, 2]"

definition system_check_travel_limits :: "grbl \<Rightarrow> f32 list \<Rightarrow> bool" where
  "system_check_travel_limits g target \<longleftrightarrow>
     list_ex (\<lambda>idx. f_lt 0 (target ! idx) \<or> f_lt (target ! idx) (set_max_travel (settings g) ! idx))
       [0, 1, 2]"

text \<open>\<open>gc_sync_position\<close> of gcode.c.\<close>

definition gc_sync_position :: "grbl \<Rightarrow> grbl" where
  "gc_sync_position g =
     g\<lparr>gc_state := (gc_state g)\<lparr>gc_position := system_convert_array_steps_to_mpos g (sys_position g)\<rparr>\<rparr>"

end
