(* ===== verification/Planner.thy ===== *)
theory Planner
  imports Nuts_Bolts Ring
begin

text \<open>
  The motion planner of planner.c: the ring of 12 blocks, the velocity planning over it and the
  entry of new lines. A C pointer to a block is the block's index.
\<close>

section \<open>Constants (planner.h, config.h)\<close>

definition BLOCK_BUFFER_SIZE :: u8 where "BLOCK_BUFFER_SIZE = 12"
definition PL_COND_FLAG_RAPID_MOTION :: u8 where "PL_COND_FLAG_RAPID_MOTION = 0x01"
definition PL_COND_FLAG_SYSTEM_MOTION :: u8 where "PL_COND_FLAG_SYSTEM_MOTION = 0x02"
definition PL_COND_FLAG_NO_FEED_OVERRIDE :: u8 where "PL_COND_FLAG_NO_FEED_OVERRIDE = 0x04"
definition PL_COND_FLAG_INVERSE_TIME :: u8 where "PL_COND_FLAG_INVERSE_TIME = 0x08"
definition PL_COND_FLAG_SPINDLE_CW :: u8 where "PL_COND_FLAG_SPINDLE_CW = 0x10"
definition PL_COND_FLAG_SPINDLE_CCW :: u8 where "PL_COND_FLAG_SPINDLE_CCW = 0x20"
definition PL_COND_FLAG_COOLANT_FLOOD :: u8 where "PL_COND_FLAG_COOLANT_FLOOD = 0x40"
definition PL_COND_FLAG_COOLANT_MIST :: u8 where "PL_COND_FLAG_COOLANT_MIST = 0x80"
definition PL_COND_SPINDLE_MASK :: u8 where "PL_COND_SPINDLE_MASK = 0x30"

lemmas pl_cond_consts [grbl_consts] =
  BLOCK_BUFFER_SIZE_def PL_COND_FLAG_RAPID_MOTION_def PL_COND_FLAG_SYSTEM_MOTION_def
  PL_COND_FLAG_NO_FEED_OVERRIDE_def PL_COND_FLAG_INVERSE_TIME_def PL_COND_FLAG_SPINDLE_CW_def
  PL_COND_FLAG_SPINDLE_CCW_def PL_COND_FLAG_COOLANT_FLOOD_def PL_COND_FLAG_COOLANT_MIST_def
  PL_COND_SPINDLE_MASK_def

definition MINIMUM_FEED_RATE :: f32 where "MINIMUM_FEED_RATE = f_of_int 1"
definition MINIMUM_JUNCTION_SPEED :: f32 where "MINIMUM_JUNCTION_SPEED = 0"
definition PREP_FLAG_RECALCULATE :: u8 where "PREP_FLAG_RECALCULATE = 0x01"
definition PREP_FLAG_DECEL_OVERRIDE :: u8 where "PREP_FLAG_DECEL_OVERRIDE = 0x08"

section \<open>Blocks and the ring\<close>

definition plan_block :: "grbl \<Rightarrow> u8 \<Rightarrow> plan_block_t" where
  "plan_block g i = block_buffer (planner g) ! unat i"

definition set_plan_block :: "u8 \<Rightarrow> plan_block_t \<Rightarrow> grbl \<Rightarrow> grbl" where
  "set_plan_block i b g =
     g\<lparr>planner := (planner g)\<lparr>block_buffer := (block_buffer (planner g))[unat i := b]\<rparr>\<rparr>"

definition set_entry_speed_sqr :: "u8 \<Rightarrow> f32 \<Rightarrow> grbl \<Rightarrow> grbl" where
  "set_entry_speed_sqr i v g = set_plan_block i ((plan_block g i)\<lparr>pb_entry_speed_sqr := v\<rparr>) g"

definition plan_next_block_index :: "u8 \<Rightarrow> u8" where
  "plan_next_block_index block_index = ring_next BLOCK_BUFFER_SIZE block_index"

definition plan_prev_block_index :: "u8 \<Rightarrow> u8" where
  "plan_prev_block_index block_index =
     (let block_index = (if block_index = 0 then BLOCK_BUFFER_SIZE else block_index)
      in block_index - 1)"

definition plan_get_current_block :: "grbl \<Rightarrow> u8 option" where
  "plan_get_current_block g =
     (if block_buffer_head (planner g) = block_buffer_tail (planner g) then None
      else Some (block_buffer_tail (planner g)))"

definition plan_get_system_motion_block :: "grbl \<Rightarrow> u8" where
  "plan_get_system_motion_block g = block_buffer_head (planner g)"

definition plan_get_exec_block_exit_speed_sqr :: "grbl \<Rightarrow> f32" where
  "plan_get_exec_block_exit_speed_sqr g =
     (let block_index = plan_next_block_index (block_buffer_tail (planner g)) in
      if block_index = block_buffer_head (planner g) then 0
      else pb_entry_speed_sqr (plan_block g block_index))"

definition plan_check_full_buffer :: "grbl \<Rightarrow> bool" where
  "plan_check_full_buffer g \<longleftrightarrow> block_buffer_tail (planner g) = next_buffer_head (planner g)"

definition plan_get_block_buffer_available :: "grbl \<Rightarrow> u8" where
  "plan_get_block_buffer_available g =
     (let h = block_buffer_head (planner g); t = block_buffer_tail (planner g) in
      if h \<ge> t then (BLOCK_BUFFER_SIZE - 1) - (h - t) else t - h - 1)"

definition plan_get_block_buffer_count :: "grbl \<Rightarrow> u8" where
  "plan_get_block_buffer_count g =
     (let h = block_buffer_head (planner g); t = block_buffer_tail (planner g) in
      if h \<ge> t then h - t else BLOCK_BUFFER_SIZE - (t - h))"

definition plan_reset_buffer :: "grbl \<Rightarrow> grbl" where
  "plan_reset_buffer g =
     g\<lparr>planner := (planner g)\<lparr>block_buffer_tail := 0, block_buffer_head := 0,
       next_buffer_head := 1, block_buffer_planned := 0\<rparr>\<rparr>"

definition plan_reset :: "grbl \<Rightarrow> grbl" where
  "plan_reset g = plan_reset_buffer (g\<lparr>planner := (planner g)\<lparr>pl := planner_t_zero\<rparr>\<rparr>)"

definition plan_discard_current_block :: "grbl \<Rightarrow> grbl" where
  "plan_discard_current_block g =
     (let p = planner g in
      if block_buffer_head p \<noteq> block_buffer_tail p then
        let block_index = plan_next_block_index (block_buffer_tail p);
            p = (if block_buffer_tail p = block_buffer_planned p
                 then p\<lparr>block_buffer_planned := block_index\<rparr> else p)
        in g\<lparr>planner := p\<lparr>block_buffer_tail := block_index\<rparr>\<rparr>
      else g)"

text \<open>\<open>st_update_plan_block_parameters\<close> of stepper.c, which the planner calls.\<close>

definition st_update_plan_block_parameters :: "grbl \<Rightarrow> grbl" where
  "st_update_plan_block_parameters g =
     (case pl_block (stepper g) of
        None \<Rightarrow> g
      | Some i \<Rightarrow>
          let pr = prep (stepper g);
              g = set_entry_speed_sqr i (f_mul (prep_current_speed pr) (prep_current_speed pr)) g
          in g\<lparr>stepper := (stepper g)\<lparr>
               prep := pr\<lparr>prep_recalculate_flag := bit_true (prep_recalculate_flag pr) PREP_FLAG_RECALCULATE\<rparr>,
               pl_block := None\<rparr>\<rparr>)"

section \<open>Planning\<close>

text \<open>\<open>2*current->acceleration*current->millimeters\<close>\<close>

definition accel_distance :: "plan_block_t \<Rightarrow> f32" where
  "accel_distance b = f_mul (f_mul (f_of_int 2) (pb_acceleration b)) (pb_millimeters b)"

text \<open>
  The two loops run over ring indices. Their first argument bounds the number of rounds; a ring of
  12 blocks is left after at most 11 (\<open>planner_recalculate\<close> gives 12).
\<close>

fun plan_reverse_pass :: "nat \<Rightarrow> u8 \<Rightarrow> u8 \<Rightarrow> grbl \<Rightarrow> grbl" where
  "plan_reverse_pass 0 current block_index g = g"
| "plan_reverse_pass (Suc n) current block_index g =
     (if block_index \<noteq> block_buffer_planned (planner g) then
        let nxt = current; current = block_index;
            block_index = plan_prev_block_index block_index;
            g = (if block_index = block_buffer_tail (planner g)
                 then st_update_plan_block_parameters g else g);
            b = plan_block g current;
            g = (if \<not> f_eq (pb_entry_speed_sqr b) (pb_max_entry_speed_sqr b) then
                   let v = f_add (pb_entry_speed_sqr (plan_block g nxt)) (accel_distance b) in
                   set_entry_speed_sqr current
                     (if f_lt v (pb_max_entry_speed_sqr b) then v else pb_max_entry_speed_sqr b) g
                 else g)
        in plan_reverse_pass n current block_index g
      else g)"

definition set_planned :: "u8 \<Rightarrow> grbl \<Rightarrow> grbl" where
  "set_planned i g = g\<lparr>planner := (planner g)\<lparr>block_buffer_planned := i\<rparr>\<rparr>"

fun plan_forward_pass :: "nat \<Rightarrow> u8 \<Rightarrow> u8 \<Rightarrow> grbl \<Rightarrow> grbl" where
  "plan_forward_pass 0 nxt block_index g = g"
| "plan_forward_pass (Suc n) nxt block_index g =
     (if block_index \<noteq> block_buffer_head (planner g) then
        let current = nxt; nxt = block_index;
            c = plan_block g current; b = plan_block g nxt;
            g = (if f_lt (pb_entry_speed_sqr c) (pb_entry_speed_sqr b) then
                   let v = f_add (pb_entry_speed_sqr c) (accel_distance c) in
                   if f_lt v (pb_entry_speed_sqr b)
                   then set_planned block_index (set_entry_speed_sqr nxt v g) else g
                 else g);
            b = plan_block g nxt;
            g = (if f_eq (pb_entry_speed_sqr b) (pb_max_entry_speed_sqr b)
                 then set_planned block_index g else g)
        in plan_forward_pass n nxt (plan_next_block_index block_index) g
      else g)"

definition planner_recalculate :: "grbl \<Rightarrow> grbl" where
  "planner_recalculate g =
     (let block_index = plan_prev_block_index (block_buffer_head (planner g)) in
      if block_index = block_buffer_planned (planner g) then g
      else
        let current = block_index; b = plan_block g current;
            g = set_entry_speed_sqr current (f_min (pb_max_entry_speed_sqr b) (accel_distance b)) g;
            block_index = plan_prev_block_index block_index;
            g = (if block_index = block_buffer_planned (planner g) then
                   if block_index = block_buffer_tail (planner g)
                   then st_update_plan_block_parameters g else g
                 else plan_reverse_pass 12 current block_index g);
            p = block_buffer_planned (planner g)
        in plan_forward_pass 12 p (plan_next_block_index p) g)"

definition plan_compute_profile_nominal_speed :: "grbl \<Rightarrow> plan_block_t \<Rightarrow> f32" where
  "plan_compute_profile_nominal_speed g b =
     (let v = pb_programmed_rate b;
          v = (if bit_istrue (pb_condition b) PL_COND_FLAG_RAPID_MOTION
               then f_mul v (f_mul (f_dec 1 2) (f_of_int (uint (sys_r_override (sys g)))))
               else
                 let v = (if bit_isfalse (pb_condition b) PL_COND_FLAG_NO_FEED_OVERRIDE
                          then f_mul v (f_mul (f_dec 1 2) (f_of_int (uint (sys_f_override (sys g)))))
                          else v)
                 in if f_lt (pb_rapid_rate b) v then pb_rapid_rate b else v)
      in if f_lt MINIMUM_FEED_RATE v then v else MINIMUM_FEED_RATE)"

definition plan_compute_profile_parameters :: "plan_block_t \<Rightarrow> f32 \<Rightarrow> f32 \<Rightarrow> plan_block_t" where
  "plan_compute_profile_parameters b nominal_speed prev_nominal_speed =
     (let m = (if f_lt prev_nominal_speed nominal_speed
               then f_mul prev_nominal_speed prev_nominal_speed
               else f_mul nominal_speed nominal_speed);
          m = (if f_lt (pb_max_junction_speed_sqr b) m then pb_max_junction_speed_sqr b else m)
      in b\<lparr>pb_max_entry_speed_sqr := m\<rparr>)"

fun plan_update_profiles :: "nat \<Rightarrow> u8 \<Rightarrow> f32 \<Rightarrow> grbl \<Rightarrow> f32 \<times> grbl" where
  "plan_update_profiles 0 block_index prev_nominal_speed g = (prev_nominal_speed, g)"
| "plan_update_profiles (Suc n) block_index prev_nominal_speed g =
     (if block_index \<noteq> block_buffer_head (planner g) then
        let b = plan_block g block_index;
            nominal_speed = plan_compute_profile_nominal_speed g b;
            g = set_plan_block block_index
                  (plan_compute_profile_parameters b nominal_speed prev_nominal_speed) g
        in plan_update_profiles n (plan_next_block_index block_index) nominal_speed g
      else (prev_nominal_speed, g))"

definition plan_update_velocity_profile_parameters :: "grbl \<Rightarrow> grbl" where
  "plan_update_velocity_profile_parameters g =
     (let (v, g) = plan_update_profiles 12 (block_buffer_tail (planner g)) SOME_LARGE_VALUE g
      in g\<lparr>planner := (planner g)\<lparr>pl := (pl (planner g))\<lparr>pl_previous_nominal_speed := v\<rparr>\<rparr>\<rparr>)"

definition plan_cycle_reinitialize :: "grbl \<Rightarrow> grbl" where
  "plan_cycle_reinitialize g =
     (let g = st_update_plan_block_parameters g;
          g = set_planned (block_buffer_tail (planner g)) g
      in planner_recalculate g)"

definition plan_sync_position :: "grbl \<Rightarrow> grbl" where
  "plan_sync_position g =
     g\<lparr>planner := (planner g)\<lparr>pl := (pl (planner g))\<lparr>pl_position := sys_position g\<rparr>\<rparr>\<rparr>"

text \<open>
  The same three loops without a bound, as the code writes them: the body of a round, and the loop, which has the
  value \<open>None\<close> if it does not reach its exit.
\<close>

definition reverse_step :: "u8 \<Rightarrow> u8 \<Rightarrow> grbl \<Rightarrow> grbl" where
  "reverse_step nxt current g =
     (let g = (if plan_prev_block_index current = block_buffer_tail (planner g)
               then st_update_plan_block_parameters g else g);
          b = plan_block g current
      in if \<not> f_eq (pb_entry_speed_sqr b) (pb_max_entry_speed_sqr b) then
           let v = f_add (pb_entry_speed_sqr (plan_block g nxt)) (accel_distance b) in
           set_entry_speed_sqr current
             (if f_lt v (pb_max_entry_speed_sqr b) then v else pb_max_entry_speed_sqr b) g
         else g)"

definition forward_step :: "u8 \<Rightarrow> u8 \<Rightarrow> grbl \<Rightarrow> grbl" where
  "forward_step current nxt g =
     (let c = plan_block g current; b = plan_block g nxt;
          g = (if f_lt (pb_entry_speed_sqr c) (pb_entry_speed_sqr b) then
                 let v = f_add (pb_entry_speed_sqr c) (accel_distance c) in
                 if f_lt v (pb_entry_speed_sqr b) then set_planned nxt (set_entry_speed_sqr nxt v g) else g
               else g);
          b = plan_block g nxt
      in if f_eq (pb_entry_speed_sqr b) (pb_max_entry_speed_sqr b) then set_planned nxt g else g)"

definition profile_step :: "u8 \<Rightarrow> f32 \<Rightarrow> grbl \<Rightarrow> grbl" where
  "profile_step i v g =
     set_plan_block i (plan_compute_profile_parameters (plan_block g i)
       (plan_compute_profile_nominal_speed g (plan_block g i)) v) g"

partial_function (option) reverse_loop :: "u8 \<Rightarrow> u8 \<Rightarrow> grbl \<Rightarrow> grbl option" where
  "reverse_loop nxt block_index g =
     (if block_index \<noteq> block_buffer_planned (planner g)
      then reverse_loop block_index (plan_prev_block_index block_index) (reverse_step nxt block_index g)
      else Some g)"

partial_function (option) forward_loop :: "u8 \<Rightarrow> u8 \<Rightarrow> grbl \<Rightarrow> grbl option" where
  "forward_loop current block_index g =
     (if block_index \<noteq> block_buffer_head (planner g)
      then forward_loop block_index (plan_next_block_index block_index) (forward_step current block_index g)
      else Some g)"

partial_function (option) profiles_loop :: "u8 \<Rightarrow> f32 \<Rightarrow> grbl \<Rightarrow> (f32 \<times> grbl) option" where
  "profiles_loop block_index prev_nominal_speed g =
     (if block_index \<noteq> block_buffer_head (planner g)
      then profiles_loop (plan_next_block_index block_index)
             (plan_compute_profile_nominal_speed g (plan_block g block_index))
             (profile_step block_index prev_nominal_speed g)
      else Some (prev_nominal_speed, g))"

section \<open>Entry of a line\<close>

definition labs32 :: "u32 \<Rightarrow> u32" where "labs32 w = (if sint w < 0 then - w else w)"

text \<open>Target steps, step counts, distances and direction bits of the three axes.\<close>

definition plan_target_steps :: "grbl \<Rightarrow> f32 list \<Rightarrow> u32 list" where
  "plan_target_steps g target =
     map (\<lambda>idx. f_lround (w_cast (world g)) (f_mul (target ! idx) (set_steps_per_mm (settings g) ! idx)))
       [0, 1, 2]"

definition plan_deltas :: "grbl \<Rightarrow> u32 list \<Rightarrow> u32 list \<Rightarrow> f32 list" where
  "plan_deltas g target_steps position_steps =
     map (\<lambda>idx. f_div (f_of_i32 (target_steps ! idx - position_steps ! idx))
                   (set_steps_per_mm (settings g) ! idx)) [0, 1, 2]"

definition plan_direction_bits :: "f32 list \<Rightarrow> u8" where
  "plan_direction_bits delta =
     foldl (\<lambda>d idx. if f_lt (delta ! idx) 0 then bit_true d (get_direction_pin_mask idx) else d) 0
       [0, 1, 2]"

text \<open>The junction speed limit with the previous line (the \<open>else\<close> branch of the code).\<close>

definition plan_junction_speed_sqr :: "grbl \<Rightarrow> f32 list \<Rightarrow> f32" where
  "plan_junction_speed_sqr g unit_vec =
     (let prev = pl_previous_unit_vec (pl (planner g));
          cos_theta = foldl (\<lambda>c idx. f_sub c (f_mul (prev ! idx) (unit_vec ! idx))) 0 [0, 1, 2];
          junction_vec = map (\<lambda>idx. f_sub (unit_vec ! idx) (prev ! idx)) [0, 1, 2];
          minimum = f_mul MINIMUM_JUNCTION_SPEED MINIMUM_JUNCTION_SPEED
      in if f_lt (f_dec 999999 6) cos_theta then minimum
         else if f_lt cos_theta (f_neg (f_dec 999999 6)) then SOME_LARGE_VALUE
         else
           let junction_unit_vec = fst (convert_delta_vector_to_unit_vector junction_vec);
               accel = limit_value_by_axis_maximum (set_acceleration (settings g)) junction_unit_vec;
               sin_theta_d2 = f_sqrt (f_mul (f_dec 5 1) (f_sub (f_of_int 1) cos_theta))
           in f_max minimum
                (f_div (f_mul (f_mul accel (set_junction_deviation (settings g))) sin_theta_d2)
                   (f_sub (f_of_int 1) sin_theta_d2)))"

text \<open>The values of a new block of nonzero length, with its unit vector.\<close>

definition plan_block_values ::
  "grbl \<Rightarrow> plan_block_t \<Rightarrow> f32 list \<Rightarrow> f32 \<Rightarrow> plan_block_t \<times> f32 list" where
  "plan_block_values g b delta feed_rate =
     (let (unit_vec, mm) = convert_delta_vector_to_unit_vector delta;
          rapid = limit_value_by_axis_maximum (set_max_rate (settings g)) unit_vec;
          b = b\<lparr>pb_millimeters := mm,
                pb_acceleration := limit_value_by_axis_maximum (set_acceleration (settings g)) unit_vec,
                pb_rapid_rate := rapid,
                pb_programmed_rate :=
                  (if bit_istrue (pb_condition b) PL_COND_FLAG_RAPID_MOTION then rapid
                   else if bit_istrue (pb_condition b) PL_COND_FLAG_INVERSE_TIME
                        then f_mul feed_rate mm else feed_rate)\<rparr>;
          b = (if block_buffer_head (planner g) = block_buffer_tail (planner g)
                  \<or> bit_istrue (pb_condition b) PL_COND_FLAG_SYSTEM_MOTION
               then b\<lparr>pb_entry_speed_sqr := 0, pb_max_junction_speed_sqr := 0\<rparr>
               else b\<lparr>pb_max_junction_speed_sqr := plan_junction_speed_sqr g unit_vec\<rparr>)
      in (b, unit_vec))"

text \<open>The result \<open>True\<close> is \<open>PLAN_OK\<close>, \<open>False\<close> is \<open>PLAN_EMPTY_BLOCK\<close>.\<close>

definition plan_buffer_line :: "f32 list \<Rightarrow> plan_line_data_t \<Rightarrow> grbl \<Rightarrow> bool \<times> grbl" where
  "plan_buffer_line target pl_data g =
     (let head = block_buffer_head (planner g);
          condition = pd_condition pl_data;
          is_system = bit_istrue condition PL_COND_FLAG_SYSTEM_MOTION;
          position_steps = (if is_system then sys_position g else pl_position (pl (planner g)));
          target_steps = plan_target_steps g target;
          steps = map (\<lambda>idx. labs32 (target_steps ! idx - position_steps ! idx)) [0, 1, 2];
          delta = plan_deltas g target_steps position_steps;
          b = plan_block_zero\<lparr>pb_condition := condition, pb_steps := steps,
                pb_step_event_count := foldl max 0 steps,
                pb_direction_bits := plan_direction_bits delta\<rparr>
      in if pb_step_event_count b = 0 then (False, set_plan_block head b g)
         else
           let (b, unit_vec) = plan_block_values g b delta (pd_feed_rate pl_data) in
           if is_system then (True, set_plan_block head b g)
           else
             let nominal_speed = plan_compute_profile_nominal_speed g b;
                 b = plan_compute_profile_parameters b nominal_speed
                       (pl_previous_nominal_speed (pl (planner g)));
                 g = set_plan_block head b g;
                 p = planner g;
                 g = g\<lparr>planner := p\<lparr>
                       pl := \<lparr>pl_position = target_steps, pl_previous_unit_vec = unit_vec,
                              pl_previous_nominal_speed = nominal_speed\<rparr>,
                       block_buffer_head := next_buffer_head p,
                       next_buffer_head := plan_next_block_index (next_buffer_head p)\<rparr>\<rparr>
             in (True, planner_recalculate g))"

end
