(* ===== verification/Stepper.thy ===== *)
theory Stepper
  imports Planner
begin

text \<open>
  The stepper module of stepper.c: the step interrupt with its Bresenham counters, and the
  preparation of step segments from planner blocks. \<open>None\<close> as the result of the preparation
  is a velocity loop that does not end. Registers of the timers that no code reads are left out.
\<close>

section \<open>Constants\<close>

definition SEGMENT_BUFFER_SIZE :: u8 where "SEGMENT_BUFFER_SIZE = 6"
definition MAX_AMASS_LEVEL :: nat where "MAX_AMASS_LEVEL = 3"
definition AMASS_LEVEL1 :: u32 where "AMASS_LEVEL1 = 2000"
definition AMASS_LEVEL2 :: u32 where "AMASS_LEVEL2 = 4000"
definition AMASS_LEVEL3 :: u32 where "AMASS_LEVEL3 = 8000"
definition RAMP_ACCEL :: u8 where "RAMP_ACCEL = 0"
definition RAMP_CRUISE :: u8 where "RAMP_CRUISE = 1"
definition RAMP_DECEL :: u8 where "RAMP_DECEL = 2"
definition RAMP_DECEL_OVERRIDE :: u8 where "RAMP_DECEL_OVERRIDE = 3"
definition DT_SEGMENT :: f32 where "DT_SEGMENT = f_div (f_of_int 1) (f_of_int 6000)"
definition REQ_MM_INCREMENT_SCALAR :: f32 where "REQ_MM_INCREMENT_SCALAR = f_dec 125 2"

lemmas stepper_consts [grbl_consts] =
  SEGMENT_BUFFER_SIZE_def MAX_AMASS_LEVEL_def AMASS_LEVEL1_def AMASS_LEVEL2_def AMASS_LEVEL3_def
  RAMP_ACCEL_def RAMP_CRUISE_def RAMP_DECEL_def RAMP_DECEL_OVERRIDE_def

section \<open>The step interrupt\<close>

text \<open>One axis: \<open>counter += steps; if (counter > count) \<dots>\<close> with the pulse as a bool.\<close>

definition bresenham :: "u32 \<Rightarrow> u32 \<Rightarrow> u32 \<Rightarrow> u32 \<times> bool" where
  "bresenham counter steps count =
     (let c = counter + steps in if c > count then (c - count, True) else (c, False))"

definition step_position :: "bool \<Rightarrow> u8 \<Rightarrow> nat \<Rightarrow> u32 list \<Rightarrow> u32 list" where
  "step_position pulse direction_bits idx pos =
     (if pulse then
        pos[idx := (if direction_bits AND get_direction_pin_mask idx \<noteq> 0 then pos ! idx - 1
                    else pos ! idx + 1)]
      else pos)"

text \<open>Loading the segment at the tail; the pointers become indices into their buffers.\<close>

definition st_load_segment :: "grbl \<Rightarrow> grbl" where
  "st_load_segment g =
     (let s = stepper g; t = st s; seg = segment_buffer s ! unat (segment_buffer_tail s);
          t = t\<lparr>st_exec_segment := Some (segment_buffer_tail s), st_step_count := seg_n_step seg\<rparr>;
          t = (if st_exec_block_index t \<noteq> seg_st_block_index seg then
                 let half = drop_bit 1 (sb_step_event_count (st_block_buffer s ! unat (seg_st_block_index seg)))
                 in t\<lparr>st_exec_block_index := seg_st_block_index seg,
                      st_exec_block := Some (seg_st_block_index seg),
                      st_counter_x := half, st_counter_y := half, st_counter_z := half\<rparr>
               else t);
          eb = st_block_buffer s ! unat (the (st_exec_block t));
          t = t\<lparr>st_dir_outbits := sb_direction_bits eb XOR dir_port_invert_mask s,
                st_steps := map (\<lambda>n. drop_bit (unat (seg_amass_level seg)) n) (sb_steps eb)\<rparr>
      in g\<lparr>stepper := s\<lparr>st := t\<rparr>, hw := (hw g)\<lparr>OCR1A := seg_cycles_per_tick seg\<rparr>\<rparr>)"

text \<open>The three counters, the pulse bits and the machine position.\<close>

definition st_step_axes :: "grbl \<Rightarrow> grbl" where
  "st_step_axes g =
     (let s = stepper g; t = st s;
          eb = st_block_buffer s ! unat (the (st_exec_block t));
          n = sb_step_event_count eb; d = sb_direction_bits eb;
          (cx, px) = bresenham (st_counter_x t) (st_steps t ! 0) n;
          (cy, py) = bresenham (st_counter_y t) (st_steps t ! 1) n;
          (cz, pz) = bresenham (st_counter_z t) (st_steps t ! 2) n;
          out = (if px then bitm 2 else 0) OR (if py then bitm 3 else 0) OR (if pz then bitm 4 else 0);
          pos = step_position pz d 2 (step_position py d 1 (step_position px d 0 (sys_position g)))
      in g\<lparr>stepper := s\<lparr>st := t\<lparr>st_counter_x := cx, st_counter_y := cy, st_counter_z := cz,
                              st_step_outbits := out\<rparr>\<rparr>,
           sys_position := pos\<rparr>)"

definition st_finish_step :: "grbl \<Rightarrow> grbl" where
  "st_finish_step g =
     (let s = stepper g; t = st s;
          out = (if sys_state (sys g) = STATE_HOMING
                 then st_step_outbits t AND sys_homing_axis_lock (sys g) else st_step_outbits t);
          t = t\<lparr>st_step_count := st_step_count t - 1\<rparr>;
          s = (if st_step_count t = 0
               then s\<lparr>segment_buffer_tail := ring_next SEGMENT_BUFFER_SIZE (segment_buffer_tail s)\<rparr>
               else s);
          t = (if st_step_count t = 0 then t\<lparr>st_exec_segment := None\<rparr> else t);
          t = t\<lparr>st_step_outbits := out XOR step_port_invert_mask s\<rparr>
      in g\<lparr>stepper := s\<lparr>st := t, busy := False\<rparr>\<rparr>)"

definition isr_timer1_compa :: "grbl \<Rightarrow> grbl" where
  "isr_timer1_compa g =
     (if busy (stepper g) then g
      else
        let t = st (stepper g);
            p = (PORTD (hw g) AND NOT DIRECTION_MASK) OR (st_dir_outbits t AND DIRECTION_MASK);
            p = (p AND NOT STEP_MASK) OR st_step_outbits t;
            g = g\<lparr>hw := (hw g)\<lparr>PORTD := p, TCNT0 := st_step_pulse_time t, TCCR0B := 2\<rparr>,
                  stepper := (stepper g)\<lparr>busy := True\<rparr>\<rparr>;
            s = stepper g
        in if st_exec_segment t = None \<and> segment_buffer_head s = segment_buffer_tail s then
             system_set_exec_state_flag EXEC_CYCLE_STOP (st_go_idle g)
           else
             let g = (if st_exec_segment t = None then st_load_segment g else g);
                 g = (if sys_probe_state g = PROBE_ACTIVE then probe_state_monitor g else g)
             in st_finish_step (st_step_axes g))"

definition isr_timer0_ovf :: "grbl \<Rightarrow> grbl" where
  "isr_timer0_ovf g =
     g\<lparr>hw := (hw g)\<lparr>PORTD := (PORTD (hw g) AND NOT STEP_MASK)
                       OR (step_port_invert_mask (stepper g) AND STEP_MASK),
                     TCCR0B := 0\<rparr>\<rparr>"

section \<open>Preparing segments: a new block\<close>

definition st_next_block_index :: "u8 \<Rightarrow> u8" where
  "st_next_block_index block_index =
     (let block_index = block_index + 1 in
      if block_index = SEGMENT_BUFFER_SIZE - 1 then 0 else block_index)"

definition set_prep :: "st_prep_t \<Rightarrow> grbl \<Rightarrow> grbl" where
  "set_prep p g = g\<lparr>stepper := (stepper g)\<lparr>prep := p\<rparr>\<rparr>"

definition set_step_control :: "u8 \<Rightarrow> grbl \<Rightarrow> grbl" where
  "set_step_control v g = g\<lparr>sys := (sys g)\<lparr>sys_step_control := v\<rparr>\<rparr>"

definition sc_true :: "u8 \<Rightarrow> grbl \<Rightarrow> bool" where
  "sc_true m g \<longleftrightarrow> sys_step_control (sys g) AND m \<noteq> 0"

text \<open>Block \<open>i\<close> of the planner becomes the next block of Bresenham data.\<close>

definition st_load_block :: "u8 \<Rightarrow> grbl \<Rightarrow> grbl" where
  "st_load_block i g =
     (let b = plan_block g i; p = prep (stepper g);
          k = st_next_block_index (prep_st_block_index p);
          sb = \<lparr>sb_steps = map (push_bit MAX_AMASS_LEVEL) (pb_steps b),
                sb_step_event_count = push_bit MAX_AMASS_LEVEL (pb_step_event_count b),
                sb_direction_bits = pb_direction_bits b\<rparr>;
          g = g\<lparr>stepper := (stepper g)\<lparr>st_prep_block := Some k,
                 st_block_buffer := (st_block_buffer (stepper g))[unat k := sb]\<rparr>\<rparr>;
          steps = f_of_u32 (pb_step_event_count b); per_mm = f_div steps (pb_millimeters b);
          p = p\<lparr>prep_st_block_index := k, prep_steps_remaining := steps, prep_step_per_mm := per_mm,
                prep_req_mm_increment := f_div REQ_MM_INCREMENT_SCALAR per_mm,
                prep_dt_remainder := 0\<rparr>
      in if sc_true STEP_CONTROL_EXECUTE_HOLD g
            \<or> prep_recalculate_flag p AND PREP_FLAG_DECEL_OVERRIDE \<noteq> 0
         then
           set_entry_speed_sqr i (f_mul (prep_exit_speed p) (prep_exit_speed p))
             (set_prep (p\<lparr>prep_current_speed := prep_exit_speed p,
                prep_recalculate_flag := bit_false (prep_recalculate_flag p) PREP_FLAG_DECEL_OVERRIDE\<rparr>) g)
         else set_prep (p\<lparr>prep_current_speed := f_sqrt (pb_entry_speed_sqr b)\<rparr>) g)"

section \<open>Preparing segments: the velocity profile\<close>

definition f_half :: f32 where "f_half = f_dec 5 1"
definition f_two :: f32 where "f_two = f_of_int 2"

definition st_profile_hold :: "plan_block_t \<Rightarrow> f32 \<Rightarrow> st_prep_t \<Rightarrow> st_prep_t" where
  "st_profile_hold b inv_2_accel p =
     (let p = p\<lparr>prep_ramp_type := RAMP_DECEL\<rparr>;
          decel_dist = f_sub (pb_millimeters b) (f_mul inv_2_accel (pb_entry_speed_sqr b))
      in if f_lt decel_dist 0
         then p\<lparr>prep_exit_speed := f_sqrt (f_sub (pb_entry_speed_sqr b) (accel_distance b))\<rparr>
         else p\<lparr>prep_mm_complete := decel_dist, prep_exit_speed := 0\<rparr>)"

definition st_profile_normal ::
  "plan_block_t \<Rightarrow> f32 \<Rightarrow> f32 \<Rightarrow> f32 \<Rightarrow> st_prep_t \<Rightarrow> st_prep_t" where
  "st_profile_normal b inv_2_accel exit_speed_sqr nominal_speed p =
     (let nominal_speed_sqr = f_mul nominal_speed nominal_speed;
          mm = pb_millimeters b; entry = pb_entry_speed_sqr b;
          intersect_distance =
            f_mul f_half (f_add mm (f_mul inv_2_accel (f_sub entry exit_speed_sqr)))
      in if f_lt nominal_speed_sqr entry then
           let p = p\<lparr>prep_accelerate_until := f_sub mm (f_mul inv_2_accel (f_sub entry nominal_speed_sqr))\<rparr>
           in if f_le (prep_accelerate_until p) 0 then
                p\<lparr>prep_ramp_type := RAMP_DECEL,
                  prep_exit_speed := f_sqrt (f_sub entry (accel_distance b)),
                  prep_recalculate_flag := bit_true (prep_recalculate_flag p) PREP_FLAG_DECEL_OVERRIDE\<rparr>
              else
                p\<lparr>prep_decelerate_after := f_mul inv_2_accel (f_sub nominal_speed_sqr exit_speed_sqr),
                  prep_maximum_speed := nominal_speed, prep_ramp_type := RAMP_DECEL_OVERRIDE\<rparr>
         else if f_lt 0 intersect_distance then
           if f_lt intersect_distance mm then
             let p = p\<lparr>prep_decelerate_after := f_mul inv_2_accel (f_sub nominal_speed_sqr exit_speed_sqr)\<rparr>
             in if f_lt (prep_decelerate_after p) intersect_distance then
                  let p = p\<lparr>prep_maximum_speed := nominal_speed\<rparr> in
                  if f_eq entry nominal_speed_sqr then p\<lparr>prep_ramp_type := RAMP_CRUISE\<rparr>
                  else p\<lparr>prep_accelerate_until :=
                         f_sub (prep_accelerate_until p)
                           (f_mul inv_2_accel (f_sub nominal_speed_sqr entry))\<rparr>
                else
                  p\<lparr>prep_accelerate_until := intersect_distance, prep_decelerate_after := intersect_distance,
                    prep_maximum_speed :=
                      f_sqrt (f_add (f_mul (f_mul f_two (pb_acceleration b)) intersect_distance)
                        exit_speed_sqr)\<rparr>
           else p\<lparr>prep_ramp_type := RAMP_DECEL\<rparr>
         else p\<lparr>prep_accelerate_until := 0, prep_maximum_speed := prep_exit_speed p\<rparr>)"

definition st_compute_profile :: "u8 \<Rightarrow> grbl \<Rightarrow> grbl" where
  "st_compute_profile i g =
     (let b = plan_block g i; p = (prep (stepper g))\<lparr>prep_mm_complete := 0\<rparr>;
          inv_2_accel = f_div f_half (pb_acceleration b)
      in if sc_true STEP_CONTROL_EXECUTE_HOLD g then set_prep (st_profile_hold b inv_2_accel p) g
         else
           let exit_speed_sqr = (if sc_true STEP_CONTROL_EXECUTE_SYS_MOTION g then 0
                                 else plan_get_exec_block_exit_speed_sqr g);
               p = p\<lparr>prep_ramp_type := RAMP_ACCEL, prep_accelerate_until := pb_millimeters b,
                     prep_exit_speed := (if sc_true STEP_CONTROL_EXECUTE_SYS_MOTION g then 0
                                         else f_sqrt exit_speed_sqr)\<rparr>
           in set_prep (st_profile_normal b inv_2_accel exit_speed_sqr
                          (plan_compute_profile_nominal_speed g b) p) g)"

section \<open>Preparing segments: distance of a segment\<close>

text \<open>The switch of the ramp types: new profile data, \<open>time_var\<close> and \<open>mm_remaining\<close>.\<close>

definition st_ramp_step ::
  "plan_block_t \<Rightarrow> st_prep_t \<Rightarrow> f32 \<Rightarrow> f32 \<Rightarrow> st_prep_t \<times> f32 \<times> f32" where
  "st_ramp_step b p time_var mm =
     (let speed_var = f_mul (pb_acceleration b) time_var;
          ramp_time = (\<lambda>d v. f_div (f_mul f_two d) (f_add (prep_current_speed p) v))
      in if prep_ramp_type p = RAMP_DECEL_OVERRIDE then
           if f_le (f_sub (prep_current_speed p) (prep_maximum_speed p)) speed_var then
             let mm = prep_accelerate_until p in
             (p\<lparr>prep_ramp_type := RAMP_CRUISE, prep_current_speed := prep_maximum_speed p\<rparr>,
              ramp_time (f_sub (pb_millimeters b) mm) (prep_maximum_speed p), mm)
           else
             (p\<lparr>prep_current_speed := f_sub (prep_current_speed p) speed_var\<rparr>, time_var,
              f_sub mm (f_mul time_var (f_sub (prep_current_speed p) (f_mul f_half speed_var))))
         else if prep_ramp_type p = RAMP_ACCEL then
           let mm' = f_sub mm (f_mul time_var (f_add (prep_current_speed p) (f_mul f_half speed_var))) in
           if f_lt mm' (prep_accelerate_until p) then
             let mm = prep_accelerate_until p in
             (p\<lparr>prep_ramp_type := (if f_eq mm (prep_decelerate_after p) then RAMP_DECEL else RAMP_CRUISE),
                prep_current_speed := prep_maximum_speed p\<rparr>,
              ramp_time (f_sub (pb_millimeters b) mm) (prep_maximum_speed p), mm)
           else (p\<lparr>prep_current_speed := f_add (prep_current_speed p) speed_var\<rparr>, time_var, mm')
         else if prep_ramp_type p = RAMP_CRUISE then
           let mm_var = f_sub mm (f_mul (prep_maximum_speed p) time_var) in
           if f_lt mm_var (prep_decelerate_after p) then
             (p\<lparr>prep_ramp_type := RAMP_DECEL\<rparr>,
              f_div (f_sub mm (prep_decelerate_after p)) (prep_maximum_speed p), prep_decelerate_after p)
           else (p, time_var, mm_var)
         else
           let mm_var = f_sub mm (f_mul time_var (f_sub (prep_current_speed p) (f_mul f_half speed_var))) in
           if f_lt speed_var (prep_current_speed p) \<and> f_lt (prep_mm_complete p) mm_var then
             (p\<lparr>prep_current_speed := f_sub (prep_current_speed p) speed_var\<rparr>, time_var, mm_var)
           else
             (p\<lparr>prep_current_speed := prep_exit_speed p\<rparr>,
              ramp_time (f_sub mm (prep_mm_complete p)) (prep_exit_speed p), prep_mm_complete p))"

text \<open>The \<open>do \<dots> while (mm_remaining > prep.mm_complete)\<close> loop.\<close>

partial_function (option) st_ramp_loop ::
  "plan_block_t \<Rightarrow> f32 \<Rightarrow> st_prep_t \<Rightarrow> f32 \<Rightarrow> f32 \<Rightarrow> f32 \<Rightarrow> f32 \<Rightarrow> (st_prep_t \<times> f32 \<times> f32) option"
where
  "st_ramp_loop b minimum_mm p dt_max dt time_var mm =
     (let (p, time_var, mm) = st_ramp_step b p time_var mm; dt = f_add dt time_var in
      if f_lt dt dt_max then
        if f_lt (prep_mm_complete p) mm
        then st_ramp_loop b minimum_mm p dt_max dt (f_sub dt_max dt) mm else Some (p, dt, mm)
      else if f_lt minimum_mm mm then
        let dt_max = f_add dt_max DT_SEGMENT in
        if f_lt (prep_mm_complete p) mm
        then st_ramp_loop b minimum_mm p dt_max dt (f_sub dt_max dt) mm else Some (p, dt, mm)
      else Some (p, dt, mm))"

section \<open>Preparing segments: the segment\<close>

text \<open>Timer period, AMASS level and step count of a segment from its CPU cycles per step.\<close>

definition st_segment_timing :: "u32 \<Rightarrow> segment_t \<Rightarrow> segment_t" where
  "st_segment_timing cycles sg =
     (let level = (if cycles < AMASS_LEVEL1 then 0 else if cycles < AMASS_LEVEL2 then 1
                   else if cycles < AMASS_LEVEL3 then 2 else (3 :: u8));
          cycles = drop_bit (unat level) cycles
      in sg\<lparr>seg_amass_level := level, seg_n_step := push_bit (unat level) (seg_n_step sg),
            seg_cycles_per_tick := (if cycles < 0x10000 then ucast cycles else 0xffff)\<rparr>)"

text \<open>
  One round of the loop for the block \<open>i\<close> after its profile is known. The \<open>bool\<close> tells
  whether the loop goes on.
\<close>

definition st_prep_segment :: "u8 \<Rightarrow> grbl \<Rightarrow> (bool \<times> grbl) option" where
  "st_prep_segment i g =
     (let b = plan_block g i; p = prep (stepper g); mm = pb_millimeters b;
          minimum_mm = f_sub mm (prep_req_mm_increment p);
          minimum_mm = (if f_lt minimum_mm 0 then 0 else minimum_mm)
      in do {
        (p, dt, mm) \<leftarrow> st_ramp_loop b minimum_mm p DT_SEGMENT 0 DT_SEGMENT mm;
        let g = set_prep p g;
        let step_dist_remaining = f_mul (prep_step_per_mm p) mm;
        let n_steps_remaining = f_ceil step_dist_remaining;
        let last_n_steps_remaining = f_ceil (prep_steps_remaining p);
        let n_step = f_to_u16 (w_cast (world g)) (f_sub last_n_steps_remaining n_steps_remaining);
        let h = segment_buffer_head (stepper g);
        let sg = (segment_buffer (stepper g) ! unat h)\<lparr>seg_st_block_index := prep_st_block_index p,
                   seg_n_step := n_step\<rparr>;
        let g = g\<lparr>stepper := (stepper g)\<lparr>segment_buffer := (segment_buffer (stepper g))[unat h := sg]\<rparr>\<rparr>;
        if n_step = 0 \<and> sc_true STEP_CONTROL_EXECUTE_HOLD g then
          Some (False, set_step_control (bit_true (sys_step_control (sys g)) STEP_CONTROL_END_MOTION) g)
        else do {
          let dt = f_add dt (prep_dt_remainder p);
          let inv_rate = f_div dt (f_sub last_n_steps_remaining step_dist_remaining);
          let cycles = f_to_u32 (w_cast (world g)) (f_ceil (f_mul (f_of_int 960000000) inv_rate));
          let sg = st_segment_timing cycles sg;
          let nh = segment_next_head (stepper g);
          let g = g\<lparr>stepper := (stepper g)\<lparr>
                    segment_buffer := (segment_buffer (stepper g))[unat h := sg],
                    segment_buffer_head := nh,
                    segment_next_head := ring_next SEGMENT_BUFFER_SIZE nh,
                    prep := p\<lparr>prep_steps_remaining := n_steps_remaining,
                      prep_dt_remainder := f_mul (f_sub n_steps_remaining step_dist_remaining) inv_rate\<rparr>\<rparr>\<rparr>;
          let g = set_plan_block i ((plan_block g i)\<lparr>pb_millimeters := mm\<rparr>) g;
          if f_eq mm (prep_mm_complete p) then
            if f_lt 0 mm \<or> sc_true STEP_CONTROL_EXECUTE_SYS_MOTION g then
              Some (False, set_step_control (bit_true (sys_step_control (sys g)) STEP_CONTROL_END_MOTION) g)
            else Some (True, plan_discard_current_block (g\<lparr>stepper := (stepper g)\<lparr>pl_block := None\<rparr>\<rparr>))
          else Some (True, g)
        }
      })"

text \<open>The block to prepare: the current one, or one just taken from the planner (\<open>None\<close>: none).\<close>

definition st_prep_block_ready :: "grbl \<Rightarrow> (u8 \<times> grbl) option" where
  "st_prep_block_ready g =
     (case pl_block (stepper g) of
        Some i \<Rightarrow> Some (i, g)
      | None \<Rightarrow>
          (case (if sc_true STEP_CONTROL_EXECUTE_SYS_MOTION g then Some (plan_get_system_motion_block g)
                 else plan_get_current_block g) of
             None \<Rightarrow> None
           | Some i \<Rightarrow>
               let g = g\<lparr>stepper := (stepper g)\<lparr>pl_block := Some i\<rparr>\<rparr>;
                   g = (if bit_istrue (prep_recalculate_flag (prep (stepper g))) PREP_FLAG_RECALCULATE
                        then set_prep ((prep (stepper g))\<lparr>prep_recalculate_flag := 0\<rparr>) g
                        else st_load_block i g)
               in Some (i, st_compute_profile i g)))"

partial_function (option) st_prep_loop :: "grbl \<Rightarrow> grbl option" where
  "st_prep_loop g =
     (if segment_buffer_tail (stepper g) \<noteq> segment_next_head (stepper g) then
        case st_prep_block_ready g of
          None \<Rightarrow> Some g
        | Some ig \<Rightarrow>
            Option.bind (st_prep_segment (fst ig) (snd ig))
              (\<lambda>cg. if fst cg then st_prep_loop (snd cg) else Some (snd cg))
      else Some g)"

definition st_prep_buffer :: "grbl \<Rightarrow> grbl option" where
  "st_prep_buffer g = (if sc_true STEP_CONTROL_END_MOTION g then Some g else st_prep_loop g)"

definition st_get_realtime_rate :: "grbl \<Rightarrow> f32" where
  "st_get_realtime_rate g =
     (if sys_state (sys g)
         AND (STATE_CYCLE OR STATE_HOMING OR STATE_HOLD OR STATE_JOG OR STATE_SAFETY_DOOR) \<noteq> 0
      then prep_current_speed (prep (stepper g)) else 0)"

end
