(* ===== verification/Cfloat_Properties.thy ===== *)
theory Cfloat_Properties
  imports Cfloat
begin

text \<open>
  The sign of float results: rounding keeps the sign, and keeps a number nonzero unless it is below
  the smallest subnormal. The order of floats is that of their keys.
\<close>

section \<open>Bit lengths\<close>

lemma bit_len_bounds: "n > 0 \<Longrightarrow> 2 ^ (bit_len n - 1) \<le> n \<and> n < 2 ^ bit_len n"
proof (induction n rule: bit_len.induct)
  case (1 n)
  have len: "bit_len n = Suc (bit_len (n div 2))"
    using "1.prems" by (subst bit_len.simps) simp
  show ?case
  proof (cases "n div 2 = 0")
    case True
    with "1.prems" have "n = 1" by linarith
    then show ?thesis by (simp add: bit_len.simps [of "Suc 0"] bit_len.simps [of 0])
  next
    case False
    then have "bit_len (n div 2) \<noteq> 0" by (subst bit_len.simps) simp
    then obtain k where k: "bit_len (n div 2) = Suc k" by (cases "bit_len (n div 2)") auto
    from "1.IH" "1.prems" False k have "2 ^ k \<le> n div 2" "n div 2 < 2 * 2 ^ k" by simp_all
    then have "2 * 2 ^ k \<le> n" "n < 4 * 2 ^ k" by linarith+
    then show ?thesis by (simp add: len k)
  qed
qed

lemma bit_len_numeral [simp]:
  "bit_len 0 = 0" "bit_len (Suc 0) = 1" "bit_len 1 = 1"
  "bit_len (numeral (num.Bit0 k)) = Suc (bit_len (numeral k))"
  "bit_len (numeral (num.Bit1 k)) = Suc (bit_len (numeral k))"
  by (subst bit_len.simps; simp add: bit_len.simps [of 0] bit_len.simps [of "Suc 0"])+

section \<open>Signs\<close>

text \<open>Not a number, and otherwise the sign with the question whether it is zero.\<close>

definition f_has_sign :: "bool \<Rightarrow> f32 \<Rightarrow> bool" where
  "f_has_sign s x \<longleftrightarrow> (case f_decode x of FNan \<Rightarrow> False | FInf t \<Rightarrow> t = s | FNum t m e \<Rightarrow> t = s \<and> m \<noteq> 0)"

lemma decode_sign_bits:
  assumes "n < 255 * 2 ^ 23"
  shows "f_decode (sign_bits s n) =
    (if n div 2 ^ 23 = 0 then FNum s n (-149) else FNum s (2 ^ 23 + n mod 2 ^ 23) (int (n div 2 ^ 23) - 150))"
proof -
  have u: "unat (sign_bits s n) = (if s then 2 ^ 31 + n else n)"
    using assms by (auto simp: sign_bits_def unat_of_nat take_bit_eq_mod)
  have "(2147483648 + n) div 2147483648 = 1" using assms by (intro div_nat_eqI) simp_all
  then have "bit (unat (sign_bits s n)) 31 = s"
    using assms by (auto simp: u bit_iff_odd)
  then have "bit (sign_bits s n) 31 = s" by (simp add: bit_unsigned_iff)
  moreover have "n div 2 ^ 23 < 255" using assms by (simp add: less_mult_imp_div_less)
  moreover have e: "2 ^ 31 + n = n + 256 * 2 ^ 23" by simp
  have "(n + 256 * 2 ^ 23) div 2 ^ 23 = 256 + n div 2 ^ 23" by (rule div_mult_self1) simp
  then have "(2 ^ 31 + n) div 2 ^ 23 mod 256 = n div 2 ^ 23 mod 256" unfolding e by simp
  moreover have "(2 ^ 31 + n) mod 2 ^ 23 = n mod 2 ^ 23" unfolding e by (rule mod_mult_self1)
  ultimately show ?thesis
    using assms by (auto simp: f_decode_def u Let_def)
qed

lemma nonzero_sign_bits: "0 < n \<Longrightarrow> n < 255 * 2 ^ 23 \<Longrightarrow> f_has_sign s (sign_bits s n)"
  by (auto simp: f_has_sign_def decode_sign_bits)

lemma nonzero_inf: "f_has_sign s (f_inf s)"
proof -
  have "f_decode (f_inf s) = FInf s" by (cases s) (simp_all add: f_inf_def f_decode_def Let_def bit_iff_odd)
  then show ?thesis by (simp add: f_has_sign_def)
qed

text \<open>The rounded significand when the last place has the exponent \<open>q\<close>.\<close>

definition round_sig :: "nat \<Rightarrow> int \<Rightarrow> int \<Rightarrow> nat" where
  "round_sig m e q =
     (if q \<le> e then m * 2 ^ nat (e - q)
      else let d = 2 ^ nat (q - e); a = m div d; r = m mod d in
        if 2 * r > d \<or> (2 * r = d \<and> odd a) then a + 1 else a)"

lemma f_round_eq:
  assumes "m > 0" and "q = max (e + int (bit_len m) - 24) (- 149)"
    and "n = nat (int (round_sig m e q) + (q + 149) * 2 ^ 23)"
  shows "f_round s m e = (if n \<ge> 255 * 2 ^ 23 then f_inf s else sign_bits s n)"
  unfolding assms(2,3) f_round_def round_sig_def Let_def using assms(1) by simp

text \<open>Rounding a number of at least the smallest subnormal.\<close>

lemma nonzero_round:
  assumes "m > 0" and "- 149 < e + int (bit_len m)"
  shows "f_has_sign s (f_round s m e)"
proof -
  define q where "q = max (e + int (bit_len m) - 24) (- 149)"
  define n where "n = nat (int (round_sig m e q) + (q + 149) * 2 ^ 23)"
  have "round_sig m e q > 0"
  proof (cases "q \<le> e")
    case True
    then show ?thesis using assms(1) by (simp add: round_sig_def)
  next
    case False
    have "nat (q - e) \<le> bit_len m - 1" using assms(2) False by (auto simp: q_def)
    then have "2 ^ nat (q - e) \<le> (2 :: nat) ^ (bit_len m - 1)" by (rule power_increasing) simp
    also have "\<dots> \<le> m" using bit_len_bounds [OF assms(1)] by simp
    finally have "m div 2 ^ nat (q - e) > 0" by (simp add: div_greater_zero_iff)
    with False show ?thesis by (simp add: round_sig_def Let_def)
  qed
  moreover have "q + 149 \<ge> 0" by (simp add: q_def)
  ultimately have "n > 0" by (simp add: n_def)
  with f_round_eq [OF assms(1) q_def n_def] show ?thesis by (simp add: nonzero_inf nonzero_sign_bits)
qed

section \<open>Quotients\<close>

text \<open>A positive finite divisor. Its exponent is at most 104 and its significand has at most 24 bits.\<close>

definition f_positive :: "f32 \<Rightarrow> bool" where
  "f_positive x \<longleftrightarrow> (case f_decode x of FNum s m e \<Rightarrow> \<not> s \<and> m \<noteq> 0 | _ \<Rightarrow> False)"

lemma decode_range: "f_decode x = FNum s m e \<Longrightarrow> m < 2 ^ 24 \<and> - 149 \<le> e \<and> e \<le> 104"
proof -
  assume d: "f_decode x = FNum s m e"
  let ?ex = "unat x div 2 ^ 23 mod 256" and ?fr = "unat x mod 2 ^ 23"
  have "?ex < 256" "?fr < 2 ^ 23" by simp_all
  with d show ?thesis
    unfolding f_decode_def Let_def by (auto split: if_split_asm)
qed

lemma bit_len_less: "2 ^ k \<le> n \<Longrightarrow> k < bit_len n"
proof -
  assume k: "2 ^ k \<le> n"
  then have "0 < n" by (metis gr0I le_zero_eq power_not_zero zero_neq_numeral)
  with k have "(2 :: nat) ^ k < 2 ^ bit_len n" using bit_len_bounds [of n] by linarith
  then show ?thesis by simp
qed

lemma bit_len_le: "0 < n \<Longrightarrow> n < 2 ^ k \<Longrightarrow> bit_len n \<le> k"
proof -
  assume "0 < n" "n < 2 ^ k"
  then have "(2 :: nat) ^ (bit_len n - 1) < 2 ^ k" using bit_len_bounds [of n] by linarith
  then show ?thesis by simp
qed

text \<open>An integer of at most 32 bits as a float: its magnitude is at least one.\<close>

lemma of_int_decode:
  assumes "i \<noteq> 0" and "\<bar>i\<bar> < 2 ^ 32"
  obtains m e where "f_decode (f_of_int i) = FNum (i < 0) m e" "0 < m" "- 1 < e + int (bit_len m)"
proof -
  define m where "m = nat \<bar>i\<bar>"
  have m: "0 < m" "m < 2 ^ 32" using assms by (auto simp: m_def)
  define b where "b = bit_len m"
  have b: "0 < b" "b \<le> 32" "2 ^ (b - 1) \<le> m" "m < 2 ^ b"
    using bit_len_less [of 0 m] bit_len_le [OF m] bit_len_bounds [OF m(1)] m by (simp_all add: b_def)
  define sig where "sig = round_sig m 0 (int b - 24)"
  have sig: "2 ^ 23 \<le> sig" "sig \<le> 2 ^ 24"
  proof -
    have "2 ^ 23 \<le> m * 2 ^ (24 - b) \<and> m * 2 ^ (24 - b) \<le> 2 ^ 24" if "b \<le> 24"
    proof -
      have "(2 :: nat) ^ 23 = 2 ^ (b - 1) * 2 ^ (24 - b)" "(2 :: nat) ^ 24 = 2 ^ b * 2 ^ (24 - b)"
        using that b(1) by (simp_all add: power_add [symmetric])
      with mult_le_mono1 [OF b(3), of "2 ^ (24 - b)"] mult_le_mono1 [OF less_imp_le [OF b(4)], of "2 ^ (24 - b)"]
      show ?thesis by linarith
    qed
    moreover have "2 ^ 23 \<le> m div 2 ^ (b - 24) \<and> m div 2 ^ (b - 24) < 2 ^ 24" if "\<not> b \<le> 24"
    proof -
      have "b - 1 = 23 + (b - 24)" "b = 24 + (b - 24)" using that by simp_all
      then have "(2 :: nat) ^ (b - 1) = 2 ^ 23 * 2 ^ (b - 24)" "(2 :: nat) ^ b = 2 ^ 24 * 2 ^ (b - 24)"
        by (metis power_add)+
      then show ?thesis using b by (simp add: less_eq_div_iff_mult_less_eq less_mult_imp_div_less)
    qed
    ultimately show "2 ^ 23 \<le> sig" "sig \<le> 2 ^ 24" by (auto simp: sig_def round_sig_def Let_def nat_diff_distrib')
  qed
  define n where "n = sig + (b + 125) * 2 ^ 23"
  have "f_of_int i = (if n \<ge> 255 * 2 ^ 23 then f_inf (i < 0) else sign_bits (i < 0) n)"
    unfolding f_of_int_def m_def [symmetric]
    by (rule f_round_eq [OF m(1), of "int b - 24"])
      (use b(1) in \<open>simp_all add: b_def [symmetric] sig_def [symmetric] n_def nat_add_distrib algebra_simps\<close>)
  moreover have "n < 255 * 2 ^ 23" using sig b by (simp add: n_def)
  ultimately have "f_decode (f_of_int i) = FNum (i < 0) (2 ^ 23 + n mod 2 ^ 23) (int (n div 2 ^ 23) - 150)"
    using sig(1) by (simp add: decode_sign_bits n_def)
  moreover have "23 < bit_len (2 ^ 23 + n mod 2 ^ 23)" by (rule bit_len_less) simp
  moreover have "127 \<le> n div 2 ^ 23" using sig b by (simp add: n_def)
  ultimately show ?thesis using that by force
qed

lemma nonzero_div_int:
  assumes "i \<noteq> 0" and "\<bar>i\<bar> < 2 ^ 32" and "f_positive x"
  shows "f_has_sign (i < 0) (f_div (f_of_int i) x)"
proof -
  obtain m e where i: "f_decode (f_of_int i) = FNum (i < 0) m e" "- 1 < e + int (bit_len m)" and m: "0 < m"
    by (rule of_int_decode [OF assms(1,2)])
  obtain n k where x: "f_decode x = FNum False n k" "0 < n"
    using assms(3) by (auto simp: f_positive_def split: fval.split_asm)
  with decode_range [OF x(1)] have n: "n < 2 ^ bit_len n" "bit_len n \<le> 24" "k \<le> 104"
    using bit_len_bounds [of n] bit_len_le [of n 24] by simp_all
  define sh where "sh = 27 + bit_len n"
  define M where "M = 2 * (m * 2 ^ sh div n) + (if m * 2 ^ sh mod n = 0 then 0 else 1)"
  have "bit_len m \<noteq> 0" using bit_len_less [of 0 m] m by simp
  then have "2 ^ (bit_len m + 26) * 2 ^ bit_len n = (2 :: nat) ^ (bit_len m - 1) * 2 ^ sh"
    by (simp add: sh_def power_add [symmetric])
  also have "\<dots> \<le> m * 2 ^ sh" using bit_len_bounds [OF m] by simp
  finally have "2 ^ (bit_len m + 26) * n \<le> m * 2 ^ sh"
    using mult_le_mono2 [OF less_imp_le [OF n(1)], of "2 ^ (bit_len m + 26)"] by linarith
  then have "2 ^ (bit_len m + 26) \<le> m * 2 ^ sh div n"
    using x(2) by (simp add: less_eq_div_iff_mult_less_eq)
  moreover have "2 ^ (bit_len m + 27) = 2 * (2 :: nat) ^ (bit_len m + 26)"
    by (simp add: power_add)
  ultimately have "2 ^ (bit_len m + 27) \<le> M" by (simp add: M_def)
  then have "bit_len m + 27 < bit_len M" "0 < M" using bit_len_less [of "bit_len m + 27" M] by (auto intro: gr0I)
  then have "f_has_sign (i < 0) (f_round (i < 0) M (e - k - int sh - 1))"
    by (intro nonzero_round) (use i(2) n(2,3) in \<open>auto simp: sh_def\<close>)
  moreover have "f_div (f_of_int i) x = f_round (i < 0) M (e - k - int sh - 1)"
    using x(2) by (simp add: f_div_def i(1) x(1) Let_def sh_def M_def)
  ultimately show ?thesis by simp
qed

lemma lt_zero_iff: "f_lt x 0 \<longleftrightarrow> f_has_sign True x"
proof -
  have "f_decode 0 = FNum False 0 (-149)" by (simp add: f_decode_def)
  then show ?thesis
    by (auto simp: f_lt_def f_cmp_def f_has_sign_def signed_sig_def zero_less_mult_iff mult_less_0_iff split: fval.split)
qed

section \<open>Order\<close>

lemma f_lt_irrefl [simp]: "\<not> f_lt x x"
  by (simp add: f_lt_def f_cmp_def)

lemma f_lt_trans: "f_lt x y \<Longrightarrow> f_lt y z \<Longrightarrow> f_lt x z"
  by (auto simp: f_lt_def f_cmp_def Let_def)

lemma f_lt_asym: "f_lt x y \<Longrightarrow> \<not> f_lt y x"
  by (auto simp: f_lt_def f_cmp_def Let_def)

lemma f_min_limit: "\<not> f_lt x (f_min x y)"
  by (auto simp: f_min_def)

end
