(* ===== verification/Planner_Properties.thy ===== *)
theory Planner_Properties
  imports Planner Cfloat_Properties
begin

text \<open>
  The planner ring as a queue of motions, and the loops over it.
\<close>

section \<open>The ring\<close>

lemma plan_ring_size: "unat BLOCK_BUFFER_SIZE = 12"
  by (simp add: BLOCK_BUFFER_SIZE_def)

interpretation plan: ring BLOCK_BUFFER_SIZE plan_next_block_index
  by unfold_locales (simp_all add: BLOCK_BUFFER_SIZE_def plan_next_block_index_def ring_next_nat)

abbreviation plan_slot :: "u8 \<Rightarrow> nat \<Rightarrow> u8" where
  "plan_slot \<equiv> ring.slot BLOCK_BUFFER_SIZE"

lemma prev_next:
  assumes "i < BLOCK_BUFFER_SIZE"
  shows "plan_prev_block_index (plan_next_block_index i) = i"
proof -
  have "i + 1 \<noteq> 0"
    using assms by (auto simp: BLOCK_BUFFER_SIZE_def word_less_nat_alt word_unat_eq_iff unat_word_ariths)
  moreover have "i + 1 = 12 \<Longrightarrow> i = 11" by (simp add: eq_diff_eq [symmetric])
  ultimately show ?thesis
    by (auto simp: plan_prev_block_index_def plan_next_block_index_def ring_next_def Let_def BLOCK_BUFFER_SIZE_def)
qed

lemma prev_slot [simp]: "plan_prev_block_index (plan_slot t (Suc k)) = plan_slot t k"
  using prev_next [OF plan.slot_less] by (simp add: plan.nxt_slot)

lemma next_slot [simp]: "plan_next_block_index (plan_slot t k) = plan_slot t (Suc k)"
  by (rule plan.nxt_slot)

text \<open>The indices and the number of blocks.\<close>

definition planner_ok :: "grbl \<Rightarrow> bool" where
  "planner_ok g \<longleftrightarrow> (let p = planner g in length (block_buffer p) = 12
     \<and> block_buffer_tail p < BLOCK_BUFFER_SIZE \<and> block_buffer_head p < BLOCK_BUFFER_SIZE
     \<and> next_buffer_head p = plan_next_block_index (block_buffer_head p)
     \<and> block_buffer_planned p < BLOCK_BUFFER_SIZE)"

definition plan_count :: "grbl \<Rightarrow> nat" where
  "plan_count g = ring_len 12 (block_buffer_head (planner g)) (block_buffer_tail (planner g))"

text \<open>
  A block without the two speeds that planning changes, and the queue of these from the oldest
  to the newest.
\<close>

definition motion :: "plan_block_t \<Rightarrow> plan_block_t" where
  "motion b = b\<lparr>pb_entry_speed_sqr := 0, pb_max_entry_speed_sqr := 0\<rparr>"

definition plan_queue :: "grbl \<Rightarrow> plan_block_t list" where
  "plan_queue g = map motion
     (ring_list 12 (block_buffer (planner g)) (block_buffer_head (planner g)) (block_buffer_tail (planner g)))"

section \<open>What planning leaves alone\<close>

definition motions :: "grbl \<Rightarrow> plan_block_t list \<times> u8 \<times> u8 \<times> u8 \<times> u32 list" where
  "motions g = (map motion (block_buffer (planner g)), block_buffer_tail (planner g),
     block_buffer_head (planner g), next_buffer_head (planner g), pl_position (pl (planner g)))"

lemma motion_simps [simp]: "motion (b\<lparr>pb_entry_speed_sqr := v\<rparr>) = motion b" "motion (b\<lparr>pb_max_entry_speed_sqr := v\<rparr>) = motion b"
  by (simp_all add: motion_def)

lemma map_update_same: "f x = f (xs ! i) \<Longrightarrow> map f (xs[i := x]) = map f xs"
  by (metis list_update_id map_update)

lemma motions_entry [simp]: "motions (set_entry_speed_sqr i v g) = motions g"
  by (simp add: motions_def set_entry_speed_sqr_def set_plan_block_def plan_block_def map_update_same)

lemma motions_block: "motion b = motion (plan_block g i) \<Longrightarrow> motions (set_plan_block i b g) = motions g"
  by (simp add: motions_def set_plan_block_def plan_block_def map_update_same)

lemma motions_planned [simp]: "motions (set_planned i g) = motions g"
  by (simp add: motions_def set_planned_def)

lemma motions_update [simp]: "motions (st_update_plan_block_parameters g) = motions g"
proof -
  have "motions (h\<lparr>stepper := s\<rparr>) = motions h" for h s by (simp add: motions_def)
  then show ?thesis by (simp add: st_update_plan_block_parameters_def Let_def split: option.split)
qed

lemma motions_reverse [simp]: "motions (plan_reverse_pass n c i g) = motions g"
  by (induction n c i g rule: plan_reverse_pass.induct) (simp_all add: Let_def)

lemma motions_forward [simp]: "motions (plan_forward_pass n c i g) = motions g"
  by (induction n c i g rule: plan_forward_pass.induct) (simp_all add: Let_def)

lemma motions_recalculate [simp]: "motions (planner_recalculate g) = motions g"
  by (simp add: planner_recalculate_def Let_def)

lemma motions_profiles [simp]: "motions (snd (plan_update_profiles n i v g)) = motions g"
  by (induction n i v g rule: plan_update_profiles.induct)
    (simp_all add: Let_def motions_block plan_compute_profile_parameters_def)

lemma motions_velocity [simp]:
  "motions (plan_update_velocity_profile_parameters g) = motions g" "motions (plan_cycle_reinitialize g) = motions g"
proof -
  have "motions (h\<lparr>planner := (planner h)\<lparr>pl := (pl (planner h))\<lparr>pl_previous_nominal_speed := v\<rparr>\<rparr>\<rparr>) = motions h" for h v
    by (simp add: motions_def)
  then show "motions (plan_update_velocity_profile_parameters g) = motions g"
    by (simp add: plan_update_velocity_profile_parameters_def Let_def split_def)
  show "motions (plan_cycle_reinitialize g) = motions g"
    by (simp add: plan_cycle_reinitialize_def Let_def)
qed

text \<open>The planned pointer stays in the ring.\<close>

definition planned_ok :: "grbl \<Rightarrow> bool" where
  "planned_ok g \<longleftrightarrow> block_buffer_planned (planner g) < BLOCK_BUFFER_SIZE"

lemma planned_simps [simp]:
  "planned_ok (set_entry_speed_sqr i v g) = planned_ok g" "planned_ok (set_plan_block i b g) = planned_ok g"
  "planned_ok (set_planned i g) = (i < BLOCK_BUFFER_SIZE)"
  "planned_ok (st_update_plan_block_parameters g) = planned_ok g"
  by (simp_all add: planned_ok_def set_entry_speed_sqr_def set_plan_block_def set_planned_def
      st_update_plan_block_parameters_def Let_def split: option.split)

lemma planned_reverse [simp]: "planned_ok (plan_reverse_pass n c i g) = planned_ok g"
  by (induction n c i g rule: plan_reverse_pass.induct) (simp_all add: Let_def)

lemma planned_forward: "planned_ok g \<Longrightarrow> i < BLOCK_BUFFER_SIZE \<Longrightarrow> planned_ok (plan_forward_pass n c i g)"
  by (induction n c i g rule: plan_forward_pass.induct) (simp_all add: Let_def plan.nxt_less)

lemma planned_recalculate: "planned_ok g \<Longrightarrow> planned_ok (planner_recalculate g)"
  by (auto simp: planner_recalculate_def Let_def planned_ok_def [symmetric] plan.nxt_less
      intro!: planned_forward plan.nxt_less)

lemma planner_ok_iff:
  "planner_ok g \<longleftrightarrow> planned_ok g \<and> (case motions g of (bs, t, h, n, p) \<Rightarrow>
     length bs = 12 \<and> t < BLOCK_BUFFER_SIZE \<and> h < BLOCK_BUFFER_SIZE \<and> n = plan_next_block_index h)"
  by (auto simp: planner_ok_def planned_ok_def motions_def Let_def)

lemma queue_of_motions:
  "planner_ok g \<Longrightarrow> plan_queue g = (case motions g of (bs, t, h, n, p) \<Rightarrow> ring_list 12 bs h t)"
  by (auto simp: plan_queue_def motions_def ring_list_def planner_ok_def Let_def)

lemma planning_keeps:
  assumes "planner_ok g" and "motions h = motions g" and "planned_ok h"
  shows "planner_ok h" "plan_queue h = plan_queue g"
proof -
  show ok: "planner_ok h" using assms by (simp add: planner_ok_iff)
  show "plan_queue h = plan_queue g"
    using queue_of_motions [OF ok] queue_of_motions [OF assms(1)] assms(2) by simp
qed

section \<open>The loops\<close>

text \<open>
  A bound that exceeds the number of places from one index to the other has no effect: the loop without a bound
  reaches its exit, in the same state.
\<close>

lemma planned_same [simp]:
  "block_buffer_planned (planner (set_entry_speed_sqr i v g)) = block_buffer_planned (planner g)"
  "block_buffer_planned (planner (st_update_plan_block_parameters g)) = block_buffer_planned (planner g)"
  by (simp_all add: set_entry_speed_sqr_def set_plan_block_def st_update_plan_block_parameters_def Let_def
      split: option.split)

lemma reverse_pass_Suc:
  "plan_reverse_pass (Suc n) nxt i g =
     (if i \<noteq> block_buffer_planned (planner g)
      then plan_reverse_pass n i (plan_prev_block_index i) (reverse_step nxt i g) else g)"
  by (simp add: reverse_step_def Let_def)

lemma forward_pass_Suc:
  "plan_forward_pass (Suc n) current i g =
     (if i \<noteq> block_buffer_head (planner g)
      then plan_forward_pass n i (plan_next_block_index i) (forward_step current i g) else g)"
  by (simp add: forward_step_def Let_def)

lemma update_profiles_Suc:
  "plan_update_profiles (Suc n) i v g =
     (if i \<noteq> block_buffer_head (planner g)
      then plan_update_profiles n (plan_next_block_index i)
             (plan_compute_profile_nominal_speed g (plan_block g i)) (profile_step i v g)
      else (v, g))"
  by (simp add: profile_step_def Let_def)

lemmas round_simps = reverse_pass_Suc forward_pass_Suc update_profiles_Suc
lemmas round_defs = plan_reverse_pass.simps plan_forward_pass.simps plan_update_profiles.simps

lemma step_indices [simp]:
  "block_buffer_planned (planner (reverse_step c i g)) = block_buffer_planned (planner g)"
  "block_buffer_head (planner (forward_step c i g)) = block_buffer_head (planner g)"
  "block_buffer_head (planner (profile_step i v g)) = block_buffer_head (planner g)"
  by (simp_all add: reverse_step_def forward_step_def profile_step_def set_entry_speed_sqr_def
      set_plan_block_def set_planned_def st_update_plan_block_parameters_def Let_def split: option.split)

lemma reverse_loop_ends:
  assumes "block_buffer_planned (planner g) = plan_slot t p" and "k < n"
  shows "reverse_loop c (plan_slot t (p + k)) g = Some (plan_reverse_pass n c (plan_slot t (p + k)) g)"
  using assms
proof (induction k arbitrary: n c g)
  case 0
  then show ?case by (cases n) (simp_all add: round_simps reverse_loop.simps del: round_defs)
next
  case (Suc k)
  from Suc.prems(2) obtain n' where "n = Suc n'" by (cases n) auto
  with Suc.prems Suc.IH [where g = "reverse_step c (plan_slot t (p + Suc k)) g" and n = n']
  show ?case by (simp add: round_simps reverse_loop.simps [of c] del: round_defs)
qed

lemma forward_loop_ends:
  assumes "block_buffer_head (planner g) = plan_slot t (p + k)" and "k < n"
  shows "forward_loop c (plan_slot t p) g = Some (plan_forward_pass n c (plan_slot t p) g)"
  using assms
proof (induction k arbitrary: n c p g)
  case 0
  then show ?case by (cases n) (simp_all add: round_simps forward_loop.simps del: round_defs)
next
  case (Suc k)
  from Suc.prems(2) obtain n' where "n = Suc n'" by (cases n) auto
  with Suc.prems Suc.IH [where g = "forward_step c (plan_slot t p) g" and p = "Suc p" and n = n']
  show ?case by (simp add: round_simps forward_loop.simps [of c] del: round_defs)
qed

lemma profiles_loop_ends:
  assumes "block_buffer_head (planner g) = plan_slot t (p + k)" and "k < n"
  shows "profiles_loop (plan_slot t p) v g = Some (plan_update_profiles n (plan_slot t p) v g)"
  using assms
proof (induction k arbitrary: n v p g)
  case 0
  then show ?case by (cases n) (simp_all add: round_simps profiles_loop.simps del: round_defs)
next
  case (Suc k)
  from Suc.prems(2) obtain n' where "n = Suc n'" by (cases n) auto
  with Suc.prems Suc.IH [where g = "profile_step (plan_slot t p) v g" and p = "Suc p" and n = n']
  show ?case by (simp add: round_simps profiles_loop.simps [of "plan_slot t p"] del: round_defs)
qed

text \<open>Two indices of the ring are always less than 12 places apart.\<close>

lemma ring_distance:
  assumes "i < BLOCK_BUFFER_SIZE" and "j < BLOCK_BUFFER_SIZE"
  obtains k where "k < 12" "j = plan_slot i k" "i = plan_slot i 0"
proof
  show "ring_len 12 j i < 12" by (simp add: ring_len_def)
  show "j = plan_slot i (ring_len 12 j i)" "i = plan_slot i 0"
    using plan.slot_head [OF assms(2,1)] plan.slot_0 [OF assms(1)] by (simp_all add: plan_ring_size)
qed

section \<open>Entry and discard\<close>

text \<open>The values that planning computes for a line, before they are stored.\<close>

definition line_steps :: "grbl \<Rightarrow> f32 list \<Rightarrow> u32 list" where
  "line_steps g target = map (\<lambda>idx. labs32 (plan_target_steps g target ! idx - pl_position (pl (planner g)) ! idx)) [0, 1, 2]"

lemma buffer_line_enters:
  assumes "plan_buffer_line target pd g = (True, h)" and "bit_isfalse (pd_condition pd) PL_COND_FLAG_SYSTEM_MOTION"
  obtains b k where
    "motions k = (map motion ((block_buffer (planner g))[unat (block_buffer_head (planner g)) := b]),
       block_buffer_tail (planner g), next_buffer_head (planner g), plan_next_block_index (next_buffer_head (planner g)),
       plan_target_steps g target)"
    and "planned_ok k = planned_ok g" and "h = planner_recalculate k"
    and "pb_steps b = line_steps g target" and "pb_condition b = pd_condition pd"
    and "pb_direction_bits b = plan_direction_bits
           (plan_deltas g (plan_target_steps g target) (pl_position (pl (planner g))))"
    and "pb_step_event_count b = foldl max 0 (pb_steps b)" and "pb_step_event_count b \<noteq> 0"
proof -
  let ?delta = "plan_deltas g (plan_target_steps g target) (pl_position (pl (planner g)))"
  let ?b = "plan_block_zero\<lparr>pb_condition := pd_condition pd, pb_steps := line_steps g target,
      pb_step_event_count := foldl max 0 (line_steps g target), pb_direction_bits := plan_direction_bits ?delta\<rparr>"
  obtain b u where bu: "plan_block_values g ?b ?delta (pd_feed_rate pd) = (b, u)" by fastforce
  have keep: "pb_steps b = line_steps g target" "pb_condition b = pd_condition pd"
    "pb_direction_bits b = plan_direction_bits ?delta" "pb_step_event_count b = foldl max 0 (line_steps g target)"
    using bu by (auto simp: plan_block_values_def Let_def split_def)
  have pos: "foldl max 0 (line_steps g target) \<noteq> 0"
    using assms by (auto simp: plan_buffer_line_def line_steps_def Let_def bit_macros)
  define v where "v = plan_compute_profile_nominal_speed g b"
  define b' where "b' = plan_compute_profile_parameters b v (pl_previous_nominal_speed (pl (planner g)))"
  define k where "k = (set_plan_block (block_buffer_head (planner g)) b' g)\<lparr>planner :=
     (planner (set_plan_block (block_buffer_head (planner g)) b' g))\<lparr>
       pl := \<lparr>pl_position = plan_target_steps g target, pl_previous_unit_vec = u, pl_previous_nominal_speed = v\<rparr>,
       block_buffer_head := next_buffer_head (planner g),
       next_buffer_head := plan_next_block_index (next_buffer_head (planner g))\<rparr>\<rparr>"
  have "h = planner_recalculate k"
    using assms pos bu
    by (auto simp: plan_buffer_line_def line_steps_def Let_def bit_macros k_def b'_def v_def set_plan_block_def)
  moreover have "motions k = (map motion ((block_buffer (planner g))[unat (block_buffer_head (planner g)) := b']),
       block_buffer_tail (planner g), next_buffer_head (planner g), plan_next_block_index (next_buffer_head (planner g)),
       plan_target_steps g target)"
    "planned_ok k = planned_ok g"
    by (simp_all add: k_def motions_def set_plan_block_def planned_ok_def)
  moreover have "pb_steps b' = line_steps g target" "pb_condition b' = pd_condition pd"
    "pb_direction_bits b' = plan_direction_bits ?delta" "pb_step_event_count b' = foldl max 0 (pb_steps b')"
    by (simp_all add: b'_def plan_compute_profile_parameters_def Let_def keep)
  ultimately show ?thesis using that [of k b'] pos by simp
qed

lemma ring_list_motions: "ring_list 12 (map motion bs) h t = map motion (ring_list 12 bs h t)" if "length bs = 12"
  using that by (simp add: ring_list_def)

lemma enter_queue:
  assumes "planner_ok g" and "\<not> plan_check_full_buffer g" and "planned_ok k"
    and "motions k = (map motion ((block_buffer (planner g))[unat (block_buffer_head (planner g)) := b]),
       block_buffer_tail (planner g), next_buffer_head (planner g), plan_next_block_index (next_buffer_head (planner g)),
       plan_target_steps g target)"
  shows "planner_ok k" "plan_queue k = plan_queue g @ [motion b]"
proof -
  show ok: "planner_ok k"
    using assms(3,4) assms(1) [unfolded planner_ok_def Let_def] by (simp add: planner_ok_iff plan.nxt_less)
  have "ring_list 12 ((map motion (block_buffer (planner g)))[unat (block_buffer_head (planner g)) := motion b])
      (next_buffer_head (planner g)) (block_buffer_tail (planner g)) = plan_queue g @ [motion b]"
    using assms(1,2) plan.put [of "block_buffer_head (planner g)" "block_buffer_tail (planner g)"
        "map motion (block_buffer (planner g))" "motion b"]
    by (auto simp: planner_ok_def Let_def plan_check_full_buffer_def plan_queue_def plan_ring_size ring_list_motions)
  then show "plan_queue k = plan_queue g @ [motion b]"
    by (simp add: queue_of_motions [OF ok] assms(4) map_update)
qed

lemma recalculate_queue:
  assumes "planner_ok g"
  shows "planner_ok (planner_recalculate g)" "plan_queue (planner_recalculate g) = plan_queue g"
  using planning_keeps [OF assms, of "planner_recalculate g"] planned_recalculate [of g] assms
  by (simp_all add: planner_ok_iff)

lemma discard_queue:
  assumes "planner_ok g"
  shows "planner_ok (plan_discard_current_block g)" "plan_queue (plan_discard_current_block g) = tl (plan_queue g)"
proof -
  let ?p = "planner g"
  have t: "block_buffer_tail ?p < BLOCK_BUFFER_SIZE" "block_buffer_head ?p < BLOCK_BUFFER_SIZE"
    using assms by (simp_all add: planner_ok_def Let_def)
  then show "planner_ok (plan_discard_current_block g)"
    using assms by (auto simp: planner_ok_def plan_discard_current_block_def Let_def plan.nxt_less)
  show "plan_queue (plan_discard_current_block g) = tl (plan_queue g)"
    using plan.get [OF t(2,1), of "block_buffer ?p"] plan.empty_iff [OF t(2,1), of "block_buffer ?p"]
    by (cases "block_buffer_head ?p = block_buffer_tail ?p")
      (auto simp: plan_discard_current_block_def plan_queue_def Let_def plan_ring_size)
qed

text \<open>The signed steps of a block, as the step interrupt takes them.\<close>

definition block_move :: "plan_block_t \<Rightarrow> nat \<Rightarrow> u32" where
  "block_move b idx =
     (if pb_direction_bits b AND get_direction_pin_mask idx \<noteq> 0 then - (pb_steps b ! idx) else pb_steps b ! idx)"

lemma direction_bits: "idx < 3 \<Longrightarrow> plan_direction_bits delta AND get_direction_pin_mask idx \<noteq> 0 \<longleftrightarrow> f_lt (delta ! idx) 0"
proof -
  have "{0, 1, 2} = {..<3 :: nat}" by auto
  moreover have "\<forall>idx \<in> {0, 1, 2}. plan_direction_bits delta AND get_direction_pin_mask idx \<noteq> 0 \<longleftrightarrow> f_lt (delta ! idx) 0"
    by (simp add: plan_direction_bits_def get_direction_pin_mask_def bitm_def bit_true_def)
  ultimately show "idx < 3 \<Longrightarrow> ?thesis" by auto
qed

lemma delta_sign:
  assumes "f_positive s"
  shows "f_lt (f_div (f_of_i32 w) s) 0 \<longleftrightarrow> sint w < 0"
proof (cases "w = 0")
  case True
  obtain n k where "f_decode s = FNum False n k" "n \<noteq> 0"
    using assms by (auto simp: f_positive_def split: fval.split_asm)
  moreover have "f_decode (f_of_i32 0) = FNum False 0 (-149)"
    by (simp add: f_of_i32_def f_of_int_def f_round_def sign_bits_def f_decode_def)
  ultimately have "f_div (f_of_i32 w) s = sign_bits False 0"
    by (simp add: True f_div_def Let_def f_round_def)
  with True show ?thesis by (simp add: lt_zero_iff f_has_sign_def decode_sign_bits)
next
  case False
  have "- (2 ^ 31) \<le> sint w \<and> sint w < 2 ^ 31" using sint_ge [of w] sint_lt [of w] by simp
  moreover have "sint w \<noteq> 0" using False by (simp add: signed_eq_0_iff)
  ultimately have nz: "f_has_sign (sint w < 0) (f_div (f_of_i32 w) s)"
    unfolding f_of_i32_def by (intro nonzero_div_int assms) auto
  then show ?thesis
    by (cases "sint w < 0") (auto simp: lt_zero_iff f_has_sign_def split: fval.splits)
qed

lemma block_reaches:
  assumes "pb_steps b = line_steps g target" and "idx < 3" and "f_positive (set_steps_per_mm (settings g) ! idx)"
    and "pb_direction_bits b = plan_direction_bits
           (plan_deltas g (plan_target_steps g target) (pl_position (pl (planner g))))"
  shows "pl_position (pl (planner g)) ! idx + block_move b idx = plan_target_steps g target ! idx"
proof -
  let ?d = "plan_target_steps g target ! idx - pl_position (pl (planner g)) ! idx"
  have i: "idx \<in> {0, 1, 2}" using assms(2) by auto
  then have "line_steps g target ! idx = labs32 ?d"
    and "plan_deltas g (plan_target_steps g target) (pl_position (pl (planner g))) ! idx
      = f_div (f_of_i32 ?d) (set_steps_per_mm (settings g) ! idx)"
    by (auto simp: line_steps_def plan_deltas_def)
  then have "block_move b idx = ?d"
    by (simp add: block_move_def assms(1,4) direction_bits assms(2) delta_sign [OF assms(3)] labs32_def)
  then show ?thesis by simp
qed

lemma buffer_line_result:
  "bit_isfalse (pd_condition pd) PL_COND_FLAG_SYSTEM_MOTION \<Longrightarrow>
   fst (plan_buffer_line target pd g) \<longleftrightarrow> foldl max 0 (line_steps g target) \<noteq> 0"
  by (auto simp: plan_buffer_line_def line_steps_def Let_def bit_macros split_def)

section \<open>Properties\<close>

text \<open>
  C2. Planning a line is a queue operation: with room in the ring, a line that moves at all is appended as one
  block behind all others, which keep their order and their motion however their speeds are replanned. The
  signed steps of the block lead, on every axis, from the planner's old position exactly to the target, which
  is its new position.
\<close>
theorem line_is_enqueued:
  assumes "plan_buffer_line target pd g = (True, h)" and "planner_ok g" and "\<not> plan_check_full_buffer g"
    and "bit_isfalse (pd_condition pd) PL_COND_FLAG_SYSTEM_MOTION"
    and "\<And>idx. idx < 3 \<Longrightarrow> f_positive (set_steps_per_mm (settings g) ! idx)"
  shows "planner_ok h \<and> pl_position (pl (planner h)) = plan_target_steps g target
    \<and> (\<exists>b. plan_queue h = plan_queue g @ [b] \<and> pb_condition b = pd_condition pd
         \<and> pb_step_event_count b = foldl max 0 (pb_steps b) \<and> pb_step_event_count b \<noteq> 0
         \<and> (\<forall>idx < 3. pl_position (pl (planner g)) ! idx + block_move b idx = plan_target_steps g target ! idx))"
proof -
  obtain b k where k: "motions k = (map motion ((block_buffer (planner g))[unat (block_buffer_head (planner g)) := b]),
       block_buffer_tail (planner g), next_buffer_head (planner g), plan_next_block_index (next_buffer_head (planner g)),
       plan_target_steps g target)"
    and kp: "planned_ok k = planned_ok g" and h: "h = planner_recalculate k"
    and b: "pb_steps b = line_steps g target" "pb_condition b = pd_condition pd"
      "pb_step_event_count b = foldl max 0 (pb_steps b)" "pb_step_event_count b \<noteq> 0"
    and dir: "pb_direction_bits b = plan_direction_bits
           (plan_deltas g (plan_target_steps g target) (pl_position (pl (planner g))))"
    by (rule buffer_line_enters [OF assms(1,4)]) blast
  have "planned_ok k" using kp assms(2) by (simp add: planner_ok_iff)
  note q = enter_queue [OF assms(2,3) this k]
  have "pl_position (pl (planner h)) = plan_target_steps g target"
    using k motions_recalculate [of k] by (simp add: h motions_def)
  moreover have "block_move (motion b) idx = block_move b idx" for idx by (simp add: block_move_def motion_def)
  ultimately show ?thesis
    using q recalculate_queue [OF q(1)] b block_reaches [OF b(1) _ assms(5) dir]
    by (auto simp: h motion_def)
qed

theorem line_is_enqueued_witness:
  "\<exists>g h b. plan_queue g = [] \<and> plan_queue h = [b] \<and> block_move b 0 = 1 \<and> block_move b 1 = - 2"
proof -
  let ?one = "0x3F800000 :: f32" and ?minus_two = "0xC0000000 :: f32"
  have dec: "f_decode ?one = FNum False 8388608 (- 23)" "f_decode ?minus_two = FNum True 8388608 (- 22)"
    "f_decode 0 = FNum False 0 (- 149)"
    by (simp_all add: f_decode_def)
  have mul: "f_mul ?one ?one = ?one" "f_mul ?minus_two ?one = ?minus_two" "f_mul 0 ?one = 0"
    by (simp_all add: f_mul_def dec f_round_def sign_bits_def Let_def)
  define g where "g = plan_reset (grbl_zero\<lparr>settings := settings_zero\<lparr>set_steps_per_mm := [?one, ?one, ?one]\<rparr>\<rparr>)"
  define t where "t = [?one, ?minus_two, 0]"
  define pd where "pd = \<lparr>pd_feed_rate = 0, pd_spindle_speed = 0, pd_condition = 0\<rparr>"
  have steps: "plan_target_steps g t = [1, - 2, 0]"
    by (simp add: g_def t_def plan_target_steps_def plan_reset_def plan_reset_buffer_def mul f_lround_def
        f_round_int_def dec signed_sig_def)
  have pos: "pl_position (pl (planner g)) = [0, 0, 0]"
    by (simp add: g_def plan_reset_def plan_reset_buffer_def planner_t_zero_def)
  have normal: "bit_isfalse (pd_condition pd) PL_COND_FLAG_SYSTEM_MOTION" by (simp add: pd_def bit_macros)
  have "fst (plan_buffer_line t pd g)"
    by (simp add: buffer_line_result [OF normal] line_steps_def steps pos labs32_def)
  then obtain h where h: "plan_buffer_line t pd g = (True, h)" by (metis prod.collapse)
  have positive: "f_positive (set_steps_per_mm (settings g) ! idx)" if "idx < 3" for idx
  proof -
    have "idx \<in> {0, 1, 2}" using that by auto
    then show ?thesis by (auto simp: g_def plan_reset_def plan_reset_buffer_def f_positive_def dec)
  qed
  have g: "planner_ok g" "\<not> plan_check_full_buffer g" "plan_queue g = []"
    by (simp_all add: g_def planner_ok_def plan_reset_def plan_reset_buffer_def plan_check_full_buffer_def
        plan_queue_def ring_list_def ring_len_def grbl_zero_def planner_zero_def BLOCK_BUFFER_SIZE_def
        plan_next_block_index_def ring_next_def)
  obtain b where b: "plan_queue h = [b]" and move: "\<forall>idx < 3. [0, 0, 0] ! idx + block_move b idx = [1, - 2, 0] ! idx"
    using line_is_enqueued [OF h g(1,2) normal positive] unfolding g(3) steps pos append_Nil by blast
  from move [THEN spec, of 0] move [THEN spec, of 1] g(3) b show ?thesis by fastforce
qed

text \<open>
  C26. The three loops over the planner ring end. Written as the code has them, without any bound on
  the rounds, they reach their exit from every index of the ring, and the state there is the one that the
  bounded loops of \<open>planner_recalculate\<close> and
  \<open>plan_update_velocity_profile_parameters\<close> give with their 12 rounds.
\<close>
theorem planner_loops_end:
  assumes "planner_ok g" and "i < BLOCK_BUFFER_SIZE"
  shows "reverse_loop c i g = Some (plan_reverse_pass 12 c i g)
    \<and> forward_loop c i g = Some (plan_forward_pass 12 c i g)
    \<and> profiles_loop i v g = Some (plan_update_profiles 12 i v g)"
proof -
  let ?p = "block_buffer_planned (planner g)" and ?h = "block_buffer_head (planner g)"
  have ph: "?p < BLOCK_BUFFER_SIZE" "?h < BLOCK_BUFFER_SIZE" using assms(1) by (simp_all add: planner_ok_def Let_def)
  obtain j where "j < 12" "i = plan_slot ?p j" "?p = plan_slot ?p 0" by (rule ring_distance [OF ph(1) assms(2)])
  then have "reverse_loop c i g = Some (plan_reverse_pass 12 c i g)"
    using reverse_loop_ends [of g ?p 0 j 12 c] by simp
  moreover obtain k where "k < 12" "?h = plan_slot i k" "i = plan_slot i 0" by (rule ring_distance [OF assms(2) ph(2)])
  then have "forward_loop c i g = Some (plan_forward_pass 12 c i g)"
    "profiles_loop i v g = Some (plan_update_profiles 12 i v g)"
    using forward_loop_ends [of g i 0 k 12 c] profiles_loop_ends [of g i 0 k 12 v] by simp_all
  ultimately show ?thesis by simp
qed

theorem planner_loops_end_witness:
  "\<exists>g. reverse_loop 2 1 (plan_reset grbl_zero) = Some g \<and> plan_queue g = []"
proof -
  have ok: "planner_ok (plan_reset grbl_zero)"
    by (simp add: planner_ok_def plan_reset_def plan_reset_buffer_def grbl_zero_def planner_zero_def
        BLOCK_BUFFER_SIZE_def plan_next_block_index_def ring_next_def)
  have "plan_queue (plan_reverse_pass 12 2 1 (plan_reset grbl_zero)) = []"
    using planning_keeps(2) [OF ok motions_reverse] ok
    by (simp add: planner_ok_iff del: round_defs)
      (simp add: plan_queue_def plan_reset_def plan_reset_buffer_def ring_list_def ring_len_def)
  with planner_loops_end [OF ok, of 1 2] show ?thesis by (simp add: BLOCK_BUFFER_SIZE_def del: round_defs)
qed

end
