(* ===== verification/Stepper_Properties.thy ===== *)
theory Stepper_Properties
  imports Stepper Planner_Properties
begin

text \<open>
  The step interrupt. Its Bresenham counters follow the ideal line to half a step, the ring of segments is
  a queue, and the segments of a whole block move every axis by exactly the steps of the block.
\<close>

section \<open>One axis\<close>

lemma bresenham_step:
  assumes "0 < unat c" "unat c \<le> unat n" "unat s \<le> unat n" "2 * unat n < 2 ^ 32"
    and "bresenham c s n = (c', p)"
  shows "unat c' + (if p then unat n else 0) = unat c + unat s \<and> 0 < unat c' \<and> unat c' \<le> unat n"
proof -
  have sum: "unat (c + s) = unat c + unat s" using assms(2-4) by (simp add: unat_word_ariths)
  show ?thesis
    using assms(1,2,3,5) sum
    by (auto simp: bresenham_def Let_def word_less_nat_alt unat_sub_if' split: if_split_asm)
qed

text \<open>A sequence of interrupts with their increments, and the number of pulses.\<close>

fun bresenham_run :: "u32 \<Rightarrow> u32 list \<Rightarrow> u32 \<Rightarrow> u32 \<times> nat" where
  "bresenham_run c [] n = (c, 0)"
| "bresenham_run c (s # ss) n =
     (case bresenham c s n of (c, p) \<Rightarrow>
       case bresenham_run c ss n of (c, k) \<Rightarrow> (c, if p then Suc k else k))"

lemma bresenham_run_sum:
  assumes "0 < unat c" "unat c \<le> unat n" "2 * unat n < 2 ^ 32" "\<And>s. s \<in> set ss \<Longrightarrow> unat s \<le> unat n"
    and "bresenham_run c ss n = (c', k)"
  shows "unat c' + unat n * k = unat c + sum_list (map unat ss) \<and> 0 < unat c' \<and> unat c' \<le> unat n"
  using assms
proof (induction ss arbitrary: c c' k)
  case (Cons s ss)
  obtain d p where d: "bresenham c s n = (d, p)" by fastforce
  obtain e j where e: "bresenham_run d ss n = (e, j)" by fastforce
  note step = bresenham_step [OF Cons.prems(1,2) Cons.prems(4) [of s] Cons.prems(3) d]
  have "unat e + unat n * j = unat d + sum_list (map unat ss) \<and> 0 < unat e \<and> unat e \<le> unat n"
    by (rule Cons.IH) (use step Cons.prems e in auto)
  with step Cons.prems(5) d e show ?case by (auto split: if_split_asm)
qed simp

section \<open>All axes\<close>

definition counters :: "grbl \<Rightarrow> u32 list" where
  "counters g = [st_counter_x (st (stepper g)), st_counter_y (st (stepper g)), st_counter_z (st (stepper g))]"

definition exec_block :: "grbl \<Rightarrow> st_block_t" where
  "exec_block g = st_block_buffer (stepper g) ! unat (the (st_exec_block (st (stepper g))))"

text \<open>The signed number of pulses of an axis.\<close>

definition pulses :: "st_block_t \<Rightarrow> nat \<Rightarrow> nat \<Rightarrow> u32" where
  "pulses b idx k = (if sb_direction_bits b AND get_direction_pin_mask idx \<noteq> 0 then - of_nat k else of_nat k)"

lemma step_axes_axis:
  assumes "length (sys_position g) = 3" "idx < 3"
    and "bresenham (counters g ! idx) (st_steps (st (stepper g)) ! idx) (sb_step_event_count (exec_block g)) = (c, p)"
  shows "counters (st_step_axes g) ! idx = c"
    and "sys_position (st_step_axes g) ! idx = sys_position g ! idx + pulses (exec_block g) idx (if p then 1 else 0)"
proof -
  have "idx \<in> {0, 1, 2}" using assms(2) by auto
  then show "counters (st_step_axes g) ! idx = c"
    and "sys_position (st_step_axes g) ! idx = sys_position g ! idx + pulses (exec_block g) idx (if p then 1 else 0)"
    using assms(1,3)
    by (auto simp: st_step_axes_def counters_def exec_block_def pulses_def step_position_def Let_def split_def)
qed

section \<open>One interrupt\<close>

text \<open>What the interrupt makes of its state once a segment is loaded.\<close>

lemma interrupt_running:
  assumes "\<not> busy (stepper g)" "st_exec_segment (st (stepper g)) \<noteq> None"
  obtains k where "isr_timer1_compa g = st_finish_step (st_step_axes k)"
    and "stepper k = (stepper g)\<lparr>busy := True\<rparr>" "sys_position k = sys_position g"
proof -
  have [simp]: "stepper (probe_state_monitor x) = stepper x" "sys_position (probe_state_monitor x) = sys_position x" for x
    by (simp_all add: probe_state_monitor_def)
  show ?thesis
    using assms that by (auto simp: isr_timer1_compa_def Let_def)
qed

lemma interrupt_loading:
  assumes "\<not> busy (stepper g)" "st_exec_segment (st (stepper g)) = None"
    and "segment_buffer_head (stepper g) \<noteq> segment_buffer_tail (stepper g)"
  obtains k where "isr_timer1_compa g = st_finish_step (st_step_axes k)"
    and "stepper k = (stepper (st_load_segment g))\<lparr>busy := True\<rparr>" "sys_position k = sys_position g"
proof -
  have [simp]: "stepper (probe_state_monitor x) = stepper x" "sys_position (probe_state_monitor x) = sys_position x" for x
    by (simp_all add: probe_state_monitor_def)
  have [simp]: "stepper (st_load_segment (x\<lparr>hw := a, stepper := (stepper x)\<lparr>busy := True\<rparr>\<rparr>))
      = (stepper (st_load_segment x))\<lparr>busy := True\<rparr>"
    "sys_position (st_load_segment y) = sys_position y" for x y a
    by (simp_all add: st_load_segment_def Let_def)
  show ?thesis
    using assms that by (auto simp: isr_timer1_compa_def Let_def)
qed

text \<open>
  The state between two interrupts while the block \<open>i\<close> is being executed: the counters are above zero and
  not above the event count.
\<close>

definition working :: "u8 \<Rightarrow> grbl \<Rightarrow> bool" where
  "working i g \<longleftrightarrow> st_exec_block (st (stepper g)) = Some i \<and> st_exec_block_index (st (stepper g)) = i
     \<and> length (sys_position g) = 3
     \<and> (\<forall>idx < 3. 0 < unat (counters g ! idx) \<and> unat (counters g ! idx) \<le> unat (sb_step_event_count (exec_block g)))"

text \<open>\<open>moved g h d\<close>: from \<open>g\<close> to \<open>h\<close> each axis was advanced by its part of \<open>d\<close>, in pulses or in its counter.\<close>

definition moved :: "grbl \<Rightarrow> grbl \<Rightarrow> (nat \<Rightarrow> nat) \<Rightarrow> bool" where
  "moved g h d \<longleftrightarrow> (\<forall>idx < 3. \<exists>k. sys_position h ! idx = sys_position g ! idx + pulses (exec_block g) idx k
     \<and> unat (counters h ! idx) + unat (sb_step_event_count (exec_block g)) * k = unat (counters g ! idx) + d idx)"

definition same_buffers :: "grbl \<Rightarrow> grbl \<Rightarrow> bool" where
  "same_buffers g h \<longleftrightarrow> st_block_buffer (stepper h) = st_block_buffer (stepper g)
     \<and> segment_buffer (stepper h) = segment_buffer (stepper g) \<and> segment_buffer_head (stepper h) = segment_buffer_head (stepper g)
     \<and> st_exec_block (st (stepper h)) = st_exec_block (st (stepper g))
     \<and> st_exec_block_index (st (stepper h)) = st_exec_block_index (st (stepper g))"

lemma step_axes_same:
  "same_buffers g (st_step_axes g)" "st_step_count (st (stepper (st_step_axes g))) = st_step_count (st (stepper g))"
  "segment_buffer_tail (stepper (st_step_axes g)) = segment_buffer_tail (stepper g)"
  "st_steps (st (stepper (st_step_axes g))) = st_steps (st (stepper g))"
  "st_exec_segment (st (stepper (st_step_axes g))) = st_exec_segment (st (stepper g))"
  "length (sys_position (st_step_axes g)) = length (sys_position g)"
  by (simp_all add: same_buffers_def st_step_axes_def step_position_def Let_def split_def)

lemma finish_step_same:
  "same_buffers g (st_finish_step g)" "counters (st_finish_step g) = counters g"
  "sys_position (st_finish_step g) = sys_position g" "\<not> busy (stepper (st_finish_step g))"
  "st_steps (st (stepper (st_finish_step g))) = st_steps (st (stepper g))"
  "st_step_count (st (stepper (st_finish_step g))) = st_step_count (st (stepper g)) - 1"
  "st_exec_segment (st (stepper (st_finish_step g)))
     = (if st_step_count (st (stepper g)) = 1 then None else st_exec_segment (st (stepper g)))"
  "segment_buffer_tail (stepper (st_finish_step g))
     = (if st_step_count (st (stepper g)) = 1 then ring_next SEGMENT_BUFFER_SIZE (segment_buffer_tail (stepper g))
        else segment_buffer_tail (stepper g))"
  by (simp_all add: same_buffers_def st_finish_step_def counters_def Let_def)

lemma step_moves:
  assumes "working i g" and "\<And>idx. idx < 3 \<Longrightarrow> unat (st_steps (st (stepper g)) ! idx) \<le> unat (sb_step_event_count (exec_block g))"
    and "2 * unat (sb_step_event_count (exec_block g)) < 2 ^ 32" and h: "h = st_finish_step (st_step_axes g)"
  shows "working i h" "moved g h (\<lambda>idx. unat (st_steps (st (stepper g)) ! idx))"
proof -
  let ?n = "sb_step_event_count (exec_block g)"
  have len: "length (sys_position g) = 3" using assms(1) by (simp add: working_def)
  have same: "same_buffers g h"
    using step_axes_same(1) [of g] finish_step_same(1) [of "st_step_axes g"] by (simp add: same_buffers_def h)
  have axis: "0 < unat (counters h ! idx) \<and> unat (counters h ! idx) \<le> unat ?n
      \<and> (\<exists>k. sys_position h ! idx = sys_position g ! idx + pulses (exec_block g) idx k
        \<and> unat (counters h ! idx) + unat ?n * k = unat (counters g ! idx) + unat (st_steps (st (stepper g)) ! idx))"
    if idx: "idx < 3" for idx
  proof -
    obtain c p where b: "bresenham (counters g ! idx) (st_steps (st (stepper g)) ! idx) ?n = (c, p)" by fastforce
    have "0 < unat (counters g ! idx)" "unat (counters g ! idx) \<le> unat ?n" using assms(1) idx by (simp_all add: working_def)
    from bresenham_step [OF this assms(2) [OF idx] assms(3) b] step_axes_axis [OF len idx b]
    show ?thesis by (intro conjI exI [of _ "if p then 1 else 0"]) (auto simp: h finish_step_same)
  qed
  then show "moved g h (\<lambda>idx. unat (st_steps (st (stepper g)) ! idx))" by (auto simp: moved_def)
  have "exec_block h = exec_block g" using same by (simp add: exec_block_def same_buffers_def)
  with axis same assms(1) show "working i h"
    by (simp add: working_def same_buffers_def h finish_step_same step_axes_same)
qed

section \<open>A segment\<close>

lemma pulses_add: "pulses b idx (j + k) = pulses b idx j + pulses b idx k"
  by (simp add: pulses_def)

lemma same_buffers_trans: "same_buffers g h \<Longrightarrow> same_buffers h k \<Longrightarrow> same_buffers g k"
  by (simp add: same_buffers_def)

lemma same_exec_block: "same_buffers g h \<Longrightarrow> exec_block h = exec_block g"
  by (simp add: same_buffers_def exec_block_def)

lemma moved_trans:
  assumes "moved g h d" and "moved h k e" and "exec_block h = exec_block g"
  shows "moved g k (\<lambda>idx. d idx + e idx)"
  unfolding moved_def
proof (intro allI impI)
  fix idx :: nat
  assume "idx < 3"
  with assms obtain m n where
    "sys_position h ! idx = sys_position g ! idx + pulses (exec_block g) idx m"
    "unat (counters h ! idx) + unat (sb_step_event_count (exec_block g)) * m = unat (counters g ! idx) + d idx"
    "sys_position k ! idx = sys_position h ! idx + pulses (exec_block g) idx n"
    "unat (counters k ! idx) + unat (sb_step_event_count (exec_block g)) * n = unat (counters h ! idx) + e idx"
    unfolding moved_def by metis
  then show "\<exists>l. sys_position k ! idx = sys_position g ! idx + pulses (exec_block g) idx l
      \<and> unat (counters k ! idx) + unat (sb_step_event_count (exec_block g)) * l = unat (counters g ! idx) + (d idx + e idx)"
    by (intro exI [of _ "m + n"]) (simp add: pulses_add algebra_simps)
qed

text \<open>The interrupts that execute what is left of a loaded segment.\<close>

definition loaded :: "u8 \<Rightarrow> grbl \<Rightarrow> bool" where
  "loaded i g \<longleftrightarrow> working i g \<and> \<not> busy (stepper g) \<and> st_exec_segment (st (stepper g)) \<noteq> None
     \<and> (\<forall>idx < 3. unat (st_steps (st (stepper g)) ! idx) \<le> unat (sb_step_event_count (exec_block g)))
     \<and> 2 * unat (sb_step_event_count (exec_block g)) < 2 ^ 32"

definition done_segment :: "grbl \<Rightarrow> grbl \<Rightarrow> bool" where
  "done_segment g h \<longleftrightarrow> \<not> busy (stepper h) \<and> st_exec_segment (st (stepper h)) = None \<and> same_buffers g h
     \<and> segment_buffer_tail (stepper h) = ring_next SEGMENT_BUFFER_SIZE (segment_buffer_tail (stepper g))"

lemma working_cong:
  assumes "stepper k = (stepper g)\<lparr>busy := b\<rparr>" and "sys_position k = sys_position g"
  shows "working i k = working i g" "moved k h d = moved g h d" "same_buffers k h = same_buffers g h"
    "exec_block k = exec_block g" "counters k = counters g"
  using assms by (simp_all add: working_def moved_def same_buffers_def exec_block_def counters_def)

lemma interrupt_step:
  assumes "loaded i g" and "h = st_finish_step (st_step_axes k)"
    and "stepper k = (stepper g)\<lparr>busy := b\<rparr>" and "sys_position k = sys_position g"
  shows "working i h" "moved g h (\<lambda>idx. unat (st_steps (st (stepper g)) ! idx))" "same_buffers g h"
    and "st_step_count (st (stepper g)) \<noteq> 1 \<Longrightarrow> loaded i h"
    and "st_step_count (st (stepper g)) = 1 \<Longrightarrow> done_segment g h"
    and "st_step_count (st (stepper h)) = st_step_count (st (stepper g)) - 1"
    and "st_step_count (st (stepper g)) \<noteq> 1 \<Longrightarrow> segment_buffer_tail (stepper h) = segment_buffer_tail (stepper g)"
    and "st_steps (st (stepper h)) = st_steps (st (stepper g))"
proof -
  note cong = working_cong [OF assms(3,4)]
  have "working i k" "2 * unat (sb_step_event_count (exec_block k)) < 2 ^ 32"
    "\<And>idx. idx < 3 \<Longrightarrow> unat (st_steps (st (stepper k)) ! idx) \<le> unat (sb_step_event_count (exec_block k))"
    using assms(1,3) by (simp_all add: cong loaded_def)
  note moves = step_moves [OF this(1,3,2) assms(2)]
  show "working i h" by (rule moves)
  show "moved g h (\<lambda>idx. unat (st_steps (st (stepper g)) ! idx))" using moves(2) assms(3) by (simp add: cong)
  show same: "same_buffers g h"
    using same_buffers_trans [OF step_axes_same(1) [of k] finish_step_same(1)] by (simp add: cong assms(2))
  show "st_step_count (st (stepper g)) \<noteq> 1 \<Longrightarrow> loaded i h" "st_step_count (st (stepper g)) = 1 \<Longrightarrow> done_segment g h"
    using assms(1,3) moves(1) same same_exec_block [OF same]
    by (auto simp: loaded_def done_segment_def assms(2) finish_step_same step_axes_same)
  show "st_step_count (st (stepper h)) = st_step_count (st (stepper g)) - 1"
    "st_step_count (st (stepper g)) \<noteq> 1 \<Longrightarrow> segment_buffer_tail (stepper h) = segment_buffer_tail (stepper g)"
    "st_steps (st (stepper h)) = st_steps (st (stepper g))"
    using assms(3) by (simp_all add: assms(2) finish_step_same step_axes_same)
qed

lemma loaded_run:
  assumes "loaded i g" and "unat (st_step_count (st (stepper g))) = Suc n"
  shows "working i ((isr_timer1_compa ^^ Suc n) g) \<and> done_segment g ((isr_timer1_compa ^^ Suc n) g)
    \<and> moved g ((isr_timer1_compa ^^ Suc n) g) (\<lambda>idx. Suc n * unat (st_steps (st (stepper g)) ! idx))"
  using assms
proof (induction n arbitrary: g)
  case 0
  then have one: "st_step_count (st (stepper g)) = 1" by (simp add: word_unat_eq_iff)
  obtain k where k: "isr_timer1_compa g = st_finish_step (st_step_axes k)"
    "stepper k = (stepper g)\<lparr>busy := True\<rparr>" "sys_position k = sys_position g"
    using interrupt_running [of g] "0.prems"(1) by (auto simp: loaded_def)
  from interrupt_step [OF "0.prems"(1) k] one show ?case by simp
next
  case (Suc n)
  let ?h = "isr_timer1_compa g"
  obtain k where k: "?h = st_finish_step (st_step_axes k)"
    "stepper k = (stepper g)\<lparr>busy := True\<rparr>" "sys_position k = sys_position g"
    using interrupt_running [of g] Suc.prems(1) by (auto simp: loaded_def)
  note step = interrupt_step [OF Suc.prems(1) k]
  have more: "st_step_count (st (stepper g)) \<noteq> 1" using Suc.prems(2) by auto
  have "unat (st_step_count (st (stepper ?h))) = Suc n"
    using Suc.prems(2) step(6) by (simp add: unat_sub word_le_nat_alt)
  note rest = Suc.IH [OF step(4) [OF more] this]
  have "(isr_timer1_compa ^^ Suc (Suc n)) g = (isr_timer1_compa ^^ Suc n) ?h"
    by (simp only: funpow_Suc_right o_apply)
  with rest step(3,7,8) more moved_trans [OF step(2) _ same_exec_block [OF step(3)]] show ?case
    by (auto simp: done_segment_def same_buffers_def)
qed

text \<open>
  A segment from its loading on. A new block starts its counters at half its event count; the increments are the
  steps of the block divided by the power of two of the segment.
\<close>

definition segment_moves :: "grbl \<Rightarrow> segment_t \<Rightarrow> nat \<Rightarrow> nat" where
  "segment_moves g sg idx = unat (seg_n_step sg) * (unat (sb_steps (st_block_buffer (stepper g) ! unat (seg_st_block_index sg)) ! idx)
     div 2 ^ unat (seg_amass_level sg))"

definition ready :: "u8 \<Rightarrow> grbl \<Rightarrow> bool" where
  "ready i g \<longleftrightarrow> \<not> busy (stepper g) \<and> st_exec_segment (st (stepper g)) = None \<and> length (sys_position g) = 3
     \<and> (let b = st_block_buffer (stepper g) ! unat i; n = unat (sb_step_event_count b) in
         1 < n \<and> 2 * n < 2 ^ 32 \<and> length (sb_steps b) = 3 \<and> (\<forall>idx < 3. unat (sb_steps b ! idx) \<le> n))"

lemma drop_u32: "unat (drop_bit l (w :: u32)) = unat w div 2 ^ l"
  by (subst unat_drop_bit_eq) (rule drop_bit_eq_div)

lemma moved_cong: "(\<And>idx. idx < 3 \<Longrightarrow> d idx = e idx) \<Longrightarrow> moved g h d = moved g h e"
  by (auto simp: moved_def)

lemma segment_loading:
  fixes g :: grbl and i :: u8 and sg :: segment_t
  assumes "ready i g" and "working i g \<or> st_exec_block_index (st (stepper g)) \<noteq> i"
    and "sg = segment_buffer (stepper g) ! unat (segment_buffer_tail (stepper g))" and "seg_st_block_index sg = i"
  defines "s \<equiv> st_load_segment g" and "b \<equiv> st_block_buffer (stepper g) ! unat i"
  shows "loaded i s" "exec_block s = b" "sys_position s = sys_position g" "st_step_count (st (stepper s)) = seg_n_step sg"
    and "st_exec_block_index (st (stepper g)) = i \<Longrightarrow> counters s = counters g"
    and "st_exec_block_index (st (stepper g)) \<noteq> i \<Longrightarrow> counters s = replicate 3 (drop_bit 1 (sb_step_event_count b))"
    and "idx < 3 \<Longrightarrow> st_steps (st (stepper s)) ! idx = drop_bit (unat (seg_amass_level sg)) (sb_steps b ! idx)"
proof -
  show steps: "st_steps (st (stepper s)) ! idx = drop_bit (unat (seg_amass_level sg)) (sb_steps b ! idx)" if "idx < 3" for idx
    using assms(1-4) that by (auto simp: s_def b_def st_load_segment_def ready_def working_def Let_def)
  show block: "exec_block s = b"
    using assms(2-4) by (auto simp: s_def b_def st_load_segment_def exec_block_def working_def Let_def)
  show old: "counters s = counters g" if "st_exec_block_index (st (stepper g)) = i"
    using that assms(3,4) by (auto simp: s_def st_load_segment_def counters_def Let_def)
  show new: "counters s = replicate 3 (drop_bit 1 (sb_step_event_count b))" if "st_exec_block_index (st (stepper g)) \<noteq> i"
    using that assms(3,4) by (auto simp: s_def b_def st_load_segment_def counters_def Let_def numeral_3_eq_3)
  show pos: "sys_position s = sys_position g" by (simp add: s_def st_load_segment_def Let_def)
  show "st_step_count (st (stepper s)) = seg_n_step sg"
    using assms(3) by (simp add: s_def st_load_segment_def Let_def)
  have half: "0 < unat (drop_bit 1 (sb_step_event_count b)) \<and> unat (drop_bit 1 (sb_step_event_count b)) \<le> unat (sb_step_event_count b)"
    using assms(1) unfolding drop_u32 by (auto simp: ready_def b_def Let_def)
  have work: "working i s"
  proof (cases "st_exec_block_index (st (stepper g)) = i")
    case True
    with assms(2) have "working i g" by simp
    moreover have "exec_block g = b" using \<open>working i g\<close> by (simp add: exec_block_def working_def b_def)
    ultimately show ?thesis
      using True old assms(3,4) by (auto simp: working_def block pos) (auto simp: s_def st_load_segment_def Let_def)
  next
    case False
    with new half assms(1,3,4) show ?thesis
      by (auto simp: working_def block pos ready_def) (auto simp: s_def st_load_segment_def Let_def)
  qed
  have "busy (stepper s) = busy (stepper g)" "st_exec_segment (st (stepper s)) \<noteq> None"
    by (simp_all add: s_def st_load_segment_def Let_def)
  moreover have "unat (st_steps (st (stepper s)) ! idx) \<le> unat (sb_step_event_count b)" if "idx < 3" for idx
  proof -
    have "unat (sb_steps b ! idx) \<le> unat (sb_step_event_count b)"
      using that assms(1) by (auto simp: ready_def b_def Let_def)
    with order_trans [OF div_le_dividend this] show ?thesis by (simp only: steps [OF that] drop_u32)
  qed
  ultimately show "loaded i s" using work assms(1) by (simp add: loaded_def block ready_def b_def Let_def)
qed

text \<open>The interrupt that loads a segment executes its first step, the following ones the rest.\<close>

lemma run_from_loading:
  assumes load: "loaded i s" and count: "unat (st_step_count (st (stepper s))) = Suc n"
    and k: "isr_timer1_compa g = st_finish_step (st_step_axes k)" "stepper k = (stepper s)\<lparr>busy := True\<rparr>"
      "sys_position k = sys_position s"
  shows "working i ((isr_timer1_compa ^^ Suc n) g) \<and> done_segment s ((isr_timer1_compa ^^ Suc n) g)
    \<and> moved s ((isr_timer1_compa ^^ Suc n) g) (\<lambda>idx. Suc n * unat (st_steps (st (stepper s)) ! idx))"
proof (cases n)
  note step = interrupt_step [OF load k]
  case 0
  then have "st_step_count (st (stepper s)) = 1" using count by (simp add: word_unat_eq_iff)
  with step 0 show ?thesis by simp
next
  note step = interrupt_step [OF load k]
  case (Suc m)
  let ?k = "isr_timer1_compa g"
  have more: "st_step_count (st (stepper s)) \<noteq> 1" using count Suc by auto
  have "unat (st_step_count (st (stepper ?k))) = Suc m"
    using count Suc step(6) by (simp add: unat_sub word_le_nat_alt)
  note rest = loaded_run [OF step(4) [OF more] this]
  have "(isr_timer1_compa ^^ Suc n) g = (isr_timer1_compa ^^ Suc m) ?k" by (simp only: Suc funpow_Suc_right o_apply)
  with rest step(3,7,8) more Suc moved_trans [OF step(2) _ same_exec_block [OF step(3)]] show ?thesis
    by (auto simp: done_segment_def same_buffers_def)
qed

lemma segment_run:
  assumes "ready i g" and "working i g \<or> st_exec_block_index (st (stepper g)) \<noteq> i"
    and "sg = segment_buffer (stepper g) ! unat (segment_buffer_tail (stepper g))"
    and "seg_st_block_index sg = i" and "unat (seg_n_step sg) = Suc n"
    and "segment_buffer_head (stepper g) \<noteq> segment_buffer_tail (stepper g)"
  obtains s where "stepper s = stepper (st_load_segment g)" "sys_position s = sys_position g"
    "working i s" "exec_block s = st_block_buffer (stepper g) ! unat i"
    "st_exec_block_index (st (stepper g)) = i \<Longrightarrow> counters s = counters g"
    "st_exec_block_index (st (stepper g)) \<noteq> i \<Longrightarrow> counters s = replicate 3 (drop_bit 1 (sb_step_event_count (exec_block s)))"
    "working i ((isr_timer1_compa ^^ Suc n) g)" "done_segment s ((isr_timer1_compa ^^ Suc n) g)"
    "moved s ((isr_timer1_compa ^^ Suc n) g) (segment_moves g sg)"
proof -
  let ?s = "st_load_segment g" and ?h = "(isr_timer1_compa ^^ Suc n) g"
  note load = segment_loading [OF assms(1-4)]
  obtain k where k: "isr_timer1_compa g = st_finish_step (st_step_axes k)"
    "stepper k = (stepper ?s)\<lparr>busy := True\<rparr>" "sys_position k = sys_position ?s"
    using interrupt_loading [of g] assms(1,6) load(3) by (auto simp: ready_def)
  have "unat (st_step_count (st (stepper ?s))) = Suc n" using load(4) assms(5) by simp
  note run = run_from_loading [OF load(1) this k]
  have "Suc n * unat (st_steps (st (stepper ?s)) ! idx) = segment_moves g sg idx" if "idx < 3" for idx
    by (simp add: load(7) [OF that] segment_moves_def assms(4,5) drop_u32)
  from moved_cong [OF this] conjunct2 [OF conjunct2 [OF run]] have moves: "moved ?s ?h (segment_moves g sg)"
    by (simp only:)
  have new: "counters ?s = replicate 3 (drop_bit 1 (sb_step_event_count (exec_block ?s)))"
    if "st_exec_block_index (st (stepper g)) \<noteq> i"
    unfolding load(2) using that by (rule load(6))
  have "working i ?s" using load(1) by (simp add: loaded_def)
  from that [OF refl load(3) this load(2) load(5) new conjunct1 [OF run] conjunct1 [OF conjunct2 [OF run]] moves]
  show ?thesis .
qed

section \<open>A block\<close>

lemma segment_ring_size: "unat SEGMENT_BUFFER_SIZE = 6"
  by (simp add: SEGMENT_BUFFER_SIZE_def)

interpretation seg: ring SEGMENT_BUFFER_SIZE "ring_next SEGMENT_BUFFER_SIZE"
  by unfold_locales (simp_all add: SEGMENT_BUFFER_SIZE_def ring_next_nat)

definition seg_queue :: "grbl \<Rightarrow> segment_t list" where
  "seg_queue g = ring_list 6 (segment_buffer (stepper g)) (segment_buffer_head (stepper g)) (segment_buffer_tail (stepper g))"

definition seg_indices :: "grbl \<Rightarrow> bool" where
  "seg_indices g \<longleftrightarrow> segment_buffer_head (stepper g) < SEGMENT_BUFFER_SIZE \<and> segment_buffer_tail (stepper g) < SEGMENT_BUFFER_SIZE"

text \<open>The segments of block \<open>i\<close>, each with at least one interrupt, and their number of interrupts.\<close>

definition segments_of :: "u8 \<Rightarrow> segment_t list \<Rightarrow> bool" where
  "segments_of i sgs \<longleftrightarrow> (\<forall>sg \<in> set sgs. seg_st_block_index sg = i \<and> 0 < unat (seg_n_step sg))"

definition interrupts :: "segment_t list \<Rightarrow> nat" where
  "interrupts sgs = sum_list (map (\<lambda>sg. unat (seg_n_step sg)) sgs)"

lemma seg_queue_Cons:
  assumes "seg_queue g = sg # sgs" and "seg_indices g"
  shows "segment_buffer_head (stepper g) \<noteq> segment_buffer_tail (stepper g)"
    and "sg = segment_buffer (stepper g) ! unat (segment_buffer_tail (stepper g))"
    and "same_buffers g h \<Longrightarrow> segment_buffer_tail (stepper h) = ring_next SEGMENT_BUFFER_SIZE (segment_buffer_tail (stepper g))
      \<Longrightarrow> seg_queue h = sgs \<and> seg_indices h"
proof -
  let ?s = "stepper g"
  have ix: "segment_buffer_head ?s < SEGMENT_BUFFER_SIZE" "segment_buffer_tail ?s < SEGMENT_BUFFER_SIZE"
    using assms(2) by (simp_all add: seg_indices_def)
  show ne: "segment_buffer_head ?s \<noteq> segment_buffer_tail ?s"
    using seg.empty_iff [OF ix, of "segment_buffer ?s"] assms(1) by (auto simp: seg_queue_def segment_ring_size)
  note get = seg.get [OF ix ne, of "segment_buffer ?s"]
  show "sg = segment_buffer ?s ! unat (segment_buffer_tail ?s)"
    using get assms(1) by (simp add: seg_queue_def segment_ring_size)
  show "same_buffers g h \<Longrightarrow> segment_buffer_tail (stepper h) = ring_next SEGMENT_BUFFER_SIZE (segment_buffer_tail ?s)
      \<Longrightarrow> seg_queue h = sgs \<and> seg_indices h"
    using get assms(1) ix seg.nxt_less [OF ix(2)]
    by (simp add: seg_queue_def segment_ring_size seg_indices_def same_buffers_def)
qed

text \<open>One segment of the queue, seen from the state in which it is loaded.\<close>

lemma next_segment:
  assumes "ready i g" and "working i g \<or> st_exec_block_index (st (stepper g)) \<noteq> i" and "seg_indices g"
    and "seg_queue g = sg # sgs" and "segments_of i (sg # sgs)"
  obtains s h where "h = (isr_timer1_compa ^^ unat (seg_n_step sg)) g"
    "working i h" "ready i h" "seg_indices h" "seg_queue h = sgs"
    "st_block_buffer (stepper h) = st_block_buffer (stepper g)" "exec_block h = st_block_buffer (stepper g) ! unat i"
    "exec_block s = st_block_buffer (stepper g) ! unat i" "moved s h (segment_moves g sg)" "sys_position s = sys_position g"
    "st_exec_block_index (st (stepper g)) = i \<Longrightarrow> counters s = counters g"
    "st_exec_block_index (st (stepper g)) \<noteq> i \<Longrightarrow> counters s = replicate 3 (drop_bit 1 (sb_step_event_count (exec_block s)))"
proof -
  obtain n where n: "unat (seg_n_step sg) = Suc n" and idx: "seg_st_block_index sg = i"
    using assms(5) by (auto simp: segments_of_def gr0_conv_Suc)
  note q = seg_queue_Cons [OF assms(4,3)]
  obtain s where s: "stepper s = stepper (st_load_segment g)" "sys_position s = sys_position g" "working i s"
    "exec_block s = st_block_buffer (stepper g) ! unat i"
    "st_exec_block_index (st (stepper g)) = i \<Longrightarrow> counters s = counters g"
    "st_exec_block_index (st (stepper g)) \<noteq> i \<Longrightarrow> counters s = replicate 3 (drop_bit 1 (sb_step_event_count (exec_block s)))"
    and h: "working i ((isr_timer1_compa ^^ Suc n) g)" "done_segment s ((isr_timer1_compa ^^ Suc n) g)"
    "moved s ((isr_timer1_compa ^^ Suc n) g) (segment_moves g sg)"
    by (rule segment_run [OF assms(1,2) q(2) idx n q(1)]) (rule that; assumption)
  let ?h = "(isr_timer1_compa ^^ Suc n) g"
  have load: "st_block_buffer (stepper s) = st_block_buffer (stepper g)" "segment_buffer (stepper s) = segment_buffer (stepper g)"
    "segment_buffer_head (stepper s) = segment_buffer_head (stepper g)" "segment_buffer_tail (stepper s) = segment_buffer_tail (stepper g)"
    by (simp_all add: s(1) st_load_segment_def Let_def)
  have sh: "same_buffers s ?h" using h(2) by (simp add: done_segment_def)
  have blocks: "st_block_buffer (stepper ?h) = st_block_buffer (stepper g)" using sh load(1) by (simp add: same_buffers_def)
  have "seg_queue s = sg # sgs" "seg_indices s" using assms(3,4) load by (simp_all add: seg_queue_def seg_indices_def)
  from seg_queue_Cons(3) [OF this sh] h(2) have "seg_queue ?h = sgs \<and> seg_indices ?h" by (simp add: done_segment_def)
  moreover have "ready i ?h" using assms(1) h(1,2) blocks by (simp add: ready_def working_def done_segment_def)
  moreover have "exec_block ?h = st_block_buffer (stepper g) ! unat i" using same_exec_block [OF sh] s(4) by simp
  ultimately show ?thesis using that [of ?h s] h s blocks n by simp
qed

lemma moved_from:
  assumes "moved s h d" and "sys_position s = sys_position g" and "counters s = counters g" and "exec_block s = exec_block g"
  shows "moved g h d"
  using assms by (simp add: moved_def)

lemma segments_run:
  assumes "ready i g" and "working i g" and "seg_indices g" and "seg_queue g = sgs" and "segments_of i sgs"
  shows "seg_queue ((isr_timer1_compa ^^ interrupts sgs) g) = []
    \<and> exec_block ((isr_timer1_compa ^^ interrupts sgs) g) = exec_block g
    \<and> working i ((isr_timer1_compa ^^ interrupts sgs) g) \<and> ready i ((isr_timer1_compa ^^ interrupts sgs) g)
    \<and> moved g ((isr_timer1_compa ^^ interrupts sgs) g) (\<lambda>idx. sum_list (map (\<lambda>sg. segment_moves g sg idx) sgs))"
  using assms
proof (induction sgs arbitrary: g)
  case Nil
  then show ?case by (auto simp: interrupts_def moved_def pulses_def intro!: exI [of _ 0])
next
  case (Cons sg sgs)
  have ix: "st_exec_block_index (st (stepper g)) = i" "exec_block g = st_block_buffer (stepper g) ! unat i"
    using Cons.prems(2) by (simp_all add: working_def exec_block_def)
  obtain s h where h: "h = (isr_timer1_compa ^^ unat (seg_n_step sg)) g"
    "working i h" "ready i h" "seg_indices h" "seg_queue h = sgs"
    "st_block_buffer (stepper h) = st_block_buffer (stepper g)" "exec_block h = st_block_buffer (stepper g) ! unat i"
    and s: "exec_block s = st_block_buffer (stepper g) ! unat i" "moved s h (segment_moves g sg)" "sys_position s = sys_position g"
    "st_exec_block_index (st (stepper g)) = i \<Longrightarrow> counters s = counters g"
    by (rule next_segment [OF Cons.prems(1) _ Cons.prems(3-5)]) (use Cons.prems(2) in blast)+
  have gh: "moved g h (segment_moves g sg)" by (rule moved_from [OF s(2,3)]) (use s ix in auto)
  let ?k = "(isr_timer1_compa ^^ interrupts sgs) h"
  have split: "(isr_timer1_compa ^^ interrupts (sg # sgs)) g = ?k"
  proof -
    have "interrupts (sg # sgs) = interrupts sgs + unat (seg_n_step sg)" by (simp add: interrupts_def)
    then show ?thesis by (simp only: funpow_add o_apply h(1))
  qed
  have rest: "segments_of i sgs" using Cons.prems(5) by (simp add: segments_of_def)
  note ih = Cons.IH [OF h(3,2,4,5) rest]
  have "segment_moves h sg' = segment_moves g sg'" for sg' by (simp add: segment_moves_def fun_eq_iff h(6))
  with ih moved_trans [OF gh, of ?k] h(7) ix(2) show ?case unfolding split by simp
qed

text \<open>The data of a planner block for the step interrupt, as \<open>st_load_block\<close> stores them.\<close>

definition block_data :: "plan_block_t \<Rightarrow> st_block_t" where
  "block_data b = \<lparr>sb_steps = map (push_bit MAX_AMASS_LEVEL) (pb_steps b),
     sb_step_event_count = push_bit MAX_AMASS_LEVEL (pb_step_event_count b), sb_direction_bits = pb_direction_bits b\<rparr>"

lemma load_block_data:
  "st_block_buffer (stepper (st_load_block i g)) =
     (st_block_buffer (stepper g))[unat (st_next_block_index (prep_st_block_index (prep (stepper g)))) := block_data (plan_block g i)]"
  by (simp add: st_load_block_def block_data_def set_prep_def set_entry_speed_sqr_def set_plan_block_def Let_def)

lemma push3_u32: "unat w < 2 ^ 28 \<Longrightarrow> unat (push_bit 3 w :: u32) = 8 * unat w"
  by (simp add: push_bit_eq_mult unat_word_ariths)

text \<open>A block that the segments cover: its Bresenham data stay within 32 bits.\<close>

definition covered :: "plan_block_t \<Rightarrow> segment_t list \<Rightarrow> bool" where
  "covered b sgs \<longleftrightarrow> length (pb_steps b) = 3 \<and> 0 < unat (pb_step_event_count b) \<and> unat (pb_step_event_count b) < 2 ^ 28
     \<and> (\<forall>idx < 3. unat (pb_steps b ! idx) \<le> unat (pb_step_event_count b))
     \<and> (\<forall>sg \<in> set sgs. unat (seg_amass_level sg) \<le> MAX_AMASS_LEVEL \<and> 2 ^ unat (seg_amass_level sg) dvd unat (seg_n_step sg))
     \<and> sum_list (map (\<lambda>sg. unat (seg_n_step sg) div 2 ^ unat (seg_amass_level sg)) sgs) = unat (pb_step_event_count b)"

lemma covered_moves:
  assumes "covered b sgs" and "st_block_buffer (stepper g) ! unat i = block_data b" and "segments_of i sgs" and "idx < 3"
  shows "sum_list (map (\<lambda>sg. segment_moves g sg idx) sgs) = 8 * unat (pb_step_event_count b) * unat (pb_steps b ! idx)"
proof -
  let ?s = "unat (pb_steps b ! idx)"
  have s: "?s < 2 ^ 28" using assms(1,4) by (auto simp: covered_def intro: le_less_trans)
  have "segment_moves g sg idx = unat (seg_n_step sg) div 2 ^ unat (seg_amass_level sg) * (8 * ?s)" if "sg \<in> set sgs" for sg
  proof -
    let ?l = "unat (seg_amass_level sg)" and ?n = "unat (seg_n_step sg)"
    have l: "?l \<le> 3" "2 ^ ?l dvd ?n" using assms(1) that by (auto simp: covered_def MAX_AMASS_LEVEL_def)
    then have "(2 :: nat) ^ ?l dvd 2 ^ 3" by (intro le_imp_power_dvd)
    then have "2 ^ ?l dvd 8 * ?s" by simp
    with l(2) have "?n * (8 * ?s div 2 ^ ?l) = ?n div 2 ^ ?l * (8 * ?s)"
      by (metis div_mult_swap dvd_div_mult)
    moreover have "unat (sb_steps (block_data b) ! idx) = 8 * ?s"
      using assms(1,4) s by (simp add: block_data_def MAX_AMASS_LEVEL_def covered_def push3_u32)
    ultimately show ?thesis using that assms(2,3) by (simp add: segment_moves_def segments_of_def)
  qed
  then have "sum_list (map (\<lambda>sg. segment_moves g sg idx) sgs)
      = sum_list (map (\<lambda>sg. unat (seg_n_step sg) div 2 ^ unat (seg_amass_level sg) * (8 * ?s)) sgs)"
    by (intro arg_cong [of _ _ sum_list] map_cong) auto
  then show ?thesis using assms(1) by (simp add: sum_list_mult_const covered_def)
qed

lemma whole_turns:
  fixes m :: nat
  assumes "c + m * k = d + m * s" and "0 < c" "c \<le> m" "0 < d" "d < m"
  shows "k = s"
proof (rule ccontr)
  assume "k \<noteq> s"
  then consider j where "s = k + Suc j" | j where "k = s + Suc j"
    by (metis add_Suc_right less_imp_Suc_add linorder_neqE_nat)
  then show False
    using assms by cases (auto simp: algebra_simps)
qed

section \<open>Properties\<close>

text \<open>
  C27. The step interrupt draws the ideal line: after any sequence of interrupts, whatever the increments of the
  axis in each, the number of pulses is the exact quotient of the distance by the event count, rounded to the
  nearest integer, and the counter never overflows.
\<close>
theorem bresenham_within_half_step:
  assumes "n = 2 * m" and "0 < unat m" and "unat m < 2 ^ 30" and "\<forall>s \<in> set ss. unat s \<le> unat n"
    and "bresenham_run m ss n = (c, k)"
  shows "2 * sum_list (map unat ss) \<le> (2 * k + 1) * unat n \<and> (2 * k) * unat n < 2 * sum_list (map unat ss) + unat n
    \<and> 0 < unat c \<and> unat c \<le> unat n"
proof -
  have n: "unat n = 2 * unat m" using assms(1,3) by (simp add: unat_word_ariths)
  have "unat c + unat n * k = unat m + sum_list (map unat ss) \<and> 0 < unat c \<and> unat c \<le> unat n"
    by (rule bresenham_run_sum [OF assms(2) _ _ _ assms(5)]) (use n assms(3,4) in auto)
  then show ?thesis using n by (auto simp: algebra_simps)
qed

theorem bresenham_within_half_step_witness:
  "snd (bresenham_run 4 [3, 3, 3, 3, 3] 8) = 2"
proof -
  obtain c k where r: "bresenham_run 4 [3, 3, 3, 3, 3] 8 = (c, k)" by fastforce
  have "2 * 15 \<le> (2 * k + 1) * 8 \<and> (2 * k) * 8 < 2 * 15 + (8 :: nat)"
    using bresenham_within_half_step [OF _ _ _ _ r] by simp
  then have "k = 2" by presburger
  with r show ?thesis by simp
qed

text \<open>
  C3. A block is executed exactly: when the timer interrupts have run all segments of a block, in whichever
  mixture of smoothing levels, the segment ring is empty and every axis has moved by the signed steps
  of the planner block - with the planner's own arithmetic, to the target of the line.
\<close>
theorem block_executed_exactly:
  assumes "\<not> busy (stepper g)" and "st_exec_segment (st (stepper g)) = None" and "length (sys_position g) = 3"
    and "st_exec_block_index (st (stepper g)) \<noteq> i" and "seg_indices g" and "seg_queue g = sgs"
    and "segments_of i sgs" and "covered b sgs" and "st_block_buffer (stepper g) ! unat i = block_data b"
    and "h = (isr_timer1_compa ^^ interrupts sgs) g"
  shows "seg_queue h = [] \<and> (\<forall>idx < 3. sys_position h ! idx = sys_position g ! idx + block_move b idx)"
proof -
  let ?N = "unat (pb_step_event_count b)"
  have N: "0 < ?N" "?N < 2 ^ 28" using assms(8) by (simp_all add: covered_def)
  have count: "unat (sb_step_event_count (block_data b)) = 8 * ?N"
    using N(2) by (simp add: block_data_def MAX_AMASS_LEVEL_def push3_u32)
  have ready: "ready i g"
    using assms(1-3,8,9) N count
    by (auto simp: ready_def covered_def block_data_def MAX_AMASS_LEVEL_def push3_u32 intro: le_less_trans)
  obtain sg ss where sgs: "sgs = sg # ss" using assms(8) N(1) by (cases sgs) (auto simp: covered_def)
  obtain s k where k: "k = (isr_timer1_compa ^^ unat (seg_n_step sg)) g"
    "working i k" "ready i k" "seg_indices k" "seg_queue k = ss"
    "st_block_buffer (stepper k) = st_block_buffer (stepper g)" "exec_block k = block_data b"
    and s: "exec_block s = block_data b" "moved s k (segment_moves g sg)" "sys_position s = sys_position g"
    "counters s = replicate 3 (drop_bit 1 (sb_step_event_count (exec_block s)))"
    by (rule next_segment [OF ready _ assms(5)]) (use assms(4,6,7,9) sgs in auto)
  have rest: "segments_of i ss" using assms(7) by (simp add: segments_of_def sgs)
  have h: "h = (isr_timer1_compa ^^ interrupts ss) k"
  proof -
    have "interrupts sgs = interrupts ss + unat (seg_n_step sg)" by (simp add: interrupts_def sgs)
    then show ?thesis by (simp only: assms(10) funpow_add o_apply k(1))
  qed
  note run = segments_run [OF k(3,2,4,5) rest, folded h]
  have "segment_moves k x = segment_moves g x" for x by (simp add: segment_moves_def fun_eq_iff k(6))
  with run moved_trans [OF s(2), of h] k(7) s(1)
  have m: "moved s h (\<lambda>idx. sum_list (map (\<lambda>sg. segment_moves g sg idx) sgs))" by (simp add: sgs)
  have axis: "sys_position h ! idx = sys_position g ! idx + block_move b idx" if idx: "idx < 3" for idx
  proof -
    from m idx obtain n where pos: "sys_position h ! idx = sys_position g ! idx + pulses (block_data b) idx n"
      and "unat (counters h ! idx) + 8 * ?N * n = unat (counters s ! idx) + 8 * ?N * unat (pb_steps b ! idx)"
      unfolding moved_def covered_moves [OF assms(8,9,7) idx] by (auto simp: s count s(3) covered_moves [OF assms(8,9,7)])
    moreover have "unat (counters s ! idx) = 4 * ?N" using idx by (simp add: s(1,4) drop_u32 count)
    moreover have "0 < unat (counters h ! idx)" "unat (counters h ! idx) \<le> 8 * ?N"
      using run idx k(7) count by (auto simp: working_def)
    ultimately have "n = unat (pb_steps b ! idx)"
      using whole_turns [of "unat (counters h ! idx)" "8 * ?N" n "4 * ?N"] N(1) by simp
    with pos show ?thesis by (simp add: pulses_def block_move_def block_data_def)
  qed
  with run show ?thesis by simp
qed

theorem block_executed_exactly_witness:
  "\<exists>g h. seg_queue g \<noteq> [] \<and> h = (isr_timer1_compa ^^ 4) g \<and> seg_queue h = []
     \<and> sys_position h ! 0 = sys_position g ! 0 + 3 \<and> sys_position h ! 1 = sys_position g ! 1 - 2"
proof -
  define b where "b = plan_block_zero\<lparr>pb_steps := [3, 2, 0], pb_step_event_count := 3, pb_direction_bits := get_direction_pin_mask 1\<rparr>"
  define sgs where "sgs = [\<lparr>seg_n_step = 2, seg_cycles_per_tick = 9, seg_st_block_index = 1, seg_amass_level = 1\<rparr>,
    \<lparr>seg_n_step = 2, seg_cycles_per_tick = 9, seg_st_block_index = 1, seg_amass_level = 0\<rparr>]"
  define g where "g = grbl_zero\<lparr>stepper := stepper_zero\<lparr>segment_buffer := sgs @ drop 2 (segment_buffer stepper_zero),
    segment_buffer_head := 2, st_block_buffer := (st_block_buffer stepper_zero)[1 := block_data b]\<rparr>\<rparr>"
  note defs = g_def sgs_def b_def grbl_zero_def stepper_zero_def stepper_t_zero_def plan_block_zero_def
  have three: "idx < 3 \<longleftrightarrow> idx = 0 \<or> idx = 1 \<or> idx = (2 :: nat)" for idx by auto
  have g: "\<not> busy (stepper g)" "st_exec_segment (st (stepper g)) = None" "length (sys_position g) = 3"
    "st_exec_block_index (st (stepper g)) \<noteq> 1" "seg_indices g" "seg_queue g = sgs" "segments_of 1 sgs"
    "st_block_buffer (stepper g) ! unat (1 :: u8) = block_data b"
    by (simp_all add: defs seg_indices_def SEGMENT_BUFFER_SIZE_def seg_queue_def ring_list_def ring_len_def segments_of_def
        upt_conv_Cons)
  have "covered b sgs" by (simp add: covered_def defs three MAX_AMASS_LEVEL_def)
  from block_executed_exactly [OF g(1-7) this g(8) refl] have "seg_queue ((isr_timer1_compa ^^ 4) g) = []
    \<and> (\<forall>idx < 3. sys_position ((isr_timer1_compa ^^ 4) g) ! idx = sys_position g ! idx + block_move b idx)"
    by (simp add: interrupts_def sgs_def)
  moreover have "block_move b 0 = 3" "block_move b 1 = - 2"
    by (simp_all add: block_move_def b_def get_direction_pin_mask_def bitm_def)
  moreover have "seg_queue g \<noteq> []" by (simp add: g(6) sgs_def)
  ultimately show ?thesis by (intro exI [of _ g] exI [of _ "(isr_timer1_compa ^^ 4) g"]) simp
qed

end
