(* ===== verification/Report.thy ===== *)
theory Report
  imports Stepper Transport
begin

text \<open>
  The printing of print.c and the messages of report.c. A print function is the list of the bytes
  it writes, in order; \<open>print_bytes\<close> sends them through \<open>serial_write\<close>. Writing changes
  nothing the messages are made of, so a message is collected first and then written.
\<close>

section \<open>print.c\<close>

definition print_bytes :: "u8 list \<Rightarrow> grbl \<Rightarrow> grbl" where
  "print_bytes cs g = fold serial_write cs g"

text \<open>A string in RAM ends at its zero byte, a literal is given without it.\<close>

definition string_bytes :: "u8 list \<Rightarrow> u8 list" where
  "string_bytes s = takeWhile (\<lambda>c. c \<noteq> 0) s"

definition printString :: "u8 list \<Rightarrow> grbl \<Rightarrow> grbl" where
  "printString s g = print_bytes (string_bytes s) g"

definition printPgmString :: "string \<Rightarrow> grbl \<Rightarrow> grbl" where
  "printPgmString s g = print_bytes (bytes s) g"

definition crlf :: "u8 list" where "crlf = [13, 10]"

definition uint8_base10 :: "u8 \<Rightarrow> u8 list" where
  "uint8_base10 n =
     (let (digit_a, n) = (if n \<ge> 100 then (48 + n mod 10, n div 10) else (0, n));
          (digit_b, n) = (if n \<ge> 10 then (48 + n mod 10, n div 10) else (0, n))
      in [48 + n] @ (if digit_b \<noteq> 0 then [digit_b] else []) @ (if digit_a \<noteq> 0 then [digit_a] else []))"

definition print_uint8_base10 :: "u8 \<Rightarrow> grbl \<Rightarrow> grbl" where
  "print_uint8_base10 n g = print_bytes (uint8_base10 n) g"

fun base2_digits :: "nat \<Rightarrow> u8 \<Rightarrow> u8 list" where
  "base2_digits 0 n = []"
| "base2_digits (Suc k) n = (n mod 2) # base2_digits k (n div 2)"

definition print_uint8_base2_ndigit :: "u8 \<Rightarrow> u8 \<Rightarrow> grbl \<Rightarrow> grbl" where
  "print_uint8_base2_ndigit n digits g =
     print_bytes (map (\<lambda>d. 48 + d) (rev (base2_digits (unat digits) n))) g"

fun digits_rev :: "nat \<Rightarrow> u8 list" where
  "digits_rev n = (if n = 0 then [] else of_nat (n mod 10) # digits_rev (n div 10))"

declare digits_rev.simps [simp del]

definition uint32_base10 :: "u32 \<Rightarrow> u8 list" where
  "uint32_base10 n = (if n = 0 then [48] else map (\<lambda>d. 48 + d) (rev (digits_rev (unat n))))"

definition integer_bytes :: "u32 \<Rightarrow> u8 list" where
  "integer_bytes n = (if sint n < 0 then byte CHR ''-'' # uint32_base10 (- n) else uint32_base10 n)"

definition printInteger :: "u32 \<Rightarrow> grbl \<Rightarrow> grbl" where
  "printInteger n g = print_bytes (integer_bytes n) g"

fun scale_decimals :: "nat \<Rightarrow> f32 \<Rightarrow> f32" where
  "scale_decimals d n =
     (if d \<ge> 2 then scale_decimals (d - 2) (f_mul n (f_of_int 100))
      else if d = 1 then f_mul n (f_of_int 10) else n)"

declare scale_decimals.simps [simp del]

text \<open>
  The digits of \<open>printFloat\<close>, last one first, as its buffer holds them, and the bytes written
  from it with the point before the last \<open>decimal_places\<close> digits.
\<close>

definition float_digits :: "nat \<Rightarrow> u32 \<Rightarrow> u8 list" where
  "float_digits decimal_places a =
     (let buf = map (\<lambda>d. d + 48) (digits_rev (unat a));
          buf = buf @ replicate (decimal_places - length buf) 48
      in if length buf = decimal_places then buf @ [48] else buf)"

definition point_digits :: "nat \<Rightarrow> u8 list \<Rightarrow> u8 list" where
  "point_digits decimal_places buf =
     concat (map (\<lambda>i. (if i = decimal_places then [byte CHR ''.''] else []) @ [buf ! (i - 1)])
       (rev [1..<Suc (length buf)]))"

definition float_bytes :: "(f32 \<Rightarrow> int) \<Rightarrow> f32 \<Rightarrow> nat \<Rightarrow> u8 list" where
  "float_bytes ub n decimal_places =
     (let neg = f_lt n 0; n = (if neg then f_neg n else n);
          n = f_add (scale_decimals decimal_places n) (f_dec 5 1)
      in (if neg then [byte CHR ''-''] else [])
           @ point_digits decimal_places (float_digits decimal_places (f_to_i32 ub n)))"

definition coord_bytes :: "grbl \<Rightarrow> f32 \<Rightarrow> u8 list" where
  "coord_bytes g n =
     (if setting_true BITFLAG_REPORT_INCHES g then float_bytes (w_cast (world g)) (f_mul n INCH_PER_MM) 4
      else float_bytes (w_cast (world g)) n 3)"

definition rate_bytes :: "grbl \<Rightarrow> f32 \<Rightarrow> u8 list" where
  "rate_bytes g n =
     (if setting_true BITFLAG_REPORT_INCHES g then float_bytes (w_cast (world g)) (f_mul n INCH_PER_MM) 1
      else float_bytes (w_cast (world g)) n 0)"

section \<open>Short messages (report.c)\<close>

definition axis_values_bytes :: "grbl \<Rightarrow> f32 list \<Rightarrow> u8 list" where
  "axis_values_bytes g v =
     coord_bytes g (v ! 0) @ bytes '','' @ coord_bytes g (v ! 1) @ bytes '','' @ coord_bytes g (v ! 2)"

definition report_status_message :: "u8 \<Rightarrow> grbl \<Rightarrow> grbl" where
  "report_status_message status_code g =
     print_bytes (if status_code = 0 then bytes ''ok'' @ crlf
                  else bytes ''error:'' @ uint8_base10 status_code @ crlf) g"

definition report_alarm_message :: "u8 \<Rightarrow> grbl \<Rightarrow> grbl" where
  "report_alarm_message alarm_code g =
     print_bytes (bytes ''ALARM:'' @ uint8_base10 alarm_code @ crlf) g"

definition feedback_text :: "u8 \<Rightarrow> string" where
  "feedback_text message_code =
     (if message_code = 1 then ''Reset to continue''
      else if message_code = 2 then [CHR 0x27] @ ''$H'' @ [CHR 0x27] @ ''|'' @ [CHR 0x27] @ ''$X''
        @ [CHR 0x27] @ '' to unlock''
      else if message_code = 3 then ''Caution: Unlocked''
      else if message_code = 4 then ''Enabled''
      else if message_code = 5 then ''Disabled''
      else if message_code = 6 then ''Check Door''
      else if message_code = 7 then ''Check Limits''
      else if message_code = 8 then ''Pgm End''
      else if message_code = 9 then ''Restoring defaults''
      else if message_code = 10 then ''Restoring spindle''
      else if message_code = 11 then ''Sleeping''
      else '''')"

definition report_feedback_message :: "u8 \<Rightarrow> grbl \<Rightarrow> grbl" where
  "report_feedback_message message_code g =
     print_bytes (bytes ''[MSG:'' @ bytes (feedback_text message_code) @ bytes '']'' @ crlf) g"

definition report_init_message :: "grbl \<Rightarrow> grbl" where
  "report_init_message g =
     print_bytes (crlf @ bytes ''Grbl 1.1h ['' @ [39] @ bytes ''$'' @ [39] @ bytes '' for help]'' @ crlf) g"

definition help_text :: string where
  "help_text = ''[HLP:$$ $# $G $I $N $x=val $Nx=line $J=line $SLP $C $X $H ~ ! ? ctrl-x]''"

definition report_grbl_help :: "grbl \<Rightarrow> grbl" where
  "report_grbl_help g = print_bytes (bytes help_text @ crlf) g"

definition report_probe_parameters :: "grbl \<Rightarrow> grbl" where
  "report_probe_parameters g = g"

definition report_startup_line :: "u8 \<Rightarrow> u8 list \<Rightarrow> grbl \<Rightarrow> grbl" where
  "report_startup_line n ln g =
     print_bytes (bytes ''$N'' @ uint8_base10 n @ bytes ''='' @ string_bytes ln @ crlf) g"

definition report_execute_startup_message :: "u8 list \<Rightarrow> u8 \<Rightarrow> grbl \<Rightarrow> grbl" where
  "report_execute_startup_message ln status_code g =
     report_status_message status_code (print_bytes (bytes ''>'' @ string_bytes ln @ bytes '':'') g)"

definition report_build_info :: "u8 list \<Rightarrow> grbl \<Rightarrow> grbl" where
  "report_build_info ln g =
     print_bytes (bytes ''[VER:1.1h.20190830:'' @ string_bytes ln @ bytes '']'' @ crlf
       @ bytes ''[OPT:I,'' @ uint8_base10 11 @ bytes '','' @ uint8_base10 80 @ bytes '']'' @ crlf) g"

definition report_echo_line_received :: "u8 list \<Rightarrow> grbl \<Rightarrow> grbl" where
  "report_echo_line_received ln g =
     print_bytes (bytes ''[echo: '' @ string_bytes ln @ bytes '']'' @ crlf) g"

section \<open>Settings and parser state\<close>

definition setting_prefix :: "u8 \<Rightarrow> u8 list" where
  "setting_prefix n = bytes ''$'' @ uint8_base10 n @ bytes ''=''"

definition uint8_setting :: "u8 \<Rightarrow> u8 \<Rightarrow> u8 list" where
  "uint8_setting n v = setting_prefix n @ uint8_base10 v @ crlf"

definition float_setting :: "grbl \<Rightarrow> u8 \<Rightarrow> f32 \<Rightarrow> u8 list" where
  "float_setting g n v = setting_prefix n @ float_bytes (w_cast (world g)) v 3 @ crlf"

definition flag_setting :: "grbl \<Rightarrow> u8 \<Rightarrow> u8 \<Rightarrow> u8 list" where
  "flag_setting g n m = uint8_setting n (if setting_true m g then 1 else 0)"

definition axis_setting_lines :: "grbl \<Rightarrow> u8 list" where
  "axis_setting_lines g =
     (let s = settings g in
      concat (map (\<lambda>i. float_setting g (100 + of_nat i) (set_steps_per_mm s ! i)) [0, 1, 2])
      @ concat (map (\<lambda>i. float_setting g (110 + of_nat i) (set_max_rate s ! i)) [0, 1, 2])
      @ concat (map (\<lambda>i. float_setting g (120 + of_nat i)
                      (f_div (set_acceleration s ! i) (f_of_int 3600))) [0, 1, 2])
      @ concat (map (\<lambda>i. float_setting g (130 + of_nat i) (f_neg (set_max_travel s ! i))) [0, 1, 2]))"

definition report_grbl_settings :: "grbl \<Rightarrow> grbl" where
  "report_grbl_settings g =
     (let s = settings g in
      print_bytes
        (uint8_setting 0 (set_pulse_microseconds s)
         @ uint8_setting 1 (set_stepper_idle_lock_time s)
         @ uint8_setting 2 (set_step_invert_mask s)
         @ uint8_setting 3 (set_dir_invert_mask s)
         @ flag_setting g 4 BITFLAG_INVERT_ST_ENABLE
         @ flag_setting g 5 BITFLAG_INVERT_LIMIT_PINS
         @ flag_setting g 6 BITFLAG_INVERT_PROBE_PIN
         @ uint8_setting 10 (set_status_report_mask s)
         @ float_setting g 11 (set_junction_deviation s)
         @ float_setting g 12 (set_arc_tolerance s)
         @ flag_setting g 13 BITFLAG_REPORT_INCHES
         @ flag_setting g 20 BITFLAG_SOFT_LIMIT_ENABLE
         @ flag_setting g 21 BITFLAG_HARD_LIMIT_ENABLE
         @ flag_setting g 22 BITFLAG_HOMING_ENABLE
         @ uint8_setting 23 (set_homing_dir_mask s)
         @ float_setting g 24 (set_homing_feed_rate s)
         @ float_setting g 25 (set_homing_seek_rate s)
         @ uint8_setting 26 (ucast (set_homing_debounce_delay s))
         @ float_setting g 27 (set_homing_pulloff s)
         @ uint8_setting 32 0
         @ axis_setting_lines g) g)"

definition report_gcode_modes :: "grbl \<Rightarrow> grbl" where
  "report_gcode_modes g =
     (let m = gc_modal (gc_state g); pf = mod_program_flow m in
      print_bytes
        (bytes ''[GC:G''
         @ (if mod_motion m \<ge> 140 then bytes ''38.'' @ uint8_base10 (mod_motion m - 138)
            else uint8_base10 (mod_motion m))
         @ bytes '' G'' @ uint8_base10 (mod_coord_select m + 54)
         @ bytes '' G'' @ uint8_base10 (mod_plane_select m + 17)
         @ bytes '' G'' @ uint8_base10 (21 - mod_units m)
         @ bytes '' G'' @ uint8_base10 (mod_distance m + 90)
         @ bytes '' G'' @ uint8_base10 (94 - mod_feed_rate m)
         @ (if pf \<noteq> 0 then
              bytes '' M'' @ (if pf = 3 then bytes ''0''
                              else if pf = 2 \<or> pf = 30 then uint8_base10 pf else [])
            else [])
         @ bytes '' T'' @ uint8_base10 (gc_tool (gc_state g))
         @ bytes '' F'' @ rate_bytes g (gc_feed_rate (gc_state g))
         @ bytes '']'' @ crlf) g)"

section \<open>Realtime status\<close>

definition state_text :: "u8 \<Rightarrow> u8 \<Rightarrow> string" where
  "state_text s suspend =
     (if s = STATE_IDLE then ''Idle''
      else if s = STATE_CYCLE then ''Run''
      else if s = STATE_HOLD then
        (if suspend AND SUSPEND_JOG_CANCEL = 0
         then (if suspend AND SUSPEND_HOLD_COMPLETE \<noteq> 0 then ''Hold:0'' else ''Hold:1'')
         else ''Jog'')
      else if s = STATE_JOG then ''Jog''
      else if s = STATE_HOMING then ''Home''
      else if s = STATE_ALARM then ''Alarm''
      else if s = STATE_CHECK_MODE then ''Check''
      else if s = STATE_SAFETY_DOOR then
        (if suspend AND SUSPEND_INITIATE_RESTORE \<noteq> 0 then ''Door:3''
         else if suspend AND SUSPEND_RETRACT_COMPLETE \<noteq> 0
         then (if suspend AND SUSPEND_SAFETY_DOOR_AJAR \<noteq> 0 then ''Door:1'' else ''Door:0'')
         else ''Door:2'')
      else if s = STATE_SLEEP then ''Sleep'' else '''')"

definition work_offset :: "grbl \<Rightarrow> f32 list" where
  "work_offset g =
     (let p = gc_state g;
          w = map (\<lambda>i. f_add (gc_coord_system p ! i) (gc_coord_offset p ! i)) [0, 1, 2]
      in w[2 := f_add (w ! 2) (gc_tool_length_offset p)])"

text \<open>
  The configuration reports the machine state and the position only: config.h leaves the
  fields for buffers, pins, speed, offsets and overrides out.
\<close>

definition report_realtime_status :: "grbl \<Rightarrow> grbl" where
  "report_realtime_status g =
     (let mpos = system_convert_array_steps_to_mpos g (sys_position g);
          mask = set_status_report_mask (settings g);
          pos = (if bit_isfalse mask 1
                 then map (\<lambda>i. f_sub (mpos ! i) (work_offset g ! i)) [0, 1, 2] else mpos)
      in print_bytes
           (bytes ''<'' @ bytes (state_text (sys_state (sys g)) (sys_suspend (sys g)))
            @ bytes (if bit_istrue mask 1 then ''|MPos:'' else ''|WPos:'')
            @ axis_values_bytes g pos @ bytes ''>'' @ crlf) g)"

end
