(* ===== verification/Print_Properties.thy ===== *)
theory Print_Properties
  imports Report
begin

text \<open>
  Printed integers: the digits of print.c stand for the number, the 8-bit and the 32-bit routine agree, and
  \<open>read_float\<close> of nuts\_bolts.c reads a printed integer back.
\<close>

section \<open>Digits\<close>

definition digits_value :: "u8 list \<Rightarrow> nat" where
  "digits_value ds = foldl (\<lambda>a d. 10 * a + unat d) 0 ds"

lemma digits_rev_value: "digits_value (rev (digits_rev n)) = n"
proof (induction n rule: digits_rev.induct)
  case (1 n)
  show ?case
  proof (cases "n = 0")
    case True
    then show ?thesis by (simp add: digits_rev.simps [of 0] digits_value_def)
  next
    case False
    with 1 show ?thesis
      by (subst digits_rev.simps) (simp add: digits_value_def unat_of_nat_u8)
  qed
qed

lemma digits_rev_digits: "d \<in> set (digits_rev n) \<Longrightarrow> d \<le> 9"
proof (induction n rule: digits_rev.induct)
  case (1 n)
  then show ?case
    by (subst (asm) digits_rev.simps) (auto simp: word_le_nat_alt unat_of_nat_u8 split: if_split_asm)
qed

lemma digits_rev_length: "n < 10 ^ k \<Longrightarrow> length (digits_rev n) \<le> k"
proof (induction k arbitrary: n)
  case 0
  then show ?case by (simp add: digits_rev.simps [of 0])
next
  case (Suc k)
  then show ?case by (subst digits_rev.simps) (simp add: Suc.IH less_mult_imp_div_less mult.commute)
qed

lemma uint32_digits:
  obtains ds where "uint32_base10 n = map (\<lambda>d. 48 + d) ds" "digits_value ds = unat n" "\<forall>d \<in> set ds. d \<le> 9"
    "ds \<noteq> []" "\<And>k. unat n < 10 ^ Suc k \<Longrightarrow> length ds \<le> Suc k"
proof (cases "n = 0")
  case True
  then show ?thesis using that [of "[0]"] by (simp add: uint32_base10_def digits_value_def)
next
  case False
  then have "digits_rev (unat n) \<noteq> []" by (subst digits_rev.simps) (simp add: word_unat_eq_iff)
  with False show ?thesis
    using that [of "rev (digits_rev (unat n))"] digits_rev_value digits_rev_digits digits_rev_length
    by (simp add: uint32_base10_def)
qed

text \<open>The routine for 8 bits, which unrolls the loop, prints the same.\<close>

lemma digits_rev_small: "0 < n \<Longrightarrow> n < 10 \<Longrightarrow> digits_rev n = [of_nat n]"
  by (simp add: digits_rev.simps [of n] digits_rev.simps [of 0])

lemma digits_rev_step: "10 \<le> n \<Longrightarrow> digits_rev n = of_nat (n mod 10) # digits_rev (n div 10)"
  by (subst digits_rev.simps) simp

lemma uint8_prints_as_uint32: "uint8_base10 n = uint32_base10 (ucast n)"
proof -
  have u: "unat (ucast n :: u32) = unat n" using unat_u8 [of n] by (simp add: unsigned_ucast_eq take_bit_eq_mod)
  have d: "(of_nat (unat n mod 10) :: u8) = n mod 10" "(of_nat (unat n div 10) :: u8) = n div 10"
    "(of_nat (unat n div 10 mod 10) :: u8) = n div 10 mod 10" "(of_nat (unat n div 10 div 10) :: u8) = n div 10 div 10"
    by (simp_all add: word_unat_eq_iff unat_of_nat_u8 unat_div unat_mod unat_u8 less_imp_diff_less mod_less_eq_dividend
        le_less_trans [OF mod_less_eq_dividend] le_less_trans [OF div_le_dividend])
  have nz: "(ucast n :: u32) = 0 \<longleftrightarrow> unat n = 0" using u by (simp add: word_unat_eq_iff [of "ucast n :: u32"])
  have digit: "48 + m mod 10 \<noteq> 0" for m :: u8
  proof -
    have "unat (m mod 10) < 10" by (simp add: unat_mod)
    then have "unat (48 + m mod 10) = 48 + unat (m mod 10)" by (simp add: unat_word_ariths)
    then show ?thesis by (auto simp: word_unat_eq_iff)
  qed
  consider "unat n < 10" | "10 \<le> unat n" "unat n < 100" | "100 \<le> unat n" by linarith
  then show ?thesis
  proof cases
    case 1
    then have "uint8_base10 n = [48 + n]" by (simp add: uint8_base10_def word_le_nat_alt)
    moreover have "uint32_base10 (ucast n) = [48 + n]"
    proof (cases "unat n = 0")
      case True
      then have "n = 0" by (simp add: word_unat_eq_iff)
      then show ?thesis by (simp add: uint32_base10_def)
    next
      case False
      with 1 show ?thesis by (simp add: uint32_base10_def nz u digits_rev_small)
    qed
    ultimately show ?thesis by simp
  next
    case 2
    then show ?thesis
      using d digit by (auto simp: uint8_base10_def uint32_base10_def nz u digits_rev_step digits_rev_small
          Let_def word_le_nat_alt)
  next
    case 3
    then have "unat n div 10 div 10 < 10" "0 < unat n div 10 div 10" using unat_u8 [of n] by (simp_all add: div_mult2_eq [symmetric])
    with 3 show ?thesis
      using d digit by (auto simp: uint8_base10_def uint32_base10_def nz u digits_rev_step digits_rev_small
          Let_def word_le_nat_alt unat_div)
  qed
qed

section \<open>Reading digits\<close>

lemma read_digit_value: "unat (push_bit 1 (push_bit 2 v + v) + ucast d :: u32) = (10 * unat v + unat (d :: u8)) mod 2 ^ 32"
proof -
  have "push_bit 1 (push_bit 2 v + v) = 10 * (v :: u32)" by (simp add: push_bit_eq_mult algebra_simps)
  moreover have "unat (ucast d :: u32) = unat d" using unat_u8 [of d] by (simp add: unsigned_ucast_eq take_bit_eq_mod)
  ultimately show ?thesis by (simp add: unat_word_ariths mod_simps)
qed

lemma read_digits_run:
  assumes "\<forall>d \<in> set ds. d \<le> 9" and "length ds + unat nd \<le> 8" and "c - 48 > 9" and "c \<noteq> 46"
  shows "\<exists>v. read_digits (map (\<lambda>d. 48 + d) ds @ c # cs) iv 0 nd False p = (v, 0, nd + of_nat (length ds), p + length ds + 1)
    \<and> unat v = foldl (\<lambda>a d. 10 * a + unat d) (unat iv) ds mod 2 ^ 32"
  using assms(1,2)
proof (induction ds arbitrary: iv nd p)
  case Nil
  have "c - 48 \<noteq> 46 - 48" using assms(4) by (metis diff_add_cancel)
  moreover have "unat iv < 2 ^ 32" using unat_u32 by simp
  ultimately show ?case using assms(3) by (simp add: not_le [symmetric])
next
  case (Cons d ds)
  have nd: "unat (nd + 1) = Suc (unat nd)" "nd + 1 \<le> 8"
    using Cons.prems(2) by (simp_all add: unat_word_ariths word_le_nat_alt)
  let ?v = "push_bit 1 (push_bit 2 iv + iv) + ucast d"
  obtain v where v: "read_digits (map (\<lambda>d. 48 + d) ds @ c # cs) ?v 0 (nd + 1) False (p + 1)
      = (v, 0, nd + 1 + of_nat (length ds), p + 1 + length ds + 1)"
    "unat v = foldl (\<lambda>a d. 10 * a + unat d) (unat ?v) ds mod 2 ^ 32"
    using Cons.IH [of "nd + 1" ?v "p + 1"] Cons.prems nd(1) by auto
  have "foldl (\<lambda>a d. 10 * a + unat d) (x mod 2 ^ 32) ds mod 2 ^ 32 = foldl (\<lambda>a d. 10 * a + unat d) x ds mod 2 ^ 32"
    for x and ds :: "u8 list"
  proof (induction ds arbitrary: x)
    case (Cons d ds)
    have "(10 * (x mod 2 ^ 32) + unat d) mod 2 ^ 32 = (10 * x + unat d) mod 2 ^ 32"
      by (metis mod_add_left_eq mod_mult_right_eq)
    then show ?case using Cons.IH [of "10 * (x mod 2 ^ 32) + unat d"] Cons.IH [of "10 * x + unat d"] by simp
  qed simp
  then have "unat v = foldl (\<lambda>a d. 10 * a + unat d) (unat iv) (d # ds) mod 2 ^ 32"
    unfolding v(2) read_digit_value by simp
  moreover have "d \<le> 9" using Cons.prems(1) by simp
  ultimately show ?case using v(1) nd(2) by (simp add: algebra_simps)
qed

section \<open>Properties\<close>

text \<open>
  C29. What \<open>print_uint32_base10\<close> prints, \<open>read_float\<close> reads: a printed integer of at most eight digits,
  anywhere in a line and followed by a character that cannot continue the number, is read back as that
  integer in floating point, and the reader stops behind its last digit. The unrolled routine for 8 bits
  prints the same digits.
\<close>
theorem number_printed_reads_back:
  assumes "unat n < 10 ^ 8" and "c - 48 > 9" and "c \<noteq> 46" and "length before + 8 < 256"
  shows "read_float (before @ uint32_base10 n @ c # cs) (of_nat (length before))
    = Some (f_of_u32 n, of_nat (length before + length (uint32_base10 n)))
    \<and> uint8_base10 m = uint32_base10 (ucast m)"
proof -
  obtain ds where ds: "uint32_base10 n = map (\<lambda>d. 48 + d) ds" "digits_value ds = unat n" "\<forall>d \<in> set ds. d \<le> 9"
    "ds \<noteq> []" and len: "\<And>k. unat n < 10 ^ Suc k \<Longrightarrow> length ds \<le> Suc k"
    by (rule uint32_digits [of n]) blast
  have eight: "length ds \<le> 8" using len [of 7] assms(1) by simp
  obtain d es where cons: "ds = d # es" using ds(4) by (cases ds) auto
  have small: "unat (of_nat (length before) :: u8) = length before" using assms(4) by (simp add: unat_of_nat_u8)
  have "d \<le> 9" using ds(3) cons by simp
  then have sign: "48 + d \<noteq> byte CHR ''-''" "48 + d \<noteq> byte CHR ''+''"
    by (auto simp: byte_def word_le_nat_alt word_unat_eq_iff unat_word_ariths)
  obtain v where v: "read_digits (map (\<lambda>d. 48 + d) ds @ c # cs) 0 0 0 False (length before)
      = (v, 0, of_nat (length ds), length before + length ds + 1)" "unat v = unat n mod 2 ^ 32"
    using read_digits_run [OF ds(3) _ assms(2,3), of 0 cs 0 "length before"] ds(2) eight
    by (auto simp: digits_value_def)
  have "v = n" using v(2) unat_u32 [of n] by (simp add: word_unat_eq_iff)
  moreover have "(of_nat (length ds) :: u8) \<noteq> 0" using ds(4) eight by (simp add: word_unat_eq_iff unat_of_nat_u8)
  ultimately show ?thesis
    using v(1) sign by (simp add: read_float_def small ds(1) cons nth_append apply_exp_def uint8_prints_as_uint32)
qed

theorem number_printed_reads_back_witness:
  "read_float (bytes ''X'' @ uint32_base10 120 @ [0]) 1 = Some (f_of_u32 120, 4)"
  using number_printed_reads_back [of 120 0 "bytes ''X''" "[]"]
  by (simp add: bytes_def uint32_base10_def digits_rev.simps)

end
