(* ===== verification/Realtime.thy ===== *)
theory Realtime
  imports Report
begin

text \<open>
  The realtime part of protocol.c with the interrupts that run beneath it. The main program sees
  what interrupts did at its polls: \<open>poll\<close> runs the next list of the schedule. Functions that
  wait return \<open>None\<close> when they wait for ever, be it for a condition that no scheduled
  interrupt brings about or inside an interrupt that does not return.
\<close>

section \<open>Interrupts\<close>

definition run_irq :: "irq \<Rightarrow> grbl \<Rightarrow> grbl option" where
  "run_irq i g =
     (case i of
        Irq_Timer1_Compa \<Rightarrow> Some (if TIMSK1_OCIE1A (hw g) then isr_timer1_compa g else g)
      | Irq_Timer0_Ovf \<Rightarrow> Some (if TCCR0B (hw g) \<noteq> 0 then isr_timer0_ovf g else g)
      | Irq_Timer2_Ovf \<Rightarrow> Some (isr_timer2_ovf g)
      | Irq_Rx b \<Rightarrow> llp_transport_rx_byte b g
      | Irq_Udre \<Rightarrow> Some (irq_udre g)
      | Irq_Limit pins \<Rightarrow> Some (isr_limit pins g)
      | Irq_Control pins \<Rightarrow> Some (isr_control pins g)
      | Pin_Probe v \<Rightarrow> Some (g\<lparr>hw := (hw g)\<lparr>PINC := (if v then bit_true (PINC (hw g)) PROBE_MASK
                                                       else bit_false (PINC (hw g)) PROBE_MASK)\<rparr>\<rparr>))"

fun run_irqs :: "irq list \<Rightarrow> grbl \<Rightarrow> grbl option" where
  "run_irqs [] g = Some g"
| "run_irqs (i # is) g = Option.bind (run_irq i g) (run_irqs is)"

definition poll :: "grbl \<Rightarrow> grbl option" where
  "poll g =
     (case sched (world g) of
        [] \<Rightarrow> Some g
      | is # rest \<Rightarrow> run_irqs is (g\<lparr>world := (world g)\<lparr>sched := rest\<rparr>\<rparr>))"

section \<open>Setters for the fields of \<open>sys\<close>\<close>

definition set_state :: "u8 \<Rightarrow> grbl \<Rightarrow> grbl" where
  "set_state v g = g\<lparr>sys := (sys g)\<lparr>sys_state := v\<rparr>\<rparr>"

definition set_suspend :: "u8 \<Rightarrow> grbl \<Rightarrow> grbl" where
  "set_suspend v g = g\<lparr>sys := (sys g)\<lparr>sys_suspend := v\<rparr>\<rparr>"

definition set_abort :: "grbl \<Rightarrow> grbl" where
  "set_abort g = g\<lparr>sys := (sys g)\<lparr>sys_abort := 1\<rparr>\<rparr>"

definition set_spindle_stop_ovr :: "u8 \<Rightarrow> grbl \<Rightarrow> grbl" where
  "set_spindle_stop_ovr v g = g\<lparr>sys := (sys g)\<lparr>sys_spindle_stop_ovr := v\<rparr>\<rparr>"

definition suspend_true :: "u8 \<Rightarrow> grbl \<Rightarrow> grbl" where
  "suspend_true m g = set_suspend (bit_true (sys_suspend (sys g)) m) g"

definition suspend_false :: "u8 \<Rightarrow> grbl \<Rightarrow> grbl" where
  "suspend_false m g = set_suspend (bit_false (sys_suspend (sys g)) m) g"

definition state_in :: "u8 \<Rightarrow> grbl \<Rightarrow> bool" where
  "state_in m g \<longleftrightarrow> sys_state (sys g) AND m \<noteq> 0"

definition suspend_in :: "u8 \<Rightarrow> grbl \<Rightarrow> bool" where
  "suspend_in m g \<longleftrightarrow> sys_suspend (sys g) AND m \<noteq> 0"

lemmas sys_setters =
  set_state_def set_suspend_def set_abort_def set_spindle_stop_ovr_def suspend_true_def
  suspend_false_def set_step_control_def

section \<open>Alarms\<close>

text \<open>
  The critical loop: until a reset arrives, a keep-alive line every second. \<open>last_ka\<close> is the
  time of the last one.
\<close>

partial_function (option) rt_alarm_loop :: "u32 \<Rightarrow> grbl \<Rightarrow> grbl option" where
  "rt_alarm_loop last_ka g =
     Option.bind (poll g) (\<lambda>g.
       let now = llp_transport_get_ms g; ka = (now - last_ka \<ge> 1000);
           g = (if ka then print_bytes (bytes ''[KA] ALARM'' @ crlf) g else g);
           last_ka = (if ka then now else last_ka)
       in if bit_isfalse (sys_rt_exec_state g) EXEC_RESET then rt_alarm_loop last_ka g else Some g)"

definition rt_alarm :: "grbl \<Rightarrow> grbl option" where
  "rt_alarm g =
     (let rt_exec = sys_rt_exec_alarm g in
      if rt_exec \<noteq> 0 then
        let g = report_alarm_message rt_exec (set_state STATE_ALARM g) in
        map_option system_clear_exec_alarm
          (if rt_exec = EXEC_ALARM_HARD_LIMIT \<or> rt_exec = EXEC_ALARM_SOFT_LIMIT then
             rt_alarm_loop 0 (system_clear_exec_state_flag EXEC_RESET (report_feedback_message 1 g))
           else Some g)
      else Some g)"

section \<open>Hold, cancel, door and sleep\<close>

definition rt_hold_motion :: "u8 \<Rightarrow> grbl \<Rightarrow> grbl" where
  "rt_hold_motion rt_exec g =
     (if state_in (STATE_CYCLE OR STATE_JOG) g \<and> \<not> suspend_in (SUSPEND_MOTION_CANCEL OR SUSPEND_JOG_CANCEL) g
      then
        let g = set_step_control STEP_CONTROL_EXECUTE_HOLD (st_update_plan_block_parameters g) in
        if sys_state (sys g) = STATE_JOG \<and> bit_isfalse rt_exec EXEC_SLEEP
        then suspend_true SUSPEND_JOG_CANCEL g else g
      else g)"

definition rt_safety_door :: "grbl \<Rightarrow> grbl" where
  "rt_safety_door g =
     (let g = report_feedback_message 6 g;
          g = (if \<not> suspend_in SUSPEND_JOG_CANCEL g then
                 let g = (if sys_state (sys g) = STATE_SAFETY_DOOR \<and> suspend_in SUSPEND_INITIATE_RESTORE g then
                            suspend_true SUSPEND_RESTART_RETRACT
                              (suspend_false (SUSPEND_RETRACT_COMPLETE OR SUSPEND_INITIATE_RESTORE
                                              OR SUSPEND_RESTORE_COMPLETE) g)
                          else g)
                 in if sys_state (sys g) \<noteq> STATE_SLEEP then set_state STATE_SAFETY_DOOR g else g
               else g)
      in suspend_true SUSPEND_SAFETY_DOOR_AJAR g)"

definition rt_hold :: "u8 \<Rightarrow> grbl \<Rightarrow> grbl" where
  "rt_hold rt_exec g =
     (if rt_exec AND (EXEC_MOTION_CANCEL OR EXEC_FEED_HOLD OR EXEC_SAFETY_DOOR OR EXEC_SLEEP) \<noteq> 0 then
        let g = (if \<not> state_in (STATE_ALARM OR STATE_CHECK_MODE) g then
                   let g = rt_hold_motion rt_exec g;
                       g = (if sys_state (sys g) = STATE_IDLE then set_suspend SUSPEND_HOLD_COMPLETE g else g);
                       g = (if bit_istrue rt_exec EXEC_MOTION_CANCEL \<and> \<not> state_in STATE_JOG g
                            then suspend_true SUSPEND_MOTION_CANCEL g else g);
                       g = (if bit_istrue rt_exec EXEC_FEED_HOLD
                               \<and> \<not> state_in (STATE_SAFETY_DOOR OR STATE_JOG OR STATE_SLEEP) g
                            then set_state STATE_HOLD g else g)
                   in if bit_istrue rt_exec EXEC_SAFETY_DOOR then rt_safety_door g else g
                 else g);
            g = (if bit_istrue rt_exec EXEC_SLEEP then
                   set_state STATE_SLEEP
                     (if sys_state (sys g) = STATE_ALARM
                      then suspend_true (SUSPEND_RETRACT_COMPLETE OR SUSPEND_HOLD_COMPLETE) g else g)
                 else g)
        in system_clear_exec_state_flag
             (EXEC_MOTION_CANCEL OR EXEC_FEED_HOLD OR EXEC_SAFETY_DOOR OR EXEC_SLEEP) g
      else g)"

section \<open>Cycle start and cycle stop\<close>

definition rt_resume_door :: "grbl \<Rightarrow> grbl" where
  "rt_resume_door g =
     (if sys_state (sys g) = STATE_SAFETY_DOOR \<and> \<not> suspend_in SUSPEND_SAFETY_DOOR_AJAR g then
        if suspend_in SUSPEND_RESTORE_COMPLETE g then set_state STATE_IDLE g
        else if suspend_in SUSPEND_RETRACT_COMPLETE g then suspend_true SUSPEND_INITIATE_RESTORE g
        else g
      else g)"

definition rt_start_cycle :: "grbl \<Rightarrow> grbl option" where
  "rt_start_cycle g =
     (if sys_state (sys g) = STATE_IDLE \<or> (state_in STATE_HOLD g \<and> suspend_in SUSPEND_HOLD_COMPLETE g) then
        if sys_state (sys g) = STATE_HOLD \<and> sys_spindle_stop_ovr (sys g) \<noteq> 0 then
          Some (set_spindle_stop_ovr
            (bit_true (sys_spindle_stop_ovr (sys g)) SPINDLE_STOP_OVR_RESTORE_CYCLE) g)
        else
          let g = set_step_control STEP_CONTROL_NORMAL_OP g in
          if plan_get_current_block g \<noteq> None \<and> \<not> suspend_in SUSPEND_MOTION_CANCEL g then
            map_option st_wake_up
              (st_prep_buffer (set_state STATE_CYCLE (set_suspend SUSPEND_DISABLE g)))
          else Some (set_state STATE_IDLE (set_suspend SUSPEND_DISABLE g))
      else Some g)"

definition rt_cycle_start :: "u8 \<Rightarrow> grbl \<Rightarrow> grbl option" where
  "rt_cycle_start rt_exec g =
     (if bit_istrue rt_exec EXEC_CYCLE_START then
        map_option (system_clear_exec_state_flag EXEC_CYCLE_START)
          (if rt_exec AND (EXEC_FEED_HOLD OR EXEC_MOTION_CANCEL OR EXEC_SAFETY_DOOR) = 0
           then rt_start_cycle (rt_resume_door g) else Some g)
      else Some g)"

definition rt_cycle_stop :: "u8 \<Rightarrow> grbl \<Rightarrow> grbl" where
  "rt_cycle_stop rt_exec g =
     (if bit_istrue rt_exec EXEC_CYCLE_STOP then
        system_clear_exec_state_flag EXEC_CYCLE_STOP
          (if state_in (STATE_HOLD OR STATE_SAFETY_DOOR OR STATE_SLEEP) g \<and> sys_soft_limit (sys g) = 0
              \<and> \<not> suspend_in SUSPEND_JOG_CANCEL g
           then
             let g = plan_cycle_reinitialize g;
                 g = (if sc_true STEP_CONTROL_EXECUTE_HOLD g then suspend_true SUSPEND_HOLD_COMPLETE g else g)
             in set_step_control
                  (bit_false (sys_step_control (sys g))
                    (STEP_CONTROL_EXECUTE_HOLD OR STEP_CONTROL_EXECUTE_SYS_MOTION)) g
           else
             let g = (if suspend_in SUSPEND_JOG_CANCEL g then
                        plan_sync_position (gc_sync_position (st_reset (plan_reset
                          (set_step_control STEP_CONTROL_NORMAL_OP g))))
                      else g)
             in if suspend_in SUSPEND_SAFETY_DOOR_AJAR g then
                  set_state STATE_SAFETY_DOOR
                    (suspend_true SUSPEND_HOLD_COMPLETE (suspend_false SUSPEND_JOG_CANCEL g))
                else set_state STATE_IDLE (set_suspend SUSPEND_DISABLE g))
      else g)"

section \<open>Overrides\<close>

text \<open>
  The new percentage from the flags of one override, in 8 bits: reset, coarse plus and minus, fine
  plus and minus, then the two limits.
\<close>

definition ovr_step :: "u8 \<Rightarrow> u8 \<Rightarrow> u8 \<Rightarrow> u8 \<Rightarrow> u8 \<Rightarrow> u8 \<Rightarrow> u8 \<Rightarrow> u8" where
  "ovr_step rt_exec reset cplus cminus fplus fminus v =
     (let v = (if bit_istrue rt_exec reset then 100 else v);
          v = (if bit_istrue rt_exec cplus then v + 10 else v);
          v = (if bit_istrue rt_exec cminus then v - 10 else v);
          v = (if bit_istrue rt_exec fplus then v + 1 else v);
          v = (if bit_istrue rt_exec fminus then v - 1 else v);
          v = (if v < 200 then v else 200)
      in if v > 10 then v else 10)"

definition new_f_override :: "u8 \<Rightarrow> u8 \<Rightarrow> u8" where
  "new_f_override rt_exec v =
     ovr_step rt_exec EXEC_FEED_OVR_RESET EXEC_FEED_OVR_COARSE_PLUS EXEC_FEED_OVR_COARSE_MINUS
       EXEC_FEED_OVR_FINE_PLUS EXEC_FEED_OVR_FINE_MINUS v"

definition new_r_override :: "u8 \<Rightarrow> u8 \<Rightarrow> u8" where
  "new_r_override rt_exec v =
     (let v = (if bit_istrue rt_exec EXEC_RAPID_OVR_RESET then 100 else v);
          v = (if bit_istrue rt_exec EXEC_RAPID_OVR_MEDIUM then 50 else v)
      in if bit_istrue rt_exec EXEC_RAPID_OVR_LOW then 25 else v)"

definition rt_motion_override :: "grbl \<Rightarrow> grbl" where
  "rt_motion_override g =
     (let rt_exec = sys_rt_exec_motion_override g in
      if rt_exec \<noteq> 0 then
        let g = system_clear_exec_motion_overrides g;
            f = new_f_override rt_exec (sys_f_override (sys g));
            r = new_r_override rt_exec (sys_r_override (sys g))
        in if f \<noteq> sys_f_override (sys g) \<or> r \<noteq> sys_r_override (sys g) then
             plan_cycle_reinitialize (plan_update_velocity_profile_parameters
               (g\<lparr>sys := (sys g)\<lparr>sys_f_override := f, sys_r_override := r, sys_report_ovr_counter := 0\<rparr>\<rparr>))
           else g
      else g)"

definition new_s_override :: "u8 \<Rightarrow> u8 \<Rightarrow> u8" where
  "new_s_override rt_exec v =
     ovr_step rt_exec EXEC_SPINDLE_OVR_RESET EXEC_SPINDLE_OVR_COARSE_PLUS EXEC_SPINDLE_OVR_COARSE_MINUS
       EXEC_SPINDLE_OVR_FINE_PLUS EXEC_SPINDLE_OVR_FINE_MINUS v"

definition rt_coolant_toggle :: "grbl \<Rightarrow> grbl" where
  "rt_coolant_toggle g =
     (if sys_state (sys g) = STATE_IDLE \<or> state_in (STATE_CYCLE OR STATE_HOLD OR STATE_JOG) g then
        let m = gc_modal (gc_state g);
            c = (if bit_istrue (mod_coolant m) PL_COND_FLAG_COOLANT_FLOOD
                 then bit_false (mod_coolant m) PL_COND_FLAG_COOLANT_FLOOD
                 else bit_true (mod_coolant m) PL_COND_FLAG_COOLANT_FLOOD);
            g = coolant_set_state c g
        in g\<lparr>gc_state := (gc_state g)\<lparr>gc_modal := m\<lparr>mod_coolant := c\<rparr>\<rparr>\<rparr>
      else g)"

definition rt_accessory_override :: "grbl \<Rightarrow> grbl" where
  "rt_accessory_override g =
     (let rt_exec = sys_rt_exec_accessory_override g in
      if rt_exec \<noteq> 0 then
        let g = system_clear_exec_accessory_overrides g;
            v = new_s_override rt_exec (sys_spindle_speed_ovr (sys g));
            g = (if v \<noteq> sys_spindle_speed_ovr (sys g) then
                   let g = g\<lparr>sys := (sys g)\<lparr>sys_spindle_speed_ovr := v\<rparr>\<rparr>;
                       g = (if sys_state (sys g) = STATE_IDLE
                            then spindle_set_state (mod_spindle (gc_modal (gc_state g))) g
                            else set_step_control
                              (bit_true (sys_step_control (sys g)) STEP_CONTROL_UPDATE_SPINDLE_PWM) g)
                   in g\<lparr>sys := (sys g)\<lparr>sys_report_ovr_counter := 0\<rparr>\<rparr>
                 else g);
            o' = sys_spindle_stop_ovr (sys g);
            g = (if bit_istrue rt_exec EXEC_SPINDLE_OVR_STOP \<and> sys_state (sys g) = STATE_HOLD then
                   if o' = 0 then set_spindle_stop_ovr SPINDLE_STOP_OVR_INITIATE g
                   else if bit_istrue o' SPINDLE_STOP_OVR_ENABLED
                   then set_spindle_stop_ovr (bit_true o' SPINDLE_STOP_OVR_RESTORE) g else g
                 else g)
        in if rt_exec AND (EXEC_COOLANT_FLOOD_OVR_TOGGLE OR EXEC_COOLANT_MIST_OVR_TOGGLE) \<noteq> 0
           then rt_coolant_toggle g else g
      else g)"

section \<open>The realtime executor\<close>

text \<open>The state flags. \<open>Inl\<close> is the early return after a reset.\<close>

definition rt_state_flags :: "grbl \<Rightarrow> (grbl + grbl) option" where
  "rt_state_flags g =
     (let rt_exec = sys_rt_exec_state g in
      if rt_exec \<noteq> 0 then
        if bit_istrue rt_exec EXEC_RESET then Some (Inl (set_abort g))
        else
          let g = (if bit_istrue rt_exec EXEC_STATUS_REPORT
                   then system_clear_exec_state_flag EXEC_STATUS_REPORT (report_realtime_status g) else g)
          in map_option (\<lambda>g. Inr (rt_cycle_stop rt_exec g)) (rt_cycle_start rt_exec (rt_hold rt_exec g))
      else Some (Inr g))"

definition rt_reload :: "grbl \<Rightarrow> grbl option" where
  "rt_reload g =
     (if state_in (STATE_CYCLE OR STATE_HOLD OR STATE_SAFETY_DOOR OR STATE_HOMING OR STATE_SLEEP
                   OR STATE_JOG) g
      then st_prep_buffer g else Some g)"

definition protocol_exec_rt_system :: "grbl \<Rightarrow> grbl option" where
  "protocol_exec_rt_system g =
     do {
       g \<leftarrow> poll g;
       g \<leftarrow> rt_alarm g;
       r \<leftarrow> rt_state_flags g;
       case r of
         Inl g \<Rightarrow> Some g
       | Inr g \<Rightarrow> rt_reload (rt_accessory_override (rt_motion_override g))
     }"

section \<open>Suspend\<close>

text \<open>\<open>delay_sec\<close> of nuts\_bolts.c: the number of rounds, and the rounds with what each executes.\<close>

definition delay_count :: "grbl \<Rightarrow> f32 \<Rightarrow> nat" where
  "delay_count g seconds = unat (f_to_u16 (w_cast (world g)) (f_ceil (f_mul (f_of_int 20) seconds)))"

fun delay_loop :: "nat \<Rightarrow> (grbl \<Rightarrow> grbl option) \<Rightarrow> (grbl \<Rightarrow> bool) \<Rightarrow> grbl \<Rightarrow> grbl option" where
  "delay_loop 0 exec bail g = Some g"
| "delay_loop (Suc n) exec bail g =
     (if sys_abort (sys g) \<noteq> 0 then Some g
      else Option.bind (exec g) (\<lambda>g. if bail g then Some g else delay_loop n exec bail g))"

definition delay_sec_suspend :: "f32 \<Rightarrow> grbl \<Rightarrow> grbl option" where
  "delay_sec_suspend seconds g =
     delay_loop (delay_count g seconds) protocol_exec_rt_system (suspend_in SUSPEND_RESTART_RETRACT) g"

partial_function (option) rt_sleep_loop :: "grbl \<Rightarrow> grbl option" where
  "rt_sleep_loop g =
     (if sys_abort (sys g) = 0 then Option.bind (protocol_exec_rt_system g) rt_sleep_loop else Some g)"

text \<open>Restart of spindle and coolant before the cycle resumes.\<close>

definition suspend_restore :: "u8 \<Rightarrow> grbl \<Rightarrow> grbl option" where
  "suspend_restore restore_condition g =
     do {
       g \<leftarrow> (if mod_spindle (gc_modal (gc_state g)) \<noteq> 0 \<and> \<not> suspend_in SUSPEND_RESTART_RETRACT g then
               if setting_true BITFLAG_LASER_MODE g
               then Some (set_step_control
                      (bit_true (sys_step_control (sys g)) STEP_CONTROL_UPDATE_SPINDLE_PWM) g)
               else delay_sec_suspend (f_of_int 4)
                      (spindle_set_state (restore_condition AND PL_COND_SPINDLE_MASK) g)
             else Some g);
       g \<leftarrow> (if mod_coolant (gc_modal (gc_state g)) \<noteq> 0 \<and> \<not> suspend_in SUSPEND_RESTART_RETRACT g
             then delay_sec_suspend (f_of_int 1)
                    (coolant_set_state (restore_condition AND 0xC0) g)
             else Some g);
       Some (if \<not> suspend_in SUSPEND_RESTART_RETRACT g
             then system_set_exec_state_flag EXEC_CYCLE_START (suspend_true SUSPEND_RESTORE_COMPLETE g)
             else g)
     }"

text \<open>The parking manager of a completed hold. The \<open>bool\<close> is the return after sleep.\<close>

definition suspend_door :: "u8 \<Rightarrow> grbl \<Rightarrow> (bool \<times> grbl) option" where
  "suspend_door restore_condition g =
     (if \<not> suspend_in SUSPEND_RETRACT_COMPLETE g then
        let g = coolant_set_state 0 (spindle_set_state 0 (set_spindle_stop_ovr SPINDLE_STOP_OVR_DISABLED g))
        in Some (False, suspend_true SUSPEND_RETRACT_COMPLETE (suspend_false SUSPEND_RESTART_RETRACT g))
      else if sys_state (sys g) = STATE_SLEEP then
        map_option (\<lambda>g. (True, g))
          (rt_sleep_loop (st_go_idle (coolant_set_state 0 (spindle_set_state 0 (report_feedback_message 11 g)))))
      else
        let g = (if sys_state (sys g) = STATE_SAFETY_DOOR \<and> \<not> system_check_safety_door_ajar g
                 then suspend_false SUSPEND_SAFETY_DOOR_AJAR g else g)
        in if suspend_in SUSPEND_INITIATE_RESTORE g
           then map_option (\<lambda>g. (False, g)) (suspend_restore restore_condition g)
           else Some (False, g))"

text \<open>The feed hold manager: the spindle stop override.\<close>

definition suspend_feed_hold :: "u8 \<Rightarrow> grbl \<Rightarrow> grbl" where
  "suspend_feed_hold restore_condition g =
     (let o' = sys_spindle_stop_ovr (sys g); spindle = mod_spindle (gc_modal (gc_state g));
          pwm = (\<lambda>g. set_step_control (bit_true (sys_step_control (sys g)) STEP_CONTROL_UPDATE_SPINDLE_PWM) g);
          spin = spindle_set_state (restore_condition AND PL_COND_SPINDLE_MASK)
      in if o' \<noteq> 0 then
           if bit_istrue o' SPINDLE_STOP_OVR_INITIATE then
             if spindle \<noteq> 0
             then set_spindle_stop_ovr SPINDLE_STOP_OVR_ENABLED (spindle_set_state 0 g)
             else set_spindle_stop_ovr SPINDLE_STOP_OVR_DISABLED g
           else if o' AND (SPINDLE_STOP_OVR_RESTORE OR SPINDLE_STOP_OVR_RESTORE_CYCLE) \<noteq> 0 then
             let g = (if spindle \<noteq> 0 then
                        let g = report_feedback_message 10 g in
                        if setting_true BITFLAG_LASER_MODE g then pwm g else spin g
                      else g);
                 g = (if bit_istrue (sys_spindle_stop_ovr (sys g)) SPINDLE_STOP_OVR_RESTORE_CYCLE
                      then system_set_exec_state_flag EXEC_CYCLE_START g else g)
             in set_spindle_stop_ovr SPINDLE_STOP_OVR_DISABLED g
           else g
         else if sc_true STEP_CONTROL_UPDATE_SPINDLE_PWM g then
           let g = spin g in
           set_step_control (bit_false (sys_step_control (sys g)) STEP_CONTROL_UPDATE_SPINDLE_PWM) g
         else g)"

definition suspend_body :: "u8 \<Rightarrow> grbl \<Rightarrow> (bool \<times> grbl) option" where
  "suspend_body restore_condition g =
     (if suspend_in SUSPEND_HOLD_COMPLETE g then
        if state_in (STATE_SAFETY_DOOR OR STATE_SLEEP) g then suspend_door restore_condition g
        else Some (False, suspend_feed_hold restore_condition g)
      else Some (False, g))"

partial_function (option) rt_suspend_loop :: "u8 \<Rightarrow> grbl \<Rightarrow> grbl option" where
  "rt_suspend_loop restore_condition g =
     (if sys_suspend (sys g) \<noteq> 0 \<and> sys_abort (sys g) = 0 then
        Option.bind (suspend_body restore_condition g) (\<lambda>rg.
          if fst rg then Some (snd rg)
          else Option.bind (protocol_exec_rt_system (snd rg)) (rt_suspend_loop restore_condition))
      else Some g)"

definition protocol_exec_rt_suspend :: "grbl \<Rightarrow> grbl option" where
  "protocol_exec_rt_suspend g =
     (let restore_condition =
            (case plan_get_current_block g of
               None \<Rightarrow> mod_spindle (gc_modal (gc_state g)) OR mod_coolant (gc_modal (gc_state g))
             | Some i \<Rightarrow> (pb_condition (plan_block g i) AND PL_COND_SPINDLE_MASK) OR coolant_get_state g)
      in rt_suspend_loop restore_condition g)"

definition protocol_execute_realtime :: "grbl \<Rightarrow> grbl option" where
  "protocol_execute_realtime g =
     Option.bind (protocol_exec_rt_system g)
       (\<lambda>g. if sys_suspend (sys g) \<noteq> 0 then protocol_exec_rt_suspend g else Some g)"

definition delay_sec_dwell :: "f32 \<Rightarrow> grbl \<Rightarrow> grbl option" where
  "delay_sec_dwell seconds g = delay_loop (delay_count g seconds) protocol_execute_realtime (\<lambda>g. False) g"

section \<open>Waiting for the planner\<close>

definition protocol_auto_cycle_start :: "grbl \<Rightarrow> grbl" where
  "protocol_auto_cycle_start g =
     (if plan_get_current_block g \<noteq> None then system_set_exec_state_flag EXEC_CYCLE_START g else g)"

partial_function (option) buffer_sync_loop :: "grbl \<Rightarrow> grbl option" where
  "buffer_sync_loop g =
     Option.bind (protocol_execute_realtime g) (\<lambda>g.
       if sys_abort (sys g) \<noteq> 0 then Some g
       else if plan_get_current_block g \<noteq> None \<or> sys_state (sys g) = STATE_CYCLE
       then buffer_sync_loop g else Some g)"

definition protocol_buffer_synchronize :: "grbl \<Rightarrow> grbl option" where
  "protocol_buffer_synchronize g = buffer_sync_loop (protocol_auto_cycle_start g)"

text \<open>\<open>system_flag_wco_change\<close> of system.c.\<close>

definition system_flag_wco_change :: "grbl \<Rightarrow> grbl option" where
  "system_flag_wco_change g =
     map_option (\<lambda>g. g\<lparr>sys := (sys g)\<lparr>sys_report_wco_counter := 0\<rparr>\<rparr>) (protocol_buffer_synchronize g)"

end
