(* ===== verification/Status.thy ===== *)
theory Status
  imports Prelude
begin

text \<open>
  The status codes of report.h, with which the line of a host is answered, and the sizes shared by
  the modules that store and execute lines.
\<close>

definition STATUS_OK :: u8 where "STATUS_OK = 0"
definition STATUS_EXPECTED_COMMAND_LETTER :: u8 where "STATUS_EXPECTED_COMMAND_LETTER = 1"
definition STATUS_BAD_NUMBER_FORMAT :: u8 where "STATUS_BAD_NUMBER_FORMAT = 2"
definition STATUS_INVALID_STATEMENT :: u8 where "STATUS_INVALID_STATEMENT = 3"
definition STATUS_NEGATIVE_VALUE :: u8 where "STATUS_NEGATIVE_VALUE = 4"
definition STATUS_SETTING_DISABLED :: u8 where "STATUS_SETTING_DISABLED = 5"
definition STATUS_SETTING_STEP_PULSE_MIN :: u8 where "STATUS_SETTING_STEP_PULSE_MIN = 6"
definition STATUS_SETTING_READ_FAIL :: u8 where "STATUS_SETTING_READ_FAIL = 7"
definition STATUS_IDLE_ERROR :: u8 where "STATUS_IDLE_ERROR = 8"
definition STATUS_SYSTEM_GC_LOCK :: u8 where "STATUS_SYSTEM_GC_LOCK = 9"
definition STATUS_SOFT_LIMIT_ERROR :: u8 where "STATUS_SOFT_LIMIT_ERROR = 10"
definition STATUS_OVERFLOW :: u8 where "STATUS_OVERFLOW = 11"
definition STATUS_MAX_STEP_RATE_EXCEEDED :: u8 where "STATUS_MAX_STEP_RATE_EXCEEDED = 12"
definition STATUS_CHECK_DOOR :: u8 where "STATUS_CHECK_DOOR = 13"
definition STATUS_LINE_LENGTH_EXCEEDED :: u8 where "STATUS_LINE_LENGTH_EXCEEDED = 14"
definition STATUS_TRAVEL_EXCEEDED :: u8 where "STATUS_TRAVEL_EXCEEDED = 15"
definition STATUS_INVALID_JOG_COMMAND :: u8 where "STATUS_INVALID_JOG_COMMAND = 16"
definition STATUS_SETTING_DISABLED_LASER :: u8 where "STATUS_SETTING_DISABLED_LASER = 17"
definition STATUS_GCODE_UNSUPPORTED_COMMAND :: u8 where "STATUS_GCODE_UNSUPPORTED_COMMAND = 20"
definition STATUS_GCODE_MODAL_GROUP_VIOLATION :: u8 where "STATUS_GCODE_MODAL_GROUP_VIOLATION = 21"
definition STATUS_GCODE_UNDEFINED_FEED_RATE :: u8 where "STATUS_GCODE_UNDEFINED_FEED_RATE = 22"
definition STATUS_GCODE_COMMAND_VALUE_NOT_INTEGER :: u8 where "STATUS_GCODE_COMMAND_VALUE_NOT_INTEGER = 23"
definition STATUS_GCODE_AXIS_COMMAND_CONFLICT :: u8 where "STATUS_GCODE_AXIS_COMMAND_CONFLICT = 24"
definition STATUS_GCODE_WORD_REPEATED :: u8 where "STATUS_GCODE_WORD_REPEATED = 25"
definition STATUS_GCODE_NO_AXIS_WORDS :: u8 where "STATUS_GCODE_NO_AXIS_WORDS = 26"
definition STATUS_GCODE_INVALID_LINE_NUMBER :: u8 where "STATUS_GCODE_INVALID_LINE_NUMBER = 27"
definition STATUS_GCODE_VALUE_WORD_MISSING :: u8 where "STATUS_GCODE_VALUE_WORD_MISSING = 28"
definition STATUS_GCODE_UNSUPPORTED_COORD_SYS :: u8 where "STATUS_GCODE_UNSUPPORTED_COORD_SYS = 29"
definition STATUS_GCODE_G53_INVALID_MOTION_MODE :: u8 where "STATUS_GCODE_G53_INVALID_MOTION_MODE = 30"
definition STATUS_GCODE_AXIS_WORDS_EXIST :: u8 where "STATUS_GCODE_AXIS_WORDS_EXIST = 31"
definition STATUS_GCODE_NO_AXIS_WORDS_IN_PLANE :: u8 where "STATUS_GCODE_NO_AXIS_WORDS_IN_PLANE = 32"
definition STATUS_GCODE_INVALID_TARGET :: u8 where "STATUS_GCODE_INVALID_TARGET = 33"
definition STATUS_GCODE_ARC_RADIUS_ERROR :: u8 where "STATUS_GCODE_ARC_RADIUS_ERROR = 34"
definition STATUS_GCODE_NO_OFFSETS_IN_PLANE :: u8 where "STATUS_GCODE_NO_OFFSETS_IN_PLANE = 35"
definition STATUS_GCODE_UNUSED_WORDS :: u8 where "STATUS_GCODE_UNUSED_WORDS = 36"
definition STATUS_GCODE_G43_DYNAMIC_AXIS_ERROR :: u8 where "STATUS_GCODE_G43_DYNAMIC_AXIS_ERROR = 37"
definition STATUS_GCODE_MAX_VALUE_EXCEEDED :: u8 where "STATUS_GCODE_MAX_VALUE_EXCEEDED = 38"

lemmas status_consts [grbl_consts] =
  STATUS_OK_def STATUS_EXPECTED_COMMAND_LETTER_def STATUS_BAD_NUMBER_FORMAT_def 
  STATUS_INVALID_STATEMENT_def STATUS_NEGATIVE_VALUE_def STATUS_SETTING_DISABLED_def 
  STATUS_SETTING_STEP_PULSE_MIN_def STATUS_SETTING_READ_FAIL_def STATUS_IDLE_ERROR_def 
  STATUS_SYSTEM_GC_LOCK_def STATUS_SOFT_LIMIT_ERROR_def STATUS_OVERFLOW_def 
  STATUS_MAX_STEP_RATE_EXCEEDED_def STATUS_CHECK_DOOR_def STATUS_LINE_LENGTH_EXCEEDED_def 
  STATUS_TRAVEL_EXCEEDED_def STATUS_INVALID_JOG_COMMAND_def STATUS_SETTING_DISABLED_LASER_def 
  STATUS_GCODE_UNSUPPORTED_COMMAND_def STATUS_GCODE_MODAL_GROUP_VIOLATION_def 
  STATUS_GCODE_UNDEFINED_FEED_RATE_def STATUS_GCODE_COMMAND_VALUE_NOT_INTEGER_def 
  STATUS_GCODE_AXIS_COMMAND_CONFLICT_def STATUS_GCODE_WORD_REPEATED_def 
  STATUS_GCODE_NO_AXIS_WORDS_def STATUS_GCODE_INVALID_LINE_NUMBER_def 
  STATUS_GCODE_VALUE_WORD_MISSING_def STATUS_GCODE_UNSUPPORTED_COORD_SYS_def 
  STATUS_GCODE_G53_INVALID_MOTION_MODE_def STATUS_GCODE_AXIS_WORDS_EXIST_def 
  STATUS_GCODE_NO_AXIS_WORDS_IN_PLANE_def STATUS_GCODE_INVALID_TARGET_def 
  STATUS_GCODE_ARC_RADIUS_ERROR_def STATUS_GCODE_NO_OFFSETS_IN_PLANE_def 
  STATUS_GCODE_UNUSED_WORDS_def STATUS_GCODE_G43_DYNAMIC_AXIS_ERROR_def 
  STATUS_GCODE_MAX_VALUE_EXCEEDED_def

definition LINE_BUFFER_SIZE :: u8 where "LINE_BUFFER_SIZE = 48"
definition N_STARTUP_LINE :: u8 where "N_STARTUP_LINE = 2"

lemmas line_consts [grbl_consts] = LINE_BUFFER_SIZE_def N_STARTUP_LINE_def

end
