(* ===== verification/Motion.thy ===== *)
theory Motion
  imports Realtime Status
begin

text \<open>
  motion_control.c, the homing cycle and the soft limit check of limits.c, and jog.c: what turns
  commands into planner blocks. These functions wait for the machine, so their results are
  options: \<open>None\<close> is a wait that does not end.
\<close>

definition GC_UPDATE_POS_TARGET :: u8 where "GC_UPDATE_POS_TARGET = 0"
definition GC_UPDATE_POS_SYSTEM :: u8 where "GC_UPDATE_POS_SYSTEM = 1"
definition GC_UPDATE_POS_NONE :: u8 where "GC_UPDATE_POS_NONE = 2"
definition GC_PROBE_FOUND :: u8 where "GC_PROBE_FOUND = GC_UPDATE_POS_SYSTEM"
definition GC_PROBE_ABORT :: u8 where "GC_PROBE_ABORT = GC_UPDATE_POS_NONE"
definition GC_PROBE_FAIL_INIT :: u8 where "GC_PROBE_FAIL_INIT = GC_UPDATE_POS_NONE"
definition GC_PROBE_FAIL_END :: u8 where "GC_PROBE_FAIL_END = GC_UPDATE_POS_TARGET"
definition GC_PROBE_CHECK_MODE :: u8 where "GC_PROBE_CHECK_MODE = GC_UPDATE_POS_TARGET"
definition GC_PARSER_NONE :: u8 where "GC_PARSER_NONE = 0"
definition GC_PARSER_JOG_MOTION :: u8 where "GC_PARSER_JOG_MOTION = 0x01"
definition GC_PARSER_CHECK_MANTISSA :: u8 where "GC_PARSER_CHECK_MANTISSA = 0x02"
definition GC_PARSER_ARC_IS_CLOCKWISE :: u8 where "GC_PARSER_ARC_IS_CLOCKWISE = 0x04"
definition GC_PARSER_PROBE_IS_AWAY :: u8 where "GC_PARSER_PROBE_IS_AWAY = 0x08"
definition GC_PARSER_PROBE_IS_NO_ERROR :: u8 where "GC_PARSER_PROBE_IS_NO_ERROR = 0x10"
definition GC_PARSER_LASER_FORCE_SYNC :: u8 where "GC_PARSER_LASER_FORCE_SYNC = 0x20"
definition GC_PARSER_LASER_DISABLE :: u8 where "GC_PARSER_LASER_DISABLE = 0x40"
definition GC_PARSER_LASER_ISMOTION :: u8 where "GC_PARSER_LASER_ISMOTION = 0x80"

lemmas gc_flag_consts [grbl_consts] =
  GC_UPDATE_POS_TARGET_def GC_UPDATE_POS_SYSTEM_def GC_UPDATE_POS_NONE_def GC_PROBE_FOUND_def
  GC_PROBE_ABORT_def GC_PROBE_FAIL_INIT_def GC_PROBE_FAIL_END_def GC_PROBE_CHECK_MODE_def
  GC_PARSER_NONE_def GC_PARSER_JOG_MOTION_def GC_PARSER_CHECK_MANTISSA_def
  GC_PARSER_ARC_IS_CLOCKWISE_def GC_PARSER_PROBE_IS_AWAY_def GC_PARSER_PROBE_IS_NO_ERROR_def
  GC_PARSER_LASER_FORCE_SYNC_def GC_PARSER_LASER_DISABLE_def GC_PARSER_LASER_ISMOTION_def

definition HOMING_CYCLE_0 :: u8 where "HOMING_CYCLE_0 = 0x04"
definition HOMING_CYCLE_1 :: u8 where "HOMING_CYCLE_1 = 0x03"
definition N_HOMING_LOCATE_CYCLE :: nat where "N_HOMING_LOCATE_CYCLE = 1"
definition HOMING_AXIS_SEARCH_SCALAR :: f32 where "HOMING_AXIS_SEARCH_SCALAR = f_dec 15 1"
definition HOMING_AXIS_LOCATE_SCALAR :: f32 where "HOMING_AXIS_LOCATE_SCALAR = f_of_int 5"
definition N_ARC_CORRECTION :: u8 where "N_ARC_CORRECTION = 12"
definition ARC_ANGULAR_TRAVEL_EPSILON :: f32 where "ARC_ANGULAR_TRAVEL_EPSILON = f_dec 5 7"
definition M_PI :: f32 where "M_PI = f_dec 314159265358979323846 20"

section \<open>Soft limits (limits.c)\<close>

text \<open>The wait for idle: it also ends at an abort.\<close>

partial_function (option) idle_loop :: "grbl \<Rightarrow> grbl option" where
  "idle_loop g =
     Option.bind (protocol_execute_realtime g) (\<lambda>g.
       if sys_abort (sys g) \<noteq> 0 \<or> sys_state (sys g) = STATE_IDLE then Some g else idle_loop g)"

definition limits_soft_check :: "f32 list \<Rightarrow> grbl \<Rightarrow> grbl option" where
  "limits_soft_check target g =
     (if system_check_travel_limits g target then
        let g = g\<lparr>sys := (sys g)\<lparr>sys_soft_limit := 1\<rparr>\<rparr>;
            stop = (\<lambda>g. protocol_execute_realtime (system_set_exec_alarm EXEC_ALARM_SOFT_LIMIT (mc_reset g)))
        in if sys_state (sys g) = STATE_CYCLE then
             Option.bind (idle_loop (system_set_exec_state_flag EXEC_FEED_HOLD g))
               (\<lambda>g. if sys_abort (sys g) \<noteq> 0 then Some g else stop g)
           else stop g
      else Some g)"

section \<open>Lines and arcs\<close>

partial_function (option) buffer_room_loop :: "grbl \<Rightarrow> grbl option" where
  "buffer_room_loop g =
     Option.bind (protocol_execute_realtime g) (\<lambda>g.
       if sys_abort (sys g) \<noteq> 0 then Some g
       else if plan_check_full_buffer g then buffer_room_loop (protocol_auto_cycle_start g)
       else Some g)"

definition mc_line :: "f32 list \<Rightarrow> plan_line_data_t \<Rightarrow> grbl \<Rightarrow> grbl option" where
  "mc_line target pl_data g =
     do {
       g \<leftarrow> (if setting_true BITFLAG_SOFT_LIMIT_ENABLE g \<and> sys_state (sys g) \<noteq> STATE_JOG
             then limits_soft_check target g else Some g);
       if sys_state (sys g) = STATE_CHECK_MODE then Some g
       else do {
         g \<leftarrow> buffer_room_loop g;
         Some (if sys_abort (sys g) \<noteq> 0 then g
               else
                 let (ok, g) = plan_buffer_line target pl_data g in
                 if \<not> ok \<and> setting_true BITFLAG_LASER_MODE g
                    \<and> bit_istrue (pd_condition pl_data) PL_COND_FLAG_SPINDLE_CW
                 then spindle_sync PL_COND_FLAG_SPINDLE_CW g else g)
       }
     }"

text \<open>
  The caller passes \<open>gc_state.position\<close> as the position that the arc advances, so the model reads
  and writes it there. \<open>arc_loop\<close> is the loop over the inner segments: \<open>n\<close> rounds are left.
\<close>

definition arc_position :: "nat \<Rightarrow> f32 \<Rightarrow> grbl \<Rightarrow> grbl" where
  "arc_position axis v g =
     g\<lparr>gc_state := (gc_state g)\<lparr>gc_position := (gc_position (gc_state g))[axis := v]\<rparr>\<rparr>"

text \<open>The radius vector of the next segment and the count of rotations since the last correction.\<close>

definition arc_rotate ::
  "grbl \<Rightarrow> f32 \<times> f32 \<Rightarrow> nat \<Rightarrow> f32 \<Rightarrow> f32 \<times> f32 \<Rightarrow> u8 \<Rightarrow> (f32 \<times> f32) \<times> u8" where
  "arc_rotate g off i theta r count =
     (let cos_T = f_sub (f_of_int 2) (f_mul theta theta);
          sin_T = f_mul (f_mul theta (f_dec 16666667 8)) (f_add cos_T (f_of_int 4));
          cos_T = f_mul cos_T (f_dec 5 1);
          (r0, r1) = r; (o0, o1) = off
      in if count < N_ARC_CORRECTION then
           ((f_sub (f_mul r0 cos_T) (f_mul r1 sin_T), f_add (f_mul r0 sin_T) (f_mul r1 cos_T)), count + 1)
         else
           let a = f_mul (f_of_int (int i)) theta; cos_Ti = w_cos (world g) a; sin_Ti = w_sin (world g) a
           in ((f_add (f_mul (f_neg o0) cos_Ti) (f_mul o1 sin_Ti),
                f_sub (f_mul (f_neg o0) sin_Ti) (f_mul o1 cos_Ti)), 0))"

fun arc_loop ::
  "nat \<Rightarrow> nat \<Rightarrow> plan_line_data_t \<Rightarrow> f32 \<times> f32 \<Rightarrow> f32 \<times> f32 \<Rightarrow> f32 \<Rightarrow> f32 \<Rightarrow> nat \<Rightarrow> nat \<Rightarrow> nat
    \<Rightarrow> f32 \<times> f32 \<Rightarrow> u8 \<Rightarrow> grbl \<Rightarrow> grbl option" where
  "arc_loop 0 i pl_data center off theta linear axis_0 axis_1 axis_linear r count g = Some g"
| "arc_loop (Suc n) i pl_data center off theta linear axis_0 axis_1 axis_linear r count g =
     (let (r, count) = arc_rotate g off i theta r count;
          g = arc_position axis_0 (f_add (fst center) (fst r)) g;
          g = arc_position axis_1 (f_add (snd center) (snd r)) g;
          g = arc_position axis_linear (f_add (gc_position (gc_state g) ! axis_linear) linear) g
      in Option.bind (mc_line (gc_position (gc_state g)) pl_data g) (\<lambda>g.
           if sys_abort (sys g) \<noteq> 0 then Some g
           else arc_loop n (Suc i) pl_data center off theta linear axis_0 axis_1 axis_linear r count g))"

definition arc_angle ::
  "grbl \<Rightarrow> f32 \<times> f32 \<Rightarrow> f32 \<times> f32 \<Rightarrow> bool \<Rightarrow> f32" where
  "arc_angle g r rt is_clockwise_arc =
     (let (r0, r1) = r; (rt0, rt1) = rt;
          a = w_atan2 (world g) (f_sub (f_mul r0 rt1) (f_mul r1 rt0)) (f_add (f_mul r0 rt0) (f_mul r1 rt1));
          two_pi = f_mul (f_of_int 2) M_PI
      in if is_clockwise_arc
         then (if f_le (f_neg ARC_ANGULAR_TRAVEL_EPSILON) a then f_sub a two_pi else a)
         else (if f_le a ARC_ANGULAR_TRAVEL_EPSILON then f_add a two_pi else a))"

definition arc_segments :: "grbl \<Rightarrow> f32 \<Rightarrow> f32 \<Rightarrow> u16" where
  "arc_segments g angular_travel radius =
     (let tol = set_arc_tolerance (settings g)
      in f_to_u16 (w_cast (world g)) (f_floor
           (f_div (f_abs (f_mul (f_mul (f_dec 5 1) angular_travel) radius))
              (f_sqrt (f_mul tol (f_sub (f_mul (f_of_int 2) radius) tol))))))"

definition mc_arc ::
  "f32 list \<Rightarrow> plan_line_data_t \<Rightarrow> f32 list \<Rightarrow> f32 \<Rightarrow> nat \<Rightarrow> nat \<Rightarrow> nat \<Rightarrow> bool \<Rightarrow> grbl \<Rightarrow> grbl option" where
  "mc_arc target pl_data off radius axis_0 axis_1 axis_linear is_clockwise_arc g =
     (let position = gc_position (gc_state g);
          center = (f_add (position ! axis_0) (off ! axis_0), f_add (position ! axis_1) (off ! axis_1));
          r = (f_neg (off ! axis_0), f_neg (off ! axis_1));
          rt = (f_sub (target ! axis_0) (fst center), f_sub (target ! axis_1) (snd center));
          angular_travel = arc_angle g r rt is_clockwise_arc;
          segments = arc_segments g angular_travel radius;
          fsegments = f_of_int (uint segments);
          pl_data' = (if bit_istrue (pd_condition pl_data) PL_COND_FLAG_INVERSE_TIME
                      then pl_data\<lparr>pd_feed_rate := f_mul (pd_feed_rate pl_data) fsegments,
                                   pd_condition := bit_false (pd_condition pl_data) PL_COND_FLAG_INVERSE_TIME\<rparr>
                      else pl_data)
      in if segments \<noteq> 0 then
           Option.bind
             (arc_loop (unat segments - 1) 1 pl_data' center (off ! axis_0, off ! axis_1)
                (f_div angular_travel fsegments)
                (f_div (f_sub (target ! axis_linear) (position ! axis_linear)) fsegments)
                axis_0 axis_1 axis_linear r 0 g)
             (\<lambda>g. if segments > 1 \<and> sys_abort (sys g) \<noteq> 0 then Some g else mc_line target pl_data' g)
         else mc_line target pl_data g)"

definition mc_dwell :: "f32 \<Rightarrow> grbl \<Rightarrow> grbl option" where
  "mc_dwell seconds g =
     (if sys_state (sys g) = STATE_CHECK_MODE then Some g
      else Option.bind (protocol_buffer_synchronize g) (delay_sec_dwell seconds))"

section \<open>Probing\<close>

definition probe_finish :: "bool \<Rightarrow> grbl \<Rightarrow> (u8 \<times> grbl) option" where
  "probe_finish is_no_error g =
     do {
       g \<leftarrow> Some (if sys_probe_state g = PROBE_ACTIVE then
                    if is_no_error then g\<lparr>sys_probe_position := sys_position g\<rparr>
                    else system_set_exec_alarm EXEC_ALARM_PROBE_FAIL_CONTACT g
                  else g\<lparr>sys := (sys g)\<lparr>sys_probe_succeeded := 1\<rparr>\<rparr>);
       g \<leftarrow> protocol_execute_realtime (probe_configure_invert_mask False (g\<lparr>sys_probe_state := PROBE_OFF\<rparr>));
       g \<leftarrow> Some (plan_sync_position (plan_reset (st_reset g)));
       Some (if sys_probe_succeeded (sys g) \<noteq> 0 then GC_PROBE_FOUND else GC_PROBE_FAIL_END, g)
     }"

definition mc_probe_cycle ::
  "f32 list \<Rightarrow> plan_line_data_t \<Rightarrow> u8 \<Rightarrow> grbl \<Rightarrow> (u8 \<times> grbl) option" where
  "mc_probe_cycle target pl_data parser_flags g =
     (if sys_state (sys g) = STATE_CHECK_MODE then Some (GC_PROBE_CHECK_MODE, g)
      else Option.bind (protocol_buffer_synchronize g) (\<lambda>g.
        if sys_abort (sys g) \<noteq> 0 then Some (GC_PROBE_ABORT, g)
        else
          let is_probe_away = bit_istrue parser_flags GC_PARSER_PROBE_IS_AWAY;
              is_no_error = bit_istrue parser_flags GC_PARSER_PROBE_IS_NO_ERROR;
              g = probe_configure_invert_mask is_probe_away (g\<lparr>sys := (sys g)\<lparr>sys_probe_succeeded := 0\<rparr>\<rparr>)
          in if probe_get_state g \<noteq> 0 then
               map_option (\<lambda>g. (GC_PROBE_FAIL_INIT, probe_configure_invert_mask False g))
                 (protocol_execute_realtime (system_set_exec_alarm EXEC_ALARM_PROBE_FAIL_INITIAL g))
             else do {
               g \<leftarrow> mc_line target pl_data g;
               g \<leftarrow> idle_loop (system_set_exec_state_flag EXEC_CYCLE_START (g\<lparr>sys_probe_state := PROBE_ACTIVE\<rparr>));
               if sys_abort (sys g) \<noteq> 0 then Some (GC_PROBE_ABORT, g) else probe_finish is_no_error g
             }))"

section \<open>Homing\<close>

definition in_cycle :: "u8 \<Rightarrow> nat \<Rightarrow> bool" where
  "in_cycle cycle_mask idx \<longleftrightarrow> bit_istrue cycle_mask (bitm idx)"

definition home_max_travel :: "u8 \<Rightarrow> grbl \<Rightarrow> f32" where
  "home_max_travel cycle_mask g =
     foldl (\<lambda>m idx. if in_cycle cycle_mask idx
                    then f_max m (f_mul (f_neg HOMING_AXIS_SEARCH_SCALAR) (set_max_travel (settings g) ! idx))
                    else m) 0 [0, 1, 2]"

text \<open>The set-up of one pass: the target, the lock of the axes that move, and how many they are.\<close>

definition home_target :: "bool \<Rightarrow> f32 \<Rightarrow> u8 \<Rightarrow> grbl \<Rightarrow> f32 list \<times> u8 \<times> nat \<times> grbl" where
  "home_target approach max_travel cycle_mask g =
     (let active = filter (in_cycle cycle_mask) [0, 1, 2];
          goal = (\<lambda>idx. if bit_istrue (set_homing_dir_mask (settings g)) (bitm idx) = approach
                        then f_neg max_travel else max_travel);
          target = foldl (\<lambda>t idx. t[idx := goal idx])
                     (system_convert_array_steps_to_mpos g (sys_position g)) active
      in (target, foldl (\<lambda>l idx. l OR get_step_pin_mask idx) 0 active, length active,
          g\<lparr>sys_position := foldl (\<lambda>p idx. p[idx := 0]) (sys_position g) active\<rparr>))"

text \<open>The axes whose switch closed are locked.\<close>

definition home_lock :: "u8 \<Rightarrow> u8 \<Rightarrow> u8" where
  "home_lock limit_state axislock =
     foldl (\<lambda>l idx. if l AND get_step_pin_mask idx \<noteq> 0 \<and> limit_state AND bitm idx \<noteq> 0
                    then l AND NOT (get_step_pin_mask idx) else l) axislock [0, 1, 2]"

definition home_alarms :: "bool \<Rightarrow> u8 \<Rightarrow> grbl \<Rightarrow> grbl" where
  "home_alarms approach cycle_mask g =
     (let rt_exec = sys_rt_exec_state g;
          g = (if bit_istrue rt_exec EXEC_RESET then system_set_exec_alarm EXEC_ALARM_HOMING_FAIL_RESET g else g);
          g = (if bit_istrue rt_exec EXEC_SAFETY_DOOR then system_set_exec_alarm EXEC_ALARM_HOMING_FAIL_DOOR g else g);
          g = (if \<not> approach \<and> limits_get_state g AND cycle_mask \<noteq> 0
               then system_set_exec_alarm EXEC_ALARM_HOMING_FAIL_PULLOFF g else g)
      in if approach \<and> bit_istrue rt_exec EXEC_CYCLE_STOP
         then system_set_exec_alarm EXEC_ALARM_HOMING_FAIL_APPROACH g else g)"

text \<open>
  The loop of one pass. The result \<open>True\<close> is the end of the pass, \<open>False\<close> the return out of the
  cycle after a failure.
\<close>

partial_function (option) home_loop :: "bool \<Rightarrow> u8 \<Rightarrow> u8 \<Rightarrow> grbl \<Rightarrow> (bool \<times> grbl) option" where
  "home_loop approach cycle_mask axislock g =
     Option.bind (poll g) (\<lambda>g.
       let axislock = (if approach then home_lock (limits_get_state g) axislock else axislock);
           g = (if approach then g\<lparr>sys := (sys g)\<lparr>sys_homing_axis_lock := axislock\<rparr>\<rparr> else g)
       in Option.bind (st_prep_buffer g) (\<lambda>g.
         if sys_rt_exec_state g AND (EXEC_SAFETY_DOOR OR EXEC_RESET OR EXEC_CYCLE_STOP) \<noteq> 0 then
           let g = home_alarms approach cycle_mask g in
           if sys_rt_exec_alarm g \<noteq> 0
           then Option.bind (protocol_execute_realtime (mc_reset g)) (\<lambda>g. Some (False, g))
           else Some (True, system_clear_exec_state_flag EXEC_CYCLE_STOP g)
         else if STEP_MASK AND axislock \<noteq> 0 then home_loop approach cycle_mask axislock g
         else Some (True, g)))"

definition home_pass :: "bool \<Rightarrow> f32 \<Rightarrow> f32 \<Rightarrow> u8 \<Rightarrow> grbl \<Rightarrow> (bool \<times> grbl) option" where
  "home_pass approach max_travel homing_rate cycle_mask g =
     (let (target, axislock, n_active_axis, g) = home_target approach max_travel cycle_mask g;
          rate = f_mul homing_rate (f_sqrt (f_of_int (int n_active_axis)));
          g = g\<lparr>sys := (sys g)\<lparr>sys_homing_axis_lock := axislock\<rparr>\<rparr>;
          pl_data = \<lparr>pd_feed_rate = rate, pd_spindle_speed = 0,
                     pd_condition = PL_COND_FLAG_SYSTEM_MOTION OR PL_COND_FLAG_NO_FEED_OVERRIDE\<rparr>;
          (_, g) = plan_buffer_line target pl_data g
      in do {
           g \<leftarrow> st_prep_buffer (set_step_control STEP_CONTROL_EXECUTE_SYS_MOTION g);
           (ok, g) \<leftarrow> home_loop approach cycle_mask axislock (st_wake_up g);
           Some (ok, if ok then st_reset g else g)
         })"

fun home_passes :: "nat \<Rightarrow> bool \<Rightarrow> f32 \<Rightarrow> f32 \<Rightarrow> u8 \<Rightarrow> grbl \<Rightarrow> (bool \<times> grbl) option" where
  "home_passes n approach max_travel homing_rate cycle_mask g =
     Option.bind (home_pass approach max_travel homing_rate cycle_mask g) (\<lambda>(ok, g).
       if \<not> ok then Some (False, g)
       else
         let approach = (\<not> approach); s = settings g;
             max_travel = (if approach then f_mul (set_homing_pulloff s) HOMING_AXIS_LOCATE_SCALAR
                           else set_homing_pulloff s);
             homing_rate = (if approach then set_homing_feed_rate s else set_homing_seek_rate s)
         in case n of
              0 \<Rightarrow> Some (True, g)
            | Suc n \<Rightarrow> home_passes n approach max_travel homing_rate cycle_mask g)"

declare home_passes.simps [simp del]

definition home_set_position :: "u8 \<Rightarrow> grbl \<Rightarrow> grbl" where
  "home_set_position cycle_mask g =
     (let s = settings g;
          pos = (\<lambda>idx. if bit_istrue (set_homing_dir_mask s) (bitm idx)
                       then f_lround (w_cast (world g))
                              (f_mul (f_add (set_max_travel s ! idx) (set_homing_pulloff s)) (set_steps_per_mm s ! idx))
                       else f_lround (w_cast (world g))
                              (f_mul (f_neg (set_homing_pulloff s)) (set_steps_per_mm s ! idx)))
      in g\<lparr>sys_position :=
             foldl (\<lambda>p idx. if in_cycle cycle_mask idx then p[idx := pos idx] else p) (sys_position g) [0, 1, 2]\<rparr>)"

definition limits_go_home :: "u8 \<Rightarrow> grbl \<Rightarrow> grbl option" where
  "limits_go_home cycle_mask g =
     (if sys_abort (sys g) \<noteq> 0 then Some g
      else
        map_option (\<lambda>(ok, g). if ok then set_step_control STEP_CONTROL_NORMAL_OP (home_set_position cycle_mask g)
                              else g)
          (home_passes (2 * N_HOMING_LOCATE_CYCLE + 1) True (home_max_travel cycle_mask g)
             (set_homing_seek_rate (settings g)) cycle_mask g))"

definition mc_homing_cycle :: "u8 \<Rightarrow> grbl \<Rightarrow> grbl option" where
  "mc_homing_cycle cycle_mask g =
     do {
       g \<leftarrow> limits_go_home HOMING_CYCLE_0 (limits_disable g);
       g \<leftarrow> limits_go_home HOMING_CYCLE_1 g;
       g \<leftarrow> protocol_execute_realtime g;
       Some (if sys_abort (sys g) \<noteq> 0 then g
             else limits_init (plan_sync_position (gc_sync_position g)))
     }"

section \<open>Jogging (jog.c)\<close>

definition jog_execute :: "plan_line_data_t \<Rightarrow> parser_block_t \<Rightarrow> grbl \<Rightarrow> (u8 \<times> grbl) option" where
  "jog_execute pl_data gc_block g =
     (let pl_data = pl_data\<lparr>pd_feed_rate := val_f (blk_values gc_block),
                            pd_condition := pd_condition pl_data OR PL_COND_FLAG_NO_FEED_OVERRIDE\<rparr>;
          target = val_xyz (blk_values gc_block)
      in if setting_true BITFLAG_SOFT_LIMIT_ENABLE g \<and> system_check_travel_limits g target
         then Some (STATUS_TRAVEL_EXCEEDED, g)
         else do {
           g \<leftarrow> mc_line target pl_data g;
           g \<leftarrow> (if sys_state (sys g) = STATE_IDLE \<and> plan_get_current_block g \<noteq> None
                 then map_option st_wake_up (st_prep_buffer (set_state STATE_JOG g))
                 else Some g);
           Some (STATUS_OK, g)
         })"

end
