(* ===== verification/Eeprom.thy ===== *)
theory Eeprom
  imports Reset
begin

text \<open>
  eeprom.c: the byte accesses with the three programming modes of the device, and the block copies
  with a checksum. The device has 1024 bytes, of an address it takes the low ten bits. The lemmas
  say what a cell holds after a write, that blocks are read back as written as long as nothing
  wrote over them, and how little the checksum sees.
\<close>

section \<open>Bytes\<close>

text \<open>What programming does to a cell, given the data register and the old content.\<close>

datatype eepm = Erase_Write | Erase_Only | Write_Only

fun eeprom_program :: "eepm \<Rightarrow> u8 \<Rightarrow> u8 \<Rightarrow> u8" where
  "eeprom_program Erase_Write data old = data"
| "eeprom_program Erase_Only data old = 0xFF"
| "eeprom_program Write_Only data old = old AND data"

definition EEAR :: "u16 \<Rightarrow> u16" where
  "EEAR addr = addr AND 0x3FF"

definition eeprom_get_char :: "u16 \<Rightarrow> grbl \<Rightarrow> u8" where
  "eeprom_get_char addr g = eeprom g (EEAR addr)"

definition eeprom_put_char :: "u16 \<Rightarrow> u8 \<Rightarrow> grbl \<Rightarrow> grbl" where
  "eeprom_put_char addr new_value g =
     (let old_value = eeprom_get_char addr g;
          diff_mask = old_value XOR new_value;
          write = (\<lambda>m. g\<lparr>eeprom := (eeprom g)(EEAR addr := eeprom_program m new_value old_value)\<rparr>)
      in if diff_mask AND new_value \<noteq> 0 then
           if new_value \<noteq> 0xFF then write Erase_Write else write Erase_Only
         else if diff_mask \<noteq> 0 then write Write_Only
         else g)"

section \<open>Blocks\<close>

text \<open>
  One step of the checksum. The C code combines the two shifts, made in 16 bits, with a logical
  or, so what is added to the byte is 0 or 1.
\<close>

definition checksum_add :: "u8 \<Rightarrow> u8 \<Rightarrow> u8" where
  "checksum_add checksum b =
     (if push_bit 1 (ucast checksum :: u16) \<noteq> 0 \<or> drop_bit 7 checksum \<noteq> 0 then 1 else 0) + b"

fun memcpy_to_loop :: "u8 \<Rightarrow> u16 \<Rightarrow> u8 list \<Rightarrow> grbl \<Rightarrow> grbl" where
  "memcpy_to_loop checksum destination [] g = eeprom_put_char destination checksum g"
| "memcpy_to_loop checksum destination (b # source) g =
     memcpy_to_loop (checksum_add checksum b) (destination + 1) source (eeprom_put_char destination b g)"

definition memcpy_to_eeprom_with_checksum :: "u16 \<Rightarrow> u8 list \<Rightarrow> grbl \<Rightarrow> grbl" where
  "memcpy_to_eeprom_with_checksum destination source g = memcpy_to_loop 0 destination source g"

fun memcpy_from_loop :: "u8 \<Rightarrow> u16 \<Rightarrow> nat \<Rightarrow> grbl \<Rightarrow> u8 list \<times> bool" where
  "memcpy_from_loop checksum source 0 g = ([], checksum = eeprom_get_char source g)"
| "memcpy_from_loop checksum source (Suc n) g =
     (let d = eeprom_get_char source g;
          (ds, ok) = memcpy_from_loop (checksum_add checksum d) (source + 1) n g
      in (d # ds, ok))"

definition memcpy_from_eeprom_with_checksum :: "u16 \<Rightarrow> nat \<Rightarrow> grbl \<Rightarrow> u8 list \<times> bool" where
  "memcpy_from_eeprom_with_checksum source n g = memcpy_from_loop 0 source n g"

section \<open>Bytes are stored\<close>

lemma write_only_enough:
  fixes old new :: u8
  assumes "(old XOR new) AND new = 0"
  shows "old AND new = new"
proof (rule bit_word_eqI)
  fix n :: nat
  have "\<not> bit ((old XOR new) AND new) n" using assms by simp
  then show "bit (old AND new) n = bit new n" by (auto simp: bit_simps)
qed

lemma word_xor_zero: "x XOR y = 0 \<Longrightarrow> x = y" for x y :: "'a::len word"
proof (rule bit_word_eqI)
  fix n :: nat
  assume "x XOR y = 0"
  then have "\<not> bit (x XOR y) n" by simp
  moreover assume "n < LENGTH('a)"
  ultimately show "bit x n = bit y n" by (simp add: bit_simps)
qed

lemma eeprom_put_char_eq: "eeprom_put_char addr v g = g\<lparr>eeprom := (eeprom g)(EEAR addr := v)\<rparr>"
proof -
  let ?old = "eeprom g (EEAR addr)"
  consider "(?old XOR v) AND v \<noteq> 0" | "(?old XOR v) AND v = 0" "?old XOR v \<noteq> 0" | "?old = v"
    using word_xor_zero by blast
  then show ?thesis
  proof cases
    case 2
    then show ?thesis
      using write_only_enough [of ?old v] by (simp add: eeprom_put_char_def eeprom_get_char_def Let_def)
  next
    case 3
    then have "(eeprom g)(EEAR addr := v) = eeprom g" by auto
    with 3 show ?thesis by (simp add: eeprom_put_char_def eeprom_get_char_def Let_def)
  qed (simp add: eeprom_put_char_def eeprom_get_char_def Let_def)
qed

lemma eeprom_put_frame [frame_simps]:
  "serial (eeprom_put_char a v g) = serial g" "llp (eeprom_put_char a v g) = llp g"
  "settings (eeprom_put_char a v g) = settings g" "sys (eeprom_put_char a v g) = sys g"
  "gc_state (eeprom_put_char a v g) = gc_state g" "planner (eeprom_put_char a v g) = planner g"
  "hw (eeprom_put_char a v g) = hw g" "world (eeprom_put_char a v g) = world g"
  "line (eeprom_put_char a v g) = line g" "stepper (eeprom_put_char a v g) = stepper g"
  by (simp_all add: eeprom_put_char_eq)

lemma unat_EEAR: "unat (EEAR a) = unat a mod 1024"
proof -
  have "a AND 0x3FF = take_bit 10 a"
    by (simp add: take_bit_eq_mask mask_numeral)
  then show ?thesis
    by (simp add: EEAR_def unsigned_take_bit_eq take_bit_eq_mod unat_mod_distrib)
qed

lemma EEAR_inj: "EEAR a = EEAR b \<longleftrightarrow> unat a mod 1024 = unat b mod 1024"
  by (metis unat_EEAR word_unat_eq_iff)

lemma eeprom_get_put: "eeprom_get_char b (eeprom_put_char a v g)
    = (if unat a mod 1024 = unat b mod 1024 then v else eeprom_get_char b g)"
  by (simp add: eeprom_get_char_def eeprom_put_char_eq EEAR_inj [symmetric])

section \<open>Blocks are read back\<close>

text \<open>
  Block \<open>[a, a + n]\<close> in memory: the data and its checksum. Addresses are natural numbers below
  the size of the device.
\<close>

definition eeprom_at :: "nat \<Rightarrow> grbl \<Rightarrow> u8" where
  "eeprom_at i g = eeprom_get_char (of_nat i) g"

definition eeprom_block :: "nat \<Rightarrow> nat \<Rightarrow> grbl \<Rightarrow> u8 list" where
  "eeprom_block a n g = map (\<lambda>i. eeprom_at i g) [a..<a + n]"

definition checksum :: "u8 list \<Rightarrow> u8" where
  "checksum bs = foldl checksum_add 0 bs"

lemma unat_of_nat_u16 [simp]: "i < 1024 \<Longrightarrow> unat (of_nat i :: u16) = i"
  by (simp add: unat_of_nat take_bit_eq_mod)

lemma eeprom_at_put: "i < 1024 \<Longrightarrow> j < 1024 \<Longrightarrow>
    eeprom_at j (eeprom_put_char (of_nat i) v g) = (if j = i then v else eeprom_at j g)"
  by (auto simp: eeprom_at_def eeprom_get_put)

lemma memcpy_to_loop_at:
  assumes "a + length bs < 1024" "j < 1024"
  shows "eeprom_at j (memcpy_to_loop c (of_nat a) bs g)
    = (if a \<le> j \<and> j < a + length bs then bs ! (j - a)
       else if j = a + length bs then foldl checksum_add c bs else eeprom_at j g)"
  using assms
proof (induction bs arbitrary: c a g)
  case Nil
  then show ?case by (auto simp: eeprom_at_put)
next
  case (Cons b bs)
  from Cons.IH [of "Suc a" "checksum_add c b"] Cons.prems show ?case
    by (auto simp: eeprom_at_put nth_Cons' Suc_diff_le algebra_simps not_less_eq_eq)
qed

lemma memcpy_from_loop_eq:
  "memcpy_from_loop c (of_nat a) n g
    = (eeprom_block a n g, foldl checksum_add c (eeprom_block a n g) = eeprom_at (a + n) g)"
proof (induction n arbitrary: c a)
  case 0
  then show ?case by (simp add: eeprom_block_def eeprom_at_def)
next
  case (Suc n)
  have "eeprom_block a (Suc n) g = eeprom_at a g # eeprom_block (Suc a) n g"
    by (simp add: eeprom_block_def upt_conv_Cons del: upt_Suc)
  with Suc [of "checksum_add c (eeprom_at a g)" "Suc a"] show ?case
    by (simp add: eeprom_at_def Let_def algebra_simps)
qed

lemma memcpy_from_length: "memcpy_from_eeprom_with_checksum a n g = (l, ok) \<Longrightarrow> length l = n"
proof -
  have "memcpy_from_loop c a n g = (l, ok) \<Longrightarrow> length l = n" for c a n l ok
    by (induction c a n g arbitrary: l rule: memcpy_from_loop.induct) (auto simp: Let_def split: prod.splits)
  then show "memcpy_from_eeprom_with_checksum a n g = (l, ok) \<Longrightarrow> length l = n"
    by (simp add: memcpy_from_eeprom_with_checksum_def)
qed

lemma memcpy_from_eq:
  "memcpy_from_eeprom_with_checksum (of_nat a) n g
    = (eeprom_block a n g, checksum (eeprom_block a n g) = eeprom_at (a + n) g)"
  by (simp add: memcpy_from_eeprom_with_checksum_def memcpy_from_loop_eq checksum_def)

lemma memcpy_to_at:
  assumes "a + length bs < 1024" "j < 1024"
  shows "eeprom_at j (memcpy_to_eeprom_with_checksum (of_nat a) bs g)
    = (if a \<le> j \<and> j < a + length bs then bs ! (j - a)
       else if j = a + length bs then checksum bs else eeprom_at j g)"
  using memcpy_to_loop_at [OF assms] by (simp add: memcpy_to_eeprom_with_checksum_def checksum_def)

lemma memcpy_block_written:
  assumes "a + length bs < 1024"
  shows "eeprom_block a (length bs) (memcpy_to_eeprom_with_checksum (of_nat a) bs g) = bs"
  using assms by (auto simp: eeprom_block_def memcpy_to_at intro!: nth_equalityI)

lemma memcpy_block_other:
  assumes "a + length bs < 1024" "b + n \<le> 1024" "b + n \<le> a \<or> a + length bs < b"
  shows "eeprom_block b n (memcpy_to_eeprom_with_checksum (of_nat a) bs g) = eeprom_block b n g"
  using assms by (auto simp: eeprom_block_def memcpy_to_at)

lemma memcpy_read_back:
  assumes "a + length bs < 1024"
  shows "memcpy_from_eeprom_with_checksum (of_nat a) (length bs)
      (memcpy_to_eeprom_with_checksum (of_nat a) bs g) = (bs, True)"
  using assms by (simp add: memcpy_from_eq memcpy_block_written memcpy_to_at)

lemma memcpy_read_other:
  assumes "a + length bs < 1024" "b + n < 1024" "b + n < a \<or> a + length bs < b"
  shows "memcpy_from_eeprom_with_checksum (of_nat b) n (memcpy_to_eeprom_with_checksum (of_nat a) bs g)
    = memcpy_from_eeprom_with_checksum (of_nat b) n g"
proof -
  have "eeprom_at (b + n) (memcpy_to_eeprom_with_checksum (of_nat a) bs g) = eeprom_at (b + n) g"
    using assms by (subst memcpy_to_at) auto
  moreover have "eeprom_block b n (memcpy_to_eeprom_with_checksum (of_nat a) bs g) = eeprom_block b n g"
    using assms by (intro memcpy_block_other) auto
  ultimately show ?thesis by (simp add: memcpy_from_eq)
qed

lemma memcpy_to_eeprom_only: "\<exists>e. memcpy_to_eeprom_with_checksum a bs g = g\<lparr>eeprom := e\<rparr>"
proof -
  have "\<exists>e. memcpy_to_loop c a bs g = g\<lparr>eeprom := e\<rparr>" for c
  proof (induction bs arbitrary: c a g)
    case Nil
    then show ?case by (auto simp: eeprom_put_char_eq)
  next
    case (Cons b bs)
    show ?case using Cons [of "checksum_add c b" "a + 1" "eeprom_put_char a b g"]
      by (auto simp: eeprom_put_char_eq)
  qed
  then show ?thesis by (simp add: memcpy_to_eeprom_with_checksum_def)
qed

lemma memcpy_to_frame [frame_simps]:
  "serial (memcpy_to_eeprom_with_checksum a bs g) = serial g"
  "llp (memcpy_to_eeprom_with_checksum a bs g) = llp g"
  "settings (memcpy_to_eeprom_with_checksum a bs g) = settings g"
  "sys (memcpy_to_eeprom_with_checksum a bs g) = sys g"
  "gc_state (memcpy_to_eeprom_with_checksum a bs g) = gc_state g"
  "planner (memcpy_to_eeprom_with_checksum a bs g) = planner g"
  "hw (memcpy_to_eeprom_with_checksum a bs g) = hw g"
  "line (memcpy_to_eeprom_with_checksum a bs g) = line g"
  "world (memcpy_to_eeprom_with_checksum a bs g) = world g"
  using memcpy_to_eeprom_only [of a bs g] by auto

lemma EEAR_small: "unat a < 1024 \<Longrightarrow> EEAR a = a"
  by (simp add: word_unat_eq_iff unat_EEAR)

lemma memcpy_to_outside:
  assumes "unat d + length bs < 1024" and "unat i < unat d \<or> unat d + length bs < unat i"
  shows "eeprom (memcpy_to_eeprom_with_checksum d bs g) i = eeprom g i"
proof -
  have "eeprom (memcpy_to_loop c d bs g) i = eeprom g i" for c
    using assms
  proof (induction bs arbitrary: c d g)
    case Nil
    then show ?case by (auto simp: eeprom_put_char_eq EEAR_small)
  next
    case (Cons b bs)
    then have s: "unat (d + 1) = Suc (unat d)" by (simp add: unat_word_ariths)
    from Cons.prems have "i \<noteq> d" by auto
    with Cons.IH [of "d + 1" "checksum_add c b" "eeprom_put_char d b g"] Cons.prems show ?case
      by (auto simp: s eeprom_put_char_eq EEAR_small)
  qed
  then show ?thesis by (simp add: memcpy_to_eeprom_with_checksum_def)
qed

text \<open>A block may run over the end of the device; then it continues at address 0.\<close>

lemma EEAR_add: "unat (EEAR (d + of_nat k)) = (unat d + k) mod 1024"
proof -
  have "unat (d + of_nat k) mod 1024 = (unat d + k) mod 65536 mod 1024"
    by (simp add: unat_word_ariths unat_of_nat take_bit_eq_mod mod_add_right_eq)
  then show ?thesis by (simp add: unat_EEAR mod_mod_cancel)
qed

lemma memcpy_to_misses:
  assumes "\<And>k. k \<le> length bs \<Longrightarrow> EEAR (d + of_nat k) \<noteq> i"
  shows "eeprom (memcpy_to_loop c d bs g) i = eeprom g i"
  using assms
proof (induction bs arbitrary: c d g)
  case Nil
  from Nil [of 0] show ?case by (simp add: eeprom_put_char_eq)
next
  case (Cons b bs)
  have "EEAR (d + 1 + of_nat k) \<noteq> i" if "k \<le> length bs" for k
    using Cons.prems [of "Suc k"] that by (simp add: algebra_simps)
  with Cons.IH [of "d + 1"] Cons.prems [of 0] show ?case by (simp add: eeprom_put_char_eq)
qed

lemma memcpy_to_hits:
  assumes "i < length bs" and "length bs < 1024"
  shows "eeprom (memcpy_to_loop c d bs g) (EEAR (d + of_nat i)) = bs ! i"
  using assms
proof (induction bs arbitrary: c d g i)
  case (Cons b bs)
  show ?case
  proof (cases i)
    case 0
    have "EEAR (d + 1 + of_nat k) \<noteq> EEAR d" if "k \<le> length bs" for k
    proof
      assume "EEAR (d + 1 + of_nat k) = EEAR d"
      then have "(unat d + Suc k) mod 1024 = unat d mod 1024"
        using EEAR_add [of d "Suc k"] unat_EEAR [of d] by (simp add: algebra_simps)
      then have "Suc k mod 1024 = 0"
        using mod_eq_dvd_iff_nat [of "unat d" "unat d + Suc k" 1024] by (simp add: mod_eq_0_iff_dvd)
      with that Cons.prems(2) show False by simp
    qed
    then have "eeprom (memcpy_to_loop (checksum_add c b) (d + 1) bs (eeprom_put_char d b g)) (EEAR d) = b"
      by (subst memcpy_to_misses) (simp_all add: eeprom_put_char_eq)
    with 0 show ?thesis by simp
  next
    case (Suc j)
    with Cons.IH [of j "checksum_add c b" "d + 1" "eeprom_put_char d b g"] Cons.prems show ?thesis
      by (simp add: algebra_simps)
  qed
qed simp

section \<open>What the checksum sees\<close>

lemma checksum_add_eq: "checksum_add c b = (if c = 0 then 0 else 1) + b"
proof -
  have "unat c < 256" using unsigned_less [of c, where ?'a = nat] by simp
  then have "unat (push_bit 1 (ucast c :: u16)) = 2 * unat c"
    by (simp add: push_bit_eq_mult unat_word_ariths unsigned_ucast_eq take_bit_eq_mod)
  then have "push_bit 1 (ucast c :: u16) = 0 \<longleftrightarrow> c = 0"
    by (metis mult_eq_0_iff unat_0 unat_eq_zero zero_neq_numeral)
  then show ?thesis by (auto simp: checksum_add_def)
qed

lemma checksum_snoc: "checksum (bs @ [b]) = (if checksum bs = 0 then 0 else 1) + b"
  by (simp add: checksum_def checksum_add_eq)

section \<open>Properties\<close>

text \<open>
  A byte written to the EEPROM is what the next read of its address returns, whichever of the
  three programming modes the old content selects, and no other address of the device changes.
\<close>
lemma eeprom_put_stores:
  "eeprom_get_char b (eeprom_put_char a v g)
     = (if EEAR b = EEAR a then v else eeprom_get_char b g)"
  by (auto simp: eeprom_get_put EEAR_inj)

text \<open>
  C37. The checksum of a block depends on its last byte and on one bit of what precedes it: any
  change of the bytes before the last one that keeps their own checksum away from zero is accepted
  as intact when the block is read.
\<close>
theorem eeprom_checksum_blind:
  assumes "a + Suc (length xs) < 1024" and "length ys = length xs"
    and "checksum xs \<noteq> 0" and "checksum ys \<noteq> 0"
    and "g = memcpy_to_eeprom_with_checksum (of_nat a) (xs @ [z]) before"
    and "eeprom_block a (length ys) h = ys"
    and "eeprom_at (a + length xs) h = eeprom_at (a + length xs) g"
    and "eeprom_at (a + Suc (length xs)) h = eeprom_at (a + Suc (length xs)) g"
  shows "memcpy_from_eeprom_with_checksum (of_nat a) (Suc (length xs)) h = (ys @ [z], True)"
proof -
  have z: "eeprom_at (a + length xs) h = z"
    using assms(1,5,7) memcpy_to_at [of a "xs @ [z]" "a + length xs"] by (simp add: nth_append)
  have c: "eeprom_at (a + Suc (length xs)) h = checksum (xs @ [z])"
    using assms(1,5,8) memcpy_to_at [of a "xs @ [z]" "a + Suc (length xs)"] by simp
  have b: "eeprom_block a (Suc (length xs)) h = ys @ [z]"
    using assms(2,6) z by (auto simp: eeprom_block_def)
  show ?thesis using assms(3,4) c by (simp add: memcpy_from_eq b checksum_snoc)
qed

theorem eeprom_checksum_blind_witness:
  "memcpy_from_eeprom_with_checksum 768 3 (eeprom_put_char 768 99
      (memcpy_to_eeprom_with_checksum 768 [1, 2, 3] grbl_zero)) = ([99, 2, 3], True)"
proof -
  let ?g = "memcpy_to_eeprom_with_checksum (of_nat 768) [1, 2, 3] grbl_zero"
  have put: "eeprom_at j (eeprom_put_char (of_nat 768) 99 ?g) = (if j = 768 then 99 else eeprom_at j ?g)"
    if "j < 1024" for j using that by (intro eeprom_at_put) auto
  have at: "eeprom_at 769 ?g = 2" by (subst memcpy_to_at) auto
  have "memcpy_from_eeprom_with_checksum (of_nat 768) (Suc (length [1 :: u8, 2]))
      (eeprom_put_char (of_nat 768) 99 ?g) = ([99, 2] @ [3], True)"
    by (rule eeprom_checksum_blind [where xs = "[1, 2]" and before = grbl_zero and g = ?g],
        simp_all only: eeprom_block_def)
      (simp_all add: put [simplified] at [simplified] upt_conv_Cons checksum_def checksum_add_eq)
  then show ?thesis by (simp add: eval_nat_numeral)
qed

end
