(* ===== verification/Frame.thy ===== *)
theory Frame
  imports Motion Eeprom
begin

text \<open>
  Two ways to follow a fact through the program. The locale \<open>realtime_closed\<close> describes a condition
  that the operations on the planner, the segments, the transport and the interrupts keep; its lemmas carry the
  condition through realtime execution, the waits and the motion commands. The locale \<open>realtime_frame\<close>
  describes an observation that no field written by them changes; that it has some value is such a condition,
  so its lemmas come from the first locale. It is interpreted on the settings, the EEPROM, the line buffer and
  the parser state that only commands may change.
\<close>

text \<open>The parser state without its position and the coolant mode, which realtime commands change.\<close>

definition gc_core :: "parser_state_t \<Rightarrow> parser_state_t" where
  "gc_core s = s\<lparr>gc_position := [], gc_modal := (gc_modal s)\<lparr>mod_coolant := 0\<rparr>\<rparr>"

named_theorems keeps \<open>observations that an operation keeps\<close>
named_theorems closed \<open>conditions that an operation keeps\<close>

text \<open>First what planning and the preparation of segments may not touch.\<close>

locale prep_frame =
  fixes q :: "grbl \<Rightarrow> 'a"
  assumes prep_fields [keeps]:
    "q (g\<lparr>planner := d\<rparr>) = q g" "q (g\<lparr>stepper := e\<rparr>) = q g"
    "q (g\<lparr>sys := (sys g)\<lparr>sys_step_control := c\<rparr>\<rparr>) = q g"
begin

lemma q_if [keeps]: "q (if c then x else y) = (if c then q x else q y)"
  by simp

text \<open>Two rules for long chains of assignments, which unfolding would copy over and over.\<close>

lemma q_ifI: "q x = q g \<Longrightarrow> q y = q g \<Longrightarrow> q (if c then x else y) = q g"
  by simp

lemma q_letI: "q x = q g \<Longrightarrow> (\<And>y. q y = q g \<Longrightarrow> q (k y) = q g) \<Longrightarrow> q (let y = x in k y) = q g"
  by (simp add: Let_def)

subsection \<open>Planner and segment preparation\<close>

lemma blocks [keeps]:
  "q (set_plan_block i b g) = q g" "q (set_entry_speed_sqr i v g) = q g" "q (set_planned i g) = q g"
  "q (plan_reset g) = q g" "q (plan_sync_position g) = q g" "q (plan_discard_current_block g) = q g"
  "q (st_update_plan_block_parameters g) = q g"
  by (simp_all add: keeps set_plan_block_def set_entry_speed_sqr_def set_planned_def plan_reset_def
      plan_reset_buffer_def plan_sync_position_def plan_discard_current_block_def
      st_update_plan_block_parameters_def Let_def split: option.splits)

lemma recalculate [keeps]: "q (planner_recalculate g) = q g"
proof -
  have [keeps]: "q (plan_reverse_pass n c i g) = q g" for n c i g
    by (induction n c i g rule: plan_reverse_pass.induct) (simp_all add: keeps Let_def)
  have [keeps]: "q (plan_forward_pass n c i g) = q g" for n c i g
    by (induction n c i g rule: plan_forward_pass.induct) (simp_all add: keeps Let_def)
  show ?thesis by (simp add: keeps planner_recalculate_def Let_def)
qed

lemma replan [keeps]:
  "q (plan_update_velocity_profile_parameters g) = q g" "q (plan_cycle_reinitialize g) = q g"
  "q (snd (plan_buffer_line target pl_data g)) = q g"
proof -
  have [keeps]: "q (snd (plan_update_profiles n i v g)) = q g" for n i v g
    by (induction n i v g rule: plan_update_profiles.induct) (simp_all add: keeps Let_def)
  show "q (plan_update_velocity_profile_parameters g) = q g"
    by (simp add: keeps plan_update_velocity_profile_parameters_def Let_def split_def)
  show "q (plan_cycle_reinitialize g) = q g" by (simp add: keeps plan_cycle_reinitialize_def Let_def)
  show "q (snd (plan_buffer_line target pl_data g)) = q g"
    by (simp add: keeps plan_buffer_line_def Let_def split_def)
qed

lemma prep_steps [keeps]:
  "q (set_prep p g) = q g" "q (set_step_control v g) = q g" "q (st_load_block i g) = q g"
  "q (st_compute_profile i g) = q g"
  by (simp_all add: keeps set_prep_def set_step_control_def st_load_block_def st_compute_profile_def Let_def)

lemma prep_ready: "st_prep_block_ready g = Some ig \<Longrightarrow> q (snd ig) = q g"
  by (auto simp: keeps st_prep_block_ready_def Let_def split: option.splits if_splits)

lemma prep_segment: "st_prep_segment i g = Some cg \<Longrightarrow> q (snd cg) = q g"
  by (auto simp: keeps st_prep_segment_def Let_def Option.bind_eq_Some_conv split: if_splits)

lemma prep_loop: "st_prep_loop g = Some h \<Longrightarrow> q h = q g"
  apply (erule st_prep_loop.raw_induct [rotated, where P = "\<lambda>g h. q h = q g"])
  subgoal premises prems for loop g h
    using prems(2)
    by (auto simp: Option.bind_eq_Some_conv split: if_splits option.splits
        dest!: prep_ready prep_segment prems(1))
  done

lemma prep_buffer: "st_prep_buffer g = Some h \<Longrightarrow> q h = q g"
  by (auto simp: st_prep_buffer_def split: if_splits dest: prep_loop)

end

section \<open>Conditions\<close>

text \<open>Printing goes through the transport, one character after the other.\<close>

locale print_closed =
  fixes I :: "grbl \<Rightarrow> bool"
  assumes serial_write [closed]: "I g \<Longrightarrow> I (serial_write b g)"
begin

lemma print_bytes [closed]: "I g \<Longrightarrow> I (print_bytes cs g)"
proof -
  have "I g \<Longrightarrow> I (fold serial_write cs g)"
    by (induction cs arbitrary: g) (simp_all add: closed)
  then show "I g \<Longrightarrow> I (print_bytes cs g)" by (simp add: print_bytes_def)
qed

lemma messages [closed]:
  "I g \<Longrightarrow> I (report_status_message v g)" "I g \<Longrightarrow> I (report_alarm_message v g)"
  "I g \<Longrightarrow> I (report_feedback_message v g)"
  by (simp_all add: closed report_status_message_def report_alarm_message_def report_feedback_message_def Let_def)

lemma reports [closed]:
  "I g \<Longrightarrow> I (report_grbl_settings g)" "I g \<Longrightarrow> I (report_realtime_status g)" "I g \<Longrightarrow> I (report_grbl_help g)"
  "I g \<Longrightarrow> I (report_gcode_modes g)" "I g \<Longrightarrow> I (report_startup_line n l g)"
  "I g \<Longrightarrow> I (report_execute_startup_message l n g)" "I g \<Longrightarrow> I (report_build_info l g)"
  "I g \<Longrightarrow> I (report_probe_parameters g)" "I g \<Longrightarrow> I (report_init_message g)"
  by (simp_all add: closed report_grbl_settings_def report_realtime_status_def report_grbl_help_def
      report_gcode_modes_def report_startup_line_def report_execute_startup_message_def report_build_info_def
      report_probe_parameters_def report_init_message_def Let_def)

end

text \<open>
  What realtime execution and motion commands rest on: the fields that a condition does not depend
  on or only with their shape, the operations of planner and stepper, and the interrupts.
\<close>

locale realtime_closed = print_closed I for I :: "grbl \<Rightarrow> bool" +
  assumes fields [closed]:
    "I (g\<lparr>sys := a\<rparr>) = I g" "I (g\<lparr>sys_probe_state := c\<rparr>) = I g" "I (g\<lparr>sys_rt_exec_state := c\<rparr>) = I g"
    "I (g\<lparr>sys_rt_exec_alarm := c\<rparr>) = I g" "I (g\<lparr>sys_rt_exec_motion_override := c\<rparr>) = I g"
    "I (g\<lparr>sys_rt_exec_accessory_override := c\<rparr>) = I g" "I (g\<lparr>probe_invert_mask := c\<rparr>) = I g"
    "I (g\<lparr>world := k\<rparr>) = I g"
    and ports [closed]: "UDRIE0 j = UDRIE0 (hw g) \<Longrightarrow> I (g\<lparr>hw := j\<rparr>) = I g"
    and positions [closed]: "length p = length (sys_position g) \<Longrightarrow> I (g\<lparr>sys_position := p\<rparr>) = I g"
    and probe_position [closed]: "I g \<Longrightarrow> I (g\<lparr>sys_probe_position := sys_position g\<rparr>)"
    and parser: "gc_core s = gc_core (gc_state g) \<Longrightarrow> I (g\<lparr>gc_state := s\<rparr>) = I g"
    and planner_ops [closed]: "I g \<Longrightarrow> I (plan_reset g)" "I g \<Longrightarrow> I (plan_sync_position g)"
    "I g \<Longrightarrow> I (plan_cycle_reinitialize g)" "I g \<Longrightarrow> I (plan_update_velocity_profile_parameters g)"
    "I g \<Longrightarrow> I (st_update_plan_block_parameters g)" "I g \<Longrightarrow> I (snd (plan_buffer_line t pd g))"
    and stepper_ops [closed]: "I g \<Longrightarrow> I (st_wake_up g)" "I g \<Longrightarrow> I (st_go_idle g)" "I g \<Longrightarrow> I (st_reset g)"
    and prep_buffer: "st_prep_buffer g = Some h \<Longrightarrow> I g \<longrightarrow> I h"
    and irq: "run_irq i g = Some h \<Longrightarrow> I g \<longrightarrow> I h"
begin

text \<open>Two rules for long chains of assignments, which unfolding would copy over and over.\<close>

lemma I_if: "I x \<Longrightarrow> I y \<Longrightarrow> I (if c then x else y)"
  by simp

lemma I_let: "I x \<Longrightarrow> (\<And>y. I y \<Longrightarrow> I (k y)) \<Longrightarrow> I (let y = x in k y)"
  by (simp add: Let_def)

lemma run_irqs: "run_irqs is g = Some h \<Longrightarrow> I g \<longrightarrow> I h"
  by (induction "is" arbitrary: g) (auto simp: Option.bind_eq_Some_conv dest!: irq)

lemma poll: "poll g = Some h \<Longrightarrow> I g \<longrightarrow> I h"
  by (auto simp: poll_def closed split: list.splits dest!: run_irqs)

lemma flags [closed]:
  "I (system_set_exec_state_flag m g) = I g" "I (system_clear_exec_state_flag m g) = I g"
  "I (system_set_exec_alarm m g) = I g" "I (system_clear_exec_alarm g) = I g"
  "I (system_clear_exec_motion_overrides g) = I g" "I (system_clear_exec_accessory_overrides g) = I g"
  by (simp_all add: closed system_set_exec_state_flag_def system_clear_exec_state_flag_def
      system_set_exec_alarm_def system_clear_exec_alarm_def system_clear_exec_motion_overrides_def
      system_clear_exec_accessory_overrides_def)

lemma setters [closed]:
  "I (set_state v g) = I g" "I (set_suspend v g) = I g" "I (set_abort g) = I g" "I (set_step_control v g) = I g"
  "I (set_spindle_stop_ovr v g) = I g" "I (suspend_true v g) = I g" "I (suspend_false v g) = I g"
  by (simp_all add: closed sys_setters)

lemma pins [closed]:
  "I (probe_configure_invert_mask v g) = I g" "I (limits_disable g) = I g" "I (limits_init g) = I g"
  by (simp_all add: closed probe_configure_invert_mask_def limits_disable_def limits_init_def Let_def)

lemma mc_reset [closed]: "I g \<Longrightarrow> I (mc_reset g)"
  by (simp add: closed mc_reset_def Let_def)

lemma sync_position [closed]: "I (gc_sync_position g) = I g"
  by (simp add: gc_sync_position_def parser gc_core_def)

subsection \<open>Realtime execution\<close>

lemma alarm_loop: "rt_alarm_loop n g = Some h \<Longrightarrow> I g \<longrightarrow> I h"
  apply (erule rt_alarm_loop.raw_induct [rotated, where P = "\<lambda>n g h. I g \<longrightarrow> I h"])
  subgoal premises prems for loop n g h
    using prems(2)
    by (auto simp: closed Let_def Option.bind_eq_Some_conv split: if_splits dest!: poll prems(1))
  done

lemma alarm: "rt_alarm g = Some h \<Longrightarrow> I g \<longrightarrow> I h"
  by (auto simp: closed rt_alarm_def Let_def split: if_splits dest!: alarm_loop)

lemma hold_and_stop [closed]: "I g \<Longrightarrow> I (rt_hold e g)" "I g \<Longrightarrow> I (rt_cycle_stop e g)"
proof -
  have [closed]: "I g \<Longrightarrow> I (rt_hold_motion e g)" "I g \<Longrightarrow> I (rt_safety_door g)" for g
    by (simp_all add: closed rt_hold_motion_def rt_safety_door_def Let_def)
  show "I g \<Longrightarrow> I (rt_hold e g)" unfolding rt_hold_def by (intro I_if I_let) (simp_all add: closed)
  show "I g \<Longrightarrow> I (rt_cycle_stop e g)" by (simp add: closed rt_cycle_stop_def Let_def)
qed

lemma cycle_start: "rt_cycle_start e g = Some h \<Longrightarrow> I g \<longrightarrow> I h"
proof -
  have resume [closed]: "I g \<Longrightarrow> I (rt_resume_door g)" for g by (simp add: closed rt_resume_door_def)
  have start: "rt_start_cycle g = Some h \<Longrightarrow> I g \<longrightarrow> I h" for g h
    by (auto simp: closed rt_start_cycle_def Let_def split: if_splits dest!: prep_buffer)
  assume "rt_cycle_start e g = Some h"
  then show "I g \<longrightarrow> I h"
    by (auto simp: closed rt_cycle_start_def split: if_splits dest!: start)
qed

lemma overrides [closed]: "I g \<Longrightarrow> I (rt_motion_override g)" "I g \<Longrightarrow> I (rt_accessory_override g)"
proof -
  show "I g \<Longrightarrow> I (rt_motion_override g)" by (simp add: closed rt_motion_override_def Let_def)
  have [closed]: "I (rt_coolant_toggle g) = I g" for g
    by (simp add: rt_coolant_toggle_def Let_def parser gc_core_def)
  show "I g \<Longrightarrow> I (rt_accessory_override g)" by (simp add: closed rt_accessory_override_def Let_def)
qed

lemma state_flags:
  "rt_state_flags g = Some (Inl h) \<Longrightarrow> I g \<longrightarrow> I h" "rt_state_flags g = Some (Inr h) \<Longrightarrow> I g \<longrightarrow> I h"
  by (auto simp: closed rt_state_flags_def Let_def split: if_splits dest!: cycle_start)

lemma exec_rt_system: "protocol_exec_rt_system g = Some h \<Longrightarrow> I g \<longrightarrow> I h"
  by (auto simp: closed protocol_exec_rt_system_def rt_reload_def Option.bind_eq_Some_conv split_sum_ex
      split: if_splits dest!: poll alarm state_flags prep_buffer)

subsection \<open>Suspend and synchronisation\<close>

lemma delays:
  assumes "\<And>g h. exec g = Some h \<Longrightarrow> I g \<longrightarrow> I h"
  shows "delay_loop n exec bail g = Some h \<Longrightarrow> I g \<longrightarrow> I h"
  by (induction n arbitrary: g) (auto simp: Option.bind_eq_Some_conv split: if_splits dest!: assms)

lemma delay_suspend: "delay_sec_suspend v g = Some h \<Longrightarrow> I g \<longrightarrow> I h"
  unfolding delay_sec_suspend_def by (rule delays) (rule exec_rt_system)

lemma sleep_loop: "rt_sleep_loop g = Some h \<Longrightarrow> I g \<longrightarrow> I h"
  apply (erule rt_sleep_loop.raw_induct [rotated, where P = "\<lambda>g h. I g \<longrightarrow> I h"])
  subgoal premises prems for loop g h
    using prems(2)
    by (auto simp: Option.bind_eq_Some_conv split: if_splits dest!: exec_rt_system prems(1))
  done

lemma suspend_restore: "suspend_restore c g = Some h \<Longrightarrow> I g \<longrightarrow> I h"
  by (auto simp: closed suspend_restore_def Option.bind_eq_Some_conv split: if_splits dest!: delay_suspend)

lemma suspend_door: "suspend_door c g = Some (r, h) \<Longrightarrow> I g \<longrightarrow> I h"
  by (auto simp: closed suspend_door_def Let_def split: if_splits dest!: suspend_restore sleep_loop)

lemma suspend_hold [closed]: "I g \<Longrightarrow> I (suspend_feed_hold c g)"
  by (simp add: closed suspend_feed_hold_def Let_def)

lemma suspend_body: "suspend_body c g = Some (r, h) \<Longrightarrow> I g \<longrightarrow> I h"
  by (auto simp: closed suspend_body_def split: if_splits dest!: suspend_door)

lemma suspend_loop: "rt_suspend_loop c g = Some h \<Longrightarrow> I g \<longrightarrow> I h"
  apply (erule rt_suspend_loop.raw_induct [rotated, where P = "\<lambda>c g h. I g \<longrightarrow> I h"])
  subgoal premises prems for loop c g h
    using prems(2)
    by (auto simp: Option.bind_eq_Some_conv split: if_splits
        dest!: suspend_body exec_rt_system prems(1))
  done

lemma execute_realtime: "protocol_execute_realtime g = Some h \<Longrightarrow> I g \<longrightarrow> I h"
  by (auto simp: protocol_execute_realtime_def protocol_exec_rt_suspend_def Let_def
      Option.bind_eq_Some_conv split: if_splits dest!: exec_rt_system suspend_loop)

lemma auto_cycle_start [closed]: "I (protocol_auto_cycle_start g) = I g"
  by (simp add: closed protocol_auto_cycle_start_def)

lemma sync_loop: "buffer_sync_loop g = Some h \<Longrightarrow> I g \<longrightarrow> I h"
  apply (erule buffer_sync_loop.raw_induct [rotated, where P = "\<lambda>g h. I g \<longrightarrow> I h"])
  subgoal premises prems for loop g h
    using prems(2)
    by (auto simp: Option.bind_eq_Some_conv split: if_splits dest!: execute_realtime prems(1))
  done

lemma synchronize: "protocol_buffer_synchronize g = Some h \<Longrightarrow> I g \<longrightarrow> I h"
  by (auto simp: closed protocol_buffer_synchronize_def dest!: sync_loop)

lemma wco_change: "system_flag_wco_change g = Some h \<Longrightarrow> I g \<longrightarrow> I h"
  by (auto simp: closed system_flag_wco_change_def dest!: synchronize)

subsection \<open>Motion commands\<close>

lemma idle: "idle_loop g = Some h \<Longrightarrow> I g \<longrightarrow> I h"
  apply (erule idle_loop.raw_induct [rotated, where P = "\<lambda>g h. I g \<longrightarrow> I h"])
  subgoal premises prems for loop g h
    using prems(2)
    by (auto simp: Option.bind_eq_Some_conv split: if_splits dest!: execute_realtime prems(1))
  done

lemma soft_check: "limits_soft_check t g = Some h \<Longrightarrow> I g \<longrightarrow> I h"
proof -
  have stop: "protocol_execute_realtime (system_set_exec_alarm a (mc_reset x)) = Some h \<Longrightarrow> I x \<longrightarrow> I h" for a x
    by (drule execute_realtime) (simp add: closed)
  have wait: "idle_loop (system_set_exec_state_flag m x) = Some y \<Longrightarrow> I x \<longrightarrow> I y" for m x y
    by (drule idle) (simp add: closed)
  assume "limits_soft_check t g = Some h"
  then show ?thesis
    unfolding limits_soft_check_def Let_def
    by (auto simp: closed Option.bind_eq_Some_conv split: if_split_asm dest!: stop wait)
qed

lemma buffer_room: "buffer_room_loop g = Some h \<Longrightarrow> I g \<longrightarrow> I h"
  apply (erule buffer_room_loop.raw_induct [rotated, where P = "\<lambda>g h. I g \<longrightarrow> I h"])
  subgoal premises prems for loop g h
    using prems(2)
    by (auto simp: closed Option.bind_eq_Some_conv split: if_splits dest!: execute_realtime prems(1))
  done

lemma line_motion: "mc_line t pd g = Some h \<Longrightarrow> I g \<longrightarrow> I h"
  by (auto simp: closed mc_line_def Let_def split_def Option.bind_eq_Some_conv split: if_splits
      dest!: soft_check buffer_room)

lemma arc_motion: "mc_arc t pd off r a b c cw g = Some h \<Longrightarrow> I g \<longrightarrow> I h"
proof -
  have [closed]: "I (arc_position a v g) = I g" for a v g
    by (simp add: arc_position_def parser gc_core_def)
  have "arc_loop n i pd c off th l a b d r k g = Some h \<Longrightarrow> I g \<longrightarrow> I h" for n i pd c off th l a b d r k g h
  proof (induction n arbitrary: i r k g)
    case (Suc n)
    from Suc.prems show ?case
      by (auto simp: closed Let_def split_def Option.bind_eq_Some_conv split: if_splits
          dest!: line_motion Suc.IH)
  qed simp
  then show "mc_arc t pd off r a b c cw g = Some h \<Longrightarrow> I g \<longrightarrow> I h"
    by (auto simp: mc_arc_def Let_def Option.bind_eq_Some_conv split: if_splits dest!: line_motion)
qed

lemma dwell: "mc_dwell v g = Some h \<Longrightarrow> I g \<longrightarrow> I h"
proof -
  have wait: "delay_sec_dwell v g = Some h \<Longrightarrow> I g \<longrightarrow> I h" for g
    unfolding delay_sec_dwell_def by (rule delays) (rule execute_realtime)
  show "mc_dwell v g = Some h \<Longrightarrow> I g \<longrightarrow> I h"
    by (auto simp: mc_dwell_def Option.bind_eq_Some_conv split: if_splits dest!: synchronize wait)
qed

lemma probe: "mc_probe_cycle t pd flags g = Some (r, h) \<Longrightarrow> I g \<longrightarrow> I h"
proof -
  have fin: "probe_finish e g = Some (r, h) \<Longrightarrow> I g \<longrightarrow> I h" for e g r h
    by (auto simp: closed probe_finish_def Option.bind_eq_Some_conv split: if_splits dest!: execute_realtime)
  show "mc_probe_cycle t pd flags g = Some (r, h) \<Longrightarrow> I g \<longrightarrow> I h"
    by (auto simp: closed mc_probe_cycle_def Let_def Option.bind_eq_Some_conv split: if_splits
        dest!: synchronize execute_realtime line_motion idle fin)
qed

lemma jog: "jog_execute pd blk g = Some (r, h) \<Longrightarrow> I g \<longrightarrow> I h"
  by (auto simp: closed jog_execute_def Let_def Option.bind_eq_Some_conv split: if_splits
      dest!: line_motion prep_buffer)

subsection \<open>Homing\<close>

lemma homing_alarms [closed]: "I (home_alarms a m g) = I g"
  unfolding home_alarms_def Let_def by (simp add: closed)

lemma homing_loop: "home_loop a m l g = Some (r, h) \<Longrightarrow> I g \<longrightarrow> I h"
proof -
  have "home_loop a m l g = Some rh \<Longrightarrow> I g \<longrightarrow> I (snd rh)" for rh
    apply (erule home_loop.raw_induct [rotated, where P = "\<lambda>a m l g rh. I g \<longrightarrow> I (snd rh)"])
    subgoal premises prems for loop a m l g rh
      using prems(2)
      by (auto simp: closed Let_def Option.bind_eq_Some_conv split: if_split_asm
          dest!: poll prep_buffer execute_realtime prems(1))
    done
  then show "home_loop a m l g = Some (r, h) \<Longrightarrow> I g \<longrightarrow> I h" by fastforce
qed

lemma homing_set_up [closed]:
  "I (snd (snd (snd (home_target a t m g)))) = I g" "I (home_set_position m g) = I g"
proof -
  have "length (foldl (\<lambda>p idx. p[idx := f idx]) p idxs) = length p" for f :: "nat \<Rightarrow> u32" and p idxs
    by (induction idxs arbitrary: p) simp_all
  then show "I (snd (snd (snd (home_target a t m g)))) = I g" by (simp add: home_target_def Let_def closed)
  show "I (home_set_position m g) = I g" by (simp add: home_set_position_def Let_def closed)
qed

lemma homing_pass: "home_pass a t v m g = Some (r, h) \<Longrightarrow> I g \<longrightarrow> I h"
  by (auto simp: closed home_pass_def Let_def split_def Option.bind_eq_Some_conv
      split: if_split_asm dest!: prep_buffer homing_loop)

lemma homing_passes: "home_passes n a t v m g = Some (r, h) \<Longrightarrow> I g \<longrightarrow> I h"
proof (induction n arbitrary: a t v g)
  case (Suc n)
  from Suc.prems show ?case
    by (subst (asm) home_passes.simps)
      (auto simp: Let_def Option.bind_eq_Some_conv split: if_split_asm dest!: homing_pass Suc.IH)
next
  case 0
  then show ?case
    by (subst (asm) home_passes.simps)
      (auto simp: Let_def Option.bind_eq_Some_conv split: if_split_asm dest!: homing_pass)
qed

lemma go_home: "limits_go_home m g = Some h \<Longrightarrow> I g \<longrightarrow> I h"
  by (auto simp: closed limits_go_home_def split: if_split_asm dest!: homing_passes)

lemma homing: "mc_homing_cycle m g = Some h \<Longrightarrow> I g \<longrightarrow> I h"
  by (auto simp: closed mc_homing_cycle_def Option.bind_eq_Some_conv split: if_split_asm
      dest!: go_home execute_realtime)

end

section \<open>Observations\<close>

text \<open>What printing may not touch: it goes through the transport to the transmit ring.\<close>

locale print_frame =
  fixes q :: "grbl \<Rightarrow> 'a"
  assumes print_fields [keeps]:
    "q (g\<lparr>serial := f\<rparr>) = q g" "q (g\<lparr>llp := i\<rparr>) = q g" "q (g\<lparr>hw := j\<rparr>) = q g" "q (g\<lparr>world := k\<rparr>) = q g"
begin

lemma q_cond [keeps]: "q (if c then x else y) = (if c then q x else q y)"
  by simp

lemma send [keeps]: "q (irq_udre g) = q g" "q (serial_write b g) = q g"
proof -
  show udre [keeps]: "q (irq_udre g) = q g" for g by (simp add: keeps irq_udre_def isr_udre_def Let_def)
  have udres [keeps]: "q ((irq_udre ^^ n) g) = q g" for n g by (induction n arbitrary: g) (simp_all add: keeps)
  have [keeps]: "q (tx_drain g) = q g" for g by (simp add: keeps tx_drain_def split: list.splits)
  have [keeps]: "q (set_UDRIE g) = q g" "q (tx_put b g) = q g" for b g
    by (simp_all add: keeps set_UDRIE_def tx_put_def)
  have [keeps]: "q (llp_tx_push bs g) = q g" for bs g
    by (induction bs g rule: llp_tx_push.induct) (simp_all add: keeps Let_def)
  have [keeps]: "q (llp_transport_tx_flush g) = q g" for g
    by (simp add: keeps llp_transport_tx_flush_def Let_def split_def)
  show "q (serial_write b g) = q g" for b g
    by (simp add: keeps serial_write_def llp_transport_tx_byte_def Let_def)
qed

end

sublocale print_frame \<subseteq> out: print_closed "\<lambda>h. q h = c" for c
  by unfold_locales (simp add: keeps)

context print_frame
begin

lemmas printing [keeps] = out.print_bytes [OF refl] out.messages [OF refl] out.reports [OF refl]

lemmas reports = out.reports [OF refl]

lemmas messages = out.messages [OF refl]

end

text \<open>Then what the interrupts and the realtime commands may not touch.\<close>

locale realtime_frame = prep_frame q + print_frame q for q :: "grbl \<Rightarrow> 'a" +
  assumes fields [keeps]:
    "q (g\<lparr>sys := a\<rparr>) = q g" "q (g\<lparr>sys_position := b\<rparr>) = q g" "q (g\<lparr>sys_probe_position := b\<rparr>) = q g"
    "q (g\<lparr>sys_probe_state := c\<rparr>) = q g" "q (g\<lparr>sys_rt_exec_state := c\<rparr>) = q g"
    "q (g\<lparr>sys_rt_exec_alarm := c\<rparr>) = q g" "q (g\<lparr>sys_rt_exec_motion_override := c\<rparr>) = q g"
    "q (g\<lparr>sys_rt_exec_accessory_override := c\<rparr>) = q g" "q (g\<lparr>probe_invert_mask := c\<rparr>) = q g"
    and parser: "gc_core s = gc_core (gc_state g) \<Longrightarrow> q (g\<lparr>gc_state := s\<rparr>) = q g"
begin

lemma flags [keeps]:
  "q (system_set_exec_state_flag m g) = q g" "q (system_clear_exec_state_flag m g) = q g"
  "q (system_set_exec_alarm m g) = q g" "q (system_clear_exec_alarm g) = q g"
  "q (system_set_exec_motion_override_flag m g) = q g"
  "q (system_set_exec_accessory_override_flag m g) = q g"
  by (simp_all add: keeps system_set_exec_state_flag_def system_clear_exec_state_flag_def
      system_set_exec_alarm_def system_clear_exec_alarm_def system_set_exec_motion_override_flag_def
      system_set_exec_accessory_override_flag_def)

lemma setters [keeps]: "q (set_state v g) = q g"
  by (simp add: keeps set_state_def)

lemma stepper_control [keeps]:
  "q (st_set_enable_pin v g) = q g" "q (st_wake_up g) = q g" "q (st_go_idle g) = q g"
  "q (st_generate_step_dir_invert_masks g) = q g" "q (st_reset g) = q g"
proof -
  show pin [keeps]: "q (st_set_enable_pin v g) = q g" for v g by (simp add: keeps st_set_enable_pin_def)
  show "q (st_wake_up g) = q g" by (simp add: keeps st_wake_up_def Let_def)
  show idle [keeps]: "q (st_go_idle g) = q g" for g by (simp add: keeps st_go_idle_def Let_def)
  show gen [keeps]: "q (st_generate_step_dir_invert_masks g) = q g" for g
    by (simp add: keeps st_generate_step_dir_invert_masks_def Let_def)
  show "q (st_reset g) = q g" by (simp add: keeps st_reset_def Let_def)
qed

lemma pins [keeps]:
  "q (probe_configure_invert_mask v g) = q g" "q (probe_state_monitor g) = q g"
  "q (limits_disable g) = q g" "q (limits_init g) = q g"
  by (simp_all add: keeps probe_configure_invert_mask_def probe_state_monitor_def limits_disable_def
      limits_init_def Let_def)

lemma mc_reset [keeps]: "q (mc_reset g) = q g"
  by (simp add: keeps mc_reset_def Let_def)

lemma pin_interrupts [keeps]: "q (isr_control v g) = q g" "q (isr_limit v g) = q g"
  by (simp_all add: keeps isr_control_def isr_limit_def Let_def)

lemma step_interrupts [keeps]: "q (isr_timer1_compa g) = q g" "q (isr_timer0_ovf g) = q g"
proof -
  have [keeps]: "q (st_load_segment g) = q g" "q (st_step_axes g) = q g" "q (st_finish_step g) = q g" for g
    by (simp_all add: keeps st_load_segment_def st_step_axes_def st_finish_step_def Let_def split_def)
  show "q (isr_timer1_compa g) = q g" by (simp add: keeps isr_timer1_compa_def Let_def)
  show "q (isr_timer0_ovf g) = q g" by (simp add: keeps isr_timer0_ovf_def)
qed

lemma receive [keeps]: "llp_transport_rx_byte b g = Some h \<Longrightarrow> q h = q g"
proof -
  have [keeps]: "q (llp_rx_buffer_write c g) = q g" "q (cmd_override c g) = q g" for c g
    by (simp_all add: keeps llp_rx_buffer_write_def cmd_override_def Let_def)
  have [keeps]: "q (llp_process_char c g) = q g" for c g
    by (simp add: keeps llp_process_char_def)
  have [keeps]: "q (llp_process_payload cs g) = q g" for cs g
    unfolding llp_process_payload_def by (induction cs arbitrary: g) (simp_all add: keeps)
  assume "llp_transport_rx_byte b g = Some h"
  then show "q h = q g"
    by (auto simp: keeps llp_transport_rx_byte_def Let_def split: prod.splits if_splits option.splits)
qed

lemma serial_read [keeps]: "q (snd (serial_read g)) = q g"
  by (simp add: keeps serial_read_def Let_def)

lemma run_irq: "run_irq i g = Some h \<Longrightarrow> q h = q g"
  by (cases i) (auto simp: keeps run_irq_def isr_timer2_ovf_def)

end

sublocale realtime_frame \<subseteq> inv: realtime_closed "\<lambda>h. q h = c" for c
  by unfold_locales (auto simp: keeps parser dest: prep_buffer run_irq)

context realtime_frame
begin

lemmas sync_position [keeps] = inv.sync_position [THEN iffD2, OF refl]

lemmas auto_cycle_start [keeps] = inv.auto_cycle_start [THEN iffD2, OF refl]

lemmas execute_realtime = inv.execute_realtime [THEN mp, OF _ refl]

lemmas synchronize = inv.synchronize [THEN mp, OF _ refl]

lemmas wco_change = inv.wco_change [THEN mp, OF _ refl]

lemmas line_motion = inv.line_motion [THEN mp, OF _ refl]

lemmas arc_motion = inv.arc_motion [THEN mp, OF _ refl]

lemmas dwell = inv.dwell [THEN mp, OF _ refl]

lemmas probe = inv.probe [THEN mp, OF _ refl]

lemmas jog = inv.jog [THEN mp, OF _ refl]

lemmas homing = inv.homing [THEN mp, OF _ refl]

end

section \<open>The observation of the program's lasting data\<close>

definition persistent ::
  "grbl \<Rightarrow> settings_t \<times> (u16 \<Rightarrow> u8) \<times> u8 list \<times> parser_state_t" where
  "persistent g = (settings g, eeprom g, line g, gc_core (gc_state g))"

interpretation rt: realtime_frame persistent
  by unfold_locales (auto simp: persistent_def)

lemma persistent_eq:
  assumes "persistent h = persistent g"
  shows "settings h = settings g" "eeprom h = eeprom g" "line h = line g"
    "gc_core (gc_state h) = gc_core (gc_state g)" "eeprom_at i h = eeprom_at i g"
  using assms by (simp_all add: persistent_def eeprom_at_def eeprom_get_char_def)

text \<open>
  C17. Nothing that happens while the program polls - an interrupt, a realtime command, an alarm, a
  hold with its suspend loop - changes the settings, the EEPROM, the line that is being
  executed, or the parser state apart from the position and the coolant mode.
\<close>
theorem realtime_keeps_data:
  assumes "protocol_execute_realtime g = Some h"
  shows "settings h = settings g \<and> eeprom h = eeprom g \<and> line h = line g
    \<and> gc_core (gc_state h) = gc_core (gc_state g)"
  using persistent_eq [OF rt.execute_realtime [OF assms]] by simp_all

theorem realtime_keeps_data_witness:
  "\<exists>h. protocol_execute_realtime (system_set_exec_state_flag EXEC_CYCLE_START grbl_zero) = Some h
     \<and> settings h = settings_zero"
proof -
  let ?g = "system_set_exec_state_flag EXEC_CYCLE_START grbl_zero"
  have "\<exists>h. protocol_execute_realtime ?g = Some h"
    by (simp add: grbl_zero_defs grbl_consts bit_macros protocol_execute_realtime_def protocol_exec_rt_system_def
        poll_def rt_alarm_def rt_state_flags_def rt_hold_def rt_cycle_start_def rt_start_cycle_def
        rt_resume_door_def rt_cycle_stop_def rt_reload_def rt_motion_override_def
        rt_accessory_override_def system_set_exec_state_flag_def system_clear_exec_state_flag_def
        plan_get_current_block_def state_in_def suspend_in_def sys_setters Let_def)
  then obtain h where h: "protocol_execute_realtime ?g = Some h" ..
  have "settings h = settings ?g" using realtime_keeps_data [OF h] by simp
  with h show ?thesis by (auto simp: system_set_exec_state_flag_def grbl_zero_def)
qed

end
