(* ===== verification/Realtime_Properties.thy ===== *)
theory Realtime_Properties
  imports Frame
begin

text \<open>
  The realtime commands: the arithmetic of the overrides against integers, and when the machine may start to
  move.
\<close>

section \<open>Overrides\<close>

text \<open>The percentage that the flags ask for, in integers, and the limits.\<close>

definition ovr_sum :: "bool \<Rightarrow> bool \<Rightarrow> bool \<Rightarrow> bool \<Rightarrow> bool \<Rightarrow> int \<Rightarrow> int" where
  "ovr_sum reset cplus cminus fplus fminus v =
     (if reset then 100 else v) + (if cplus then 10 else 0) - (if cminus then 10 else 0)
       + (if fplus then 1 else 0) - (if fminus then 1 else 0)"

lemma uint_add_u8: "uint v + uint c < 256 \<Longrightarrow> uint (v + c :: u8) = uint v + uint c"
  by (simp add: uint_word_ariths)

lemma uint_sub_u8: "uint c \<le> uint v \<Longrightarrow> uint (v - c :: u8) = uint v - uint c"
proof -
  assume "uint c \<le> uint v"
  moreover have "uint v < 256" "0 \<le> uint c" using uint_lt2p [of v] by simp_all
  ultimately have "0 \<le> uint v - uint c" "uint v - uint c < 256" by linarith+
  then show ?thesis by (simp only: uint_word_ariths) (simp add: mod_pos_pos_trivial)
qed

lemma ovr_step_sum:
  assumes "10 \<le> v" and "v \<le> 200"
    and "s = ovr_sum (bit_istrue e reset) (bit_istrue e cplus) (bit_istrue e cminus) (bit_istrue e fplus) (bit_istrue e fminus) (uint v)"
  shows "uint (ovr_step e reset cplus cminus fplus fminus v) = (if s < 0 then 200 else max 10 (min 200 s))"
proof -
  define a where "a = (if bit_istrue e reset then 100 else v)"
  define b where "b = (if bit_istrue e cplus then a + 10 else a)"
  define c where "c = (if bit_istrue e cminus then b - 10 else b)"
  define d where "d = (if bit_istrue e fplus then c + 1 else c)"
  define f where "f = (if bit_istrue e fminus then d - 1 else d)"
  have a: "10 \<le> uint a" "uint a \<le> 200" using assms(1,2) by (auto simp: a_def word_le_def)
  have b: "uint b = uint a + (if bit_istrue e cplus then 10 else 0)" using a by (auto simp: b_def uint_add_u8)
  have c: "uint c = uint b - (if bit_istrue e cminus then 10 else 0)" using a b by (auto simp: c_def uint_sub_u8)
  have d: "uint d = uint c + (if bit_istrue e fplus then 1 else 0)" using a b c by (auto simp: d_def uint_add_u8)
  have sum: "s = uint d - (if bit_istrue e fminus then 1 else 0)"
    using a b c d by (simp add: assms(3) ovr_sum_def a_def)
  have f: "uint f = (if s < 0 then 255 else s)"
  proof (cases "bit_istrue e fminus \<and> d = 0")
    case True
    moreover have "uint (- 1 :: u8) = 255" by (simp add: unsigned_minus_1_eq_mask mask_eq_exp_minus_1)
    ultimately show ?thesis by (simp add: f_def sum)
  next
    case False
    have "1 \<le> uint d" if "bit_istrue e fminus"
    proof -
      have "uint d \<noteq> 0" using False that by (simp add: word_uint_eq_iff)
      with uint_ge_0 [of d] show ?thesis by linarith
    qed
    moreover have "0 \<le> uint d" by (rule uint_ge_0)
    ultimately show ?thesis by (auto simp: f_def sum uint_sub_u8)
  qed
  have "ovr_step e reset cplus cminus fplus fminus v = (if (if f < 200 then f else 200) > 10 then (if f < 200 then f else 200) else 10)"
    unfolding ovr_step_def Let_def f_def d_def c_def b_def a_def ..
  then show ?thesis using f by (auto simp: word_less_def)
qed

section \<open>Entering a cycle\<close>

text \<open>
  Neither the state of the machine nor its suspend flags are touched by planning, by the preparation of
  segments and by printing.
\<close>

definition motion_state :: "grbl \<Rightarrow> u8 \<times> u8 \<times> u8" where
  "motion_state g = (sys_state (sys g), sys_suspend (sys g), sys_spindle_stop_ovr (sys g))"

interpretation mst: prep_frame motion_state
  by unfold_locales (simp_all add: motion_state_def)

interpretation msp: print_frame "\<lambda>g. (sys g, planner g)"
  by unfold_locales simp_all

lemma motion_state_eq:
  assumes "motion_state h = motion_state g"
  shows "sys_state (sys h) = sys_state (sys g)" "state_in m h = state_in m g" "suspend_in m h = suspend_in m g"
  using assms by (simp_all add: motion_state_def state_in_def suspend_in_def)

text \<open>
  The states in which the machine rests and may be started: idle, in a completed hold, or at a safety door
  that is closed again, with everything restored.
\<close>

definition at_rest :: "grbl \<Rightarrow> bool" where
  "at_rest g \<longleftrightarrow> sys_state (sys g) = STATE_IDLE
     \<or> state_in STATE_HOLD g \<and> suspend_in SUSPEND_HOLD_COMPLETE g
     \<or> sys_state (sys g) = STATE_SAFETY_DOOR \<and> \<not> suspend_in SUSPEND_SAFETY_DOOR_AJAR g
       \<and> suspend_in SUSPEND_RESTORE_COMPLETE g"

lemma state_changes:
  "sys_state (sys (set_state v g)) = v" "suspend_in m (set_state v g) = suspend_in m g"
  "plan_get_current_block (set_state v g) = plan_get_current_block g"
  "sys_state (sys (set_suspend v g)) = sys_state (sys g)" "sys_state (sys (suspend_true v g)) = sys_state (sys g)"
  "sys_state (sys (set_spindle_stop_ovr v g)) = sys_state (sys g)"
  "sys_state (sys (system_clear_exec_state_flag m g)) = sys_state (sys g)"
  "suspend_in m (system_clear_exec_state_flag v g) = suspend_in m g"
  "state_in m (system_clear_exec_state_flag v g) = state_in m g"
  "plan_get_current_block (system_clear_exec_state_flag v g) = plan_get_current_block g"
  by (simp_all add: sys_setters suspend_in_def state_in_def plan_get_current_block_def system_clear_exec_state_flag_def)

lemma start_cycle_entry:
  assumes "rt_start_cycle g = Some h" and "sys_state (sys h) = STATE_CYCLE" and "sys_state (sys g) \<noteq> STATE_CYCLE"
  shows "plan_get_current_block g \<noteq> None \<and> \<not> suspend_in SUSPEND_MOTION_CANCEL g
    \<and> (sys_state (sys g) = STATE_IDLE \<or> state_in STATE_HOLD g \<and> suspend_in SUSPEND_HOLD_COMPLETE g)"
proof -
  have cur: "plan_get_current_block (set_step_control v g) = plan_get_current_block g"
    "suspend_in m (set_step_control v g) = suspend_in m g" for v m
    by (simp_all add: plan_get_current_block_def set_step_control_def suspend_in_def)
  have "STATE_IDLE \<noteq> STATE_CYCLE" by (simp add: grbl_consts)
  then show ?thesis
    using assms by (auto simp: rt_start_cycle_def Let_def cur state_changes split: if_split_asm)
qed

lemma cycle_start_entry:
  assumes "rt_cycle_start e g = Some h" and "sys_state (sys h) = STATE_CYCLE" and "sys_state (sys g) \<noteq> STATE_CYCLE"
  shows "bit_istrue e EXEC_CYCLE_START \<and> e AND (EXEC_FEED_HOLD OR EXEC_MOTION_CANCEL OR EXEC_SAFETY_DOOR) = 0
    \<and> plan_get_current_block g \<noteq> None \<and> at_rest g"
proof -
  from assms obtain k where start: "bit_istrue e EXEC_CYCLE_START"
    "e AND (EXEC_FEED_HOLD OR EXEC_MOTION_CANCEL OR EXEC_SAFETY_DOOR) = 0"
    "rt_start_cycle (rt_resume_door g) = Some k" "sys_state (sys k) = STATE_CYCLE"
    by (auto simp: rt_cycle_start_def state_changes split: if_split_asm)
  have door: "sys_state (sys (rt_resume_door g)) =
      (if sys_state (sys g) = STATE_SAFETY_DOOR \<and> \<not> suspend_in SUSPEND_SAFETY_DOOR_AJAR g \<and> suspend_in SUSPEND_RESTORE_COMPLETE g
       then STATE_IDLE else sys_state (sys g))"
    "plan_get_current_block (rt_resume_door g) = plan_get_current_block g"
    by (auto simp: rt_resume_door_def state_changes)
      (auto simp: sys_setters plan_get_current_block_def)
  have same: "rt_resume_door g = g" if "sys_state (sys g) \<noteq> STATE_SAFETY_DOOR"
    using that by (simp add: rt_resume_door_def)
  have "sys_state (sys (rt_resume_door g)) \<noteq> STATE_CYCLE"
    using assms(3) by (simp add: door grbl_consts)
  note entry = start_cycle_entry [OF start(3,4) this]
  have "at_rest g"
  proof (cases "sys_state (sys g) = STATE_SAFETY_DOOR")
    case True
    then have "\<not> state_in STATE_HOLD (rt_resume_door g)" by (simp add: state_in_def door) (simp add: grbl_consts)
    with entry True show ?thesis by (auto simp: at_rest_def door grbl_consts split: if_split_asm)
  next
    case False
    with entry show ?thesis by (auto simp: same at_rest_def)
  qed
  with start(1,2) entry show ?thesis by (simp add: door)
qed

text \<open>The handlers before and after it never enter a cycle.\<close>

lemma hold_motion_state: "sys_state (sys (rt_hold_motion e g)) = sys_state (sys g)"
proof -
  have "sys_state (sys (set_step_control v x)) = sys_state (sys x)"
    "sys_state (sys (st_update_plan_block_parameters x)) = sys_state (sys x)" for v x
    using mst.prep_steps(2) [of v x] mst.blocks(7) [of x] by (simp_all add: motion_state_def)
  then show ?thesis by (simp add: rt_hold_motion_def Let_def state_changes)
qed

lemma safety_door_state:
  "sys_state (sys (rt_safety_door g)) = sys_state (sys g) \<or> sys_state (sys (rt_safety_door g)) = STATE_SAFETY_DOOR"
proof -
  have "sys (report_feedback_message m x) = sys x" for m x using msp.messages(3) [of m x] by simp
  moreover have "sys_state (sys (suspend_false m x)) = sys_state (sys x)" for m x by (simp add: sys_setters)
  ultimately show ?thesis by (auto simp: rt_safety_door_def Let_def state_changes)
qed

lemma if_keeps: "P x \<Longrightarrow> P y \<Longrightarrow> P (if c then x else y)"
  by simp

lemma let_keeps: "P x \<Longrightarrow> (\<And>y. P y \<Longrightarrow> P (k y)) \<Longrightarrow> P (let y = x in k y)"
  by (simp add: Let_def)

lemma hold_state:
  "sys_state (sys (rt_hold e g)) \<in> {sys_state (sys g), STATE_HOLD, STATE_SAFETY_DOOR, STATE_SLEEP}"
proof -
  define P where "P = (\<lambda>h :: grbl. sys_state (sys h) \<in> {sys_state (sys g), STATE_HOLD, STATE_SAFETY_DOOR, STATE_SLEEP})"
  have ops: "P x \<Longrightarrow> P (rt_hold_motion e x)" "P x \<Longrightarrow> P (rt_safety_door x)" "P x \<Longrightarrow> P (set_suspend v x)"
    "P x \<Longrightarrow> P (suspend_true v x)" "P x \<Longrightarrow> P (system_clear_exec_state_flag v x)"
    "P (set_state STATE_HOLD x)" "P (set_state STATE_SLEEP x)" for v x
    using safety_door_state [of x] by (auto simp: P_def hold_motion_state state_changes)
  have "P (rt_hold e g)"
    unfolding rt_hold_def
    by (intro if_keeps [of P] let_keeps [of P] ops) (simp_all add: P_def)
  then show ?thesis by (simp add: P_def)
qed

lemma hold_sleep:
  assumes "bit_istrue e EXEC_SLEEP"
  shows "sys_state (sys (rt_hold e g)) = STATE_SLEEP"
proof -
  have "e AND (EXEC_MOTION_CANCEL OR EXEC_FEED_HOLD OR EXEC_SAFETY_DOOR OR EXEC_SLEEP) \<noteq> 0"
    using assms by (auto simp: bit_macros bit.conj_disj_distrib or_eq_0_iff)
  with assms show ?thesis by (simp add: rt_hold_def Let_def state_changes)
qed

lemma cycle_stop_state:
  "sys_state (sys (rt_cycle_stop e g)) \<in> {sys_state (sys g), STATE_IDLE, STATE_SAFETY_DOOR}"
proof -
  have "sys_state (sys (set_step_control v x)) = sys_state (sys x)"
    "sys_state (sys (plan_cycle_reinitialize x)) = sys_state (sys x)" for v x
    using mst.prep_steps(2) [of v x] mst.replan(2) [of x] by (simp_all add: motion_state_def)
  then show ?thesis by (simp add: rt_cycle_stop_def Let_def state_changes)
qed

section \<open>Properties\<close>

text \<open>
  C30. The override handlers compute in 8 bits what the flags ask for: in the legal range from 10 to 200 percent
  the new feed and spindle percentages are the integer sums, limited to that range, with one exception. When
  a coarse and a fine decrease arrive together at 10 percent, the sum is negative, the byte wraps, and
  the override jumps to 200 percent.
\<close>
theorem override_arithmetic:
  assumes "10 \<le> v" and "v \<le> 200"
    and "s = ovr_sum (bit_istrue e 1) (bit_istrue e 2) (bit_istrue e 4) (bit_istrue e 8) (bit_istrue e 16) (uint v)"
  shows "uint (new_f_override e v) = (if s < 0 then 200 else max 10 (min 200 s))
    \<and> uint (new_s_override e v) = (if s < 0 then 200 else max 10 (min 200 s))
    \<and> 10 \<le> new_f_override e v \<and> new_f_override e v \<le> 200"
proof -
  have f: "uint (new_f_override e v) = (if s < 0 then 200 else max 10 (min 200 s))"
    and "uint (new_s_override e v) = (if s < 0 then 200 else max 10 (min 200 s))"
    using ovr_step_sum [OF assms(1,2)] assms(3) by (simp_all add: new_f_override_def new_s_override_def grbl_consts)
  moreover have "10 \<le> new_f_override e v \<and> new_f_override e v \<le> 200"
    unfolding word_le_def f by simp
  ultimately show ?thesis by simp
qed

theorem override_arithmetic_witness:
  "new_f_override 0x14 10 = 200 \<and> new_f_override 0x04 110 = 100"
proof -
  have "uint (new_f_override 0x14 10) = 200"
    using override_arithmetic [of 10 "- 1" "0x14"] by (simp add: ovr_sum_def bit_macros)
  moreover have "uint (new_f_override 0x04 110) = 100"
    using override_arithmetic [of 110 100 "0x04"] by (simp add: ovr_sum_def bit_macros)
  ultimately show ?thesis by (simp add: word_uint_eq_iff)
qed

text \<open>
  C6. The machine starts to move only from rest: when the state flags of one poll take it into a cycle, a cycle
  start was flagged with no hold, cancel, door or sleep beside it, a block was queued, and the machine was idle,
  in a completed hold, or at a closed door with everything restored. In an alarm no flag starts a cycle.
\<close>
theorem motion_starts_from_rest:
  assumes "rt_state_flags g = Some (Inr h)" and "sys_state (sys h) = STATE_CYCLE" and "sys_state (sys g) \<noteq> STATE_CYCLE"
  shows "bit_istrue (sys_rt_exec_state g) EXEC_CYCLE_START
    \<and> sys_rt_exec_state g AND (EXEC_FEED_HOLD OR EXEC_MOTION_CANCEL OR EXEC_SAFETY_DOOR OR EXEC_SLEEP) = 0
    \<and> plan_get_current_block g \<noteq> None \<and> at_rest g \<and> sys_state (sys g) \<noteq> STATE_ALARM"
proof -
  let ?e = "sys_rt_exec_state g"
  have ne: "sys_rt_exec_state g \<noteq> 0"
    using assms by (auto simp: rt_state_flags_def Let_def)
  define k where "k = (if bit_istrue ?e EXEC_STATUS_REPORT
    then system_clear_exec_state_flag EXEC_STATUS_REPORT (report_realtime_status g) else g)"
  obtain c where c: "rt_cycle_start ?e (rt_hold ?e k) = Some c" "h = rt_cycle_stop ?e c"
    using assms(1) ne by (auto simp: rt_state_flags_def Let_def k_def split: if_split_asm)
  have k: "motion_state k = motion_state g" "plan_get_current_block k = plan_get_current_block g"
    using msp.reports(2) [of g]
    by (auto simp: k_def motion_state_def plan_get_current_block_def system_clear_exec_state_flag_def)
  have "sys_state (sys c) = STATE_CYCLE"
    using cycle_stop_state [of ?e c] assms(2) by (auto simp: c(2) grbl_consts)
  moreover have "sys_state (sys (rt_hold ?e k)) \<noteq> STATE_CYCLE"
    using hold_state [of ?e k] assms(3) motion_state_eq(1) [OF k(1)] by (auto simp: grbl_consts)
  ultimately have entry: "bit_istrue ?e EXEC_CYCLE_START \<and> ?e AND (EXEC_FEED_HOLD OR EXEC_MOTION_CANCEL OR EXEC_SAFETY_DOOR) = 0
    \<and> plan_get_current_block (rt_hold ?e k) \<noteq> None \<and> at_rest (rt_hold ?e k)"
    using cycle_start_entry [OF c(1)] by blast
  have awake: "\<not> bit_istrue ?e EXEC_SLEEP"
    using hold_sleep [of ?e k] entry by (auto simp: at_rest_def state_in_def) (simp_all add: grbl_consts)
  have none: "?e AND (EXEC_FEED_HOLD OR EXEC_MOTION_CANCEL OR EXEC_SAFETY_DOOR OR EXEC_SLEEP) = 0"
  proof -
    have "?e AND (m OR l) = 0 \<longleftrightarrow> ?e AND m = 0 \<and> ?e AND l = 0" for m l
      by (simp add: bit.conj_disj_distrib or_eq_0_iff)
    with entry awake show ?thesis by (simp add: bit_macros)
  qed
  have "rt_hold ?e k = k"
    using none by (simp add: rt_hold_def ac_simps)
  with entry none k have "plan_get_current_block g \<noteq> None \<and> at_rest g" by (simp add: at_rest_def motion_state_eq [OF k(1)])
  moreover from this have "sys_state (sys g) \<noteq> STATE_ALARM"
    by (auto simp: at_rest_def state_in_def grbl_consts)
  ultimately show ?thesis using entry none by simp
qed

theorem motion_starts_from_rest_witness:
  "\<exists>g h. rt_state_flags g = Some (Inr h) \<and> sys_state (sys h) = STATE_CYCLE \<and> at_rest g"
proof -
  define g where "g = grbl_zero\<lparr>planner := planner_zero\<lparr>block_buffer_head := 1, next_buffer_head := 2\<rparr>,
    stepper := stepper_zero\<lparr>segment_next_head := segment_buffer_tail stepper_zero\<rparr>, sys_rt_exec_state := EXEC_CYCLE_START\<rparr>"
  obtain h where h: "rt_state_flags g = Some (Inr h)" "sys_state (sys h) = STATE_CYCLE"
  proof -
    have "rt_state_flags g = Some (Inr (system_clear_exec_state_flag EXEC_CYCLE_START
      (st_wake_up (set_state STATE_CYCLE (set_suspend SUSPEND_DISABLE (set_step_control STEP_CONTROL_NORMAL_OP g))))))"
      by (simp add: g_def rt_state_flags_def rt_hold_def rt_cycle_start_def rt_resume_door_def rt_start_cycle_def
          rt_cycle_stop_def plan_get_current_block_def suspend_in_def sys_setters st_prep_buffer_def sc_true_def
          st_prep_loop.simps grbl_zero_def planner_zero_def stepper_zero_def system_zero_def grbl_consts bit_macros Let_def)
    moreover have "sys_state (sys (st_wake_up x)) = sys_state (sys x)" for x
      by (simp add: st_wake_up_def st_set_enable_pin_def Let_def)
    ultimately show ?thesis using that by (simp add: state_changes)
  qed
  have "sys_state (sys g) \<noteq> STATE_CYCLE" by (simp add: g_def grbl_zero_def system_zero_def grbl_consts)
  with motion_starts_from_rest [OF h] h show ?thesis by blast
qed

end
