(* ===== verification/Memory.thy ===== *)
theory Memory
  imports Frame Transport_Queues Planner_Properties
begin

text \<open>
  The arrays, ring indices and pointers of the program. A C array is a list in the model, so that an
  access outside it would go unnoticed; here the lengths of all static arrays and the ranges of all
  indices and pointers kept between calls are a condition on the state, and every operation of the planner,
  the segment preparation, the interrupts and the transport is shown to keep it.
\<close>

section \<open>The condition\<close>

text \<open>planner.c: the ring of 12 blocks, its indices, and the vectors of three axes.\<close>

definition planner_typed :: "planner_vars \<Rightarrow> bool" where
  "planner_typed p \<longleftrightarrow> length (block_buffer p) = 12 \<and> (\<forall>b \<in> set (block_buffer p). length (pb_steps b) = 3)
     \<and> block_buffer_tail p < 12 \<and> block_buffer_head p < 12 \<and> next_buffer_head p < 12
     \<and> block_buffer_planned p < 12
     \<and> length (pl_position (pl p)) = 3 \<and> length (pl_previous_unit_vec (pl p)) = 3"

text \<open>stepper.c: the Bresenham blocks, the ring of segments, and the pointers into both and into the planner.\<close>

definition stepper_typed :: "stepper_vars \<Rightarrow> bool" where
  "stepper_typed s \<longleftrightarrow> length (st_block_buffer s) = 5 \<and> (\<forall>b \<in> set (st_block_buffer s). length (sb_steps b) = 3)
     \<and> length (segment_buffer s) = 6 \<and> (\<forall>sg \<in> set (segment_buffer s). seg_st_block_index sg < 5)
     \<and> segment_buffer_tail s < 6 \<and> segment_buffer_head s < 6 \<and> segment_next_head s < 6
     \<and> length (st_steps (st s)) = 3 \<and> st_exec_block_index (st s) < 5
     \<and> (\<forall>k \<in> set_option (st_exec_block (st s)). k < 5) \<and> (\<forall>k \<in> set_option (st_exec_segment (st s)). k < 6)
     \<and> prep_st_block_index (prep s) < 5
     \<and> (\<forall>k \<in> set_option (pl_block s). k < 12) \<and> (\<forall>k \<in> set_option (st_prep_block s). k < 5)"

text \<open>
  The step interrupt follows \<open>st.exec_block\<close>, which is NULL after a reset and is set only when a segment has
  another block index than the last one. It is never NULL when it is followed: as long as no segment was
  loaded, no block was prepared (index 0), or the first one is (index 1) and all that is queued begins with it.
\<close>

definition unprepared :: "stepper_vars \<Rightarrow> bool" where
  "unprepared s \<longleftrightarrow> pl_block s = None \<and> bit_isfalse (prep_recalculate_flag (prep s)) PREP_FLAG_RECALCULATE"

definition first_block :: "stepper_vars \<Rightarrow> bool" where
  "first_block s \<longleftrightarrow> (st_exec_block (st s) = None \<longrightarrow>
     st_exec_segment (st s) = None \<and> st_exec_block_index (st s) = 0
     \<and> (if segment_buffer_head s = segment_buffer_tail s
        then prep_st_block_index (prep s) = (if unprepared s then 0 else 1)
        else seg_st_block_index (segment_buffer s ! unat (segment_buffer_tail s)) = 1))"

definition motion_ok :: "grbl \<Rightarrow> bool" where
  "motion_ok g \<longleftrightarrow> planner_typed (planner g) \<and> stepper_typed (stepper g) \<and> first_block (stepper g)
     \<and> length (sys_position g) = 3"

text \<open>serial.c and llp\_transport.c: both rings, the line and frame buffers, and the parser.\<close>

definition transport_ok :: "grbl \<Rightarrow> bool" where
  "transport_ok g \<longleftrightarrow> rx_wf g \<and> tx_ok g \<and> llp_parser_wf (llp_rx_parser (llp g))"

definition storage_ok :: "grbl \<Rightarrow> bool" where
  "storage_ok g \<longleftrightarrow> motion_ok g \<and> length (line g) = 48 \<and> length (sys_probe_position g) = 3"

definition memory_ok :: "grbl \<Rightarrow> bool" where
  "memory_ok g \<longleftrightarrow> storage_ok g \<and> transport_ok g"

section \<open>Planner\<close>

lemma plan_index_less: "i < 12 \<Longrightarrow> plan_next_block_index i < 12"
  by (simp add: plan_next_block_index_def ring_next_nat BLOCK_BUFFER_SIZE_def word_less_nat_alt)

lemma all_set_update: "(\<forall>x \<in> set xs. P x) \<Longrightarrow> (i < length xs \<Longrightarrow> P y) \<Longrightarrow> \<forall>x \<in> set (xs[i := y]). P x"
  by (cases "i < length xs") (auto simp: list_update_beyond dest: set_update_subset_insert [THEN subsetD])

lemma in_update: "x \<in> set (xs[i := y]) \<Longrightarrow> x \<in> set xs \<or> x = y"
  using set_update_subset_insert [of xs i y] by blast

lemma typed_block: "planner_typed (planner g) \<Longrightarrow> i < 12 \<Longrightarrow> length (pb_steps (plan_block g i)) = 3"
  by (simp add: planner_typed_def plan_block_def word_less_nat_alt)

lemma set_block_typed:
  assumes "planner_typed (planner g)" and "i < 12 \<Longrightarrow> length (pb_steps b) = 3"
  shows "planner_typed (planner (set_plan_block i b g))"
proof -
  have "\<forall>b \<in> set ((block_buffer (planner g))[unat i := b]). length (pb_steps b) = 3"
    using assms by (intro all_set_update) (auto simp: planner_typed_def word_less_nat_alt)
  with assms(1) show ?thesis by (simp add: planner_typed_def set_plan_block_def)
qed

lemma entry_speed_typed [intro]: "planner_typed (planner g) \<Longrightarrow> planner_typed (planner (set_entry_speed_sqr i v g))"
  unfolding set_entry_speed_sqr_def by (rule set_block_typed) (simp_all add: typed_block)

lemma planned_typed: "planner_typed (planner g) \<Longrightarrow> i < 12 \<Longrightarrow> planner_typed (planner (set_planned i g))"
  by (simp add: planner_typed_def set_planned_def)

text \<open>What the planner may do to the rest of the state: only the recalculation flag and \<open>pl_block\<close>.\<close>

definition released :: "stepper_vars \<Rightarrow> stepper_vars" where
  "released s = (if pl_block s = None then s else s\<lparr>pl_block := None, prep := (prep s)\<lparr>prep_recalculate_flag :=
     bit_true (prep_recalculate_flag (prep s)) PREP_FLAG_RECALCULATE\<rparr>\<rparr>)"

lemma released_ok: "stepper_typed s \<Longrightarrow> stepper_typed (released s)" "first_block s \<Longrightarrow> first_block (released s)"
  by (auto simp: released_def stepper_typed_def first_block_def unprepared_def PREP_FLAG_RECALCULATE_def bit_macros)

lemma motion_planner:
  "planner_typed (planner h) \<Longrightarrow> stepper h = stepper g \<or> stepper h = released (stepper g) \<Longrightarrow> sys_position h = sys_position g
    \<Longrightarrow> motion_ok g \<Longrightarrow> motion_ok h"
  by (auto simp: motion_ok_def released_ok)

lemma set_block_ok: "motion_ok g \<Longrightarrow> (i < 12 \<Longrightarrow> length (pb_steps b) = 3) \<Longrightarrow> motion_ok (set_plan_block i b g)"
  by (rule motion_planner [of _ g]) (auto simp: set_block_typed motion_ok_def, simp_all add: set_plan_block_def)

lemma entry_speed_ok: "motion_ok g \<Longrightarrow> motion_ok (set_entry_speed_sqr i v g)"
  unfolding set_entry_speed_sqr_def by (rule set_block_ok) (auto simp: typed_block motion_ok_def)

lemma planned_ok: "motion_ok g \<Longrightarrow> i < 12 \<Longrightarrow> motion_ok (set_planned i g)"
  by (rule motion_planner [of _ g]) (auto simp: planned_typed motion_ok_def, simp_all add: set_planned_def)

lemma update_parameters_ok: "motion_ok g \<Longrightarrow> motion_ok (st_update_plan_block_parameters g)"
proof -
  assume ok: "motion_ok g"
  show ?thesis
  proof (cases "pl_block (stepper g)")
    case (Some i)
    let ?h = "set_entry_speed_sqr i (f_mul (prep_current_speed (prep (stepper g))) (prep_current_speed (prep (stepper g)))) g"
    have "planner_typed (planner ?h)" using ok by (auto simp: motion_ok_def)
    moreover have "stepper ?h = stepper g" "sys_position ?h = sys_position g"
      by (simp_all add: set_entry_speed_sqr_def set_plan_block_def)
    moreover have "st_update_plan_block_parameters g = ?h\<lparr>stepper := released (stepper g)\<rparr>"
      using Some \<open>stepper ?h = stepper g\<close> by (simp add: st_update_plan_block_parameters_def Let_def released_def)
    ultimately show ?thesis
      by (intro motion_planner [OF _ _ _ ok]) simp_all
  qed (simp add: ok st_update_plan_block_parameters_def)
qed

lemmas planning_ok = set_block_ok entry_speed_ok planned_ok update_parameters_ok

lemma motion_indices:
  "motion_ok g \<Longrightarrow> block_buffer_tail (planner g) < 12" "motion_ok g \<Longrightarrow> block_buffer_head (planner g) < 12"
  "motion_ok g \<Longrightarrow> block_buffer_planned (planner g) < 12" "motion_ok g \<Longrightarrow> next_buffer_head (planner g) < 12"
  by (simp_all add: motion_ok_def planner_typed_def)

lemma reverse_step_ok: "motion_ok g \<Longrightarrow> motion_ok (reverse_step c i g)"
  by (simp add: reverse_step_def planning_ok Let_def)

lemma reverse_ok: "motion_ok g \<Longrightarrow> motion_ok (plan_reverse_pass n c i g)"
  by (induction n arbitrary: c i g) (simp_all add: round_simps reverse_step_ok del: round_defs(2,4,6))

lemma forward_step_ok: "motion_ok g \<Longrightarrow> i < 12 \<Longrightarrow> motion_ok (forward_step c i g)"
  by (simp add: forward_step_def planning_ok Let_def)

lemma forward_ok: "motion_ok g \<Longrightarrow> i < 12 \<Longrightarrow> motion_ok (plan_forward_pass n c i g)"
  by (induction n arbitrary: c i g)
    (simp_all add: round_simps forward_step_ok plan_index_less del: round_defs(2,4,6))

lemma recalculate_ok: "motion_ok g \<Longrightarrow> motion_ok (planner_recalculate g)"
  by (simp add: planner_recalculate_def planning_ok reverse_ok forward_ok plan_index_less motion_indices Let_def
      del: round_defs)

lemma reinitialize_ok: "motion_ok g \<Longrightarrow> motion_ok (plan_cycle_reinitialize g)"
  by (simp add: plan_cycle_reinitialize_def planning_ok recalculate_ok motion_indices Let_def)

lemma profile_step_ok: "motion_ok g \<Longrightarrow> motion_ok (profile_step i v g)"
  unfolding profile_step_def
  by (rule set_block_ok) (simp_all add: plan_compute_profile_parameters_def typed_block motion_ok_def Let_def)

lemma profiles_ok: "motion_ok g \<Longrightarrow> motion_ok (snd (plan_update_profiles n i v g))"
  by (induction n arbitrary: i v g) (simp_all add: round_simps profile_step_ok del: round_defs(2,4,6))

lemma velocity_ok: "motion_ok g \<Longrightarrow> motion_ok (plan_update_velocity_profile_parameters g)"
proof -
  assume ok: "motion_ok g"
  let ?r = "plan_update_profiles 12 (block_buffer_tail (planner g)) SOME_LARGE_VALUE g"
  have "motion_ok (snd ?r)" using ok by (rule profiles_ok)
  then show ?thesis
    by (simp add: plan_update_velocity_profile_parameters_def Let_def split_def motion_ok_def planner_typed_def
        del: round_defs)
qed

lemma plan_reset_ok: "motion_ok g \<Longrightarrow> motion_ok (plan_reset g)"
  by (simp add: plan_reset_def plan_reset_buffer_def motion_ok_def planner_typed_def planner_t_zero_def vec0_def)

lemma plan_sync_ok: "motion_ok g \<Longrightarrow> motion_ok (plan_sync_position g)"
  by (simp add: plan_sync_position_def motion_ok_def planner_typed_def)

lemma discard_ok: "motion_ok g \<Longrightarrow> motion_ok (plan_discard_current_block g)"
  by (simp add: plan_discard_current_block_def motion_ok_def planner_typed_def plan_index_less Let_def)

lemma block_values_shape:
  "plan_block_values g b d f = (c, u) \<Longrightarrow> pb_steps c = pb_steps b \<and> length u = length d"
  by (auto simp: plan_block_values_def convert_delta_vector_to_unit_vector_def Let_def split: if_split_asm)

lemma buffer_line_ok:
  assumes "motion_ok g"
  shows "motion_ok (snd (plan_buffer_line t pd g))"
proof -
  let ?sys = "bit_istrue (pd_condition pd) PL_COND_FLAG_SYSTEM_MOTION"
  let ?pos = "if ?sys then sys_position g else pl_position (pl (planner g))"
  let ?to = "plan_target_steps g t"
  let ?steps = "map (\<lambda>idx. labs32 (?to ! idx - ?pos ! idx)) [0, 1, 2]"
  let ?delta = "plan_deltas g ?to ?pos"
  let ?b = "plan_block_zero\<lparr>pb_condition := pd_condition pd, pb_steps := ?steps,
    pb_step_event_count := foldl max 0 ?steps, pb_direction_bits := plan_direction_bits ?delta\<rparr>"
  obtain c u where v: "plan_block_values g ?b ?delta (pd_feed_rate pd) = (c, u)" by fastforce
  have c: "length (pb_steps c) = 3" "length u = 3"
    using block_values_shape [OF v] by (simp_all add: plan_deltas_def)
  let ?c = "plan_compute_profile_parameters c (plan_compute_profile_nominal_speed g c) (pl_previous_nominal_speed (pl (planner g)))"
  have sc: "pb_steps ?c = pb_steps c" by (simp add: plan_compute_profile_parameters_def Let_def)
  let ?g = "set_plan_block (block_buffer_head (planner g)) ?c g"
  have g: "motion_ok ?g" using assms c by (intro set_block_ok) (simp_all add: sc)
  let ?h = "?g\<lparr>planner := (planner ?g)\<lparr>pl := \<lparr>pl_position = ?to, pl_previous_unit_vec = u,
    pl_previous_nominal_speed = plan_compute_profile_nominal_speed g c\<rparr>,
    block_buffer_head := next_buffer_head (planner ?g),
    next_buffer_head := plan_next_block_index (next_buffer_head (planner ?g))\<rparr>\<rparr>"
  have h: "motion_ok (planner_recalculate ?h)"
    using g c by (intro recalculate_ok) (simp add: motion_ok_def planner_typed_def plan_target_steps_def plan_index_less)
  consider "pb_step_event_count ?b = 0" | "pb_step_event_count ?b \<noteq> 0" ?sys
    | "pb_step_event_count ?b \<noteq> 0" "\<not> ?sys" by blast
  then show ?thesis
  proof cases
    case 1
    then have "snd (plan_buffer_line t pd g) = set_plan_block (block_buffer_head (planner g)) ?b g"
      by (simp add: plan_buffer_line_def Let_def)
    with assms show ?thesis by (simp add: set_block_ok)
  next
    case 2
    then have "snd (plan_buffer_line t pd g) = set_plan_block (block_buffer_head (planner g)) c g"
      using v by (simp add: plan_buffer_line_def Let_def split_def)
    with assms c show ?thesis by (simp add: set_block_ok)
  next
    case 3
    then have "snd (plan_buffer_line t pd g) = planner_recalculate ?h"
      using v by (simp add: plan_buffer_line_def Let_def split_def)
    with h show ?thesis by simp
  qed
qed

section \<open>Segments\<close>

lemma st_index_less: "k < 5 \<Longrightarrow> st_next_block_index k < 5"
proof -
  assume "k < 5"
  then have "unat k < 5" by (simp add: word_less_nat_alt)
  then have "unat (k + 1) = Suc (unat k)" by (simp add: unat_word_ariths)
  with \<open>unat k < 5\<close> show ?thesis
    by (auto simp: st_next_block_index_def SEGMENT_BUFFER_SIZE_def Let_def word_less_nat_alt word_unat_eq_iff)
qed

lemma seg_index_less: "k < 6 \<Longrightarrow> ring_next SEGMENT_BUFFER_SIZE k < 6"
  by (simp add: ring_next_nat SEGMENT_BUFFER_SIZE_def word_less_nat_alt)

text \<open>Resets, and the assignments that leave arrays and indices alone.\<close>

lemma stepper_shape:
  "motion_ok (g\<lparr>stepper := (stepper g)\<lparr>busy := b\<rparr>\<rparr>) = motion_ok g"
  "motion_ok (g\<lparr>stepper := (stepper g)\<lparr>step_port_invert_mask := m, dir_port_invert_mask := n\<rparr>\<rparr>) = motion_ok g"
  "length (st_steps t) = length (st_steps (st (stepper g))) \<and> st_exec_block t = st_exec_block (st (stepper g))
     \<and> st_exec_segment t = st_exec_segment (st (stepper g)) \<and> st_exec_block_index t = st_exec_block_index (st (stepper g))
   \<Longrightarrow> motion_ok (g\<lparr>stepper := (stepper g)\<lparr>st := t\<rparr>\<rparr>) = motion_ok g"
  by (simp_all add: motion_ok_def stepper_typed_def first_block_def unprepared_def)

lemma motion_free [simp]:
  "motion_ok (g\<lparr>sys := a\<rparr>) = motion_ok g" "motion_ok (g\<lparr>hw := b\<rparr>) = motion_ok g" "motion_ok (g\<lparr>serial := c\<rparr>) = motion_ok g"
  "motion_ok (g\<lparr>llp := d\<rparr>) = motion_ok g" "motion_ok (g\<lparr>world := e\<rparr>) = motion_ok g" "motion_ok (g\<lparr>settings := f\<rparr>) = motion_ok g"
  "motion_ok (g\<lparr>sys_rt_exec_state := x\<rparr>) = motion_ok g" "motion_ok (g\<lparr>sys_rt_exec_alarm := x\<rparr>) = motion_ok g"
  "motion_ok (g\<lparr>sys_probe_state := x\<rparr>) = motion_ok g" "motion_ok (g\<lparr>sys_probe_position := p\<rparr>) = motion_ok g"
  "motion_ok (g\<lparr>line := l\<rparr>) = motion_ok g" "motion_ok (g\<lparr>gc_state := s\<rparr>) = motion_ok g"
  "motion_ok (g\<lparr>eeprom := w\<rparr>) = motion_ok g" "motion_ok (g\<lparr>probe_invert_mask := x\<rparr>) = motion_ok g"
  "motion_ok (g\<lparr>sys_rt_exec_motion_override := x\<rparr>) = motion_ok g"
  "motion_ok (g\<lparr>sys_rt_exec_accessory_override := x\<rparr>) = motion_ok g"
  by (simp_all add: motion_ok_def)

lemma masks_ok: "motion_ok (st_generate_step_dir_invert_masks g) = motion_ok g"
  by (simp add: st_generate_step_dir_invert_masks_def Let_def stepper_shape)

lemma idle_ok: "motion_ok (st_go_idle g) = motion_ok g"
  by (simp add: st_go_idle_def st_set_enable_pin_def Let_def stepper_shape)

lemma wake_up_ok: "motion_ok (st_wake_up g) = motion_ok g"
  by (simp add: st_wake_up_def st_set_enable_pin_def Let_def stepper_shape)

lemma st_reset_ok: "motion_ok g \<Longrightarrow> motion_ok (st_reset g)"
proof -
  let ?i = "st_go_idle g"
  let ?r = "?i\<lparr>stepper := (stepper ?i)\<lparr>prep := st_prep_zero, st := stepper_t_zero, pl_block := None,
    segment_buffer_tail := 0, segment_buffer_head := 0, segment_next_head := 1, busy := False\<rparr>\<rparr>"
  assume "motion_ok g"
  then have "motion_ok ?i" by (simp add: idle_ok)
  then have "motion_ok ?r"
    by (simp add: motion_ok_def stepper_typed_def first_block_def unprepared_def st_prep_zero_def stepper_t_zero_def
        PREP_FLAG_RECALCULATE_def bit_macros)
  then show ?thesis by (simp add: st_reset_def Let_def stepper_shape masks_ok)
qed

text \<open>Loading a block and its profile.\<close>

lemma load_block_stepper:
  fixes g :: grbl and i :: u8
  defines "k \<equiv> st_next_block_index (prep_st_block_index (prep (stepper g)))"
  obtains p where "stepper (st_load_block i g) = (stepper g)\<lparr>st_prep_block := Some k,
      st_block_buffer := (st_block_buffer (stepper g))[unat k := \<lparr>sb_steps = map (push_bit MAX_AMASS_LEVEL) (pb_steps (plan_block g i)),
        sb_step_event_count = push_bit MAX_AMASS_LEVEL (pb_step_event_count (plan_block g i)),
        sb_direction_bits = pb_direction_bits (plan_block g i)\<rparr>], prep := p\<rparr>"
    and "prep_st_block_index p = k"
  by (rule that [of "prep (stepper (st_load_block i g))"])
    (simp_all add: st_load_block_def Let_def set_entry_speed_sqr_def set_plan_block_def set_prep_def k_def)

lemma load_block_planner: "planner_typed (planner g) \<Longrightarrow> planner_typed (planner (st_load_block i g))"
  "sys_position (st_load_block i g) = sys_position g"
  by (auto simp: st_load_block_def Let_def set_prep_def) (auto simp: set_entry_speed_sqr_def set_plan_block_def)

lemma profile_index: "prep_st_block_index (st_profile_hold b a p) = prep_st_block_index p"
  "prep_st_block_index (st_profile_normal b a x v p) = prep_st_block_index p"
  unfolding st_profile_hold_def st_profile_normal_def Let_def by simp_all

lemma compute_profile:
  obtains p where "st_compute_profile i g = set_prep p g" and "prep_st_block_index p = prep_st_block_index (prep (stepper g))"
proof (cases "sc_true STEP_CONTROL_EXECUTE_HOLD g")
  case True
  then show ?thesis
    by (intro that [of "prep (stepper (st_compute_profile i g))"])
      (simp_all add: st_compute_profile_def set_prep_def profile_index Let_def)
next
  case False
  then show ?thesis
    by (intro that [of "prep (stepper (st_compute_profile i g))"])
      (simp_all add: st_compute_profile_def set_prep_def profile_index Let_def)
qed

text \<open>A block to prepare is chosen: \<open>pl_block\<close> points to it.\<close>

lemma block_ready:
  assumes "st_prep_block_ready g = Some (i, h)" and ok: "motion_ok g"
  shows "motion_ok h \<and> i < 12 \<and> pl_block (stepper h) = Some i
    \<and> segment_buffer_tail (stepper h) = segment_buffer_tail (stepper g)
    \<and> segment_next_head (stepper h) = segment_next_head (stepper g)"
proof (cases "pl_block (stepper g)")
  case (Some j)
  with assms show ?thesis by (auto simp: st_prep_block_ready_def motion_ok_def stepper_typed_def)
next
  case None
  define a where "a = g\<lparr>stepper := (stepper g)\<lparr>pl_block := Some i\<rparr>\<rparr>"
  define flag where "flag \<longleftrightarrow> bit_istrue (prep_recalculate_flag (prep (stepper g))) PREP_FLAG_RECALCULATE"
  define b where "b = (if flag then set_prep ((prep (stepper a))\<lparr>prep_recalculate_flag := 0\<rparr>) a else st_load_block i a)"
  have i: "i < 12" and h: "h = st_compute_profile i b"
    using assms None by (auto simp: st_prep_block_ready_def plan_get_system_motion_block_def plan_get_current_block_def
        motion_indices Let_def a_def b_def flag_def split: if_split_asm)
  have a: "planner_typed (planner a)" "stepper_typed (stepper a)"
    using ok i by (simp_all add: a_def motion_ok_def stepper_typed_def)
  have sb: "length (pb_steps (plan_block a i)) = 3" using a(1) i by (rule typed_block)
  have "planner_typed (planner b) \<and> stepper_typed (stepper b) \<and> sys_position b = sys_position g \<and> first_block (stepper b)
    \<and> pl_block (stepper b) = Some i \<and> segment_buffer_tail (stepper b) = segment_buffer_tail (stepper g)
    \<and> segment_next_head (stepper b) = segment_next_head (stepper g)"
  proof (cases flag)
    case True
    with a ok None show ?thesis
      by (simp add: b_def set_prep_def stepper_typed_def)
        (auto simp: a_def motion_ok_def first_block_def unprepared_def flag_def bit_isfalse_iff)
  next
    case False
    obtain p where p: "stepper (st_load_block i a) = (stepper a)\<lparr>st_prep_block := Some (st_next_block_index (prep_st_block_index (prep (stepper a)))),
      st_block_buffer := (st_block_buffer (stepper a))[unat (st_next_block_index (prep_st_block_index (prep (stepper a)))) :=
        \<lparr>sb_steps = map (push_bit MAX_AMASS_LEVEL) (pb_steps (plan_block a i)),
        sb_step_event_count = push_bit MAX_AMASS_LEVEL (pb_step_event_count (plan_block a i)),
        sb_direction_bits = pb_direction_bits (plan_block a i)\<rparr>], prep := p\<rparr>"
      and idx: "prep_st_block_index p = st_next_block_index (prep_st_block_index (prep (stepper a)))"
      by (rule load_block_stepper)
    have "st_next_block_index (prep_st_block_index (prep (stepper a))) < 5"
      using a(2) by (simp add: stepper_typed_def st_index_less)
    then have "stepper_typed (stepper (st_load_block i a))"
      using a(2) sb unfolding p by (auto simp: stepper_typed_def idx dest!: in_update)
    moreover have "first_block (stepper (st_load_block i a))"
      using ok None False unfolding p
      by (auto simp: a_def motion_ok_def first_block_def unprepared_def flag_def bit_isfalse_iff idx st_next_block_index_def
          SEGMENT_BUFFER_SIZE_def)
    moreover have "pl_block (stepper (st_load_block i a)) = Some i"
      "segment_buffer_tail (stepper (st_load_block i a)) = segment_buffer_tail (stepper g)"
      "segment_next_head (stepper (st_load_block i a)) = segment_next_head (stepper g)"
      unfolding p by (simp_all add: a_def)
    ultimately show ?thesis
      using False a(1) by (simp add: b_def load_block_planner) (simp add: a_def)
  qed
  moreover obtain p where "h = set_prep p b" "prep_st_block_index p = prep_st_block_index (prep (stepper b))"
    unfolding h by (rule compute_profile)
  ultimately show ?thesis using ok i
    by (auto simp: motion_ok_def set_prep_def stepper_typed_def first_block_def unprepared_def)
qed

text \<open>One round writes the segment at the head and, if there is a step to execute, moves the head over it.\<close>

text \<open>What the velocity profile of a segment leaves alone.\<close>

definition prep_base :: "st_prep_t \<Rightarrow> u8 \<times> u8 \<times> f32 \<times> f32 \<times> f32" where
  "prep_base p = (prep_st_block_index p, prep_recalculate_flag p, prep_steps_remaining p, prep_step_per_mm p, prep_mm_complete p)"

lemma ramp_base: "st_ramp_loop b mn p dm dt tv mm = Some (p', r) \<Longrightarrow> prep_base p' = prep_base p"
proof -
  have step: "prep_base (fst (st_ramp_step b p tv mm)) = prep_base p" for b p tv mm
    by (simp add: st_ramp_step_def prep_base_def Let_def)
  have "st_ramp_loop b mn p dm dt tv mm = Some pr \<Longrightarrow> prep_base (fst pr) = prep_base p" for pr
    apply (erule st_ramp_loop.raw_induct [rotated, where P = "\<lambda>b mn p dm dt tv mm pr. prep_base (fst pr) = prep_base p"])
    subgoal premises prems for loop b mn p dm dt tv mm pr
      using prems(2) step [of b p tv mm]
      by (auto simp: Let_def split_def split: if_split_asm dest!: prems(1))
    done
  then show "st_ramp_loop b mn p dm dt tv mm = Some (p', r) \<Longrightarrow> prep_base p' = prep_base p"
    by fastforce
qed

definition put_segment :: "segment_t \<Rightarrow> st_prep_t \<Rightarrow> stepper_vars \<Rightarrow> stepper_vars" where
  "put_segment sg p s = s\<lparr>prep := p, segment_buffer := (segment_buffer s)[unat (segment_buffer_head s) := sg]\<rparr>"

definition push_segment :: "stepper_vars \<Rightarrow> stepper_vars" where
  "push_segment s = s\<lparr>segment_buffer_head := segment_next_head s,
     segment_next_head := ring_next SEGMENT_BUFFER_SIZE (segment_next_head s)\<rparr>"

lemma push_put_segment:
  "s\<lparr>segment_buffer := b, segment_buffer_head := h, segment_next_head := n, prep := p\<rparr>
    = s\<lparr>prep := p, segment_buffer := b, segment_buffer_head := h, segment_next_head := n\<rparr>"
  by (cases s) simp

lemma put_segment_ok:
  assumes "stepper_typed s" and "first_block s" and "pl_block s \<noteq> None"
    and "prep_st_block_index p = prep_st_block_index (prep s)" and "seg_st_block_index sg = prep_st_block_index p"
  shows "stepper_typed (put_segment sg p s)" "first_block (put_segment sg p s)"
proof -
  show "stepper_typed (put_segment sg p s)"
    using assms by (auto simp: put_segment_def stepper_typed_def dest!: in_update)
  have "unat (segment_buffer_head s) < length (segment_buffer s)"
    using assms(1) by (simp add: stepper_typed_def word_less_nat_alt)
  then show "first_block (put_segment sg p s)"
    using assms by (auto simp: put_segment_def first_block_def unprepared_def nth_list_update word_unat_eq_iff)
qed

lemma push_segment_ok:
  assumes "stepper_typed s" and "first_block s" and "pl_block s \<noteq> None" and "segment_buffer_tail s \<noteq> segment_next_head s"
    and "seg_st_block_index (segment_buffer s ! unat (segment_buffer_head s)) = prep_st_block_index (prep s)"
  shows "stepper_typed (push_segment s)" "first_block (push_segment s)"
    "segment_buffer_head (push_segment s) \<noteq> segment_buffer_tail (push_segment s)"
proof -
  have "\<not> unprepared s" using assms(3) by (simp add: unprepared_def)
  then show "stepper_typed (push_segment s)" "first_block (push_segment s)"
    "segment_buffer_head (push_segment s) \<noteq> segment_buffer_tail (push_segment s)"
    using assms by (auto simp: push_segment_def stepper_typed_def first_block_def seg_index_less split: if_split_asm)
qed

lemma timing_index [simp]: "seg_st_block_index (st_segment_timing c sg) = seg_st_block_index sg"
  by (simp add: st_segment_timing_def Let_def)

text \<open>
  The two outcomes of a round: in a hold there may be no step to execute, and only the segment at the head was
  written; or the segment is queued with its number of steps, and the block may end with it.
\<close>

definition new_segment :: "(f32 \<Rightarrow> int) \<Rightarrow> st_prep_t \<Rightarrow> st_prep_t \<Rightarrow> segment_t \<Rightarrow> bool" where
  "new_segment ub p q sg \<longleftrightarrow> (\<exists>c s. sg = st_segment_timing c s
     \<and> seg_n_step s = f_to_u16 ub (f_sub (f_ceil (prep_steps_remaining p)) (prep_steps_remaining q)))"

lemma prep_segment_cases:
  assumes "st_prep_segment i g = Some (c, h)"
  obtains p sg where "prep_base p = prep_base (prep (stepper g))"
      "seg_st_block_index sg = prep_st_block_index p"
      "h = set_step_control (bit_true (sys_step_control (sys g)) STEP_CONTROL_END_MOTION) (g\<lparr>stepper := put_segment sg p (stepper g)\<rparr>)"
    | p sg k mm where "prep_base p = prep_base ((prep (stepper g))\<lparr>prep_steps_remaining := prep_steps_remaining p\<rparr>)"
      "seg_st_block_index sg = prep_st_block_index p"
      "k = set_plan_block i ((plan_block g i)\<lparr>pb_millimeters := mm\<rparr>) (g\<lparr>stepper := push_segment (put_segment sg p (stepper g))\<rparr>)"
      "h = set_step_control (bit_true (sys_step_control (sys g)) STEP_CONTROL_END_MOTION) k
        \<or> h = plan_discard_current_block (k\<lparr>stepper := (stepper k)\<lparr>pl_block := None\<rparr>\<rparr>)
          \<and> f_eq mm (prep_mm_complete p) \<and> \<not> f_lt 0 mm \<or> h = k"
      "new_segment (w_cast (world g)) (prep (stepper g)) p sg" "prep_steps_remaining p = f_ceil (f_mul (prep_step_per_mm p) mm)"
proof -
  define b where "b = plan_block g i"
  define minimum where "minimum = (if f_lt (f_sub (pb_millimeters b) (prep_req_mm_increment (prep (stepper g)))) 0 then 0
    else f_sub (pb_millimeters b) (prep_req_mm_increment (prep (stepper g))))"
  obtain p dt mm where ramp: "st_ramp_loop b minimum (prep (stepper g)) DT_SEGMENT 0 DT_SEGMENT (pb_millimeters b) = Some (p, dt, mm)"
  proof (cases "st_ramp_loop b minimum (prep (stepper g)) DT_SEGMENT 0 DT_SEGMENT (pb_millimeters b)")
    case None
    with assms show ?thesis unfolding st_prep_segment_def Let_def b_def minimum_def by simp
  next
    case (Some r)
    then show ?thesis by (cases r) (simp add: that)
  qed
  have p: "prep_base p = prep_base (prep (stepper g))" using ramp by (rule ramp_base)
  define n_step where "n_step = f_to_u16 (w_cast (world g)) (f_sub (f_ceil (prep_steps_remaining p)) (f_ceil (f_mul (prep_step_per_mm p) mm)))"
  define sg where "sg = (segment_buffer (stepper g) ! unat (segment_buffer_head (stepper g)))\<lparr>seg_st_block_index := prep_st_block_index p, seg_n_step := n_step\<rparr>"
  define inv_rate where "inv_rate = f_div (f_add dt (prep_dt_remainder p)) (f_sub (f_ceil (prep_steps_remaining p)) (f_mul (prep_step_per_mm p) mm))"
  define sg' where "sg' = st_segment_timing (f_to_u32 (w_cast (world g)) (f_ceil (f_mul (f_of_int 960000000) inv_rate))) sg"
  define p' where "p' = p\<lparr>prep_steps_remaining := f_ceil (f_mul (prep_step_per_mm p) mm),
    prep_dt_remainder := f_mul (f_sub (f_ceil (f_mul (prep_step_per_mm p) mm)) (f_mul (prep_step_per_mm p) mm)) inv_rate\<rparr>"
  define k where "k = set_plan_block i ((plan_block g i)\<lparr>pb_millimeters := mm\<rparr>) (g\<lparr>stepper := push_segment (put_segment sg' p' (stepper g))\<rparr>)"
  have "h = (if n_step = 0 \<and> sc_true STEP_CONTROL_EXECUTE_HOLD g
      then set_step_control (bit_true (sys_step_control (sys g)) STEP_CONTROL_END_MOTION) (g\<lparr>stepper := put_segment sg p (stepper g)\<rparr>)
      else if f_eq mm (prep_mm_complete p) then
        if f_lt 0 mm \<or> sc_true STEP_CONTROL_EXECUTE_SYS_MOTION g
        then set_step_control (bit_true (sys_step_control (sys g)) STEP_CONTROL_END_MOTION) k
        else plan_discard_current_block (k\<lparr>stepper := (stepper k)\<lparr>pl_block := None\<rparr>\<rparr>)
      else k)"
    using assms ramp unfolding st_prep_segment_def Let_def b_def minimum_def
    by (auto simp: push_put_segment set_prep_def put_segment_def push_segment_def sc_true_def plan_block_def set_plan_block_def
        k_def p'_def sg'_def sg_def n_step_def inv_rate_def split: if_split_asm)
  moreover have "new_segment (w_cast (world g)) (prep (stepper g)) p' sg'"
  proof -
    have "seg_n_step sg = f_to_u16 (w_cast (world g)) (f_sub (f_ceil (prep_steps_remaining (prep (stepper g)))) (prep_steps_remaining p'))"
      using p by (simp add: sg_def n_step_def p'_def prep_base_def)
    then show ?thesis unfolding new_segment_def sg'_def by blast
  qed
  moreover have "prep_base p' = prep_base ((prep (stepper g))\<lparr>prep_steps_remaining := prep_steps_remaining p'\<rparr>)"
    "prep_steps_remaining p' = f_ceil (f_mul (prep_step_per_mm p') mm)" "prep_mm_complete p' = prep_mm_complete p"
    using p by (simp_all add: p'_def prep_base_def)
  ultimately show ?thesis
    using that(1) [of p sg] that(2) [of p' sg' k mm] p
    by (auto simp: sg_def sg'_def p'_def k_def split: if_split_asm)
qed

lemma prep_segment_ok:
  assumes run: "st_prep_segment i g = Some (c, h)" and ok: "motion_ok g" and i: "i < 12"
    and pl: "pl_block (stepper g) = Some i" and room: "segment_buffer_tail (stepper g) \<noteq> segment_next_head (stepper g)"
  shows "motion_ok h"
  using run
proof (cases rule: prep_segment_cases)
  case (1 p sg)
  with ok pl put_segment_ok [of "stepper g" p sg] show ?thesis
    by (simp add: motion_ok_def set_step_control_def prep_base_def)
next
  case (2 p sg k mm)
  let ?s = "put_segment sg p (stepper g)"
  have put: "stepper_typed ?s" "first_block ?s" using ok pl 2 put_segment_ok by (auto simp: motion_ok_def prep_base_def)
  have "pl_block ?s \<noteq> None" "segment_buffer_tail ?s \<noteq> segment_next_head ?s"
    "seg_st_block_index (segment_buffer ?s ! unat (segment_buffer_head ?s)) = prep_st_block_index (prep ?s)"
    using pl room 2 put(1) by (simp_all add: put_segment_def stepper_typed_def word_less_nat_alt)
  note push = push_segment_ok [OF put this]
  have g: "motion_ok (g\<lparr>stepper := push_segment ?s\<rparr>)" using ok push by (simp add: motion_ok_def)
  have k: "motion_ok k"
    unfolding 2(3) using g typed_block [of g i] ok by (intro set_block_ok) (simp_all add: motion_ok_def)
  have "stepper k = push_segment ?s" by (simp add: 2(3) set_plan_block_def)
  with push k have "motion_ok (k\<lparr>stepper := (stepper k)\<lparr>pl_block := None\<rparr>\<rparr>)"
    by (simp add: motion_ok_def stepper_typed_def first_block_def)
  with k 2(4) show ?thesis by (auto simp: set_step_control_def discard_ok)
qed

lemma prep_buffer_ok: "st_prep_buffer g = Some h \<Longrightarrow> motion_ok g \<Longrightarrow> motion_ok h"
proof -
  have "st_prep_loop g = Some h \<Longrightarrow> motion_ok g \<longrightarrow> motion_ok h" for g h
    apply (erule st_prep_loop.raw_induct [rotated, where P = "\<lambda>g h. motion_ok g \<longrightarrow> motion_ok h"])
    subgoal premises prems for loop g h
      using prems(2)
      by (auto simp: Option.bind_eq_Some_conv split: if_splits option.splits
          dest!: block_ready prep_segment_ok prems(1))
    done
  then show "st_prep_buffer g = Some h \<Longrightarrow> motion_ok g \<Longrightarrow> motion_ok h"
    by (auto simp: st_prep_buffer_def split: if_splits)
qed

section \<open>Interrupts of the stepper\<close>

definition stepping :: "grbl \<Rightarrow> bool" where
  "stepping g \<longleftrightarrow> motion_ok g \<and> st_exec_block (st (stepper g)) \<noteq> None"

text \<open>The block of the segment at the tail is known, so the pointer that is followed is not NULL.\<close>

lemma load_segment_ok:
  assumes ok: "motion_ok g" and none: "st_exec_segment (st (stepper g)) = None"
    and seg: "segment_buffer_head (stepper g) \<noteq> segment_buffer_tail (stepper g)"
  shows "stepping (st_load_segment g)"
proof -
  define s where "s = stepper g"
  define sg where "sg = segment_buffer s ! unat (segment_buffer_tail s)"
  have typed: "stepper_typed s" "first_block s" using ok by (simp_all add: motion_ok_def s_def)
  have sg: "seg_st_block_index sg < 5" using typed(1) by (simp add: stepper_typed_def sg_def word_less_nat_alt)
  obtain k where k: "(if st_exec_block_index (st s) \<noteq> seg_st_block_index sg then Some (seg_st_block_index sg)
      else st_exec_block (st s)) = Some k" and k5: "k < 5"
  proof (cases "st_exec_block_index (st s) = seg_st_block_index sg")
    case True
    with typed(2) seg have "st_exec_block (st s) \<noteq> None"
      by (auto simp: first_block_def s_def [symmetric] sg_def [symmetric] split: if_split_asm)
    with True typed(1) show ?thesis by (auto simp: stepper_typed_def intro: that)
  qed (use sg in \<open>simp add: that\<close>)
  define eb where "eb = st_block_buffer s ! unat k"
  have eb: "length (sb_steps eb) = 3" using typed(1) k5 by (simp add: eb_def stepper_typed_def word_less_nat_alt)
  obtain t where t: "stepper (st_load_segment g) = s\<lparr>st := t\<rparr>" "st_exec_segment t = Some (segment_buffer_tail s)"
      "st_exec_block t = Some k" "st_exec_block_index t = seg_st_block_index sg"
      "length (st_steps t) = length (sb_steps eb)"
    by (rule that [of "st (stepper (st_load_segment g))"])
      (use k in \<open>auto simp: st_load_segment_def Let_def s_def sg_def eb_def split: if_split_asm\<close>)
  moreover have "planner (st_load_segment g) = planner g" "sys_position (st_load_segment g) = sys_position g"
    by (simp_all add: st_load_segment_def Let_def)
  ultimately show ?thesis
    using ok typed sg k5 eb by (simp add: stepping_def motion_ok_def stepper_typed_def first_block_def)
qed

lemma running_block: "motion_ok g \<Longrightarrow> st_exec_segment (st (stepper g)) \<noteq> None \<Longrightarrow> stepping g"
  by (auto simp: stepping_def motion_ok_def first_block_def)

lemma step_axes_ok: "stepping g \<Longrightarrow> stepping (st_step_axes g)"
proof -
  have "length (step_position p d i x) = length x" for p d i x by (simp add: step_position_def)
  then show "stepping g \<Longrightarrow> stepping (st_step_axes g)"
    by (simp add: stepping_def st_step_axes_def Let_def split_def motion_ok_def stepper_typed_def first_block_def)
qed

lemma finish_step_ok: "stepping g \<Longrightarrow> stepping (st_finish_step g)"
  by (auto simp: stepping_def st_finish_step_def Let_def motion_ok_def stepper_typed_def first_block_def seg_index_less)

lemma timer1_ok: "motion_ok g \<Longrightarrow> motion_ok (isr_timer1_compa g)"
proof -
  assume ok: "motion_ok g"
  define t where "t = st (stepper g)"
  define p where "p = ((PORTD (hw g) AND NOT DIRECTION_MASK OR (st_dir_outbits t AND DIRECTION_MASK)) AND NOT STEP_MASK) OR st_step_outbits t"
  define a where "a = g\<lparr>hw := (hw g)\<lparr>PORTD := p, TCNT0 := st_step_pulse_time t, TCCR0B := 2\<rparr>, stepper := (stepper g)\<lparr>busy := True\<rparr>\<rparr>"
  have a: "motion_ok a" using ok by (simp add: a_def motion_ok_def stepper_typed_def first_block_def unprepared_def)
  have st: "st (stepper a) = t" "segment_buffer_head (stepper a) = segment_buffer_head (stepper g)"
    by (simp_all add: a_def t_def)
  define b where "b = (if st_exec_segment t = None then st_load_segment a else a)"
  define c where "c = (if sys_probe_state b = PROBE_ACTIVE then probe_state_monitor b else b)"
  have isr: "isr_timer1_compa g = (if busy (stepper g) then g
      else if st_exec_segment t = None \<and> segment_buffer_head (stepper a) = segment_buffer_tail (stepper a)
      then system_set_exec_state_flag EXEC_CYCLE_STOP (st_go_idle a) else st_finish_step (st_step_axes c))"
    by (simp add: isr_timer1_compa_def Let_def t_def p_def a_def b_def c_def)
  have "motion_ok (st_finish_step (st_step_axes c))"
    if "\<not> (st_exec_segment t = None \<and> segment_buffer_head (stepper a) = segment_buffer_tail (stepper a))"
  proof -
    have "stepping b" using a that load_segment_ok [of a] running_block [of a] by (auto simp: b_def st)
    then have "stepping c" by (simp add: c_def stepping_def probe_state_monitor_def motion_ok_def)
    then show ?thesis using finish_step_ok step_axes_ok stepping_def by blast
  qed
  with ok a show ?thesis unfolding isr by (simp add: idle_ok system_set_exec_state_flag_def)
qed

section \<open>Transport\<close>

lemma tx_flush_too_long:
  "llp_tx_line_idx (llp g) = 64 \<Longrightarrow> llp_transport_tx_flush g = g\<lparr>llp := (llp g)\<lparr>llp_tx_line_idx := 0\<rparr>\<rparr>"
  by (simp add: llp_transport_tx_flush_def llp_build_final_payload_def LLP_MAX_PAYLOAD_def Let_def)

lemma tx_write_ok: "tx_ok g \<Longrightarrow> tx_ok (serial_write b g)"
proof -
  assume ok: "tx_ok g"
  have len: "length (tx_line g) \<le> 63"
    using ok tx_ok_line_length [OF ok] by (simp add: tx_ok_def word_less_nat_alt)
  show ?thesis
  proof (cases "length (tx_line g) = 63")
    case True
    note s = tx_store_line [OF ok, of b]
    have "unat (llp_tx_line_idx (llp (tx_store b g))) = 64" using s(6) True tx_ok_line_length [OF ok] by simp
    then have "llp_tx_line_idx (llp (tx_store b g)) = 64" by (simp add: word_unat_eq_iff)
    then show ?thesis
      using s(3,4) True ok by (simp add: serial_write_store tx_flush_too_long tx_ok_def tx_wf_def llp_bufs_wf_def)
  next
    case False
    with len have "length (tx_line g) < 63" by simp
    then show ?thesis using ok tx_flush_line [OF ok] by (simp add: serial_write_store tx_store_ok)
  qed
qed

text \<open>Sending does not touch what receiving uses.\<close>

definition rx_view :: "grbl \<Rightarrow> u8 list \<times> u8 \<times> u8 \<times> llp_parser_t" where
  "rx_view g = (serial_rx_buffer (serial g), serial_rx_buffer_head (serial g), serial_rx_buffer_tail (serial g),
     llp_rx_parser (llp g))"

lemma rx_view_write: "rx_view (serial_write b g) = rx_view g"
proof -
  have udre: "rx_view (irq_udre g) = rx_view g" for g by (simp add: rx_view_def irq_udre_def isr_udre_def Let_def)
  have udres: "rx_view ((irq_udre ^^ n) g) = rx_view g" for n g by (induction n arbitrary: g) (simp_all add: udre)
  have world: "rx_view (g\<lparr>world := w\<rparr>) = rx_view g" for g w by (simp add: rx_view_def)
  have drain: "rx_view (tx_drain g) = rx_view g" for g by (simp add: tx_drain_def udres world split: list.splits)
  have put: "rx_view (set_UDRIE g) = rx_view g" "rx_view (tx_put b g) = rx_view g" for b g
    by (simp_all add: rx_view_def set_UDRIE_def tx_put_def)
  have drop: "rx_view (g\<lparr>llp := (llp g)\<lparr>llp_tx_dropped_count := c\<rparr>\<rparr>) = rx_view g" for g c by (simp add: rx_view_def)
  have push: "rx_view (llp_tx_push bs g) = rx_view g" for bs g
    by (induction bs g rule: llp_tx_push.induct) (simp_all add: Let_def drain put drop)
  have bufs: "rx_view (g\<lparr>llp := (llp g)\<lparr>llp_tx_line_idx := i\<rparr>\<rparr>) = rx_view g"
    "rx_view (g\<lparr>llp := (llp g)\<lparr>llp_tx_line_idx := i, llp_tx_payload_buf := x\<rparr>\<rparr>) = rx_view g"
    "rx_view (g\<lparr>llp := (llp g)\<lparr>llp_tx_line_idx := i, llp_tx_payload_buf := x, llp_tx_frame_buf := y\<rparr>\<rparr>) = rx_view g"
    "rx_view (g\<lparr>llp := (llp g)\<lparr>llp_tx_line_buf := x, llp_tx_line_idx := i\<rparr>\<rparr>) = rx_view g" for g i x y
    by (simp_all add: rx_view_def)
  have flush: "rx_view (llp_transport_tx_flush g) = rx_view g" for g
    by (simp add: llp_transport_tx_flush_def Let_def split_def push bufs)
  show ?thesis by (simp add: serial_write_def llp_transport_tx_byte_def Let_def flush bufs)
qed

lemma transport_write: "transport_ok g \<Longrightarrow> transport_ok (serial_write b g)"
  using rx_view_write [of b g] by (auto simp: transport_ok_def tx_write_ok rx_wf_def rx_view_def)

lemma transport_cong:
  "serial h = serial g \<Longrightarrow> llp h = llp g \<Longrightarrow> UDRIE0 (hw h) = UDRIE0 (hw g) \<Longrightarrow> transport_ok h = transport_ok g"
  by (simp add: transport_ok_def rx_wf_def tx_ok_def tx_wf_def llp_bufs_wf_def)

lemma reset_ports: "UDRIE0 (hw (mc_reset g)) = UDRIE0 (hw g)"
  by (simp add: mc_reset_def Let_def st_go_idle_def st_set_enable_pin_def system_set_exec_state_flag_def
      system_set_exec_alarm_def)

lemma transport_char: "transport_ok g \<Longrightarrow> transport_ok (llp_process_char c g)"
proof -
  assume ok: "transport_ok g"
  have flag: "transport_ok (system_set_exec_state_flag m g) = transport_ok g"
    "transport_ok (cmd_override c g) = transport_ok g" "transport_ok (mc_reset g) = transport_ok g" for m
    by (rule transport_cong; simp add: frame_simps reset_ports system_set_exec_state_flag_def cmd_override_def
        system_set_exec_motion_override_flag_def system_set_exec_accessory_override_flag_def)+
  have "transport_ok (llp_rx_buffer_write c g)"
    using ok by (simp add: transport_ok_def rx_write_wf) (simp add: llp_rx_buffer_write_def Let_def tx_ok_def tx_wf_def llp_bufs_wf_def)
  with ok show ?thesis by (simp add: llp_process_char_def flag)
qed

lemma transport_payload: "transport_ok g \<Longrightarrow> transport_ok (llp_process_payload cs g)"
  unfolding llp_process_payload_def by (induction cs arbitrary: g) (simp_all add: transport_char)

text \<open>The counters, and a new state of the parser.\<close>

lemma transport_llp:
  assumes "transport_ok g" and "llp_parser_wf (llp_rx_parser l)"
    and "llp_tx_line_buf l = llp_tx_line_buf (llp g)" "llp_tx_payload_buf l = llp_tx_payload_buf (llp g)"
      "llp_tx_frame_buf l = llp_tx_frame_buf (llp g)" "llp_tx_line_idx l = llp_tx_line_idx (llp g)"
  shows "transport_ok (g\<lparr>llp := l\<rparr>)"
  using assms by (simp add: transport_ok_def rx_wf_def tx_ok_def tx_wf_def llp_bufs_wf_def)

lemma transport_byte:
  assumes "llp_transport_rx_byte b g = Some h" and "transport_ok g"
  shows "transport_ok h"
proof -
  define a where "a = g\<lparr>llp := (llp g)\<lparr>llp_rx_raw_bytes := llp_rx_raw_bytes (llp g) + 1\<rparr>\<rparr>"
  obtain r p where rp: "llp_parser_process_byte (llp_rx_parser (llp a)) b (llp_ms_counter (llp a)) = (r, p)" by fastforce
  have p: "llp_parser_wf p"
    using llp_process_byte_wf [OF _ rp] assms(2) by (simp add: a_def transport_ok_def)
  have "transport_ok (g\<lparr>llp := (llp g)\<lparr>llp_rx_raw_bytes := x, llp_rx_parser := p\<rparr>\<rparr>)"
    "transport_ok (g\<lparr>llp := (llp g)\<lparr>llp_rx_raw_bytes := x, llp_rx_parser := p, llp_rx_frame_count := y\<rparr>\<rparr>)"
    "transport_ok (g\<lparr>llp := (llp g)\<lparr>llp_rx_raw_bytes := x, llp_rx_parser := p, llp_rx_error_count := y\<rparr>\<rparr>)"
    "transport_ok (g\<lparr>llp := (llp g)\<lparr>llp_rx_raw_bytes := x, llp_rx_parser := p, llp_rx_error_count := y, llp_rx_timeout_count := z\<rparr>\<rparr>)"
    for x y z by (rule transport_llp [OF assms(2)]; simp add: p)+
  with assms(1) rp show ?thesis
    by (auto simp: llp_transport_rx_byte_def Let_def a_def transport_payload split: if_split_asm option.split_asm prod.split_asm)
qed

section \<open>The whole state\<close>

text \<open>What the planner and the stepper leave alone, and what the transport leaves alone.\<close>

definition elsewhere :: "grbl \<Rightarrow> serial_vars \<times> llp_vars \<times> bool \<times> nat \<times> nat" where
  "elsewhere g = (serial g, llp g, UDRIE0 (hw g), length (line g), length (sys_probe_position g))"

definition mechanics :: "grbl \<Rightarrow> planner_vars \<times> stepper_vars \<times> nat \<times> nat \<times> nat" where
  "mechanics g = (planner g, stepper g, length (sys_position g), length (line g), length (sys_probe_position g))"

interpretation el: prep_frame elsewhere
  by unfold_locales (simp_all add: elsewhere_def)

interpretation me: print_frame mechanics
  by unfold_locales (simp_all add: mechanics_def)

lemma memory_elsewhere: "elsewhere h = elsewhere g \<Longrightarrow> motion_ok h \<Longrightarrow> memory_ok g \<Longrightarrow> memory_ok h"
  using transport_cong [of h g] by (simp add: memory_ok_def storage_ok_def elsewhere_def)

lemma memory_mechanics: "mechanics h = mechanics g \<Longrightarrow> transport_ok h \<Longrightarrow> memory_ok g \<Longrightarrow> memory_ok h"
  by (simp add: memory_ok_def storage_ok_def mechanics_def motion_ok_def)

lemma memory_motion: "memory_ok g \<Longrightarrow> motion_ok g" "memory_ok g \<Longrightarrow> transport_ok g"
  by (simp_all add: memory_ok_def storage_ok_def)

lemma stepper_elsewhere:
  "elsewhere (st_go_idle g) = elsewhere g" "elsewhere (st_wake_up g) = elsewhere g" "elsewhere (st_reset g) = elsewhere g"
  "elsewhere (st_generate_step_dir_invert_masks g) = elsewhere g"
  by (simp_all add: elsewhere_def st_go_idle_def st_wake_up_def st_reset_def st_generate_step_dir_invert_masks_def
      st_set_enable_pin_def Let_def)

lemma memory_fields:
  "memory_ok (g\<lparr>sys := a\<rparr>) = memory_ok g" "memory_ok (g\<lparr>sys_probe_state := c\<rparr>) = memory_ok g"
  "memory_ok (g\<lparr>sys_rt_exec_state := c\<rparr>) = memory_ok g" "memory_ok (g\<lparr>sys_rt_exec_alarm := c\<rparr>) = memory_ok g"
  "memory_ok (g\<lparr>sys_rt_exec_motion_override := c\<rparr>) = memory_ok g"
  "memory_ok (g\<lparr>sys_rt_exec_accessory_override := c\<rparr>) = memory_ok g"
  "memory_ok (g\<lparr>probe_invert_mask := c\<rparr>) = memory_ok g" "memory_ok (g\<lparr>world := k\<rparr>) = memory_ok g"
  "memory_ok (g\<lparr>settings := s\<rparr>) = memory_ok g" "memory_ok (g\<lparr>gc_state := t\<rparr>) = memory_ok g"
  "memory_ok (g\<lparr>eeprom := e\<rparr>) = memory_ok g"
  "UDRIE0 j = UDRIE0 (hw g) \<Longrightarrow> memory_ok (g\<lparr>hw := j\<rparr>) = memory_ok g"
  "length q = length (sys_position g) \<Longrightarrow> memory_ok (g\<lparr>sys_position := q\<rparr>) = memory_ok g"
  "length l = length (line g) \<Longrightarrow> memory_ok (g\<lparr>line := l\<rparr>) = memory_ok g"
  "memory_ok g \<Longrightarrow> length q = 3 \<Longrightarrow> memory_ok (g\<lparr>sys_probe_position := q\<rparr>)"
  by (simp_all add: memory_ok_def storage_ok_def motion_ok_def transport_ok_def rx_wf_def tx_ok_def tx_wf_def llp_bufs_wf_def)

lemma memory_flags:
  "memory_ok (system_set_exec_state_flag m g) = memory_ok g" "memory_ok (system_set_exec_alarm m g) = memory_ok g"
  by (simp_all add: system_set_exec_state_flag_def system_set_exec_alarm_def memory_fields)

lemma memory_idle: "memory_ok g \<Longrightarrow> memory_ok (st_go_idle g)"
  by (rule memory_elsewhere [OF stepper_elsewhere(1)]) (simp_all add: idle_ok memory_motion)

lemma memory_reset: "memory_ok g \<Longrightarrow> memory_ok (mc_reset g)"
  by (simp add: mc_reset_def Let_def memory_flags memory_idle)

text \<open>The step interrupt may copy the position to the probe position, which has the same length.\<close>

lemma timer1_elsewhere:
  "serial (isr_timer1_compa g) = serial g \<and> llp (isr_timer1_compa g) = llp g \<and> line (isr_timer1_compa g) = line g
    \<and> UDRIE0 (hw (isr_timer1_compa g)) = UDRIE0 (hw g)
    \<and> sys_probe_position (isr_timer1_compa g) \<in> {sys_probe_position g, sys_position g}"
proof -
  let ?e = "\<lambda>g. (serial g, llp g, line g, UDRIE0 (hw g))"
  have load: "?e (st_load_segment g) = ?e g \<and> sys_probe_position (st_load_segment g) = sys_probe_position g
      \<and> sys_position (st_load_segment g) = sys_position g" for g
    by (simp add: st_load_segment_def Let_def)
  have step: "?e (st_finish_step (st_step_axes g)) = ?e g
      \<and> sys_probe_position (st_finish_step (st_step_axes g)) = sys_probe_position g" for g
    by (simp add: st_finish_step_def st_step_axes_def Let_def split_def)
  have idle: "?e (st_go_idle g) = ?e g \<and> sys_probe_position (st_go_idle g) = sys_probe_position g" for g
    by (simp add: st_go_idle_def st_set_enable_pin_def Let_def)
  show ?thesis
    using load step idle
    by (simp add: isr_timer1_compa_def Let_def system_set_exec_state_flag_def probe_state_monitor_def)
qed

lemma memory_timer1: "memory_ok g \<Longrightarrow> memory_ok (isr_timer1_compa g)"
proof -
  assume ok: "memory_ok g"
  then have "length (sys_probe_position (isr_timer1_compa g)) = 3"
    using timer1_elsewhere [of g] by (auto simp: memory_ok_def storage_ok_def motion_ok_def)
  with ok show ?thesis
    using timer1_elsewhere [of g] transport_cong [of "isr_timer1_compa g" g]
    by (simp add: memory_ok_def storage_ok_def timer1_ok)
qed

lemma memory_receive:
  assumes "llp_transport_rx_byte b g = Some h" and ok: "memory_ok g"
  shows "memory_ok h"
proof -
  have free: "storage_ok (g\<lparr>serial := s\<rparr>) = storage_ok g" "storage_ok (g\<lparr>llp := l\<rparr>) = storage_ok g"
    "storage_ok (system_set_exec_state_flag m g) = storage_ok g" "storage_ok (cmd_override c g) = storage_ok g" for g s l m c
    by (simp_all add: storage_ok_def system_set_exec_state_flag_def cmd_override_def
        system_set_exec_motion_override_flag_def system_set_exec_accessory_override_flag_def)
  have reset: "storage_ok (mc_reset g) = storage_ok g" for g
    by (simp add: mc_reset_def Let_def storage_ok_def idle_ok system_set_exec_state_flag_def system_set_exec_alarm_def)
      (simp add: st_go_idle_def st_set_enable_pin_def Let_def)
  have char: "storage_ok (llp_process_char c g) = storage_ok g" for c g
    by (simp add: llp_process_char_def free reset llp_rx_buffer_write_def Let_def)
  have "storage_ok (llp_process_payload cs g) = storage_ok g" for cs g
    unfolding llp_process_payload_def by (induction cs arbitrary: g) (simp_all add: char)
  then have "storage_ok h = storage_ok g"
    using assms(1) by (auto simp: llp_transport_rx_byte_def Let_def free split: if_split_asm option.split_asm prod.split_asm)
  with ok transport_byte [OF assms(1)] show ?thesis by (simp add: memory_ok_def)
qed

lemma memory_udre: "memory_ok g \<Longrightarrow> memory_ok (irq_udre g)"
proof -
  assume ok: "memory_ok g"
  have "rx_view (irq_udre g) = rx_view g" by (simp add: rx_view_def irq_udre_def isr_udre_def Let_def)
  then have "transport_ok (irq_udre g)"
    using ok irq_udre_wire [of g]
    by (auto simp: memory_ok_def transport_ok_def tx_ok_def llp_bufs_wf_def rx_wf_def rx_view_def)
  with ok show ?thesis by (intro memory_mechanics [OF me.send(1)])
qed

lemma memory_irq: "run_irq i g = Some h \<Longrightarrow> memory_ok g \<Longrightarrow> memory_ok h"
proof (cases i)
  case Irq_Timer2_Ovf
  assume "run_irq i g = Some h" and ok: "memory_ok g"
  with Irq_Timer2_Ovf have h: "h = g\<lparr>llp := (llp g)\<lparr>llp_ms_counter := llp_ms_counter (llp g) + 1\<rparr>\<rparr>"
    by (simp add: run_irq_def isr_timer2_ovf_def)
  have "transport_ok h" unfolding h using ok by (intro transport_llp) (auto simp: memory_ok_def transport_ok_def)
  with ok show ?thesis by (intro memory_mechanics [of h g]) (simp_all add: h mechanics_def)
qed (auto simp: run_irq_def isr_timer0_ovf_def isr_limit_def isr_control_def Let_def memory_fields memory_flags memory_timer1
    memory_reset memory_udre dest: memory_receive)

lemma memory_write: "memory_ok g \<Longrightarrow> memory_ok (serial_write b g)"
  by (rule memory_mechanics [OF me.send(2)]) (simp_all add: memory_motion transport_write)

interpretation mem: realtime_closed memory_ok
proof unfold_locales
  fix g h i t pd b j p a c k s
  show "memory_ok g \<Longrightarrow> memory_ok (serial_write b g)" by (rule memory_write)
  show "memory_ok g \<Longrightarrow> memory_ok (g\<lparr>sys_probe_position := sys_position g\<rparr>)"
    by (rule memory_fields(15)) (simp_all add: memory_ok_def storage_ok_def motion_ok_def)
  show "st_prep_buffer g = Some h \<Longrightarrow> memory_ok g \<longrightarrow> memory_ok h"
    by (auto dest: el.prep_buffer prep_buffer_ok memory_motion intro: memory_elsewhere)
  show "run_irq i g = Some h \<Longrightarrow> memory_ok g \<longrightarrow> memory_ok h" by (simp add: memory_irq)
qed (auto simp: memory_fields stepper_elsewhere el.blocks el.replan memory_motion(1) idle_ok wake_up_ok st_reset_ok plan_reset_ok
    plan_sync_ok reinitialize_ok velocity_ok update_parameters_ok buffer_line_ok intro: memory_elsewhere)

end
