(* ===== verification/Settings.thy ===== *)
theory Settings
  imports Eeprom Status Realtime
begin

text \<open>
  settings.c: the settings and their image in the EEPROM (85 bytes, little-endian, in the order of
  the struct), the coordinate data, startup lines and build info, the defaults, and the commands
  that change a setting. Functions that wait for the planner return \<open>None\<close> when it never drains.
\<close>

definition SETTINGS_VERSION :: u8 where "SETTINGS_VERSION = 10"
definition EEPROM_ADDR_GLOBAL :: u16 where "EEPROM_ADDR_GLOBAL = 1"
definition EEPROM_ADDR_PARAMETERS :: u16 where "EEPROM_ADDR_PARAMETERS = 512"
definition EEPROM_ADDR_STARTUP_BLOCK :: u16 where "EEPROM_ADDR_STARTUP_BLOCK = 768"
definition EEPROM_ADDR_BUILD_INFO :: u16 where "EEPROM_ADDR_BUILD_INFO = 942"
definition SETTING_INDEX_NCOORD :: u8 where "SETTING_INDEX_NCOORD = 7"
definition SETTING_INDEX_G28 :: u8 where "SETTING_INDEX_G28 = 6"
definition SETTING_INDEX_G30 :: u8 where "SETTING_INDEX_G30 = 7"
definition AXIS_N_SETTINGS :: u8 where "AXIS_N_SETTINGS = 4"
definition AXIS_SETTINGS_START_VAL :: u8 where "AXIS_SETTINGS_START_VAL = 100"
definition AXIS_SETTINGS_INCREMENT :: u8 where "AXIS_SETTINGS_INCREMENT = 10"
definition SETTINGS_RESTORE_DEFAULTS :: u8 where "SETTINGS_RESTORE_DEFAULTS = 0x01"
definition SETTINGS_RESTORE_PARAMETERS :: u8 where "SETTINGS_RESTORE_PARAMETERS = 0x02"
definition SETTINGS_RESTORE_STARTUP_LINES :: u8 where "SETTINGS_RESTORE_STARTUP_LINES = 0x04"
definition SETTINGS_RESTORE_BUILD_INFO :: u8 where "SETTINGS_RESTORE_BUILD_INFO = 0x08"
definition SETTINGS_RESTORE_ALL :: u8 where "SETTINGS_RESTORE_ALL = 0xFF"

lemmas settings_consts [grbl_consts] =
  SETTINGS_VERSION_def EEPROM_ADDR_GLOBAL_def EEPROM_ADDR_PARAMETERS_def
  EEPROM_ADDR_STARTUP_BLOCK_def EEPROM_ADDR_BUILD_INFO_def SETTING_INDEX_NCOORD_def
  SETTING_INDEX_G28_def SETTING_INDEX_G30_def AXIS_N_SETTINGS_def AXIS_SETTINGS_START_VAL_def
  AXIS_SETTINGS_INCREMENT_def SETTINGS_RESTORE_DEFAULTS_def SETTINGS_RESTORE_PARAMETERS_def
  SETTINGS_RESTORE_STARTUP_LINES_def SETTINGS_RESTORE_BUILD_INFO_def SETTINGS_RESTORE_ALL_def

section \<open>The memory image of the settings\<close>

definition floats_bytes :: "f32 list \<Rightarrow> u8 list" where
  "floats_bytes fs = concat (map f_bytes fs)"

definition float_at :: "nat \<Rightarrow> u8 list \<Rightarrow> f32" where
  "float_at i bs = f_of_bytes (take 4 (drop i bs))"

definition vector_at :: "nat \<Rightarrow> u8 list \<Rightarrow> f32 list" where
  "vector_at i bs = [float_at i bs, float_at (i + 4) bs, float_at (i + 8) bs]"

definition settings_bytes :: "settings_t \<Rightarrow> u8 list" where
  "settings_bytes s =
     floats_bytes (set_steps_per_mm s @ set_max_rate s @ set_acceleration s @ set_max_travel s)
     @ [set_pulse_microseconds s, set_step_invert_mask s, set_dir_invert_mask s,
        set_stepper_idle_lock_time s, set_status_report_mask s]
     @ floats_bytes [set_junction_deviation s, set_arc_tolerance s, set_rpm_max s, set_rpm_min s]
     @ [set_flags s, set_homing_dir_mask s]
     @ floats_bytes [set_homing_feed_rate s, set_homing_seek_rate s]
     @ [ucast (set_homing_debounce_delay s), ucast (drop_bit 8 (set_homing_debounce_delay s))]
     @ floats_bytes [set_homing_pulloff s]"

definition settings_of_bytes :: "u8 list \<Rightarrow> settings_t" where
  "settings_of_bytes bs =
     \<lparr>set_steps_per_mm = vector_at 0 bs, set_max_rate = vector_at 12 bs,
      set_acceleration = vector_at 24 bs, set_max_travel = vector_at 36 bs,
      set_pulse_microseconds = bs ! 48, set_step_invert_mask = bs ! 49, set_dir_invert_mask = bs ! 50,
      set_stepper_idle_lock_time = bs ! 51, set_status_report_mask = bs ! 52,
      set_junction_deviation = float_at 53 bs, set_arc_tolerance = float_at 57 bs,
      set_rpm_max = float_at 61 bs, set_rpm_min = float_at 65 bs,
      set_flags = bs ! 69, set_homing_dir_mask = bs ! 70,
      set_homing_feed_rate = float_at 71 bs, set_homing_seek_rate = float_at 75 bs,
      set_homing_debounce_delay = ucast (bs ! 79) OR push_bit 8 (ucast (bs ! 80)),
      set_homing_pulloff = float_at 81 bs\<rparr>"

definition defaults :: settings_t where
  "defaults =
     \<lparr>set_steps_per_mm = replicate 3 (f_of_int 250), set_max_rate = replicate 3 (f_of_int 500),
      set_acceleration = replicate 3 (f_of_int 36000),
      set_max_travel = replicate 3 (f_neg (f_of_int 200)),
      set_pulse_microseconds = 10, set_step_invert_mask = 0, set_dir_invert_mask = 0,
      set_stepper_idle_lock_time = 25, set_status_report_mask = 1,
      set_junction_deviation = f_dec 1 2, set_arc_tolerance = f_dec 2 3,
      set_rpm_max = f_of_int 1000, set_rpm_min = 0, set_flags = 0, set_homing_dir_mask = 0,
      set_homing_feed_rate = f_of_int 25, set_homing_seek_rate = f_of_int 500,
      set_homing_debounce_delay = 250, set_homing_pulloff = f_of_int 1\<rparr>"

section \<open>Storing and reading\<close>

definition startup_addr :: "u8 \<Rightarrow> u16" where
  "startup_addr n = ucast n * (ucast LINE_BUFFER_SIZE + 1) + EEPROM_ADDR_STARTUP_BLOCK"

definition coord_addr :: "u8 \<Rightarrow> u16" where
  "coord_addr coord_select = ucast coord_select * 13 + EEPROM_ADDR_PARAMETERS"

text \<open>The copies have a fixed size: \<open>LINE_BUFFER_SIZE\<close> bytes of a line, 12 of a vector.\<close>

definition settings_store_startup_line :: "u8 \<Rightarrow> u8 list \<Rightarrow> grbl \<Rightarrow> grbl option" where
  "settings_store_startup_line n l g =
     map_option (memcpy_to_eeprom_with_checksum (startup_addr n) (take (unat LINE_BUFFER_SIZE) l))
       (protocol_buffer_synchronize g)"

definition settings_store_build_info :: "u8 list \<Rightarrow> grbl \<Rightarrow> grbl" where
  "settings_store_build_info l g = memcpy_to_eeprom_with_checksum EEPROM_ADDR_BUILD_INFO (take (unat LINE_BUFFER_SIZE) l) g"

text \<open>The data is read through a pointer once the wait is over, so it may depend on the state then.\<close>

definition settings_write_coord_data :: "u8 \<Rightarrow> (grbl \<Rightarrow> f32 list) \<Rightarrow> grbl \<Rightarrow> grbl option" where
  "settings_write_coord_data coord_select coord_data g =
     map_option (\<lambda>g. memcpy_to_eeprom_with_checksum (coord_addr coord_select) (take 12 (floats_bytes (coord_data g))) g)
       (protocol_buffer_synchronize g)"

definition write_global_settings :: "grbl \<Rightarrow> grbl" where
  "write_global_settings g =
     memcpy_to_eeprom_with_checksum EEPROM_ADDR_GLOBAL (settings_bytes (settings g))
       (eeprom_put_char 0 SETTINGS_VERSION g)"

definition settings_restore :: "u8 \<Rightarrow> grbl \<Rightarrow> grbl option" where
  "settings_restore restore_flag g =
     (let g = (if bit_istrue restore_flag SETTINGS_RESTORE_DEFAULTS
               then write_global_settings (g\<lparr>settings := defaults\<rparr>) else g);
          startup = (\<lambda>g. if bit_istrue restore_flag SETTINGS_RESTORE_STARTUP_LINES then
                  eeprom_put_char (EEPROM_ADDR_STARTUP_BLOCK + (ucast LINE_BUFFER_SIZE + 2)) 0
                    (eeprom_put_char (EEPROM_ADDR_STARTUP_BLOCK + (ucast LINE_BUFFER_SIZE + 1)) 0
                      (eeprom_put_char (EEPROM_ADDR_STARTUP_BLOCK + 1) 0
                        (eeprom_put_char EEPROM_ADDR_STARTUP_BLOCK 0 g)))
                else g);
          build_info = (\<lambda>g. if bit_istrue restore_flag SETTINGS_RESTORE_BUILD_INFO then
                  eeprom_put_char (EEPROM_ADDR_BUILD_INFO + 1) 0
                    (eeprom_put_char EEPROM_ADDR_BUILD_INFO 0 g)
                else g)
      in map_option (build_info \<circ> startup)
           (if bit_istrue restore_flag SETTINGS_RESTORE_PARAMETERS
            then each (\<lambda>i. settings_write_coord_data i (\<lambda>g. vec0)) [0, 1, 2, 3, 4, 5, 6, 7] g
            else Some g))"

text \<open>The reads return the success, the data and the state; a failed read writes the default.\<close>

definition settings_read_startup_line :: "u8 \<Rightarrow> grbl \<Rightarrow> (bool \<times> u8 list \<times> grbl) option" where
  "settings_read_startup_line n g =
     (let (l, ok) = memcpy_from_eeprom_with_checksum (startup_addr n) (unat LINE_BUFFER_SIZE) g in
      if ok then Some (True, l, g)
      else
        let l = l[0 := 0]
        in map_option (\<lambda>g. (False, l, g)) (settings_store_startup_line n l g))"

definition settings_read_build_info :: "grbl \<Rightarrow> bool \<times> u8 list \<times> grbl" where
  "settings_read_build_info g =
     (let (l, ok) = memcpy_from_eeprom_with_checksum EEPROM_ADDR_BUILD_INFO (unat LINE_BUFFER_SIZE) g in
      if ok then (True, l, g)
      else let l = l[0 := 0] in (False, l, settings_store_build_info l g))"

definition settings_read_coord_data :: "u8 \<Rightarrow> grbl \<Rightarrow> (bool \<times> f32 list \<times> grbl) option" where
  "settings_read_coord_data coord_select g =
     (let (bs, ok) = memcpy_from_eeprom_with_checksum (coord_addr coord_select) 12 g in
      if ok then Some (True, vector_at 0 bs, g)
      else map_option (\<lambda>g. (False, vec0, g)) (settings_write_coord_data coord_select (\<lambda>g. vec0) g))"

definition read_global_settings :: "grbl \<Rightarrow> bool \<times> grbl" where
  "read_global_settings g =
     (if eeprom_get_char 0 g = SETTINGS_VERSION then
        let (bs, ok) = memcpy_from_eeprom_with_checksum EEPROM_ADDR_GLOBAL 85 g
        in (ok, g\<lparr>settings := settings_of_bytes bs\<rparr>)
      else (False, g))"

definition settings_init :: "grbl \<Rightarrow> grbl option" where
  "settings_init g =
     (let (ok, g) = read_global_settings g in
      if ok then Some g
      else map_option report_grbl_settings
             (settings_restore SETTINGS_RESTORE_ALL (report_status_message STATUS_SETTING_READ_FAIL g)))"

section \<open>Changing a setting\<close>

text \<open>
  The search for the axis setting of a number: the kind of the setting and the axis. \<open>n\<close> counts
  the rounds that the loop condition still allows.
\<close>

fun axis_setting :: "nat \<Rightarrow> u8 \<Rightarrow> u8 \<Rightarrow> (u8 \<times> nat) option" where
  "axis_setting 0 set_idx parameter = None"
| "axis_setting (Suc n) set_idx parameter =
     (if parameter < 3 then Some (set_idx, unat parameter)
      else
        let set_idx = set_idx + 1 in
        if parameter < AXIS_SETTINGS_INCREMENT \<or> set_idx = AXIS_N_SETTINGS then None
        else axis_setting n set_idx (parameter - AXIS_SETTINGS_INCREMENT))"

definition set_axis_setting :: "u8 \<Rightarrow> nat \<Rightarrow> f32 \<Rightarrow> settings_t \<Rightarrow> settings_t" where
  "set_axis_setting set_idx i v s =
     (if set_idx = 0 then s\<lparr>set_steps_per_mm := (set_steps_per_mm s)[i := v]\<rparr>
      else if set_idx = 1 then s\<lparr>set_max_rate := (set_max_rate s)[i := v]\<rparr>
      else if set_idx = 2 then
        s\<lparr>set_acceleration := (set_acceleration s)[i := f_mul (f_mul v (f_of_int 60)) (f_of_int 60)]\<rparr>
      else s\<lparr>set_max_travel := (set_max_travel s)[i := f_neg v]\<rparr>)"

definition set_flag :: "u8 \<Rightarrow> u8 \<Rightarrow> grbl \<Rightarrow> grbl" where
  "set_flag m int_value g =
     g\<lparr>settings := (settings g)\<lparr>set_flags := (if int_value \<noteq> 0 then bit_true (set_flags (settings g)) m
                                              else bit_false (set_flags (settings g)) m)\<rparr>\<rparr>"

definition set_value_setting :: "u8 \<Rightarrow> f32 \<Rightarrow> grbl \<Rightarrow> (u8 + grbl) option" where
  "set_value_setting parameter v g =
     (let int_value = f_to_u8 (w_cast (world g)) (f_trunc v); s = settings g;
          ok = (\<lambda>s. Some (Inr (g\<lparr>settings := s\<rparr>)))
      in if parameter = 0 then
           (if int_value < 3 then Some (Inl STATUS_SETTING_STEP_PULSE_MIN)
            else ok (s\<lparr>set_pulse_microseconds := int_value\<rparr>))
         else if parameter = 1 then ok (s\<lparr>set_stepper_idle_lock_time := int_value\<rparr>)
         else if parameter = 2 then
           Some (Inr (st_generate_step_dir_invert_masks (g\<lparr>settings := s\<lparr>set_step_invert_mask := int_value\<rparr>\<rparr>)))
         else if parameter = 3 then
           Some (Inr (st_generate_step_dir_invert_masks (g\<lparr>settings := s\<lparr>set_dir_invert_mask := int_value\<rparr>\<rparr>)))
         else if parameter = 4 then Some (Inr (set_flag BITFLAG_INVERT_ST_ENABLE int_value g))
         else if parameter = 5 then Some (Inr (set_flag BITFLAG_INVERT_LIMIT_PINS int_value g))
         else if parameter = 6 then
           Some (Inr (probe_configure_invert_mask False (set_flag BITFLAG_INVERT_PROBE_PIN int_value g)))
         else if parameter = 10 then ok (s\<lparr>set_status_report_mask := int_value\<rparr>)
         else if parameter = 11 then ok (s\<lparr>set_junction_deviation := v\<rparr>)
         else if parameter = 12 then ok (s\<lparr>set_arc_tolerance := v\<rparr>)
         else if parameter = 13 then
           map_option Inr (system_flag_wco_change (set_flag BITFLAG_REPORT_INCHES int_value g))
         else if parameter = 20 then
           (if int_value \<noteq> 0 \<and> bit_isfalse (set_flags s) BITFLAG_HOMING_ENABLE
            then Some (Inl STATUS_SOFT_LIMIT_ERROR)
            else Some (Inr (set_flag BITFLAG_SOFT_LIMIT_ENABLE int_value g)))
         else if parameter = 21 then
           Some (Inr (limits_init (set_flag BITFLAG_HARD_LIMIT_ENABLE int_value g)))
         else if parameter = 22 then
           (let g = set_flag BITFLAG_HOMING_ENABLE int_value g in
            Some (Inr (if int_value \<noteq> 0 then g else set_flag BITFLAG_SOFT_LIMIT_ENABLE 0 g)))
         else if parameter = 23 then ok (s\<lparr>set_homing_dir_mask := int_value\<rparr>)
         else if parameter = 24 then ok (s\<lparr>set_homing_feed_rate := v\<rparr>)
         else if parameter = 25 then ok (s\<lparr>set_homing_seek_rate := v\<rparr>)
         else if parameter = 26 then ok (s\<lparr>set_homing_debounce_delay := ucast int_value\<rparr>)
         else if parameter = 27 then ok (s\<lparr>set_homing_pulloff := v\<rparr>)
         else if parameter = 30 then Some (Inr (spindle_init (g\<lparr>settings := s\<lparr>set_rpm_max := v\<rparr>\<rparr>)))
         else if parameter = 31 then Some (Inr (spindle_init (g\<lparr>settings := s\<lparr>set_rpm_min := v\<rparr>\<rparr>)))
         else if parameter = 32 then Some (Inl STATUS_SETTING_DISABLED_LASER)
         else Some (Inl STATUS_INVALID_STATEMENT))"

definition settings_store_global_setting :: "u8 \<Rightarrow> f32 \<Rightarrow> grbl \<Rightarrow> (u8 \<times> grbl) option" where
  "settings_store_global_setting parameter v g =
     (if f_lt v 0 then Some (STATUS_NEGATIVE_VALUE, g)
      else
        map_option (case_sum (\<lambda>e. (e, g)) (\<lambda>g. (STATUS_OK, write_global_settings g)))
          (if parameter \<ge> AXIS_SETTINGS_START_VAL then
             Some (case axis_setting (unat AXIS_N_SETTINGS) 0 (parameter - AXIS_SETTINGS_START_VAL) of
                     None \<Rightarrow> Inl STATUS_INVALID_STATEMENT
                   | Some (set_idx, i) \<Rightarrow>
                       Inr (g\<lparr>settings := set_axis_setting set_idx i v (settings g)\<rparr>))
           else set_value_setting parameter v g))"

end
