(* ===== verification/Gcode_Parse.thy ===== *)
theory Gcode_Parse
  imports Motion Settings
begin

text \<open>
  gcode.c, first part: the words of a line (steps 1 and 2 of \<open>gc_execute_line\<close>). An error is
  \<open>Inl\<close> of its status code. \<open>gc_block\<close> is cleared at the start of every line and not read
  elsewhere, so the model passes it along.
\<close>

section \<open>Constants (gcode.h, gcode.c)\<close>

definition MODAL_GROUP_G0 :: nat where "MODAL_GROUP_G0 = 0"
definition MODAL_GROUP_G1 :: nat where "MODAL_GROUP_G1 = 1"
definition MODAL_GROUP_G2 :: nat where "MODAL_GROUP_G2 = 2"
definition MODAL_GROUP_G3 :: nat where "MODAL_GROUP_G3 = 3"
definition MODAL_GROUP_G4 :: nat where "MODAL_GROUP_G4 = 4"
definition MODAL_GROUP_G5 :: nat where "MODAL_GROUP_G5 = 5"
definition MODAL_GROUP_G6 :: nat where "MODAL_GROUP_G6 = 6"
definition MODAL_GROUP_G7 :: nat where "MODAL_GROUP_G7 = 7"
definition MODAL_GROUP_G12 :: nat where "MODAL_GROUP_G12 = 9"
definition MODAL_GROUP_G13 :: nat where "MODAL_GROUP_G13 = 10"
definition MODAL_GROUP_M4 :: nat where "MODAL_GROUP_M4 = 11"
definition MODAL_GROUP_M7 :: nat where "MODAL_GROUP_M7 = 12"
definition MODAL_GROUP_M8 :: nat where "MODAL_GROUP_M8 = 13"
definition NON_MODAL_NO_ACTION :: u8 where "NON_MODAL_NO_ACTION = 0"
definition NON_MODAL_DWELL :: u8 where "NON_MODAL_DWELL = 4"
definition NON_MODAL_SET_COORDINATE_DATA :: u8 where "NON_MODAL_SET_COORDINATE_DATA = 10"
definition NON_MODAL_GO_HOME_0 :: u8 where "NON_MODAL_GO_HOME_0 = 28"
definition NON_MODAL_SET_HOME_0 :: u8 where "NON_MODAL_SET_HOME_0 = 38"
definition NON_MODAL_GO_HOME_1 :: u8 where "NON_MODAL_GO_HOME_1 = 30"
definition NON_MODAL_SET_HOME_1 :: u8 where "NON_MODAL_SET_HOME_1 = 40"
definition NON_MODAL_ABSOLUTE_OVERRIDE :: u8 where "NON_MODAL_ABSOLUTE_OVERRIDE = 53"
definition NON_MODAL_SET_COORDINATE_OFFSET :: u8 where "NON_MODAL_SET_COORDINATE_OFFSET = 92"
definition NON_MODAL_RESET_COORDINATE_OFFSET :: u8 where "NON_MODAL_RESET_COORDINATE_OFFSET = 102"
definition MOTION_MODE_SEEK :: u8 where "MOTION_MODE_SEEK = 0"
definition MOTION_MODE_LINEAR :: u8 where "MOTION_MODE_LINEAR = 1"
definition MOTION_MODE_CW_ARC :: u8 where "MOTION_MODE_CW_ARC = 2"
definition MOTION_MODE_CCW_ARC :: u8 where "MOTION_MODE_CCW_ARC = 3"
definition MOTION_MODE_PROBE_TOWARD :: u8 where "MOTION_MODE_PROBE_TOWARD = 140"
definition MOTION_MODE_PROBE_TOWARD_NO_ERROR :: u8 where "MOTION_MODE_PROBE_TOWARD_NO_ERROR = 141"
definition MOTION_MODE_PROBE_AWAY :: u8 where "MOTION_MODE_PROBE_AWAY = 142"
definition MOTION_MODE_PROBE_AWAY_NO_ERROR :: u8 where "MOTION_MODE_PROBE_AWAY_NO_ERROR = 143"
definition MOTION_MODE_NONE :: u8 where "MOTION_MODE_NONE = 80"
definition PLANE_SELECT_XY :: u8 where "PLANE_SELECT_XY = 0"
definition PLANE_SELECT_ZX :: u8 where "PLANE_SELECT_ZX = 1"
definition DISTANCE_MODE_ABSOLUTE :: u8 where "DISTANCE_MODE_ABSOLUTE = 0"
definition FEED_RATE_MODE_UNITS_PER_MIN :: u8 where "FEED_RATE_MODE_UNITS_PER_MIN = 0"
definition FEED_RATE_MODE_INVERSE_TIME :: u8 where "FEED_RATE_MODE_INVERSE_TIME = 1"
definition UNITS_MODE_INCHES :: u8 where "UNITS_MODE_INCHES = 1"
definition PROGRAM_FLOW_PAUSED :: u8 where "PROGRAM_FLOW_PAUSED = 3"
definition WORD_F :: nat where "WORD_F = 0"
definition WORD_I :: nat where "WORD_I = 1"
definition WORD_J :: nat where "WORD_J = 2"
definition WORD_K :: nat where "WORD_K = 3"
definition WORD_L :: nat where "WORD_L = 4"
definition WORD_N :: nat where "WORD_N = 5"
definition WORD_P :: nat where "WORD_P = 6"
definition WORD_R :: nat where "WORD_R = 7"
definition WORD_S :: nat where "WORD_S = 8"
definition WORD_T :: nat where "WORD_T = 9"
definition WORD_X :: nat where "WORD_X = 10"
definition WORD_Y :: nat where "WORD_Y = 11"
definition WORD_Z :: nat where "WORD_Z = 12"
definition AXIS_COMMAND_NONE :: u8 where "AXIS_COMMAND_NONE = 0"
definition AXIS_COMMAND_NON_MODAL :: u8 where "AXIS_COMMAND_NON_MODAL = 1"
definition AXIS_COMMAND_MOTION_MODE :: u8 where "AXIS_COMMAND_MOTION_MODE = 2"
definition MAX_LINE_NUMBER :: int where "MAX_LINE_NUMBER = 10000000"
definition MAX_TOOL_NUMBER :: int where "MAX_TOOL_NUMBER = 255"
definition N_COORDINATE_SYSTEM :: u8 where "N_COORDINATE_SYSTEM = 6"

lemmas gcode_consts [grbl_consts] =
  MODAL_GROUP_G0_def MODAL_GROUP_G1_def MODAL_GROUP_G2_def MODAL_GROUP_G3_def MODAL_GROUP_G4_def
  MODAL_GROUP_G5_def MODAL_GROUP_G6_def MODAL_GROUP_G7_def MODAL_GROUP_G12_def MODAL_GROUP_G13_def
  MODAL_GROUP_M4_def MODAL_GROUP_M7_def MODAL_GROUP_M8_def NON_MODAL_NO_ACTION_def
  NON_MODAL_DWELL_def NON_MODAL_SET_COORDINATE_DATA_def NON_MODAL_GO_HOME_0_def
  NON_MODAL_SET_HOME_0_def NON_MODAL_GO_HOME_1_def NON_MODAL_SET_HOME_1_def
  NON_MODAL_ABSOLUTE_OVERRIDE_def NON_MODAL_SET_COORDINATE_OFFSET_def
  NON_MODAL_RESET_COORDINATE_OFFSET_def MOTION_MODE_SEEK_def MOTION_MODE_LINEAR_def
  MOTION_MODE_CW_ARC_def MOTION_MODE_CCW_ARC_def MOTION_MODE_PROBE_TOWARD_def
  MOTION_MODE_PROBE_TOWARD_NO_ERROR_def MOTION_MODE_PROBE_AWAY_def
  MOTION_MODE_PROBE_AWAY_NO_ERROR_def MOTION_MODE_NONE_def PLANE_SELECT_XY_def PLANE_SELECT_ZX_def
  DISTANCE_MODE_ABSOLUTE_def FEED_RATE_MODE_UNITS_PER_MIN_def FEED_RATE_MODE_INVERSE_TIME_def
  UNITS_MODE_INCHES_def PROGRAM_FLOW_PAUSED_def WORD_F_def WORD_I_def WORD_J_def WORD_K_def
  WORD_L_def WORD_N_def WORD_P_def WORD_R_def WORD_S_def WORD_T_def WORD_X_def WORD_Y_def
  WORD_Z_def AXIS_COMMAND_NONE_def AXIS_COMMAND_NON_MODAL_def AXIS_COMMAND_MOTION_MODE_def
  MAX_LINE_NUMBER_def MAX_TOOL_NUMBER_def N_COORDINATE_SYSTEM_def

section \<open>The parser's local variables\<close>

record gc_parse_t =
  gp_block :: parser_block_t
  gp_axis_command :: u8
  gp_axis_words :: u8
  gp_ijk_words :: u8
  gp_command_words :: u16
  gp_value_words :: u16
  gp_flags :: u8

definition gp_modal :: "gc_parse_t \<Rightarrow> gc_modal_t" where
  "gp_modal p = blk_modal (gp_block p)"

definition gp_values :: "gc_parse_t \<Rightarrow> gc_values_t" where
  "gp_values p = blk_values (gp_block p)"

definition gp_non_modal :: "gc_parse_t \<Rightarrow> u8" where
  "gp_non_modal p = blk_non_modal_command (gp_block p)"

definition set_modal :: "(gc_modal_t \<Rightarrow> gc_modal_t) \<Rightarrow> gc_parse_t \<Rightarrow> gc_parse_t" where
  "set_modal f p = p\<lparr>gp_block := (gp_block p)\<lparr>blk_modal := f (gp_modal p)\<rparr>\<rparr>"

definition set_values :: "(gc_values_t \<Rightarrow> gc_values_t) \<Rightarrow> gc_parse_t \<Rightarrow> gc_parse_t" where
  "set_values f p = p\<lparr>gp_block := (gp_block p)\<lparr>blk_values := f (gp_values p)\<rparr>\<rparr>"

definition set_non_modal :: "u8 \<Rightarrow> gc_parse_t \<Rightarrow> gc_parse_t" where
  "set_non_modal v p = p\<lparr>gp_block := (gp_block p)\<lparr>blk_non_modal_command := v\<rparr>\<rparr>"

lemmas gp_defs = gp_modal_def gp_values_def gp_non_modal_def set_modal_def set_values_def
  set_non_modal_def

section \<open>Command words\<close>

text \<open>
  A \<open>G\<close> word: its modal group, the mantissa that is left, and the updated variables. The order
  of the tests is the one of the \<open>switch\<close> with its fall-throughs.
\<close>

definition gc_g_command ::
  "u8 \<Rightarrow> u16 \<Rightarrow> gc_parse_t \<Rightarrow> u8 + nat \<times> u16 \<times> gc_parse_t" where
  "gc_g_command int_value mantissa p =
     (if int_value \<in> {10, 28, 30, 92, 4, 53} then
        if int_value \<in> {10, 28, 30, 92} \<and> mantissa = 0 \<and> gp_axis_command p \<noteq> 0
        then Inl STATUS_GCODE_AXIS_COMMAND_CONFLICT
        else
          let p = (if int_value \<in> {10, 28, 30, 92} \<and> mantissa = 0
                   then p\<lparr>gp_axis_command := AXIS_COMMAND_NON_MODAL\<rparr> else p);
              p = set_non_modal int_value p
          in if int_value \<in> {28, 30, 92} then
               if mantissa \<noteq> 0 \<and> mantissa \<noteq> 10 then Inl STATUS_GCODE_UNSUPPORTED_COMMAND
               else Inr (MODAL_GROUP_G0, 0, set_non_modal (int_value + ucast mantissa) p)
             else Inr (MODAL_GROUP_G0, mantissa, p)
      else if int_value \<in> {0, 1, 2, 3, 38, 80} then
        if int_value \<noteq> 80 \<and> gp_axis_command p \<noteq> 0 then Inl STATUS_GCODE_AXIS_COMMAND_CONFLICT
        else
          let p = (if int_value \<noteq> 80 then p\<lparr>gp_axis_command := AXIS_COMMAND_MOTION_MODE\<rparr> else p);
              p = set_modal (mod_motion_update (\<lambda>_. int_value)) p
          in if int_value = 38 then
               if mantissa \<notin> {20, 30, 40, 50} then Inl STATUS_GCODE_UNSUPPORTED_COMMAND
               else Inr (MODAL_GROUP_G1, 0,
                      set_modal (mod_motion_update (\<lambda>m. m + ucast (mantissa div 10 + 100))) p)
             else Inr (MODAL_GROUP_G1, mantissa, p)
      else if int_value \<in> {17, 18, 19} then
        Inr (MODAL_GROUP_G2, mantissa, set_modal (mod_plane_select_update (\<lambda>_. PLANE_SELECT_XY)) p)
      else if int_value \<in> {90, 91} then
        if mantissa = 0 then
          Inr (MODAL_GROUP_G3, mantissa, set_modal (mod_distance_update (\<lambda>_. int_value - 90)) p)
        else if mantissa \<noteq> 10 \<or> int_value = 90 then Inl STATUS_GCODE_UNSUPPORTED_COMMAND
        else Inr (MODAL_GROUP_G4, 0, p)
      else if int_value \<in> {93, 94} then
        Inr (MODAL_GROUP_G5, mantissa, set_modal (mod_feed_rate_update (\<lambda>_. 94 - int_value)) p)
      else if int_value \<in> {20, 21} then
        Inr (MODAL_GROUP_G6, mantissa, set_modal (mod_units_update (\<lambda>_. 21 - int_value)) p)
      else if int_value = 40 then Inr (MODAL_GROUP_G7, mantissa, p)
      else if int_value \<in> {54, 55, 56, 57, 58, 59} then
        Inr (MODAL_GROUP_G12, mantissa, set_modal (mod_coord_select_update (\<lambda>_. int_value - 54)) p)
      else if int_value = 61 then
        if mantissa \<noteq> 0 then Inl STATUS_GCODE_UNSUPPORTED_COMMAND
        else Inr (MODAL_GROUP_G13, mantissa, p)
      else Inl STATUS_GCODE_UNSUPPORTED_COMMAND)"

definition gc_m_command :: "u8 \<Rightarrow> gc_parse_t \<Rightarrow> u8 + nat \<times> gc_parse_t" where
  "gc_m_command int_value p =
     (if int_value \<in> {0, 1, 2, 30} then
        Inr (MODAL_GROUP_M4,
             if int_value = 0 then set_modal (mod_program_flow_update (\<lambda>_. PROGRAM_FLOW_PAUSED)) p
             else if int_value = 1 then p
             else set_modal (mod_program_flow_update (\<lambda>_. int_value)) p)
      else if int_value \<in> {3, 4, 5} then
        Inr (MODAL_GROUP_M7,
             set_modal (mod_spindle_update (\<lambda>_.
               if int_value = 3 then PL_COND_FLAG_SPINDLE_CW
               else if int_value = 4 then PL_COND_FLAG_SPINDLE_CCW else 0)) p)
      else if int_value \<in> {8, 9} then
        Inr (MODAL_GROUP_M8,
             set_modal (mod_coolant_update (\<lambda>c. if int_value = 8 then c OR PL_COND_FLAG_COOLANT_FLOOD else 0)) p)
      else Inl STATUS_GCODE_UNSUPPORTED_COMMAND)"

text \<open>One command of a modal group at most.\<close>

definition gc_group :: "nat \<Rightarrow> gc_parse_t \<Rightarrow> u8 + gc_parse_t" where
  "gc_group word_bit p =
     (if bit_istrue (gp_command_words p) (bitm word_bit) then Inl STATUS_GCODE_MODAL_GROUP_VIOLATION
      else Inr (p\<lparr>gp_command_words := gp_command_words p OR bitm word_bit\<rparr>))"

definition gc_g_word :: "u8 \<Rightarrow> u16 \<Rightarrow> gc_parse_t \<Rightarrow> u8 + gc_parse_t" where
  "gc_g_word int_value mantissa p =
     (case gc_g_command int_value mantissa p of
        Inl e \<Rightarrow> Inl e
      | Inr (word_bit, mantissa, p) \<Rightarrow>
          if mantissa > 0 then Inl STATUS_GCODE_COMMAND_VALUE_NOT_INTEGER else gc_group word_bit p)"

definition gc_m_word :: "u8 \<Rightarrow> u16 \<Rightarrow> gc_parse_t \<Rightarrow> u8 + gc_parse_t" where
  "gc_m_word int_value mantissa p =
     (if mantissa > 0 then Inl STATUS_GCODE_COMMAND_VALUE_NOT_INTEGER
      else
        case gc_m_command int_value p of
          Inl e \<Rightarrow> Inl e
        | Inr (word_bit, p) \<Rightarrow> gc_group word_bit p)"

section \<open>Value words\<close>

definition gc_ijk :: "nat \<Rightarrow> f32 \<Rightarrow> gc_parse_t \<Rightarrow> gc_parse_t" where
  "gc_ijk idx v p =
     (set_values (val_ijk_update (\<lambda>a. a[idx := v])) p)\<lparr>gp_ijk_words := gp_ijk_words p OR bitm idx\<rparr>"

definition gc_xyz :: "nat \<Rightarrow> f32 \<Rightarrow> gc_parse_t \<Rightarrow> gc_parse_t" where
  "gc_xyz idx v p =
     (set_values (val_xyz_update (\<lambda>a. a[idx := v])) p)\<lparr>gp_axis_words := gp_axis_words p OR bitm idx\<rparr>"

definition gc_value ::
  "(f32 \<Rightarrow> int) \<Rightarrow> u8 \<Rightarrow> f32 \<Rightarrow> u8 \<Rightarrow> gc_parse_t \<Rightarrow> u8 + nat \<times> gc_parse_t" where
  "gc_value cast letter v int_value p =
     (if letter = byte CHR ''F'' then Inr (WORD_F, set_values (val_f_update (\<lambda>_. v)) p)
      else if letter = byte CHR ''I'' then Inr (WORD_I, gc_ijk 0 v p)
      else if letter = byte CHR ''J'' then Inr (WORD_J, gc_ijk 1 v p)
      else if letter = byte CHR ''K'' then Inr (WORD_K, gc_ijk 2 v p)
      else if letter = byte CHR ''L'' then Inr (WORD_L, set_values (val_l_update (\<lambda>_. int_value)) p)
      else if letter = byte CHR ''N'' then
        Inr (WORD_N, set_values (val_n_update (\<lambda>_. f_to_i32 cast (f_trunc v))) p)
      else if letter = byte CHR ''P'' then Inr (WORD_P, set_values (val_p_update (\<lambda>_. v)) p)
      else if letter = byte CHR ''R'' then Inr (WORD_R, set_values (val_r_update (\<lambda>_. v)) p)
      else if letter = byte CHR ''S'' then Inr (WORD_S, set_values (val_s_update (\<lambda>_. v)) p)
      else if letter = byte CHR ''T'' then
        (if f_lt (f_of_int MAX_TOOL_NUMBER) v then Inl STATUS_GCODE_MAX_VALUE_EXCEEDED
         else Inr (WORD_T, set_values (val_t_update (\<lambda>_. int_value)) p))
      else if letter = byte CHR ''X'' then Inr (WORD_X, gc_xyz 0 v p)
      else if letter = byte CHR ''Y'' then Inr (WORD_Y, gc_xyz 1 v p)
      else if letter = byte CHR ''Z'' then Inr (WORD_Z, gc_xyz 2 v p)
      else Inl STATUS_GCODE_UNSUPPORTED_COMMAND)"

definition gc_value_word ::
  "(f32 \<Rightarrow> int) \<Rightarrow> u8 \<Rightarrow> f32 \<Rightarrow> u8 \<Rightarrow> gc_parse_t \<Rightarrow> u8 + gc_parse_t" where
  "gc_value_word cast letter v int_value p =
     (case gc_value cast letter v int_value p of
        Inl e \<Rightarrow> Inl e
      | Inr (word_bit, p) \<Rightarrow>
          if bit_istrue (gp_value_words p) (bitm word_bit) then Inl STATUS_GCODE_WORD_REPEATED
          else if word_bit \<in> {WORD_F, WORD_N, WORD_P, WORD_T, WORD_S} \<and> f_lt v 0
          then Inl STATUS_NEGATIVE_VALUE
          else Inr (p\<lparr>gp_value_words := gp_value_words p OR bitm word_bit\<rparr>))"

section \<open>The words of a line\<close>

definition line_at :: "u8 list \<Rightarrow> u8 \<Rightarrow> u8" where
  "line_at l i = (if unat i < length l then l ! unat i else 0)"

definition gc_word ::
  "(f32 \<Rightarrow> int) \<Rightarrow> u8 list \<Rightarrow> u8 \<Rightarrow> gc_parse_t \<Rightarrow> u8 + u8 \<times> gc_parse_t" where
  "gc_word cast l char_counter p =
     (let letter = line_at l char_counter in
      if letter < byte CHR ''A'' \<or> letter > byte CHR ''Z'' then Inl STATUS_EXPECTED_COMMAND_LETTER
      else
        case read_float l (char_counter + 1) of
          None \<Rightarrow> Inl STATUS_BAD_NUMBER_FORMAT
        | Some (v, char_counter) \<Rightarrow>
            let int_value = f_to_u8 cast (f_trunc v);
                mantissa = f_to_u16 cast (f_roundf
                  (f_mul (f_of_int 100) (f_sub v (f_of_int (uint int_value)))))
            in map_sum id (Pair char_counter)
                 (if letter = byte CHR ''G'' then gc_g_word int_value mantissa p
                  else if letter = byte CHR ''M'' then gc_m_word int_value mantissa p
                  else gc_value_word cast letter v int_value p))"

partial_function (option) gc_words ::
  "(f32 \<Rightarrow> int) \<Rightarrow> u8 list \<Rightarrow> u8 \<Rightarrow> gc_parse_t \<Rightarrow> (u8 + gc_parse_t) option" where
  "gc_words cast l char_counter p =
     (if line_at l char_counter = 0 then Some (Inr p)
      else
        case gc_word cast l char_counter p of
          Inl e \<Rightarrow> Some (Inl e)
        | Inr (char_counter, p) \<Rightarrow> gc_words cast l char_counter p)"

text \<open>Step 1.\<close>

definition gc_is_jog :: "u8 list \<Rightarrow> bool" where
  "gc_is_jog l \<longleftrightarrow> line_at l 0 = byte CHR ''$''"

definition gc_start :: "u8 list \<Rightarrow> grbl \<Rightarrow> gc_parse_t" where
  "gc_start l g =
     (let m = gc_modal (gc_state g);
          p = \<lparr>gp_block = \<lparr>blk_non_modal_command = 0, blk_modal = m, blk_values = gc_values_zero\<rparr>,
               gp_axis_command = AXIS_COMMAND_NONE, gp_axis_words = 0, gp_ijk_words = 0,
               gp_command_words = 0, gp_value_words = 0, gp_flags = GC_PARSER_NONE\<rparr>
      in if gc_is_jog l then
           set_modal (mod_motion_update (\<lambda>_. MOTION_MODE_LINEAR)
                      \<circ> mod_feed_rate_update (\<lambda>_. FEED_RATE_MODE_UNITS_PER_MIN))
             (p\<lparr>gp_flags := GC_PARSER_JOG_MOTION\<rparr>)
         else p)"

definition gc_parse :: "u8 list \<Rightarrow> grbl \<Rightarrow> (u8 + gc_parse_t) option" where
  "gc_parse l g = gc_words (w_cast (world g)) l (if gc_is_jog l then 3 else 0) (gc_start l g)"

end
