(* ===== verification/Gcode.thy ===== *)
theory Gcode
  imports Gcode_Parse
begin

text \<open>
  gcode.c, second part: the checks of a parsed block (step 3), its execution (step 4),
  \<open>gc_execute_line\<close> and \<open>gc_init\<close>. The checks return \<open>Inl\<close> of the status code
  of the first error; those that read the EEPROM also return the state, which a failed read changes.
\<close>

section \<open>Step 3: checks without the EEPROM\<close>

definition has_word :: "nat \<Rightarrow> gc_parse_t \<Rightarrow> bool" where
  "has_word w p \<longleftrightarrow> bit_istrue (gp_value_words p) (bitm w)"

definition drop_words :: "nat list \<Rightarrow> gc_parse_t \<Rightarrow> gc_parse_t" where
  "drop_words ws p = p\<lparr>gp_value_words := foldl (\<lambda>v w. bit_false v (bitm w)) (gp_value_words p) ws\<rparr>"

definition has_axis :: "nat \<Rightarrow> gc_parse_t \<Rightarrow> bool" where
  "has_axis idx p \<longleftrightarrow> bit_istrue (gp_axis_words p) (bitm idx)"

definition is_jog :: "gc_parse_t \<Rightarrow> bool" where
  "is_jog p \<longleftrightarrow> bit_istrue (gp_flags p) GC_PARSER_JOG_MOTION"

definition in_inches :: "gc_parse_t \<Rightarrow> bool" where
  "in_inches p \<longleftrightarrow> mod_units (gp_modal p) = UNITS_MODE_INCHES"

definition gc_check_common :: "gc_parse_t \<Rightarrow> u8 + gc_parse_t" where
  "gc_check_common p =
     (let p = (if gp_axis_words p \<noteq> 0 \<and> gp_axis_command p = 0
               then p\<lparr>gp_axis_command := AXIS_COMMAND_MOTION_MODE\<rparr> else p)
      in if has_word WORD_N p \<and> sint (val_n (gp_values p)) > MAX_LINE_NUMBER
         then Inl STATUS_GCODE_INVALID_LINE_NUMBER else Inr p)"

definition gc_check_feed_rate :: "grbl \<Rightarrow> gc_parse_t \<Rightarrow> u8 + gc_parse_t" where
  "gc_check_feed_rate g p =
     (let to_mm = (\<lambda>p. if in_inches p then set_values (val_f_update (\<lambda>f. f_mul f MM_PER_INCH)) p else p) in
      if is_jog p then
        if \<not> has_word WORD_F p then Inl STATUS_GCODE_UNDEFINED_FEED_RATE else Inr (to_mm p)
      else if mod_feed_rate (gp_modal p) = FEED_RATE_MODE_INVERSE_TIME then
        if gp_axis_command p = AXIS_COMMAND_MOTION_MODE
           \<and> mod_motion (gp_modal p) \<noteq> MOTION_MODE_NONE \<and> mod_motion (gp_modal p) \<noteq> MOTION_MODE_SEEK
           \<and> \<not> has_word WORD_F p
        then Inl STATUS_GCODE_UNDEFINED_FEED_RATE else Inr p
      else if mod_feed_rate (gc_modal (gc_state g)) = FEED_RATE_MODE_UNITS_PER_MIN then
        Inr (if has_word WORD_F p then to_mm p
             else set_values (val_f_update (\<lambda>_. gc_feed_rate (gc_state g))) p)
      else Inr p)"

definition gc_set_spindle_speed :: "grbl \<Rightarrow> gc_parse_t \<Rightarrow> gc_parse_t" where
  "gc_set_spindle_speed g p =
     (if \<not> has_word WORD_S p then set_values (val_s_update (\<lambda>_. gc_spindle_speed (gc_state g))) p else p)"

definition gc_check_dwell :: "gc_parse_t \<Rightarrow> u8 + gc_parse_t" where
  "gc_check_dwell p =
     (if gp_non_modal p = NON_MODAL_DWELL then
        if \<not> has_word WORD_P p then Inl STATUS_GCODE_VALUE_WORD_MISSING
        else Inr (drop_words [WORD_P] p)
      else Inr p)"

definition plane_axes :: "u8 \<Rightarrow> nat \<times> nat \<times> nat" where
  "plane_axes plane_select =
     (if plane_select = PLANE_SELECT_XY then (0, 1, 2)
      else if plane_select = PLANE_SELECT_ZX then (2, 0, 1)
      else (1, 2, 0))"

definition gc_axes_to_mm :: "gc_parse_t \<Rightarrow> gc_parse_t" where
  "gc_axes_to_mm p =
     (if in_inches p then
        foldl (\<lambda>p idx. if has_axis idx p
                       then set_values (val_xyz_update (\<lambda>a. a[idx := f_mul (a ! idx) MM_PER_INCH])) p
                       else p) p [0, 1, 2]
      else p)"

text \<open>The checks up to the coordinate system.\<close>

definition gc_check_early :: "grbl \<Rightarrow> gc_parse_t \<Rightarrow> u8 + gc_parse_t" where
  "gc_check_early g p =
     (case gc_check_common p of
        Inl e \<Rightarrow> Inl e
      | Inr p \<Rightarrow>
          (case gc_check_feed_rate g p of
             Inl e \<Rightarrow> Inl e
           | Inr p \<Rightarrow> map_sum id gc_axes_to_mm (gc_check_dwell (gc_set_spindle_speed g p))))"

section \<open>Step 3: coordinate systems and non-modal commands\<close>

text \<open>Reading coordinate data; a failed read ends the line.\<close>

definition gc_read_coord :: "u8 \<Rightarrow> grbl \<Rightarrow> (u8 \<times> grbl + f32 list \<times> grbl) option" where
  "gc_read_coord n g =
     map_option (\<lambda>(ok, v, g). if ok then Inr (v, g) else Inl (STATUS_SETTING_READ_FAIL, g))
       (settings_read_coord_data n g)"

definition gc_block_coord_system :: "gc_parse_t \<Rightarrow> grbl \<Rightarrow> (u8 \<times> grbl + f32 list \<times> grbl) option" where
  "gc_block_coord_system p g =
     (if bit_istrue (gp_command_words p) (bitm MODAL_GROUP_G12) then
        if mod_coord_select (gp_modal p) > N_COORDINATE_SYSTEM
        then Some (Inl (STATUS_GCODE_UNSUPPORTED_COORD_SYS, g))
        else if mod_coord_select (gc_modal (gc_state g)) \<noteq> mod_coord_select (gp_modal p)
        then gc_read_coord (mod_coord_select (gp_modal p)) g
        else Some (Inr (gc_coord_system (gc_state g), g))
      else Some (Inr (gc_coord_system (gc_state g), g)))"

definition gc_map_axes :: "(nat \<Rightarrow> f32) \<Rightarrow> f32 list" where
  "gc_map_axes f = map f [0, 1, 2]"

text \<open>G10: the coordinate system it changes and its new data, which it keeps in \<open>ijk\<close>.\<close>

definition gc_check_g10 :: "gc_parse_t \<Rightarrow> grbl \<Rightarrow> (u8 \<times> grbl + (u8 \<times> gc_parse_t) \<times> grbl) option" where
  "gc_check_g10 p g =
     (let l = val_l (gp_values p);
          coord_select = f_to_u8 (w_cast (world g)) (f_trunc (val_p (gp_values p)))
      in if gp_axis_words p = 0 then Some (Inl (STATUS_GCODE_NO_AXIS_WORDS, g))
         else if bit_isfalse (gp_value_words p) (bitm WORD_P OR bitm WORD_L)
         then Some (Inl (STATUS_GCODE_VALUE_WORD_MISSING, g))
         else if coord_select > N_COORDINATE_SYSTEM then Some (Inl (STATUS_GCODE_UNSUPPORTED_COORD_SYS, g))
         else if l \<noteq> 20 \<and> (l \<noteq> 2 \<or> has_word WORD_R p)
         then Some (Inl (STATUS_GCODE_UNSUPPORTED_COMMAND, g))
         else
           let p = drop_words [WORD_L, WORD_P] p;
               coord_select = (if coord_select > 0 then coord_select - 1 else mod_coord_select (gp_modal p))
           in map_option (map_sum id (\<lambda>(ijk, g).
                let s = gc_state g; xyz = val_xyz (gp_values p);
                    v = gc_map_axes (\<lambda>idx.
                          if has_axis idx p then
                            (if l = 20
                             then f_sub (f_sub (gc_position s ! idx) (gc_coord_offset s ! idx)) (xyz ! idx)
                             else xyz ! idx)
                          else ijk ! idx)
                in ((coord_select, set_values (val_ijk_update (\<lambda>_. v)) p), g)))
                (gc_read_coord coord_select g))"

definition gc_check_g92 :: "f32 list \<Rightarrow> gc_parse_t \<Rightarrow> grbl \<Rightarrow> u8 + gc_parse_t" where
  "gc_check_g92 coord_system p g =
     (if gp_axis_words p = 0 then Inl STATUS_GCODE_NO_AXIS_WORDS
      else
        let s = gc_state g; xyz = val_xyz (gp_values p)
        in Inr (set_values (val_xyz_update (\<lambda>_. gc_map_axes (\<lambda>idx.
             if has_axis idx p
             then f_sub (f_sub (gc_position s ! idx) (coord_system ! idx)) (xyz ! idx)
             else gc_coord_offset s ! idx))) p))"

text \<open>The target position of every other command.\<close>

definition gc_target :: "f32 list \<Rightarrow> gc_parse_t \<Rightarrow> grbl \<Rightarrow> gc_parse_t" where
  "gc_target coord_system p g =
     (if gp_axis_words p \<noteq> 0 then
        let s = gc_state g; xyz = val_xyz (gp_values p)
        in set_values (val_xyz_update (\<lambda>_. gc_map_axes (\<lambda>idx.
             if \<not> has_axis idx p then gc_position s ! idx
             else if gp_non_modal p \<noteq> NON_MODAL_ABSOLUTE_OVERRIDE then
               (if mod_distance (gp_modal p) = DISTANCE_MODE_ABSOLUTE
                then f_add (xyz ! idx) (f_add (coord_system ! idx) (gc_coord_offset s ! idx))
                else f_add (xyz ! idx) (gc_position s ! idx))
             else xyz ! idx))) p
      else p)"

definition gc_check_go_home :: "gc_parse_t \<Rightarrow> grbl \<Rightarrow> (u8 \<times> grbl + gc_parse_t \<times> grbl) option" where
  "gc_check_go_home p g =
     map_option (map_sum id (\<lambda>(ijk, g).
       (if gp_axis_words p \<noteq> 0 then
          set_values (val_ijk_update (\<lambda>_. gc_map_axes (\<lambda>idx.
            if has_axis idx p then ijk ! idx else gc_position (gc_state g) ! idx))) p
        else (set_values (val_ijk_update (\<lambda>_. ijk)) p)\<lparr>gp_axis_command := AXIS_COMMAND_NONE\<rparr>, g)))
       (gc_read_coord (if gp_non_modal p = NON_MODAL_GO_HOME_0 then SETTING_INDEX_G28
                       else SETTING_INDEX_G30) g)"

text \<open>The result holds the coordinate system that a G10 changes (0 for the other commands).\<close>

definition gc_check_non_modal ::
  "f32 list \<Rightarrow> gc_parse_t \<Rightarrow> grbl \<Rightarrow> (u8 \<times> grbl + (u8 \<times> gc_parse_t) \<times> grbl) option" where
  "gc_check_non_modal coord_system p g =
     (if gp_non_modal p = NON_MODAL_SET_COORDINATE_DATA then gc_check_g10 p g
      else if gp_non_modal p = NON_MODAL_SET_COORDINATE_OFFSET then
        Some (map_sum (\<lambda>e. (e, g)) (\<lambda>p. ((0, p), g)) (gc_check_g92 coord_system p g))
      else
        let p = gc_target coord_system p g in
        if gp_non_modal p = NON_MODAL_GO_HOME_0 \<or> gp_non_modal p = NON_MODAL_GO_HOME_1 then
          map_option (map_sum id (\<lambda>(p, g). ((0, p), g))) (gc_check_go_home p g)
        else if gp_non_modal p = NON_MODAL_ABSOLUTE_OVERRIDE
             \<and> mod_motion (gp_modal p) \<noteq> MOTION_MODE_SEEK \<and> mod_motion (gp_modal p) \<noteq> MOTION_MODE_LINEAR
        then Some (Inl (STATUS_GCODE_G53_INVALID_MOTION_MODE, g))
        else Some (Inr ((0, p), g)))"

section \<open>Step 3: motion modes\<close>

text \<open>The centre of an arc given by its radius.\<close>

definition gc_arc_radius :: "nat \<Rightarrow> nat \<Rightarrow> f32 \<Rightarrow> f32 \<Rightarrow> gc_parse_t \<Rightarrow> grbl \<Rightarrow> u8 + gc_parse_t" where
  "gc_arc_radius axis_0 axis_1 x y p g =
     (let p = drop_words [WORD_R] p in
      if gc_position (gc_state g) = val_xyz (gp_values p) then Inl STATUS_GCODE_INVALID_TARGET
      else
        let r = val_r (gp_values p);
            r = (if in_inches p then f_mul r MM_PER_INCH else r);
            h = f_sub (f_sub (f_mul (f_mul (f_of_int 4) r) r) (f_mul x x)) (f_mul y y)
        in if f_lt h 0 then Inl STATUS_GCODE_ARC_RADIUS_ERROR
           else
             let h = f_div (f_neg (f_sqrt h)) (hypot_f x y);
                 h = (if mod_motion (gp_modal p) = MOTION_MODE_CCW_ARC then f_neg h else h);
                 (h, r) = (if f_lt r 0 then (f_neg h, f_neg r) else (h, r));
                 i = f_mul (f_dec 5 1) (f_sub x (f_mul y h));
                 j = f_mul (f_dec 5 1) (f_add y (f_mul x h))
             in Inr (set_values (val_r_update (\<lambda>_. r)
                       \<circ> val_ijk_update (\<lambda>a. a[axis_0 := i, axis_1 := j])) p))"

text \<open>The check of an arc given by the offset of its centre.\<close>

definition gc_arc_offset :: "nat \<Rightarrow> nat \<Rightarrow> f32 \<Rightarrow> f32 \<Rightarrow> gc_parse_t \<Rightarrow> u8 + gc_parse_t" where
  "gc_arc_offset axis_0 axis_1 x y p =
     (if gp_ijk_words p AND (bitm axis_0 OR bitm axis_1) = 0 then Inl STATUS_GCODE_NO_OFFSETS_IN_PLANE
      else
        let p = drop_words [WORD_I, WORD_J, WORD_K] p;
            p = (if in_inches p then
                   set_values (val_ijk_update (\<lambda>a. gc_map_axes (\<lambda>idx.
                     if bit_istrue (gp_ijk_words p) (bitm idx) then f_mul (a ! idx) MM_PER_INCH
                     else a ! idx))) p
                 else p);
            ijk = val_ijk (gp_values p);
            x = f_sub x (ijk ! axis_0); y = f_sub y (ijk ! axis_1);
            r = hypot_f (ijk ! axis_0) (ijk ! axis_1);
            delta_r = f_abs (f_sub (hypot_f x y) r)
        in if f_lt (f_dec 5 3) delta_r
              \<and> (f_lt (f_dec 5 1) delta_r \<or> f_lt (f_mul (f_dec 1 3) r) delta_r)
           then Inl STATUS_GCODE_INVALID_TARGET
           else Inr (set_values (val_r_update (\<lambda>_. r)) p))"

definition gc_check_arc :: "gc_parse_t \<Rightarrow> grbl \<Rightarrow> u8 + gc_parse_t" where
  "gc_check_arc p g =
     (let (axis_0, axis_1, axis_linear) = plane_axes (mod_plane_select (gp_modal p));
          p = (if mod_motion (gp_modal p) = MOTION_MODE_CW_ARC
               then p\<lparr>gp_flags := gp_flags p OR GC_PARSER_ARC_IS_CLOCKWISE\<rparr> else p)
      in if gp_axis_words p = 0 then Inl STATUS_GCODE_NO_AXIS_WORDS
         else if gp_axis_words p AND (bitm axis_0 OR bitm axis_1) = 0
         then Inl STATUS_GCODE_NO_AXIS_WORDS_IN_PLANE
         else
           let xyz = val_xyz (gp_values p); pos = gc_position (gc_state g);
               x = f_sub (xyz ! axis_0) (pos ! axis_0); y = f_sub (xyz ! axis_1) (pos ! axis_1)
           in if has_word WORD_R p then gc_arc_radius axis_0 axis_1 x y p g
              else gc_arc_offset axis_0 axis_1 x y p)"

definition gc_check_probe :: "gc_parse_t \<Rightarrow> grbl \<Rightarrow> u8 + gc_parse_t" where
  "gc_check_probe p g =
     (let m = mod_motion (gp_modal p);
          p = (if m = MOTION_MODE_PROBE_TOWARD_NO_ERROR \<or> m = MOTION_MODE_PROBE_AWAY_NO_ERROR
               then p\<lparr>gp_flags := gp_flags p OR GC_PARSER_PROBE_IS_NO_ERROR\<rparr> else p);
          p = (if m = MOTION_MODE_PROBE_AWAY \<or> m = MOTION_MODE_PROBE_AWAY_NO_ERROR
               then p\<lparr>gp_flags := gp_flags p OR GC_PARSER_PROBE_IS_AWAY\<rparr> else p)
      in if gp_axis_words p = 0 then Inl STATUS_GCODE_NO_AXIS_WORDS
         else if gc_position (gc_state g) = val_xyz (gp_values p) then Inl STATUS_GCODE_INVALID_TARGET
         else Inr p)"

definition gc_check_motion :: "gc_parse_t \<Rightarrow> grbl \<Rightarrow> u8 + gc_parse_t" where
  "gc_check_motion p g =
     (let m = mod_motion (gp_modal p);
          no_motion = (\<lambda>p. if gp_axis_words p = 0 then p\<lparr>gp_axis_command := AXIS_COMMAND_NONE\<rparr> else p)
      in if m = MOTION_MODE_NONE then
           (if gp_axis_words p \<noteq> 0 then Inl STATUS_GCODE_AXIS_WORDS_EXIST else Inr p)
         else if gp_axis_command p = AXIS_COMMAND_MOTION_MODE then
           if m = MOTION_MODE_SEEK then Inr (no_motion p)
           else if f_eq (val_f (gp_values p)) 0 then Inl STATUS_GCODE_UNDEFINED_FEED_RATE
           else if m = MOTION_MODE_LINEAR then Inr (no_motion p)
           else if m = MOTION_MODE_CW_ARC \<or> m = MOTION_MODE_CCW_ARC then gc_check_arc p g
           else if m \<in> {MOTION_MODE_PROBE_TOWARD, MOTION_MODE_PROBE_TOWARD_NO_ERROR,
                        MOTION_MODE_PROBE_AWAY, MOTION_MODE_PROBE_AWAY_NO_ERROR}
           then gc_check_probe p g
           else Inr p
         else Inr p)"

definition gc_check_unused :: "gc_parse_t \<Rightarrow> u8 + gc_parse_t" where
  "gc_check_unused p =
     (let p = drop_words (if is_jog p then [WORD_N, WORD_F] else [WORD_N, WORD_F, WORD_S, WORD_T]) p;
          p = (if gp_axis_command p \<noteq> 0 then drop_words [WORD_X, WORD_Y, WORD_Z] p else p)
      in if gp_value_words p \<noteq> 0 then Inl STATUS_GCODE_UNUSED_WORDS else Inr p)"

text \<open>All of step 3: the block to execute, with the coordinate data it carries.\<close>

definition gc_check ::
  "gc_parse_t \<Rightarrow> grbl \<Rightarrow> (u8 \<times> grbl + (u8 \<times> f32 list \<times> gc_parse_t) \<times> grbl) option" where
  "gc_check p g =
     (case gc_check_early g p of
        Inl e \<Rightarrow> Some (Inl (e, g))
      | Inr p \<Rightarrow>
          Option.bind (gc_block_coord_system p g) (\<lambda>r.
            case r of
              Inl e \<Rightarrow> Some (Inl e)
            | Inr (coord_system, g) \<Rightarrow>
                map_option (\<lambda>r.
                  case r of
                    Inl e \<Rightarrow> Inl e
                  | Inr ((coord_select, p), g) \<Rightarrow>
                      (case gc_check_motion p g of
                         Inl e \<Rightarrow> Inl (e, g)
                       | Inr p \<Rightarrow>
                           map_sum (\<lambda>e. (e, g)) (\<lambda>p. ((coord_select, coord_system, p), g)) (gc_check_unused p)))
                  (gc_check_non_modal coord_system p g)))"

section \<open>Step 4: execution\<close>

definition upd_gc :: "(parser_state_t \<Rightarrow> parser_state_t) \<Rightarrow> grbl \<Rightarrow> grbl" where
  "upd_gc f g = g\<lparr>gc_state := f (gc_state g)\<rparr>"

definition upd_modal :: "(gc_modal_t \<Rightarrow> gc_modal_t) \<Rightarrow> grbl \<Rightarrow> grbl" where
  "upd_modal f = upd_gc (gc_modal_update f)"

definition gc_jog :: "gc_parse_t \<Rightarrow> grbl \<Rightarrow> (u8 \<times> grbl) option" where
  "gc_jog p g =
     (if gp_command_words p AND NOT (bitm MODAL_GROUP_G3 OR bitm MODAL_GROUP_G6 OR bitm MODAL_GROUP_G0) \<noteq> 0
      then Some (STATUS_INVALID_JOG_COMMAND, g)
      else if gp_non_modal p \<noteq> NON_MODAL_ABSOLUTE_OVERRIDE \<and> gp_non_modal p \<noteq> NON_MODAL_NO_ACTION
      then Some (STATUS_INVALID_JOG_COMMAND, g)
      else
        let m = gc_modal (gc_state g);
            pl_data = \<lparr>pd_feed_rate = 0, pd_spindle_speed = gc_spindle_speed (gc_state g),
                       pd_condition = mod_spindle m OR mod_coolant m\<rparr>
        in map_option (\<lambda>(status, g).
             (status, if status = STATUS_OK
                      then upd_gc (gc_position_update (\<lambda>_. val_xyz (gp_values p))) g else g))
             (jog_execute pl_data (gp_block p) g))"

text \<open>The laser flags; with the spindle stubs nothing reads them afterwards.\<close>

definition is_feed_motion :: "u8 \<Rightarrow> bool" where
  "is_feed_motion m \<longleftrightarrow> m = MOTION_MODE_LINEAR \<or> m = MOTION_MODE_CW_ARC \<or> m = MOTION_MODE_CCW_ARC"

definition gc_laser_flags :: "grbl \<Rightarrow> gc_parse_t \<Rightarrow> u8" where
  "gc_laser_flags g p =
     (let flags = gp_flags p in
      if setting_true BITFLAG_LASER_MODE g then
        let flags = (if \<not> is_feed_motion (mod_motion (gp_modal p)) then flags OR GC_PARSER_LASER_DISABLE
                     else flags)
        in if gp_axis_words p \<noteq> 0 \<and> gp_axis_command p = AXIS_COMMAND_MOTION_MODE
           then flags OR GC_PARSER_LASER_ISMOTION
           else if mod_spindle (gc_modal (gc_state g)) = PL_COND_FLAG_SPINDLE_CW
                \<and> is_feed_motion (mod_motion (gc_modal (gc_state g))) = bit_istrue flags GC_PARSER_LASER_DISABLE
           then flags OR GC_PARSER_LASER_FORCE_SYNC
           else flags
      else flags)"

text \<open>Feed rate, spindle, tool and coolant; the result holds the data for the planner.\<close>

definition gc_exec_values :: "gc_parse_t \<Rightarrow> grbl \<Rightarrow> plan_line_data_t \<times> grbl" where
  "gc_exec_values p g =
     (let v = gp_values p; m = gp_modal p;
          g = upd_gc (gc_line_number_update (\<lambda>_. val_n v)) g;
          g = upd_modal (mod_feed_rate_update (\<lambda>_. mod_feed_rate m)) g;
          condition = (if mod_feed_rate m \<noteq> 0 then PL_COND_FLAG_INVERSE_TIME else 0);
          g = upd_gc (gc_feed_rate_update (\<lambda>_. val_f v)) g;
          g = upd_gc (gc_spindle_speed_update (\<lambda>_. val_s v)) g;
          g = upd_gc (gc_tool_update (\<lambda>_. val_t v)) g;
          g = upd_modal (mod_spindle_update (\<lambda>_. mod_spindle m)) g;
          g = upd_modal (mod_coolant_update (\<lambda>_. mod_coolant m)) g
      in (\<lparr>pd_feed_rate = val_f v, pd_spindle_speed = 0,
           pd_condition = condition OR mod_spindle m OR mod_coolant m\<rparr>, g))"

text \<open>Dwell, plane, units, coordinate system and distance mode.\<close>

definition gc_exec_modes :: "f32 list \<Rightarrow> gc_parse_t \<Rightarrow> grbl \<Rightarrow> grbl option" where
  "gc_exec_modes coord_system p g =
     (let m = gp_modal p in
      do {
        g \<leftarrow> (if gp_non_modal p = NON_MODAL_DWELL then mc_dwell (val_p (gp_values p)) g else Some g);
        g \<leftarrow> Some (upd_modal (mod_plane_select_update (\<lambda>_. mod_plane_select m)) g);
        g \<leftarrow> Some (upd_modal (mod_units_update (\<lambda>_. mod_units m)) g);
        g \<leftarrow> (if mod_coord_select (gc_modal (gc_state g)) \<noteq> mod_coord_select m then
                system_flag_wco_change (upd_gc (gc_coord_system_update (\<lambda>_. coord_system))
                  (upd_modal (mod_coord_select_update (\<lambda>_. mod_coord_select m)) g))
              else Some g);
        Some (upd_modal (mod_distance_update (\<lambda>_. mod_distance m)) g)
      })"

definition gc_exec_non_modal :: "u8 \<Rightarrow> plan_line_data_t \<Rightarrow> gc_parse_t \<Rightarrow> grbl \<Rightarrow> grbl option" where
  "gc_exec_non_modal coord_select pl_data p g =
     (let c = gp_non_modal p; xyz = val_xyz (gp_values p); ijk = val_ijk (gp_values p);
          position = (\<lambda>g. gc_position (gc_state g))
      in if c = NON_MODAL_SET_COORDINATE_DATA then
           Option.bind (settings_write_coord_data coord_select (\<lambda>_. ijk) g) (\<lambda>g.
             if mod_coord_select (gc_modal (gc_state g)) = coord_select
             then system_flag_wco_change (upd_gc (gc_coord_system_update (\<lambda>_. ijk)) g) else Some g)
         else if c = NON_MODAL_GO_HOME_0 \<or> c = NON_MODAL_GO_HOME_1 then
           let pl_data = pl_data\<lparr>pd_condition := pd_condition pl_data OR PL_COND_FLAG_RAPID_MOTION\<rparr>
           in do {
                g \<leftarrow> (if gp_axis_command p \<noteq> 0 then mc_line xyz pl_data g else Some g);
                g \<leftarrow> mc_line ijk pl_data g;
                Some (upd_gc (gc_position_update (\<lambda>_. ijk)) g)
              }
         else if c = NON_MODAL_SET_HOME_0 then settings_write_coord_data SETTING_INDEX_G28 position g
         else if c = NON_MODAL_SET_HOME_1 then settings_write_coord_data SETTING_INDEX_G30 position g
         else if c = NON_MODAL_SET_COORDINATE_OFFSET then
           system_flag_wco_change (upd_gc (gc_coord_offset_update (\<lambda>_. xyz)) g)
         else if c = NON_MODAL_RESET_COORDINATE_OFFSET then
           system_flag_wco_change (upd_gc (gc_coord_offset_update (\<lambda>_. vec0)) g)
         else Some g)"

text \<open>The planner data that the non-modal commands leave behind.\<close>

definition gc_data_after :: "gc_parse_t \<Rightarrow> plan_line_data_t \<Rightarrow> plan_line_data_t" where
  "gc_data_after p pl_data =
     (if gp_non_modal p = NON_MODAL_GO_HOME_0 \<or> gp_non_modal p = NON_MODAL_GO_HOME_1
      then pl_data\<lparr>pd_condition := pd_condition pl_data OR PL_COND_FLAG_RAPID_MOTION\<rparr> else pl_data)"

definition gc_exec_motion :: "plan_line_data_t \<Rightarrow> u8 \<Rightarrow> gc_parse_t \<Rightarrow> grbl \<Rightarrow> grbl option" where
  "gc_exec_motion pl_data flags p g =
     (let m = mod_motion (gp_modal p); xyz = val_xyz (gp_values p);
          (axis_0, axis_1, axis_linear) = plane_axes (mod_plane_select (gp_modal p));
          g = upd_modal (mod_motion_update (\<lambda>_. m)) g;
          with_flag = (\<lambda>f. pl_data\<lparr>pd_condition := pd_condition pl_data OR f\<rparr>);
          to_target = (\<lambda>g. (GC_UPDATE_POS_TARGET, g))
      in if m \<noteq> MOTION_MODE_NONE \<and> gp_axis_command p = AXIS_COMMAND_MOTION_MODE then
           map_option (\<lambda>(gc_update_pos, g).
             if gc_update_pos = GC_UPDATE_POS_TARGET then upd_gc (gc_position_update (\<lambda>_. xyz)) g
             else if gc_update_pos = GC_UPDATE_POS_SYSTEM then gc_sync_position g
             else g)
             (if m = MOTION_MODE_LINEAR then map_option to_target (mc_line xyz pl_data g)
              else if m = MOTION_MODE_SEEK then
                map_option to_target (mc_line xyz (with_flag PL_COND_FLAG_RAPID_MOTION) g)
              else if m = MOTION_MODE_CW_ARC \<or> m = MOTION_MODE_CCW_ARC then
                map_option to_target
                  (mc_arc xyz pl_data (val_ijk (gp_values p)) (val_r (gp_values p)) axis_0 axis_1 axis_linear
                     (bit_istrue flags GC_PARSER_ARC_IS_CLOCKWISE) g)
              else mc_probe_cycle xyz (with_flag PL_COND_FLAG_NO_FEED_OVERRIDE) flags g)
         else Some g)"

definition gc_exec :: "u8 \<Rightarrow> f32 list \<Rightarrow> gc_parse_t \<Rightarrow> grbl \<Rightarrow> grbl option" where
  "gc_exec coord_select coord_system p g =
     (let flags = gc_laser_flags g p; (pl_data, g) = gc_exec_values p g
      in do {
           g \<leftarrow> gc_exec_modes coord_system p g;
           g \<leftarrow> gc_exec_non_modal coord_select pl_data p g;
           gc_exec_motion (gc_data_after p pl_data) flags p g
         })"

section \<open>The line\<close>

definition gc_execute_line :: "u8 list \<Rightarrow> grbl \<Rightarrow> (u8 \<times> grbl) option" where
  "gc_execute_line l g =
     Option.bind (gc_parse l g) (\<lambda>r.
       case r of
         Inl e \<Rightarrow> Some (e, g)
       | Inr p \<Rightarrow>
           Option.bind (gc_check p g) (\<lambda>r.
             case r of
               Inl e \<Rightarrow> Some e
             | Inr ((coord_select, coord_system, p), g) \<Rightarrow>
                 if is_jog p then gc_jog p g
                 else map_option (Pair STATUS_OK) (gc_exec coord_select coord_system p g)))"

definition gc_init :: "grbl \<Rightarrow> grbl option" where
  "gc_init g =
     map_option (\<lambda>(ok, v, g).
       let g = upd_gc (gc_coord_system_update (\<lambda>_. v)) g
       in if ok then g else report_status_message STATUS_SETTING_READ_FAIL g)
       (settings_read_coord_data 0 (g\<lparr>gc_state := parser_state_zero\<rparr>))"

end
