(* ===== verification/System_Cmd.thy ===== *)
theory System_Cmd
  imports Gcode
begin

text \<open>
  The \<open>$\<close> commands of system.c, the startup lines, and \<open>report_ngc_parameters\<close> of report.c,
  which reads the EEPROM. The command is in the static line buffer \<open>line\<close>, which some commands
  overwrite. The result holds the status code that answers the line.
\<close>

definition set_line :: "u8 list \<Rightarrow> grbl \<Rightarrow> grbl" where
  "set_line l g = g\<lparr>line := l\<rparr>"

section \<open>Coordinate report\<close>

definition coord_report_name :: "u8 \<Rightarrow> u8 list" where
  "coord_report_name n =
     (if n = 6 then bytes ''28'' else if n = 7 then bytes ''30'' else uint8_base10 (n + 54))"

text \<open>The bytes of one line of the report, and the loop with its early return.\<close>

definition ngc_line :: "grbl \<Rightarrow> u8 list \<Rightarrow> f32 list \<Rightarrow> u8 list" where
  "ngc_line g name v = name @ bytes '':'' @ axis_values_bytes g v @ bytes '']'' @ crlf"

fun ngc_loop :: "u8 list \<Rightarrow> grbl \<Rightarrow> (bool \<times> grbl) option" where
  "ngc_loop [] g = Some (True, g)"
| "ngc_loop (n # ns) g =
     Option.bind (settings_read_coord_data n g) (\<lambda>(ok, v, g).
       if ok then ngc_loop ns (print_bytes (ngc_line g (bytes ''[G'' @ coord_report_name n) v) g)
       else Some (False, report_status_message STATUS_SETTING_READ_FAIL g))"

definition report_ngc_parameters :: "grbl \<Rightarrow> grbl option" where
  "report_ngc_parameters g =
     map_option (\<lambda>(ok, g).
       if ok then
         let s = gc_state g;
             g = print_bytes (ngc_line g (bytes ''[G92'') (gc_coord_offset s)) g;
             g = print_bytes (bytes ''[TLO:'' @ coord_bytes g (gc_tool_length_offset s) @ bytes '']'' @ crlf) g
         in report_probe_parameters g
       else g)
       (ngc_loop [0, 1, 2, 3, 4, 5, 6, 7] g)"

section \<open>Startup lines\<close>

fun startup_loop :: "u8 list \<Rightarrow> grbl \<Rightarrow> grbl option" where
  "startup_loop [] g = Some g"
| "startup_loop (n # ns) g =
     Option.bind (settings_read_startup_line n g) (\<lambda>(ok, l, g).
       let g = set_line l g in
       if \<not> ok then
         let g = set_line (l[0 := 0]) g
         in startup_loop ns (report_execute_startup_message (line g) STATUS_SETTING_READ_FAIL g)
       else if line_at l 0 \<noteq> 0 then
         Option.bind (gc_execute_line l g) (\<lambda>(status_code, g).
           startup_loop ns (report_execute_startup_message (line g) status_code g))
       else startup_loop ns g)"

definition system_execute_startup :: "grbl \<Rightarrow> grbl option" where
  "system_execute_startup g = startup_loop [0, 1] g"

fun startup_report :: "u8 list \<Rightarrow> grbl \<Rightarrow> grbl option" where
  "startup_report [] g = Some g"
| "startup_report (n # ns) g =
     Option.bind (settings_read_startup_line n g) (\<lambda>(ok, l, g).
       let g = set_line l g in
       startup_report ns (if ok then report_startup_line n l g
                          else report_status_message STATUS_SETTING_READ_FAIL g))"

section \<open>The commands\<close>

text \<open>
  The characters from position \<open>k\<close> on, their zero byte included, are moved to the front of the
  line; what was behind them stays.
\<close>

definition shift_line :: "nat \<Rightarrow> u8 list \<Rightarrow> u8 list" where
  "shift_line k l = (let s = takeWhile (\<lambda>c. c \<noteq> 0) (drop k l) @ [0] in s @ drop (length s) l)"

definition cmd_check_mode :: "grbl \<Rightarrow> u8 \<times> grbl" where
  "cmd_check_mode g =
     (if sys_state (sys g) = STATE_CHECK_MODE then (STATUS_OK, report_feedback_message 5 (mc_reset g))
      else if sys_state (sys g) \<noteq> 0 then (STATUS_IDLE_ERROR, g)
      else (STATUS_OK, report_feedback_message 4 (set_state STATE_CHECK_MODE g)))"

definition cmd_unlock :: "grbl \<Rightarrow> u8 \<times> grbl" where
  "cmd_unlock g =
     (if sys_state (sys g) = STATE_ALARM then
        if system_check_safety_door_ajar g then (STATUS_CHECK_DOOR, g)
        else (STATUS_OK, set_state STATE_IDLE (report_feedback_message 3 g))
      else (STATUS_OK, g))"

text \<open>The commands of one letter that may run in any state.\<close>

definition cmd_short :: "u8 \<Rightarrow> grbl \<Rightarrow> u8 \<times> grbl" where
  "cmd_short c g =
     (if c = byte CHR ''$'' then
        if state_in (STATE_CYCLE OR STATE_HOLD) g then (STATUS_IDLE_ERROR, g)
        else (STATUS_OK, report_grbl_settings g)
      else if c = byte CHR ''G'' then (STATUS_OK, report_gcode_modes g)
      else if c = byte CHR ''C'' then cmd_check_mode g
      else cmd_unlock g)"

definition cmd_home :: "grbl \<Rightarrow> (u8 \<times> grbl) option" where
  "cmd_home g =
     (if bit_isfalse (set_flags (settings g)) BITFLAG_HOMING_ENABLE then Some (STATUS_SETTING_DISABLED, g)
      else if system_check_safety_door_ajar g then Some (STATUS_CHECK_DOOR, g)
      else
        let g = set_state STATE_HOMING g in
        if line_at (line g) 2 = 0 then
          Option.bind (mc_homing_cycle 0 g) (\<lambda>g.
            if sys_abort (sys g) = 0 then
              let g = st_go_idle (set_state STATE_IDLE g)
              in map_option (Pair STATUS_OK) (if line_at (line g) 2 = 0 then system_execute_startup g else Some g)
            else Some (STATUS_OK, g))
        else Some (STATUS_INVALID_STATEMENT, g))"

definition cmd_sleep :: "grbl \<Rightarrow> u8 \<times> grbl" where
  "cmd_sleep g =
     (if line_at (line g) 2 \<noteq> byte CHR ''L'' \<or> line_at (line g) 3 \<noteq> byte CHR ''P'' \<or> line_at (line g) 4 \<noteq> 0
      then (STATUS_INVALID_STATEMENT, g)
      else (STATUS_OK, system_set_exec_state_flag EXEC_SLEEP g))"

definition cmd_build_info :: "grbl \<Rightarrow> u8 \<times> grbl" where
  "cmd_build_info g =
     (if line_at (line g) 2 = 0 then
        let (ok, l, g) = settings_read_build_info g; g = set_line l g
        in (STATUS_OK, report_build_info l g)
      else (STATUS_OK, g))"

definition cmd_restore :: "grbl \<Rightarrow> (u8 \<times> grbl) option" where
  "cmd_restore g =
     (let l = line g;
          finish = map_option (\<lambda>g. (STATUS_OK, mc_reset (report_feedback_message 9 g)))
      in if line_at l 2 \<noteq> byte CHR ''S'' \<or> line_at l 3 \<noteq> byte CHR ''T'' \<or> line_at l 4 \<noteq> byte CHR ''=''
            \<or> line_at l 6 \<noteq> 0
         then Some (STATUS_INVALID_STATEMENT, g)
         else if line_at l 5 = byte CHR ''$'' then finish (settings_restore SETTINGS_RESTORE_DEFAULTS g)
         else if line_at l 5 = byte CHR ''#'' then finish (settings_restore SETTINGS_RESTORE_PARAMETERS g)
         else if line_at l 5 = byte CHR ''*'' then finish (settings_restore SETTINGS_RESTORE_ALL g)
         else Some (STATUS_INVALID_STATEMENT, g))"

text \<open>\<open>$x=val\<close> and \<open>$Nx=line\<close>, from position \<open>char_counter\<close> on.\<close>

definition cmd_store :: "bool \<Rightarrow> u8 \<Rightarrow> grbl \<Rightarrow> (u8 \<times> grbl) option" where
  "cmd_store startup char_counter g =
     (case read_float (line g) char_counter of
        None \<Rightarrow> Some (STATUS_BAD_NUMBER_FORMAT, g)
      | Some (parameter, char_counter) \<Rightarrow>
          if line_at (line g) char_counter \<noteq> byte CHR ''='' then Some (STATUS_INVALID_STATEMENT, g)
          else
            let char_counter = char_counter + 1 in
            if startup then
              let g = set_line (shift_line (unat char_counter) (line g)) g in
              Option.bind (gc_execute_line (line g) g) (\<lambda>(status, g).
                if status \<noteq> 0 then Some (status, g)
                else map_option (Pair STATUS_OK)
                  (settings_store_startup_line (f_to_u8 (w_cast (world g)) (f_trunc parameter)) (line g) g))
            else
              (case read_float (line g) char_counter of
                 None \<Rightarrow> Some (STATUS_BAD_NUMBER_FORMAT, g)
               | Some (v, char_counter) \<Rightarrow>
                   if line_at (line g) char_counter \<noteq> 0 \<or> f_lt (f_of_int 255) parameter
                   then Some (STATUS_INVALID_STATEMENT, g)
                   else settings_store_global_setting (f_to_u8 (w_cast (world g)) parameter) v g))"

definition cmd_startup :: "grbl \<Rightarrow> (u8 \<times> grbl) option" where
  "cmd_startup g =
     (if line_at (line g) 2 = 0 then map_option (Pair STATUS_OK) (startup_report [0, 1] g)
      else if sys_state (sys g) \<noteq> STATE_IDLE then Some (STATUS_IDLE_ERROR, g)
      else cmd_store True 2 g)"

text \<open>The commands that need the machine idle or in alarm.\<close>

definition cmd_long :: "u8 \<Rightarrow> grbl \<Rightarrow> (u8 \<times> grbl) option" where
  "cmd_long c g =
     (if sys_state (sys g) \<noteq> STATE_IDLE \<and> sys_state (sys g) \<noteq> STATE_ALARM then Some (STATUS_IDLE_ERROR, g)
      else if c = byte CHR ''#'' then
        if line_at (line g) 2 \<noteq> 0 then Some (STATUS_INVALID_STATEMENT, g)
        else map_option (Pair STATUS_OK) (report_ngc_parameters g)
      else if c = byte CHR ''H'' then cmd_home g
      else if c = byte CHR ''S'' then Some (cmd_sleep g)
      else if c = byte CHR ''I'' then Some (cmd_build_info g)
      else if c = byte CHR ''R'' then cmd_restore g
      else if c = byte CHR ''N'' then cmd_startup g
      else cmd_store False 1 g)"

definition system_execute_line :: "grbl \<Rightarrow> (u8 \<times> grbl) option" where
  "system_execute_line g =
     (let c = line_at (line g) 1 in
      if c = 0 then Some (STATUS_OK, report_grbl_help g)
      else if c = byte CHR ''J'' then
        if sys_state (sys g) \<noteq> STATE_IDLE \<and> sys_state (sys g) \<noteq> STATE_JOG then Some (STATUS_IDLE_ERROR, g)
        else if line_at (line g) 2 \<noteq> byte CHR ''='' then Some (STATUS_INVALID_STATEMENT, g)
        else gc_execute_line (line g) g
      else if c \<in> set (bytes ''$GCX'') then
        if line_at (line g) 2 \<noteq> 0 then Some (STATUS_INVALID_STATEMENT, g) else Some (cmd_short c g)
      else cmd_long c g)"

end
