(* ===== verification/Protocol.thy ===== *)
theory Protocol
  imports System_Cmd
begin

text \<open>
  The main loop of protocol.c, which filters the received characters into lines and answers each
  line, and main.c: the initialisation at power-up and after every reset.
\<close>

definition LINE_FLAG_OVERFLOW :: u8 where "LINE_FLAG_OVERFLOW = 0x01"
definition LINE_FLAG_COMMENT_PARENTHESES :: u8 where "LINE_FLAG_COMMENT_PARENTHESES = 0x02"
definition LINE_FLAG_COMMENT_SEMICOLON :: u8 where "LINE_FLAG_COMMENT_SEMICOLON = 0x04"

lemmas line_flag_consts [grbl_consts] =
  LINE_FLAG_OVERFLOW_def LINE_FLAG_COMMENT_PARENTHESES_def LINE_FLAG_COMMENT_SEMICOLON_def

section \<open>Characters to lines\<close>

record line_state =
  ls_line :: "u8 list"
  ls_flags :: u8
  ls_counter :: u8

text \<open>One character that is no end of line.\<close>

definition line_store :: "u8 \<Rightarrow> line_state \<Rightarrow> line_state" where
  "line_store c s =
     s\<lparr>ls_line := (ls_line s)[unat (ls_counter s) := c], ls_counter := ls_counter s + 1\<rparr>"

definition line_char :: "u8 \<Rightarrow> line_state \<Rightarrow> line_state" where
  "line_char c s =
     (if ls_flags s \<noteq> 0 then
        if c = byte CHR '')'' \<and> bit_istrue (ls_flags s) LINE_FLAG_COMMENT_PARENTHESES
        then s\<lparr>ls_flags := bit_false (ls_flags s) LINE_FLAG_COMMENT_PARENTHESES\<rparr> else s
      else if c \<le> byte CHR '' '' then s
      else if c = byte CHR ''/'' then s
      else if c = byte CHR ''('' then s\<lparr>ls_flags := ls_flags s OR LINE_FLAG_COMMENT_PARENTHESES\<rparr>
      else if c = byte CHR '';'' then s\<lparr>ls_flags := ls_flags s OR LINE_FLAG_COMMENT_SEMICOLON\<rparr>
      else if ls_counter s \<ge> LINE_BUFFER_SIZE - 1 then s\<lparr>ls_flags := ls_flags s OR LINE_FLAG_OVERFLOW\<rparr>
      else if c \<ge> byte CHR ''a'' \<and> c \<le> byte CHR ''z''
      then line_store (c - byte CHR ''a'' + byte CHR ''A'') s
      else line_store c s)"

section \<open>Answering a line\<close>

text \<open>The buffer query: a 16-bit count is printed as a long.\<close>

definition report_buffer_query :: "grbl \<Rightarrow> grbl" where
  "report_buffer_query g =
     (let g = print_bytes (bytes ''buf:'') g;
          g = print_uint8_base10 (plan_get_block_buffer_available g) g;
          g = print_bytes (bytes '' rx:'') g;
          s = llp_transport_get_stats g;
          g = printInteger (ucast (stats_rx_frames s)) g;
          g = printInteger (ucast (stats_rx_errors s)) (print_bytes (bytes '' e:'') g);
          g = printInteger (ucast (stats_rx_timeouts s)) (print_bytes (bytes '' t:'') g);
          g = printInteger (ucast (stats_rx_dropped s)) (print_bytes (bytes '' rd:'') g);
          g = printInteger (ucast (stats_tx_dropped s)) (print_bytes (bytes '' td:'') g)
      in report_status_message STATUS_OK (print_bytes crlf g))"

definition answer_line :: "u8 \<Rightarrow> grbl \<Rightarrow> grbl option" where
  "answer_line line_flags g =
     (let c = line_at (line g) 0; report = map_option (\<lambda>(status, g). report_status_message status g) in
      if line_flags AND LINE_FLAG_OVERFLOW \<noteq> 0 then Some (report_status_message STATUS_OVERFLOW g)
      else if c = 0 then Some (report_status_message STATUS_OK g)
      else if c = byte CHR ''$'' then report (system_execute_line g)
      else if c = byte CHR ''#'' then Some (report_buffer_query g)
      else if state_in (STATE_ALARM OR STATE_JOG) g then Some (report_status_message STATUS_SYSTEM_GC_LOCK g)
      else report (gc_execute_line (line g) g))"

text \<open>
  The loop over the received characters: line flags, character counter and state when no
  character is left (\<open>Inr\<close>), or the return at an abort (\<open>Inl\<close>).
\<close>

definition line_end :: "u8 \<Rightarrow> u8 \<Rightarrow> grbl \<Rightarrow> (grbl + grbl) option" where
  "line_end line_flags char_counter g =
     Option.bind (protocol_execute_realtime g) (\<lambda>g.
       if sys_abort (sys g) \<noteq> 0 then Some (Inl g)
       else map_option Inr
              (answer_line line_flags (g\<lparr>line := (line g)[unat char_counter := 0]\<rparr>)))"

partial_function (option) char_loop :: "u8 \<Rightarrow> u8 \<Rightarrow> grbl \<Rightarrow> (grbl + u8 \<times> u8 \<times> grbl) option" where
  "char_loop line_flags char_counter g =
     (let (c, g) = serial_read g in
      if c = SERIAL_NO_DATA then Some (Inr (line_flags, char_counter, g))
      else if c = 10 \<or> c = 13 then
        Option.bind (line_end line_flags char_counter g)
          (\<lambda>r. case r of Inl g \<Rightarrow> Some (Inl g) | Inr g \<Rightarrow> char_loop 0 0 g)
      else
        let s = line_char c \<lparr>ls_line = line g, ls_flags = line_flags, ls_counter = char_counter\<rparr>
        in char_loop (ls_flags s) (ls_counter s) (g\<lparr>line := ls_line s\<rparr>))"

partial_function (option) primary_loop :: "u8 \<Rightarrow> u8 \<Rightarrow> grbl \<Rightarrow> grbl option" where
  "primary_loop line_flags char_counter g =
     Option.bind (char_loop line_flags char_counter g) (\<lambda>r.
       case r of
         Inl g \<Rightarrow> Some g
       | Inr (line_flags, char_counter, g) \<Rightarrow>
           Option.bind (protocol_execute_realtime (protocol_auto_cycle_start g)) (\<lambda>g.
             if sys_abort (sys g) \<noteq> 0 then Some g else primary_loop line_flags char_counter g))"

definition protocol_start :: "grbl \<Rightarrow> grbl option" where
  "protocol_start g =
     (if state_in (STATE_ALARM OR STATE_SLEEP) g then
        Some (set_state STATE_ALARM (report_feedback_message 2 g))
      else
        let g = set_state STATE_IDLE g in
        Option.bind
          (if system_check_safety_door_ajar g
           then protocol_execute_realtime (g\<lparr>sys_rt_exec_state := bit_true (sys_rt_exec_state g) EXEC_SAFETY_DOOR\<rparr>)
           else Some g)
          system_execute_startup)"

definition protocol_main_loop :: "grbl \<Rightarrow> grbl option" where
  "protocol_main_loop g = Option.bind (protocol_start g) (primary_loop 0 0)"

section \<open>main.c\<close>

definition power_up :: "grbl \<Rightarrow> grbl option" where
  "power_up g =
     map_option (\<lambda>g.
       let g = system_init (stepper_init g); g = g\<lparr>sys_position := [0, 0, 0]\<rparr>; g = set_state STATE_IDLE g
       in if setting_true BITFLAG_HOMING_ENABLE g then set_state STATE_ALARM g else g)
       (settings_init (serial_init g))"

text \<open>The body of the initialisation loop before the main loop.\<close>

definition system_reset :: "grbl \<Rightarrow> grbl option" where
  "system_reset g =
     (let prior_state = sys_state (sys g);
          g = g\<lparr>sys := system_zero\<lparr>sys_state := prior_state, sys_f_override := 100,
                  sys_r_override := 100, sys_spindle_speed_ovr := 100\<rparr>,
                sys_probe_position := [0, 0, 0], sys_probe_state := 0, sys_rt_exec_state := 0,
                sys_rt_exec_alarm := 0, sys_rt_exec_motion_override := 0,
                sys_rt_exec_accessory_override := 0\<rparr>;
          g = serial_reset_read_buffer g
      in map_option (\<lambda>g. report_init_message (gc_sync_position (plan_sync_position (st_reset (plan_reset
           (probe_init (limits_init (coolant_init (spindle_init g)))))))))
           (gc_init g))"

definition main_cycle :: "grbl \<Rightarrow> grbl option" where
  "main_cycle g = Option.bind (system_reset g) protocol_main_loop"

end
