(* ===== verification/Settings_Properties.thy ===== *)
theory Settings_Properties
  imports Settings Frame
begin

text \<open>
  What is stored in the EEPROM is what is read back. The items of the EEPROM (settings, coordinate
  data, startup lines, build info) form a store with keys: the locale \<open>keyed_store\<close> states the
  contract, and its interpretation shows that the addresses of settings.h and the block copies of
  eeprom.c keep it for the valid items. Then: the image of the settings, the numbers of the axis
  settings, and what goes wrong where an index is not checked.
\<close>

section \<open>Stores with keys\<close>

locale keyed_store =
  fixes valid :: "'k \<Rightarrow> bool" and fits :: "'k \<Rightarrow> 'v \<Rightarrow> bool"
    and get :: "'k \<Rightarrow> 's \<Rightarrow> 'v option" and put :: "'k \<Rightarrow> 'v \<Rightarrow> 's \<Rightarrow> 's"
  assumes get_put: "valid k \<Longrightarrow> valid j \<Longrightarrow> fits k v \<Longrightarrow> get j (put k v s) = (if j = k then Some v else get j s)"
begin

text \<open>The state as a map, and a sequence of writes: the last one of each key counts.\<close>

definition contents :: "'s \<Rightarrow> 'k \<Rightarrow> 'v option" where
  "contents s k = (if valid k then get k s else None)"

lemma contents_put: "valid k \<Longrightarrow> fits k v \<Longrightarrow> contents (put k v s) = (contents s)(k \<mapsto> v)"
  by (auto simp: contents_def get_put)

lemma contents_puts:
  "(\<And>k v. (k, v) \<in> set kvs \<Longrightarrow> valid k \<and> fits k v) \<Longrightarrow>
   contents (fold (\<lambda>(k, v). put k v) kvs s) = contents s ++ map_of (rev kvs)"
proof (induction kvs arbitrary: s)
  case (Cons kv kvs)
  obtain k v where kv: "kv = (k, v)" by (cases kv)
  with Cons.prems [of k v] have "contents (put k v s) = contents s ++ [k \<mapsto> v]"
    by (simp add: contents_put)
  moreover have "contents (fold (\<lambda>(k, v). put k v) kvs (put k v s)) = contents (put k v s) ++ map_of (rev kvs)"
    by (rule Cons.IH) (use Cons.prems in auto)
  ultimately show ?case by (simp add: kv)
qed simp

end

section \<open>The items of the EEPROM\<close>

datatype eeprom_item = Global_Settings | Coordinates u8 | Startup_Line u8 | Build_Info

fun item_valid :: "eeprom_item \<Rightarrow> bool" where
  "item_valid (Coordinates n) \<longleftrightarrow> n \<le> SETTING_INDEX_NCOORD"
| "item_valid (Startup_Line n) \<longleftrightarrow> n < N_STARTUP_LINE"
| "item_valid _ \<longleftrightarrow> True"

fun item_addr :: "eeprom_item \<Rightarrow> u16" where
  "item_addr Global_Settings = EEPROM_ADDR_GLOBAL"
| "item_addr (Coordinates n) = coord_addr n"
| "item_addr (Startup_Line n) = startup_addr n"
| "item_addr Build_Info = EEPROM_ADDR_BUILD_INFO"

fun item_size :: "eeprom_item \<Rightarrow> nat" where
  "item_size Global_Settings = 85"
| "item_size (Coordinates n) = 12"
| "item_size _ = unat LINE_BUFFER_SIZE"

definition item_get :: "eeprom_item \<Rightarrow> grbl \<Rightarrow> u8 list option" where
  "item_get i g =
     (let (bs, ok) = memcpy_from_eeprom_with_checksum (item_addr i) (item_size i) g
      in if ok then Some bs else None)"

definition item_put :: "eeprom_item \<Rightarrow> u8 list \<Rightarrow> grbl \<Rightarrow> grbl" where
  "item_put i bs g = memcpy_to_eeprom_with_checksum (item_addr i) bs g"

text \<open>The places of the valid items, as numbers.\<close>

fun item_place :: "eeprom_item \<Rightarrow> nat" where
  "item_place Global_Settings = 1"
| "item_place (Coordinates n) = 512 + 13 * unat n"
| "item_place (Startup_Line n) = 768 + 49 * unat n"
| "item_place Build_Info = 942"

lemma item_bounds:
  "item_valid (Coordinates n) \<Longrightarrow> unat n \<le> 7" "item_valid (Startup_Line n) \<Longrightarrow> unat n \<le> 1"
  by (simp_all add: SETTING_INDEX_NCOORD_def N_STARTUP_LINE_def word_le_nat_alt word_less_nat_alt)

lemma item_addr_place:
  assumes "item_valid i"
  shows "item_addr i = of_nat (item_place i)"
proof (cases i)
  case (Coordinates n)
  then show ?thesis
    by (simp add: coord_addr_def EEPROM_ADDR_PARAMETERS_def mult.commute)
next
  case (Startup_Line n)
  then show ?thesis
    by (simp add: startup_addr_def EEPROM_ADDR_STARTUP_BLOCK_def LINE_BUFFER_SIZE_def mult.commute)
qed (simp_all add: EEPROM_ADDR_GLOBAL_def EEPROM_ADDR_BUILD_INFO_def)

lemma item_in_device: "item_valid i \<Longrightarrow> item_place i + item_size i < 1024"
  using item_bounds by (cases i) (fastforce simp: LINE_BUFFER_SIZE_def)+

lemma items_apart:
  assumes "item_valid i" "item_valid j" "i \<noteq> j"
  shows "item_place j + item_size j < item_place i \<or> item_place i + item_size i < item_place j"
  using assms item_bounds
  by (cases i; cases j) (fastforce simp: LINE_BUFFER_SIZE_def word_unat_eq_iff)+

interpretation items: keyed_store item_valid "\<lambda>i bs. length bs = item_size i" item_get item_put
proof unfold_locales
  fix i j :: eeprom_item and bs :: "u8 list" and g
  assume *: "item_valid i" "item_valid j" "length bs = item_size i"
  note place = item_addr_place [OF *(1)] item_addr_place [OF *(2)]
  show "item_get j (item_put i bs g) = (if j = i then Some bs else item_get j g)"
  proof (cases "j = i")
    case True
    then show ?thesis
      using memcpy_read_back [of "item_place i" bs g] item_in_device [OF *(1)] *(3)
      by (simp add: item_get_def item_put_def place)
  next
    case False
    then show ?thesis
      using memcpy_read_other [of "item_place i" bs "item_place j" "item_size j" g]
        item_in_device [OF *(1)] item_in_device [OF *(2)] items_apart [OF *(1,2)] *(3)
      by (simp add: item_get_def item_put_def place)
  qed
qed

section \<open>The image of the settings\<close>

definition settings_wf :: "settings_t \<Rightarrow> bool" where
  "settings_wf s \<longleftrightarrow>
     length (set_steps_per_mm s) = 3 \<and> length (set_max_rate s) = 3
     \<and> length (set_acceleration s) = 3 \<and> length (set_max_travel s) = 3"

lemma length_3: "length xs = 3 \<longleftrightarrow> (\<exists>a b c. xs = [a, b, c])"
  by (auto simp: numeral_3_eq_3 length_Suc_conv)

lemma floats_bytes_simps [simp]:
  "floats_bytes [] = []" "floats_bytes (x # xs) = f_bytes x @ floats_bytes xs"
  by (simp_all add: floats_bytes_def)

lemma floats_bytes_length [simp]: "length (floats_bytes xs) = 4 * length xs"
  by (induction xs) simp_all

lemma vector_bytes: "length v = 3 \<Longrightarrow> vector_at 0 (floats_bytes v) = v"
  by (auto simp: length_3 vector_at_def float_at_def)

lemma settings_bytes_length: "settings_wf s \<Longrightarrow> length (settings_bytes s) = 85"
  by (simp add: settings_bytes_def settings_wf_def)

lemma u16_of_bytes: "ucast (ucast x :: u8) OR push_bit 8 (ucast (ucast (drop_bit 8 x) :: u8)) = (x :: u16)"
  by (rule bit_word_eqI) (auto simp: bit_simps)

lemma f_of_four_bytes:
  "f_of_bytes [ucast x, ucast (drop_bit 8 x), ucast (drop_bit 16 x), ucast (drop_bit 24 x)] = x"
  using f_of_bytes_bytes [of x] by (simp only: f_bytes_def)

lemma settings_of_bytes_bytes:
  assumes "settings_wf s"
  shows "settings_of_bytes (settings_bytes s) = s"
proof -
  obtain x0 x1 x2 y0 y1 y2 z0 z1 z2 t0 t1 t2
    where v: "set_steps_per_mm s = [x0, x1, x2]" "set_max_rate s = [y0, y1, y2]"
      "set_acceleration s = [z0, z1, z2]" "set_max_travel s = [t0, t1, t2]"
    using assms by (auto simp: settings_wf_def length_3)
  then show ?thesis
    by (simp add: settings_bytes_def settings_of_bytes_def vector_at_def float_at_def f_bytes_def
        f_of_four_bytes u16_of_bytes)
qed

section \<open>The EEPROM as a map\<close>

definition eeprom_items :: "grbl \<Rightarrow> eeprom_item \<Rightarrow> u8 list option" where
  "eeprom_items g i = (if item_valid i then item_get i g else None)"

lemma eeprom_items_eq: "eeprom_items = items.contents"
  by (intro ext) (simp add: eeprom_items_def items.contents_def)

lemma items_put:
  "item_valid i \<Longrightarrow> length bs = item_size i \<Longrightarrow>
   eeprom_items (memcpy_to_eeprom_with_checksum (item_addr i) bs g) = (eeprom_items g)(i \<mapsto> bs)"
  using items.contents_put [of i bs g] by (simp add: eeprom_items_eq item_put_def)

lemma memcpy_from_cong:
  assumes "eeprom h = eeprom g"
  shows "memcpy_from_eeprom_with_checksum a n h = memcpy_from_eeprom_with_checksum a n g"
proof -
  have "memcpy_from_loop c a n h = memcpy_from_loop c a n g" for c
    by (induction n arbitrary: c a) (simp_all add: assms eeprom_get_char_def)
  then show ?thesis by (simp add: memcpy_from_eeprom_with_checksum_def)
qed

lemma items_cong:
  assumes "eeprom h = eeprom g"
  shows "eeprom_items h = eeprom_items g"
  by (intro ext) (simp only: eeprom_items_def item_get_def memcpy_from_cong [OF assms])

lemma items_read:
  assumes "eeprom_items g i = Some bs"
  shows "memcpy_from_eeprom_with_checksum (item_addr i) (item_size i) g = (bs, True)"
  using assms by (auto simp: eeprom_items_def item_get_def split: prod.splits if_split_asm)

lemma items_version: "eeprom_items (eeprom_put_char 0 v g) = eeprom_items g"
proof (rule ext)
  fix i
  show "eeprom_items (eeprom_put_char 0 v g) i = eeprom_items g i"
  proof (cases "item_valid i")
    case True
    have *: "eeprom_at j (eeprom_put_char 0 v g) = eeprom_at j g" if "j \<noteq> 0" "j < 1024" for j
      using eeprom_at_put [of 0 j v g] that by simp
    have p: "item_place i > 0" by (cases i) auto
    have "eeprom_block (item_place i) (item_size i) (eeprom_put_char 0 v g)
        = eeprom_block (item_place i) (item_size i) g"
      using p item_in_device [OF True] by (auto simp: eeprom_block_def intro!: *)
    then show ?thesis
      using True p item_in_device [OF True]
      by (simp add: eeprom_items_def item_get_def item_addr_place memcpy_from_eq *)
  qed (simp add: eeprom_items_def)
qed

lemma synchronized_items: "protocol_buffer_synchronize g = Some h \<Longrightarrow> eeprom_items h = eeprom_items g"
  by (rule items_cong) (rule persistent_eq(2) [OF rt.synchronize])

lemma idle_synchronize:
  "protocol_buffer_synchronize (grbl_zero\<lparr>settings := s, eeprom := e\<rparr>) = Some (grbl_zero\<lparr>settings := s, eeprom := e\<rparr>)"
  by (simp add: protocol_buffer_synchronize_def, subst buffer_sync_loop.simps)
    (simp add: grbl_zero_defs grbl_consts protocol_execute_realtime_def protocol_exec_rt_system_def
      poll_def rt_alarm_def rt_state_flags_def rt_reload_def rt_motion_override_def
      rt_accessory_override_def plan_get_current_block_def state_in_def protocol_auto_cycle_start_def Let_def)

lemma zero_synchronize: "protocol_buffer_synchronize grbl_zero = Some grbl_zero"
  using idle_synchronize [where s = "settings grbl_zero" and e = "eeprom grbl_zero"] by simp

section \<open>Where the coordinate data are\<close>

text \<open>The EEPROM outside the coordinate data (addresses 512 to 615).\<close>

definition outside_coords :: "(u16 \<Rightarrow> u8) \<Rightarrow> u16 \<Rightarrow> u8" where
  "outside_coords e i = (if 512 \<le> i \<and> i < 616 then 0 else e i)"

lemma coord_write_outside:
  assumes "n < 8"
  shows "outside_coords (eeprom (memcpy_to_eeprom_with_checksum (coord_addr n) (take 12 bs) g))
    = outside_coords (eeprom g)"
proof -
  have n: "unat n < 8" using assms by (simp add: word_less_nat_alt)
  then have a: "unat (coord_addr n) = unat n * 13 + 512"
    by (simp add: coord_addr_def EEPROM_ADDR_PARAMETERS_def unat_word_ariths unsigned_ucast_eq take_bit_eq_mod)
  have "eeprom (memcpy_to_eeprom_with_checksum (coord_addr n) (take 12 bs) g) i = eeprom g i"
    if "\<not> (512 \<le> i \<and> i < 616)" for i
    using that n a by (intro memcpy_to_outside) (auto simp: word_le_nat_alt word_less_nat_alt)
  then show ?thesis by (auto simp: outside_coords_def)
qed

lemma write_coords_outside:
  assumes "\<forall>n \<in> set ns. n < 8" and "each (\<lambda>n. settings_write_coord_data n f) ns g = Some h"
  shows "outside_coords (eeprom h) = outside_coords (eeprom g)"
  using assms
proof (induction ns arbitrary: g)
  case (Cons n ns)
  then obtain k where k: "settings_write_coord_data n f g = Some k"
    and "each (\<lambda>n. settings_write_coord_data n f) ns k = Some h"
    by (auto simp: Option.bind_eq_Some_conv)
  with Cons have "outside_coords (eeprom h) = outside_coords (eeprom k)" by simp
  moreover have "outside_coords (eeprom k) = outside_coords (eeprom g)"
    using k Cons.prems(1)
    by (auto simp: settings_write_coord_data_def coord_write_outside dest!: rt.synchronize persistent_eq(2))
  ultimately show ?case by simp
qed simp

section \<open>Setting commands\<close>

text \<open>Soft limits are only enabled together with homing.\<close>

definition soft_limit_ok :: "settings_t \<Rightarrow> bool" where
  "soft_limit_ok s \<longleftrightarrow>
     (bit_istrue (set_flags s) BITFLAG_SOFT_LIMIT_ENABLE \<longrightarrow> bit_istrue (set_flags s) BITFLAG_HOMING_ENABLE)"

lemma bit_other:
  fixes x m k :: "'a::len word"
  assumes "m AND k = 0"
  shows "bit_istrue (bit_true x m) k = bit_istrue x k" "bit_istrue (bit_false x m) k = bit_istrue x k"
proof -
  have *: "\<not> (bit m n \<and> bit k n)" for n
    using arg_cong [OF assms, of "\<lambda>w. bit w n"] by (simp add: bit_and_iff)
  have "(x OR m) AND k = x AND k" "(x AND NOT m) AND k = x AND k"
    using * by (auto intro!: bit_word_eqI simp: bit_simps)
  then show "bit_istrue (bit_true x m) k = bit_istrue x k" "bit_istrue (bit_false x m) k = bit_istrue x k"
    by (simp_all add: bit_macros)
qed

lemma set_flag_other:
  assumes "m AND k = 0"
  shows "bit_istrue (set_flags (settings (set_flag m v g))) k = bit_istrue (set_flags (settings g)) k"
  by (simp add: set_flag_def bit_other [OF assms])

lemma set_flag_same:
  "m \<noteq> 0 \<Longrightarrow> bit_istrue (set_flags (settings (set_flag m v g))) m = (v \<noteq> 0)"
  by (simp add: set_flag_def)

lemma set_flag_soft:
  assumes "m AND BITFLAG_SOFT_LIMIT_ENABLE = 0" and "m AND BITFLAG_HOMING_ENABLE = 0"
  shows "soft_limit_ok (settings (set_flag m v g)) = soft_limit_ok (settings g)"
  by (simp add: soft_limit_ok_def set_flag_other assms)

lemma soft_fields [simp]:
  "soft_limit_ok (set_steps_per_mm_update f0 s) = soft_limit_ok s" "soft_limit_ok (set_max_rate_update f1 s) = soft_limit_ok s"
  "soft_limit_ok (set_acceleration_update f2 s) = soft_limit_ok s" "soft_limit_ok (set_max_travel_update f3 s) = soft_limit_ok s"
  "soft_limit_ok (set_pulse_microseconds_update f4 s) = soft_limit_ok s" "soft_limit_ok (set_step_invert_mask_update f5 s) = soft_limit_ok s"
  "soft_limit_ok (set_dir_invert_mask_update f6 s) = soft_limit_ok s" "soft_limit_ok (set_stepper_idle_lock_time_update f7 s) = soft_limit_ok s"
  "soft_limit_ok (set_status_report_mask_update f8 s) = soft_limit_ok s" "soft_limit_ok (set_junction_deviation_update f9 s) = soft_limit_ok s"
  "soft_limit_ok (set_arc_tolerance_update f10 s) = soft_limit_ok s" "soft_limit_ok (set_rpm_max_update f11 s) = soft_limit_ok s"
  "soft_limit_ok (set_rpm_min_update f12 s) = soft_limit_ok s" "soft_limit_ok (set_homing_dir_mask_update f13 s) = soft_limit_ok s"
  "soft_limit_ok (set_homing_feed_rate_update f14 s) = soft_limit_ok s" "soft_limit_ok (set_homing_seek_rate_update f15 s) = soft_limit_ok s"
  "soft_limit_ok (set_homing_debounce_delay_update f16 s) = soft_limit_ok s" "soft_limit_ok (set_homing_pulloff_update f17 s) = soft_limit_ok s"
  by (simp_all add: soft_limit_ok_def)

text \<open>Operations behind the setting commands that keep the settings.\<close>

lemma keep_settings:
  "settings (st_generate_step_dir_invert_masks g) = settings g"
  "settings (probe_configure_invert_mask b g) = settings g" "settings (limits_init g) = settings g"
  by (rule persistent_eq; simp add: keeps)+

lemma wco_settings: "system_flag_wco_change g = Some h \<Longrightarrow> settings h = settings g"
  by (rule persistent_eq) (rule rt.wco_change)

lemma set_value_soft:
  assumes "set_value_setting p v g = Some (Inr h)" and "soft_limit_ok (settings g)"
  shows "soft_limit_ok (settings h)"
proof -
  have flags: "soft_limit_ok (settings (set_flag BITFLAG_INVERT_ST_ENABLE i g))"
    "soft_limit_ok (settings (set_flag BITFLAG_INVERT_LIMIT_PINS i g))"
    "soft_limit_ok (settings (set_flag BITFLAG_INVERT_PROBE_PIN i g))"
    "soft_limit_ok (settings (set_flag BITFLAG_REPORT_INCHES i g))"
    "soft_limit_ok (settings (set_flag BITFLAG_HARD_LIMIT_ENABLE i g))" for i
    using assms(2) by (simp_all add: set_flag_soft bitflag_consts)
  have homing: "soft_limit_ok (settings (set_flag BITFLAG_HOMING_ENABLE i g))" if "i \<noteq> 0" for i
    using that by (simp add: soft_limit_ok_def set_flag_same BITFLAG_HOMING_ENABLE_def)
  have soft: "soft_limit_ok (settings (set_flag BITFLAG_SOFT_LIMIT_ENABLE i g))"
    if "i = 0 \<or> \<not> bit_isfalse (set_flags (settings g)) BITFLAG_HOMING_ENABLE" for i and g :: grbl
    using that
    by (auto simp: soft_limit_ok_def set_flag_same set_flag_other bit_isfalse_iff bitflag_consts)
  show ?thesis
    using assms flags homing soft unfolding set_value_setting_def Let_def
    by (auto simp: keep_settings  split: if_split_asm dest!: wco_settings)
qed

lemma set_axis_soft [simp]: "soft_limit_ok (set_axis_setting k i v s) = soft_limit_ok s"
  by (simp add: set_axis_setting_def)

lemma axis_setting_eq:
  assumes "n \<le> 4" and "k = of_nat (4 - n)"
  shows "axis_setting n k q = (if unat q div 10 < n \<and> unat q mod 10 < 3
    then Some (k + of_nat (unat q div 10), unat q mod 10) else None)"
  using assms
proof (induction n arbitrary: k q)
  case (Suc n)
  have k1: "k + 1 = of_nat (4 - n)"
  proof -
    have "4 - n = Suc (4 - Suc n)" using Suc.prems(1) by simp
    then show ?thesis using Suc.prems(2) by (metis of_nat_Suc add.commute)
  qed
  have last: "k + 1 = 4 \<longleftrightarrow> n = 0"
    using Suc.prems(1) unat_of_nat_u8 [of "4 - n"] unfolding k1 word_unat_eq_iff by auto
  show ?case
  proof (cases "unat q < 10")
    case True
    then show ?thesis
      by (simp add: AXIS_SETTINGS_INCREMENT_def AXIS_N_SETTINGS_def word_less_nat_alt Let_def)
  next
    case False
    then have q: "unat (q - 10) = unat q - 10"
      by (subst unat_sub) (simp_all add: word_le_nat_alt)
    have d: "unat q div 10 = Suc ((unat q - 10) div 10)" "unat q mod 10 = (unat q - 10) mod 10"
      using False by (simp_all add: le_div_geq le_mod_geq)
    have "axis_setting (Suc n) k q = (if n = 0 then None else axis_setting n (k + 1) (q - 10))"
      using False by (simp add: AXIS_SETTINGS_INCREMENT_def AXIS_N_SETTINGS_def word_less_nat_alt Let_def last)
    also have "\<dots> = (if (unat q - 10) div 10 < n \<and> (unat q - 10) mod 10 < 3
        then Some (k + 1 + of_nat ((unat q - 10) div 10), (unat q - 10) mod 10) else None)"
      using Suc.IH [OF _ k1, of "q - 10"] Suc.prems(1) q by simp
    finally show ?thesis by (simp add: d algebra_simps)
  qed
qed simp

section \<open>Restoring everything\<close>

lemma store_soft:
  assumes "settings_store_global_setting p v g = Some (e, h)" and "soft_limit_ok (settings g)"
  shows "soft_limit_ok (settings h)"
  using assms
  by (auto simp: settings_store_global_setting_def write_global_settings_def frame_simps split_sum_ex
      split: if_split_asm option.splits prod.splits dest: set_value_soft)

lemma restore_bytes:
  assumes "\<And>a. eeprom g a = 0xFF" and "settings_restore SETTINGS_RESTORE_ALL g = Some h"
  shows "768 \<le> a \<Longrightarrow> unat a < 1024 \<Longrightarrow> eeprom h a = (if a \<in> {768, 769, 817, 818, 942, 943} then 0 else 0xFF)"
proof -
  assume a: "768 \<le> a" "unat a < 1024"
  let ?w = "write_global_settings (g\<lparr>settings := defaults\<rparr>)"
  obtain k where k: "each (\<lambda>n. settings_write_coord_data n (\<lambda>g. vec0)) [0, 1, 2, 3, 4, 5, 6, 7] ?w = Some k"
    and h: "h = eeprom_put_char 943 0 (eeprom_put_char 942 0 (eeprom_put_char 818 0 (eeprom_put_char 817 0
      (eeprom_put_char 769 0 (eeprom_put_char 768 0 k)))))"
    using assms(2)
    by (auto simp: settings_restore_def Let_def bit_macros settings_consts LINE_BUFFER_SIZE_def simp del: each.simps)
  have "outside_coords (eeprom k) = outside_coords (eeprom ?w)"
    by (rule write_coords_outside [OF _ k]) simp
  then have "eeprom k a = eeprom ?w a"
    using a(1) by (auto simp: outside_coords_def fun_eq_iff word_le_nat_alt word_less_nat_alt dest: spec [of _ a])
  also have "settings_wf defaults" by (simp add: settings_wf_def defaults_def)
  then have "eeprom ?w a = 0xFF"
    using a assms(1) unfolding write_global_settings_def
    by (subst memcpy_to_outside)
      (auto simp: settings_bytes_length EEPROM_ADDR_GLOBAL_def word_le_nat_alt eeprom_put_char_eq EEAR_small
        frame_simps)
  finally show "eeprom h a = (if a \<in> {768, 769, 817, 818, 942, 943} then 0 else 0xFF)"
    by (simp add: h eeprom_put_char_eq EEAR_small)
qed
text \<open>An idle machine can always restore.\<close>

lemma idle_restore:
  "\<exists>h. settings_restore SETTINGS_RESTORE_ALL (grbl_zero\<lparr>eeprom := e\<rparr>) = Some h"
proof -
  have idle: "protocol_buffer_synchronize (grbl_zero\<lparr>settings := s, eeprom := e\<rparr>)
      = Some (grbl_zero\<lparr>settings := s, eeprom := e\<rparr>)" for s e
    by (rule idle_synchronize)
  have w: "\<exists>e'. each (\<lambda>n. settings_write_coord_data n f) ns (grbl_zero\<lparr>settings := s, eeprom := e\<rparr>)
      = Some (grbl_zero\<lparr>settings := s, eeprom := e'\<rparr>)" for ns f s e
  proof (induction ns arbitrary: e)
    case (Cons n ns)
    obtain e' where "settings_write_coord_data n f (grbl_zero\<lparr>settings := s, eeprom := e\<rparr>)
        = Some (grbl_zero\<lparr>settings := s, eeprom := e'\<rparr>)"
      using memcpy_to_eeprom_only [of "coord_addr n" _ "grbl_zero\<lparr>settings := s, eeprom := e\<rparr>"]
      by (force simp: settings_write_coord_data_def idle)
    with Cons show ?case by simp
  next
    case Nil
    show ?case by (simp, rule exI, rule refl)
  qed
  have coords: "\<exists>h. each (\<lambda>n. settings_write_coord_data n f) ns (grbl_zero\<lparr>settings := s, eeprom := e\<rparr>) = Some h"
    for ns f s e using w by blast
  obtain e' where "write_global_settings (grbl_zero\<lparr>eeprom := e, settings := defaults\<rparr>)
      = grbl_zero\<lparr>settings := defaults, eeprom := e'\<rparr>"
    using memcpy_to_eeprom_only [of EEPROM_ADDR_GLOBAL _
        "eeprom_put_char 0 SETTINGS_VERSION (grbl_zero\<lparr>settings := defaults, eeprom := e\<rparr>)"]
    by (force simp: write_global_settings_def eeprom_put_char_eq)
  then show ?thesis
    by (auto simp: settings_restore_def Let_def bit_macros settings_consts coords simp del: each.simps)
qed

section \<open>Properties\<close>

text \<open>
  C16. Writing the settings and reading them back gives the same settings, with every other item of the
  EEPROM unchanged: the image of the struct loses nothing and its place overlaps no other.
\<close>
theorem settings_stored:
  assumes "settings_wf (settings g)" and "h = write_global_settings g"
  shows "read_global_settings h = (True, h)
    \<and> eeprom_items h = (eeprom_items g)(Global_Settings \<mapsto> settings_bytes (settings g))"
proof -
  let ?p = "eeprom_put_char 0 SETTINGS_VERSION g"
  have h: "h = memcpy_to_eeprom_with_checksum (item_addr Global_Settings) (settings_bytes (settings g)) ?p"
    using assms(2) by (simp add: write_global_settings_def)
  have items: "eeprom_items h = (eeprom_items g)(Global_Settings \<mapsto> settings_bytes (settings g))"
    using items_put [of Global_Settings "settings_bytes (settings g)" ?p]
    by (simp add: h settings_bytes_length assms(1) items_version)
  then have "eeprom_items h Global_Settings = Some (settings_bytes (settings g))" by simp
  from items_read [OF this]
  have r: "memcpy_from_eeprom_with_checksum EEPROM_ADDR_GLOBAL 85 h = (settings_bytes (settings g), True)" by simp
  have "eeprom h 0 = eeprom ?p 0"
    unfolding h by (rule memcpy_to_outside)
      (simp_all add: EEPROM_ADDR_GLOBAL_def settings_bytes_length assms(1))
  then have "eeprom_get_char 0 h = SETTINGS_VERSION"
    by (simp add: eeprom_get_char_def eeprom_put_char_eq EEAR_small)
  moreover have "settings h = settings g" by (simp add: h frame_simps)
  ultimately show ?thesis
    using items r by (simp add: read_global_settings_def settings_of_bytes_bytes assms(1))
qed

theorem settings_stored_witness:
  "read_global_settings (write_global_settings (grbl_zero\<lparr>settings := defaults\<rparr>))
     = (True, write_global_settings (grbl_zero\<lparr>settings := defaults\<rparr>))"
  using settings_stored [of "grbl_zero\<lparr>settings := defaults\<rparr>", OF _ refl]
  by (simp add: settings_wf_def defaults_def)

text \<open>
  C24. A coordinate system that was written is read back exactly, by the record it was written to and
  by no other: in terms of the stored items the write is the update of one key.
\<close>
theorem coord_data_stored:
  assumes "settings_write_coord_data n (\<lambda>_. v) g = Some h" and "n \<le> SETTING_INDEX_NCOORD" and "length v = 3"
  shows "settings_read_coord_data n h = Some (True, v, h)
    \<and> eeprom_items h = (eeprom_items g)(Coordinates n \<mapsto> floats_bytes v)"
proof -
  obtain k where k: "protocol_buffer_synchronize g = Some k"
    and h: "h = memcpy_to_eeprom_with_checksum (item_addr (Coordinates n)) (floats_bytes v) k"
    using assms(1,3) by (auto simp: settings_write_coord_data_def)
  have items: "eeprom_items h = (eeprom_items g)(Coordinates n \<mapsto> floats_bytes v)"
    using items_put [of "Coordinates n" "floats_bytes v" k] assms(2,3) synchronized_items [OF k]
    by (simp add: h)
  then have "eeprom_items h (Coordinates n) = Some (floats_bytes v)" by simp
  from items_read [OF this] have "memcpy_from_eeprom_with_checksum (coord_addr n) 12 h = (floats_bytes v, True)"
    by simp
  with items show ?thesis by (simp add: settings_read_coord_data_def vector_bytes assms(3))
qed

theorem coord_data_stored_witness:
  "\<exists>h. settings_write_coord_data 2 (\<lambda>_. [1, 2, 3]) grbl_zero = Some h
     \<and> settings_read_coord_data 2 h = Some (True, [1, 2, 3], h)"
proof -
  obtain h where h: "settings_write_coord_data 2 (\<lambda>_. [1, 2, 3]) grbl_zero = Some h"
    by (simp add: settings_write_coord_data_def zero_synchronize)
  with coord_data_stored [OF h] show ?thesis by (simp add: SETTING_INDEX_NCOORD_def)
qed

text \<open>
  C28. A startup line that was stored under one of the two indices is read back unchanged and touches no
  other item.
\<close>
theorem startup_line_stored:
  assumes "settings_store_startup_line n l g = Some h" and "n < N_STARTUP_LINE" and "length l = unat LINE_BUFFER_SIZE"
  shows "settings_read_startup_line n h = Some (True, l, h)
    \<and> eeprom_items h = (eeprom_items g)(Startup_Line n \<mapsto> l)"
proof -
  obtain k where k: "protocol_buffer_synchronize g = Some k"
    and h: "h = memcpy_to_eeprom_with_checksum (item_addr (Startup_Line n)) l k"
    using assms(1,3) by (auto simp: settings_store_startup_line_def)
  have items: "eeprom_items h = (eeprom_items g)(Startup_Line n \<mapsto> l)"
    using items_put [of "Startup_Line n" l k] assms(2,3) synchronized_items [OF k] by (simp add: h)
  then have "eeprom_items h (Startup_Line n) = Some l" by simp
  from items_read [OF this] items show ?thesis by (simp add: settings_read_startup_line_def)
qed

theorem startup_line_stored_witness:
  "\<exists>h. settings_store_startup_line 1 (replicate 48 65) grbl_zero = Some h
     \<and> settings_read_startup_line 1 h = Some (True, replicate 48 65, h)"
proof -
  obtain h where h: "settings_store_startup_line 1 (replicate 48 65) grbl_zero = Some h"
    by (simp add: settings_store_startup_line_def zero_synchronize)
  with startup_line_stored [OF h] show ?thesis by (simp add: N_STARTUP_LINE_def LINE_BUFFER_SIZE_def)
qed

text \<open>
  C39. The index of \<open>$Nn=\<close> is not checked when the line is stored. Index 5 runs over the end of the
  EEPROM: the line continues at address 0, over the version byte, and unless its twelfth byte happens to be the
  version number the settings are no longer accepted, so that the next power-up restores the defaults.
\<close>
theorem startup_index_destroys_settings:
  assumes "settings_store_startup_line 5 l g = Some h" and "length l = unat LINE_BUFFER_SIZE"
    and "l ! 11 \<noteq> SETTINGS_VERSION"
  shows "read_global_settings h = (False, h)"
proof -
  obtain k where "h = memcpy_to_eeprom_with_checksum (startup_addr 5) l k"
    using assms(1,2) by (auto simp: settings_store_startup_line_def)
  then have "eeprom h (EEAR (startup_addr 5 + of_nat 11)) = l ! 11"
    using memcpy_to_hits [of 11 l 0 "startup_addr 5" k] assms(2)
    by (simp add: memcpy_to_eeprom_with_checksum_def LINE_BUFFER_SIZE_def)
  then have "eeprom_get_char 0 h = l ! 11"
    by (simp add: eeprom_get_char_def EEAR_def startup_addr_def LINE_BUFFER_SIZE_def EEPROM_ADDR_STARTUP_BLOCK_def)
  with assms(3) show ?thesis by (simp add: read_global_settings_def)
qed

theorem startup_index_destroys_settings_witness:
  "\<exists>h. settings_store_startup_line 5 (replicate 48 0) (write_global_settings grbl_zero) = Some h
     \<and> read_global_settings h = (False, h)"
proof -
  obtain e where e: "write_global_settings grbl_zero = grbl_zero\<lparr>eeprom := e\<rparr>"
    using memcpy_to_eeprom_only [of EEPROM_ADDR_GLOBAL _ "eeprom_put_char 0 SETTINGS_VERSION grbl_zero"]
    by (force simp: write_global_settings_def eeprom_put_char_eq)
  obtain h where h: "settings_store_startup_line 5 (replicate 48 0) (write_global_settings grbl_zero) = Some h"
    using idle_synchronize [where s = "settings grbl_zero" and e = e] by (simp add: settings_store_startup_line_def e)
  have "read_global_settings h = (False, h)"
    by (rule startup_index_destroys_settings [OF h]) (simp_all add: LINE_BUFFER_SIZE_def SETTINGS_VERSION_def)
  with h show ?thesis by blast
qed

text \<open>
  C38. On an erased EEPROM, where every byte is 0xFF, restoring everything leaves the startup lines and the build info unreadable: the
  code clears the first two bytes of each block, where the second is meant to be its checksum, and the
  checksum at the block's end stays erased. Each is reported as a failed read at its first use.
\<close>
theorem restore_leaves_unreadable:
  assumes "\<And>a. eeprom g a = 0xFF" and "settings_restore SETTINGS_RESTORE_ALL g = Some h"
  shows "eeprom_items h (Startup_Line 0) = None \<and> eeprom_items h (Startup_Line 1) = None
    \<and> eeprom_items h Build_Info = None"
proof -
  have at: "eeprom_at i h = (if i \<in> {768, 769, 817, 818, 942, 943} then 0 else 0xFF)" if "768 \<le> i" "i < 1024" for i
    using restore_bytes [OF assms, of "of_nat i"] that
    by (auto simp: eeprom_at_def eeprom_get_char_def EEAR_small word_le_nat_alt word_unat_eq_iff)
  have "checksum (eeprom_block p 48 h) \<noteq> eeprom_at (p + 48) h" if "p \<in> {768, 817, 942}" for p
  proof -
    have "eeprom_block p 48 h = map (\<lambda>i. if i \<in> {768, 769, 817, 818, 942, 943} then 0 else 0xFF) [p..<p + 48]"
      using that by (auto simp: eeprom_block_def at)
    moreover have "eeprom_at (p + 48) h = 0xFF" using that by (auto simp: at)
    ultimately show ?thesis using that by (auto simp: checksum_def checksum_add_eq upt_conv_Cons)
  qed
  then have no: "item_valid i \<Longrightarrow> item_size i = 48 \<Longrightarrow> item_place i \<in> {768, 817, 942} \<Longrightarrow> eeprom_items h i = None" for i
    by (auto simp: eeprom_items_def item_get_def item_addr_place memcpy_from_eq)
  show ?thesis by (auto intro!: no simp: N_STARTUP_LINE_def LINE_BUFFER_SIZE_def)
qed

theorem restore_leaves_unreadable_witness:
  "\<exists>h. settings_restore SETTINGS_RESTORE_ALL grbl_zero = Some h \<and> eeprom_items h (Startup_Line 0) = None"
proof -
  obtain h where h: "settings_restore SETTINGS_RESTORE_ALL grbl_zero = Some h"
    using idle_restore [of "eeprom grbl_zero"] by auto
  have "eeprom_items h (Startup_Line 0) = None"
    using restore_leaves_unreadable [OF _ h] by (simp add: grbl_zero_def)
  with h show ?thesis by blast
qed

text \<open>
  C25. No setting command can leave soft limits enabled without homing.
\<close>
theorem soft_limits_need_homing:
  assumes "settings_store_global_setting p v g = Some (e, h)" and "soft_limit_ok (settings g)"
  shows "soft_limit_ok (settings h)"
  using assms by (rule store_soft)

theorem soft_limits_need_homing_witness:
  "\<exists>e h. settings_store_global_setting 22 0x3F800000 grbl_zero = Some (e, h) \<and> soft_limit_ok (settings h)"
proof -
  have "\<exists>h. settings_store_global_setting 22 0x3F800000 grbl_zero = Some (if f_lt 0x3F800000 0 then STATUS_NEGATIVE_VALUE else STATUS_OK, h)"
    by (simp add: settings_store_global_setting_def set_value_setting_def AXIS_SETTINGS_START_VAL_def Let_def)
  then obtain e h where h: "settings_store_global_setting 22 0x3F800000 grbl_zero = Some (e, h)" by blast
  have "soft_limit_ok (settings h)"
    by (rule soft_limits_need_homing [OF h]) (simp add: soft_limit_ok_def bit_macros grbl_zero_def settings_zero_def)
  with h show ?thesis by blast
qed

text \<open>
  The search loop finds exactly the axis settings: number \<open>100 + 10 k + i\<close> is vector \<open>k\<close> of the four
  and axis \<open>i\<close> of the three, and every other number from 100 to 255 is refused.
\<close>
lemma axis_setting_number:
  "axis_setting (unat AXIS_N_SETTINGS) 0 q =
     (if unat q div 10 < 4 \<and> unat q mod 10 < 3 then Some (of_nat (unat q div 10), unat q mod 10) else None)"
  using axis_setting_eq [of 4 0 q] by (simp add: AXIS_N_SETTINGS_def)

end
