(* ===== verification/Gcode_Properties.thy ===== *)
theory Gcode_Properties
  imports Gcode Settings_Properties
begin

text \<open>
  The G-code interpreter as a whole: it returns on every line that fits its index, and a line that
  it rejects leaves the machine as it was. The locale \<open>gcode_closed\<close> carries a condition through a whole line.
\<close>

section \<open>Words end\<close>

lemma read_digits_bounds:
  assumes "read_digits cs intval exp ndigit isdecimal p = (intval', exp', ndigit', q)"
  shows "p < q \<and> q \<le> p + length cs + 1 \<and> (ndigit' = ndigit \<or> p + 1 < q)"
  using assms
proof (induction cs intval exp ndigit isdecimal p arbitrary: intval' exp' ndigit' q rule: read_digits.induct)
  case (2 ch cs intval exp ndigit isdecimal p)
  then show ?case
    by (fastforce simp: Let_def split: if_splits)
qed auto

lemma read_float_advances:
  assumes "read_float l c = Some (v, d)" and "length l < 255" and "unat c \<le> length l"
  shows "unat c < unat d \<and> unat d \<le> length l"
proof -
  let ?c = "if unat c < length l then l ! unat c else 0"
  define p where "p = (if ?c = byte CHR ''-'' \<or> ?c = byte CHR ''+'' then unat c + 1 else unat c)"
  obtain intval ex ndigit q where r: "read_digits (drop p l) 0 0 0 False p = (intval, ex, ndigit, q)"
    by (metis prod_cases4)
  from assms(1) r have d: "ndigit \<noteq> 0" "d = of_nat (q - 1)"
    by (auto simp: read_float_def Let_def p_def [symmetric] split: if_splits)
  have c0: "?c \<noteq> 0 \<Longrightarrow> unat c < length l" by (auto split: if_splits)
  have "byte CHR ''-'' \<noteq> 0" "byte CHR ''+'' \<noteq> 0" by (simp_all add: byte_def)
  with c0 assms(3) have p: "unat c \<le> p" "p \<le> length l" by (auto simp: p_def split: if_splits)
  from read_digits_bounds [OF r] d(1) p have "p + 1 < q" "q \<le> length l + 1" by auto
  moreover from this assms(2) have u: "unat (of_nat (q - 1) :: u8) = q - 1"
    by (intro unat_of_nat_u8) simp
  ultimately show ?thesis unfolding d(2) u using p by linarith
qed

lemma line_at_nonzero: "line_at l c \<noteq> 0 \<Longrightarrow> unat c < length l"
  by (auto simp: line_at_def split: if_splits)

lemma gc_word_advances:
  assumes "gc_word cast l c p = Inr (d, p')" and "length l < 255" and "unat c < length l"
  shows "unat c < unat d \<and> unat d \<le> length l"
proof -
  have s: "unat (c + 1) = Suc (unat c)" using assms(2,3) by (simp add: unat_word_ariths)
  obtain v where "read_float l (c + 1) = Some (v, d)"
    using assms(1) by (auto simp: gc_word_def Let_def map_sum_eq_iff split: if_splits option.splits)
  from read_float_advances [OF this assms(2)] s assms(3) show ?thesis by simp
qed

lemma gc_words_terminates:
  assumes "length l < 255"
  shows "\<exists>r. gc_words cast l c p = Some r"
proof (induction "256 - unat c" arbitrary: c p rule: less_induct)
  case less
  show ?case
  proof (cases "line_at l c = 0 \<or> (\<exists>e. gc_word cast l c p = Inl e)")
    case True
    then show ?thesis by (subst gc_words.simps) auto
  next
    case False
    then obtain d p' where w: "gc_word cast l c p = Inr (d, p')" by (cases "gc_word cast l c p") auto
    from gc_word_advances [OF w assms] False line_at_nonzero have "unat c < unat d" by blast
    then have "256 - unat d < 256 - unat c" using unat_u8 [of d] by simp
    from less [OF this] False w show ?thesis by (subst gc_words.simps) simp
  qed
qed

section \<open>Rejected lines\<close>

lemma read_coord_ok: "gc_read_coord n g = Some (Inr (v, h)) \<Longrightarrow> h = g"
  by (auto simp: gc_read_coord_def settings_read_coord_data_def split: prod.splits if_splits)

lemma read_coord_fails: "gc_read_coord n g = Some (Inl (e, h)) \<Longrightarrow> e = STATUS_SETTING_READ_FAIL"
  by (auto simp: gc_read_coord_def split: prod.splits if_splits)

lemma block_coord_system_effect:
  "gc_block_coord_system p g = Some (Inr (v, h)) \<Longrightarrow> h = g"
  "gc_block_coord_system p g = Some (Inl (e, h)) \<Longrightarrow> h = g \<or> e = STATUS_SETTING_READ_FAIL"
  using read_coord_ok read_coord_fails by (auto simp: gc_block_coord_system_def split: if_splits)

lemma check_g10_effect:
  "gc_check_g10 p g = Some (Inr (v, h)) \<Longrightarrow> h = g"
  "gc_check_g10 p g = Some (Inl (e, h)) \<Longrightarrow> h = g \<or> e = STATUS_SETTING_READ_FAIL"
  by (auto simp: gc_check_g10_def Let_def map_sum_eq_iff split_sum_ex split: if_splits
      dest: read_coord_ok read_coord_fails)

lemma check_go_home_effect:
  "gc_check_go_home p g = Some (Inr (v, h)) \<Longrightarrow> h = g"
  "gc_check_go_home p g = Some (Inl (e, h)) \<Longrightarrow> h = g \<or> e = STATUS_SETTING_READ_FAIL"
  by (auto simp: gc_check_go_home_def map_sum_eq_iff split_sum_ex
      dest: read_coord_ok read_coord_fails)

lemma check_non_modal_effect:
  "gc_check_non_modal cs p g = Some (Inr (v, h)) \<Longrightarrow> h = g"
  "gc_check_non_modal cs p g = Some (Inl (e, h)) \<Longrightarrow> h = g \<or> e = STATUS_SETTING_READ_FAIL"
  by (auto simp: gc_check_non_modal_def Let_def map_sum_eq_iff split_sum_ex split: if_splits
      dest: check_g10_effect check_go_home_effect)

lemma check_effect:
  "gc_check p g = Some (Inr (v, h)) \<Longrightarrow> h = g"
  "gc_check p g = Some (Inl (e, h)) \<Longrightarrow> h = g \<or> e = STATUS_SETTING_READ_FAIL"
  by (auto simp: gc_check_def Option.bind_eq_Some_conv map_sum_eq_iff case_error_eq_iff
      split_sum_ex split: if_splits sum.split_asm
      dest: block_coord_system_effect check_non_modal_effect)

lemma jog_error_effect:
  "gc_jog p g = Some (e, h) \<Longrightarrow> e \<noteq> STATUS_OK \<Longrightarrow> h = g"
  by (auto simp: gc_jog_def jog_execute_def Let_def Option.bind_eq_Some_conv split: if_splits)

section \<open>Modal state\<close>

text \<open>The modes that the commands can set; the plane is always XY.\<close>

definition modal_ok :: "gc_modal_t \<Rightarrow> bool" where
  "modal_ok m \<longleftrightarrow>
     mod_motion m \<in> {0, 1, 2, 3, 80, 140, 141, 142, 143} \<and> mod_feed_rate m \<in> {0, 1}
     \<and> mod_units m \<in> {0, 1} \<and> mod_distance m \<in> {0, 1} \<and> mod_plane_select m = PLANE_SELECT_XY
     \<and> mod_coord_select m < N_COORDINATE_SYSTEM
     \<and> mod_spindle m \<in> {0, PL_COND_FLAG_SPINDLE_CW, PL_COND_FLAG_SPINDLE_CCW}"

lemma modal_set [simp]:
  "gp_modal (set_modal f p) = f (gp_modal p)" "gp_modal (set_values h p) = gp_modal p"
  "gp_modal (set_non_modal v p) = gp_modal p" "gp_modal (drop_words ws p) = gp_modal p"
  "gp_modal (p\<lparr>gp_axis_command := a\<rparr>) = gp_modal p" "gp_modal (p\<lparr>gp_axis_words := a\<rparr>) = gp_modal p"
  "gp_modal (p\<lparr>gp_ijk_words := a\<rparr>) = gp_modal p" "gp_modal (p\<lparr>gp_command_words := b\<rparr>) = gp_modal p"
  "gp_modal (p\<lparr>gp_value_words := b\<rparr>) = gp_modal p" "gp_modal (p\<lparr>gp_flags := a\<rparr>) = gp_modal p"
  by (simp_all add: gp_defs drop_words_def)

lemma modal_ok_update:
  assumes "modal_ok m"
  shows "f (mod_motion m) \<in> {0, 1, 2, 3, 80, 140, 141, 142, 143} \<Longrightarrow> modal_ok (mod_motion_update f m)"
    and "f (mod_feed_rate m) \<in> {0, 1} \<Longrightarrow> modal_ok (mod_feed_rate_update f m)"
    and "f (mod_units m) \<in> {0, 1} \<Longrightarrow> modal_ok (mod_units_update f m)"
    and "f (mod_distance m) \<in> {0, 1} \<Longrightarrow> modal_ok (mod_distance_update f m)"
    and "f (mod_plane_select m) = PLANE_SELECT_XY \<Longrightarrow> modal_ok (mod_plane_select_update f m)"
    and "f (mod_coord_select m) < N_COORDINATE_SYSTEM \<Longrightarrow> modal_ok (mod_coord_select_update f m)"
    and "f (mod_spindle m) \<in> {0, PL_COND_FLAG_SPINDLE_CW, PL_COND_FLAG_SPINDLE_CCW}
      \<Longrightarrow> modal_ok (mod_spindle_update f m)"
    and "modal_ok (mod_coolant_update f m)" and "modal_ok (mod_program_flow_update f m)"
  using assms by (simp_all add: modal_ok_def)

lemma g_command_modal:
  assumes "gc_g_command v m p = Inr (w, m', p')" and "modal_ok (gp_modal p)"
  shows "modal_ok (gp_modal p')"
  using assms unfolding gc_g_command_def Let_def
  by (auto simp: modal_ok_update [OF assms(2)] N_COORDINATE_SYSTEM_def split: if_split_asm)

lemma m_command_modal:
  assumes "gc_m_command v p = Inr (w, p')" and "modal_ok (gp_modal p)"
  shows "modal_ok (gp_modal p')"
  using assms by (auto simp: gc_m_command_def modal_ok_update [OF assms(2)] split: if_split_asm)

lemma value_modal: "gc_value cast c v i p = Inr (w, p') \<Longrightarrow> gp_modal p' = gp_modal p"
  by (auto simp: gc_value_def gc_ijk_def gc_xyz_def split: if_split_asm)

lemma word_modal:
  assumes "gc_word cast l c p = Inr (d, p')" and "modal_ok (gp_modal p)"
  shows "modal_ok (gp_modal p')"
proof -
  have "gc_g_word v m p = Inr p' \<Longrightarrow> modal_ok (gp_modal p')" for v m
    using g_command_modal [OF _ assms(2)]
    by (fastforce simp: gc_g_word_def gc_group_def split: if_split_asm sum.splits)
  moreover have "gc_m_word v m p = Inr p' \<Longrightarrow> modal_ok (gp_modal p')" for v m
    using m_command_modal [OF _ assms(2)]
    by (fastforce simp: gc_m_word_def gc_group_def split: if_split_asm sum.splits)
  moreover have "gc_value_word cast a v i p = Inr p' \<Longrightarrow> modal_ok (gp_modal p')" for a v i
    using value_modal [of cast a v i p] assms(2)
    by (fastforce simp: gc_value_word_def split: if_split_asm sum.splits)
  ultimately show ?thesis
    using assms(1) by (auto simp: gc_word_def Let_def map_sum_eq_iff split: if_split_asm option.splits)
qed

lemma words_modal:
  "gc_words cast l c p = Some r \<Longrightarrow> modal_ok (gp_modal p) \<longrightarrow> (\<forall>p'. r = Inr p' \<longrightarrow> modal_ok (gp_modal p'))"
  apply (erule gc_words.raw_induct [rotated, where P = "\<lambda>cast l c p r.
      modal_ok (gp_modal p) \<longrightarrow> (\<forall>p'. r = Inr p' \<longrightarrow> modal_ok (gp_modal p'))"])
  subgoal premises prems for loop cast l c p r
    using prems(2) by (auto split: if_split_asm sum.splits dest: word_modal prems(1))
  done

lemma check_early_modal: "gc_check_early g p = Inr p' \<Longrightarrow> gp_modal p' = gp_modal p"
proof -
  have "gc_check_common p = Inr p' \<Longrightarrow> gp_modal p' = gp_modal p" for p p'
    by (auto simp: gc_check_common_def Let_def split: if_split_asm)
  moreover have "gc_check_feed_rate g p = Inr p' \<Longrightarrow> gp_modal p' = gp_modal p" for p p'
    by (auto simp: gc_check_feed_rate_def Let_def split: if_split_asm)
  moreover have "gp_modal (gc_set_spindle_speed g p) = gp_modal p" for p
    by (simp add: gc_set_spindle_speed_def)
  moreover have "gc_check_dwell p = Inr p' \<Longrightarrow> gp_modal p' = gp_modal p" for p p'
    by (auto simp: gc_check_dwell_def split: if_split_asm)
  moreover have "gp_modal (gc_axes_to_mm p) = gp_modal p" for p
    by (simp add: gc_axes_to_mm_def if_distrib [of gp_modal])
  ultimately show "gc_check_early g p = Inr p' \<Longrightarrow> gp_modal p' = gp_modal p"
    by (auto simp: gc_check_early_def map_sum_eq_iff split: sum.split_asm)
qed

lemma check_non_modal_modal: "gc_check_non_modal cs p g = Some (Inr ((n, p'), h)) \<Longrightarrow> gp_modal p' = gp_modal p"
  by (auto simp: gc_check_non_modal_def gc_check_g10_def gc_check_g92_def gc_check_go_home_def gc_target_def
      Let_def map_sum_eq_iff split_sum_ex split: if_split_asm)

lemma check_motion_modal: "gc_check_motion p g = Inr p' \<Longrightarrow> gp_modal p' = gp_modal p"
  by (auto simp: gc_check_motion_def gc_check_arc_def gc_arc_radius_def gc_arc_offset_def gc_check_probe_def
      Let_def split_def split: if_split_asm)

lemma check_modal: "gc_check p g = Some (Inr ((n, v, p'), h)) \<Longrightarrow> gp_modal p' = gp_modal p"
  by (auto simp: gc_check_def gc_check_unused_def Let_def Option.bind_eq_Some_conv map_sum_eq_iff case_error_eq_iff
      split_sum_ex split: if_split_asm sum.split_asm
      dest!: check_early_modal check_non_modal_modal check_motion_modal)

section \<open>What a line may change\<close>

text \<open>The settings, the line and the EEPROM outside the coordinate data (addresses 512 to 615).\<close>

definition line_data :: "grbl \<Rightarrow> settings_t \<times> u8 list \<times> (u16 \<Rightarrow> u8)" where
  "line_data g = (settings g, line g, outside_coords (eeprom g))"

definition modes_ok :: "grbl \<Rightarrow> bool" where
  "modes_ok g \<longleftrightarrow> modal_ok (gc_modal (gc_state g))"

lemma gc_core_modal:
  "gc_core s = gc_core t \<Longrightarrow> modal_ok (gc_modal s) = modal_ok (gc_modal t)"
proof -
  assume "gc_core s = gc_core t"
  then have "gc_modal (gc_core s) = gc_modal (gc_core t)" by simp
  then have "modal_ok ((gc_modal s)\<lparr>mod_coolant := 0\<rparr>) = modal_ok ((gc_modal t)\<lparr>mod_coolant := 0\<rparr>)"
    by (simp add: gc_core_def)
  then show ?thesis by (simp add: modal_ok_def)
qed

text \<open>Realtime execution keeps both.\<close>

interpretation ld: realtime_frame line_data
  by unfold_locales (auto simp: line_data_def)

interpretation md: realtime_frame modes_ok
  by unfold_locales (auto simp: modes_ok_def dest: gc_core_modal)

lemma g10_coord_index:
  assumes "0 < n" and "n \<le> N_COORDINATE_SYSTEM"
  shows "n - 1 < 8"
proof -
  have "unat (n - 1) = unat n - 1"
    using assms(1) by (metis One_nat_def unat_minus_one word_not_simps(1) not_less_iff_gr_or_eq)
  with assms(2) show ?thesis by (simp add: N_COORDINATE_SYSTEM_def word_less_nat_alt word_le_nat_alt)
qed

lemma modal_coord_index: "modal_ok m \<Longrightarrow> mod_coord_select m < 8"
  by (auto simp: modal_ok_def N_COORDINATE_SYSTEM_def word_less_nat_alt)

lemma check_g10_index:
  assumes "gc_check_g10 p g = Some (Inr ((n, p'), h))" and "modal_ok (gp_modal p)"
  shows "n < 8"
  using assms
  by (auto simp: gc_check_g10_def Let_def map_sum_eq_iff not_less g10_coord_index
      modal_coord_index split: if_split_asm)

lemma check_non_modal_index:
  assumes "gc_check_non_modal cs p g = Some (Inr ((n, p'), h))" and "modal_ok (gp_modal p)"
  shows "n < 8"
  using assms
  by (auto simp: gc_check_non_modal_def Let_def map_sum_eq_iff split_sum_ex split: if_split_asm
      dest: check_g10_index)

lemma check_index:
  assumes "gc_check p g = Some (Inr ((n, v, p'), h))" and "modal_ok (gp_modal p)"
  shows "n < 8"
  using assms
  by (auto simp: gc_check_def Option.bind_eq_Some_conv map_sum_eq_iff case_error_eq_iff split_sum_ex
      check_early_modal split: if_split_asm sum.split_asm dest: check_non_modal_index)

lemma parse_modal:
  assumes "gc_parse l g = Some (Inr p)" and "modes_ok g"
  shows "modal_ok (gp_modal p)"
proof -
  have "modal_ok (gp_modal (gc_start l g))"
    using assms(2)
    by (auto simp: gc_start_def Let_def gp_modal_def set_modal_def modes_ok_def modal_ok_def
        MOTION_MODE_LINEAR_def FEED_RATE_MODE_UNITS_PER_MIN_def)
  with words_modal assms(1) show ?thesis by (auto simp: gc_parse_def)
qed

subsection \<open>Conditions on a line\<close>

text \<open>
  What keeps a condition true through a line: legal modes, assignments of legal modes, offsets and the position,
  and writing one of the eight records of coordinate data.
\<close>

locale gcode_closed = realtime_closed I for I :: "grbl \<Rightarrow> bool" +
  assumes legal: "I g \<Longrightarrow> modes_ok g"
    and vectors [closed]: "I (upd_gc (gc_position_update k) g) = I g" "I (upd_gc (gc_coord_system_update k) g) = I g"
    "I (upd_gc (gc_coord_offset_update k) g) = I g"
    and exec_values: "modal_ok (gp_modal p) \<Longrightarrow> I g \<Longrightarrow> I (snd (gc_exec_values p g))"
    and modes: "modal_ok m \<Longrightarrow> I g \<Longrightarrow> I (upd_modal (mod_plane_select_update (\<lambda>_. mod_plane_select m)) g)"
    "modal_ok m \<Longrightarrow> I g \<Longrightarrow> I (upd_modal (mod_units_update (\<lambda>_. mod_units m)) g)"
    "modal_ok m \<Longrightarrow> I g \<Longrightarrow> I (upd_modal (mod_coord_select_update (\<lambda>_. mod_coord_select m)) g)"
    "modal_ok m \<Longrightarrow> I g \<Longrightarrow> I (upd_modal (mod_distance_update (\<lambda>_. mod_distance m)) g)"
    "modal_ok m \<Longrightarrow> I g \<Longrightarrow> I (upd_modal (mod_motion_update (\<lambda>_. mod_motion m)) g)"
    and coord_record: "n < 8 \<Longrightarrow> I g \<Longrightarrow> I (memcpy_to_eeprom_with_checksum (coord_addr n) (take 12 bs) g)"
begin

lemma write_coord: "settings_write_coord_data n f g = Some h \<Longrightarrow> n < 8 \<Longrightarrow> I g \<longrightarrow> I h"
  by (auto simp: settings_write_coord_data_def coord_record dest!: synchronize)

lemma read_coord_data: "settings_read_coord_data n g = Some (r, v, h) \<Longrightarrow> n < 8 \<Longrightarrow> I g \<longrightarrow> I h"
  by (auto simp: settings_read_coord_data_def split: prod.splits if_splits dest: write_coord)

lemma read_coord_error: "gc_read_coord n g = Some (Inl (e, h)) \<Longrightarrow> n < 8 \<Longrightarrow> I g \<longrightarrow> I h"
  by (auto simp: gc_read_coord_def split: prod.splits if_splits dest: read_coord_data)

lemma block_coord_error:
  assumes "gc_block_coord_system p g = Some (Inl (e, h))" and "modal_ok (gp_modal p)"
  shows "I g \<longrightarrow> I h"
  using assms
  by (auto simp: gc_block_coord_system_def modal_coord_index split: if_split_asm dest: read_coord_error)

lemma check_g10_error:
  assumes "gc_check_g10 p g = Some (Inl (e, h))" and "modal_ok (gp_modal p)"
  shows "I g \<longrightarrow> I h"
  using assms
  by (auto simp: gc_check_g10_def Let_def map_sum_eq_iff not_less g10_coord_index modal_coord_index
      split: if_split_asm dest!: read_coord_error)

lemma check_non_modal_error:
  assumes "gc_check_non_modal cs p g = Some (Inl (e, h))" and "modal_ok (gp_modal p)"
  shows "I g \<longrightarrow> I h"
  using assms
  by (auto simp: gc_check_non_modal_def gc_check_go_home_def Let_def map_sum_eq_iff split_sum_ex
      SETTING_INDEX_G28_def SETTING_INDEX_G30_def split: if_split_asm
      dest: check_g10_error read_coord_error)

lemma check_error:
  assumes "gc_check p g = Some (Inl (e, h))" and "modal_ok (gp_modal p)"
  shows "I g \<longrightarrow> I h"
  using assms
  by (auto simp: gc_check_def Option.bind_eq_Some_conv map_sum_eq_iff case_error_eq_iff split_sum_ex
      check_early_modal split: if_split_asm sum.split_asm
      dest: block_coord_error check_non_modal_error block_coord_system_effect check_non_modal_effect)

lemma exec_modes:
  assumes "gc_exec_modes cs p g = Some h" and "modal_ok (gp_modal p)"
  shows "I g \<longrightarrow> I h"
  using assms(1) modes [OF assms(2)]
  by (auto simp: closed gc_exec_modes_def Let_def Option.bind_eq_Some_conv split: if_split_asm
      dest!: dwell wco_change)

lemma exec_non_modal:
  assumes "gc_exec_non_modal n pd p g = Some h" and "n < 8"
  shows "I g \<longrightarrow> I h"
  using assms
  by (auto simp: closed gc_exec_non_modal_def Let_def Option.bind_eq_Some_conv SETTING_INDEX_G28_def
      SETTING_INDEX_G30_def split: if_split_asm dest!: wco_change write_coord line_motion)

lemma exec_motion:
  assumes "gc_exec_motion pd flags p g = Some h" and "modal_ok (gp_modal p)"
  shows "I g \<longrightarrow> I h"
  using assms(1) modes [OF assms(2)]
  by (auto simp: closed gc_exec_motion_def Let_def split_def split: if_split_asm
      dest!: line_motion arc_motion probe)

lemma exec_line:
  assumes "gc_exec n cs p g = Some h" and "modal_ok (gp_modal p)" and "n < 8"
  shows "I g \<longrightarrow> I h"
  using assms exec_values [OF assms(2), of g]
  by (auto simp: gc_exec_def Let_def split_def Option.bind_eq_Some_conv
      dest!: exec_modes exec_non_modal exec_motion)

lemma jog_line: "gc_jog p g = Some (e, h) \<Longrightarrow> I g \<longrightarrow> I h"
  by (auto simp: closed gc_jog_def Let_def split: if_split_asm dest!: jog)

lemma execute_line:
  assumes "gc_execute_line l g = Some (e, h)"
  shows "I g \<longrightarrow> I h"
proof
  assume I: "I g"
  consider "h = g"
    | p where "gc_parse l g = Some (Inr p)" "gc_check p g = Some (Inl (e, h))"
    | p n cs p' k where "gc_parse l g = Some (Inr p)" "gc_check p g = Some (Inr ((n, cs, p'), k))"
        "gc_jog p' k = Some (e, h) \<or> gc_exec n cs p' k = Some h"
    using assms
    by (auto simp: gc_execute_line_def Option.bind_eq_Some_conv split_sum_ex split: if_split_asm)
  then show "I h"
  proof cases
    case 2
    with I show ?thesis using check_error parse_modal legal by blast
  next
    case 3
    then have m: "modal_ok (gp_modal p)" using I parse_modal legal by blast
    with 3 have "k = g" "n < 8" "modal_ok (gp_modal p')"
      using check_effect check_index check_modal by (blast, blast, simp)
    with 3(3) I show ?thesis using jog_line exec_line by blast
  qed (simp add: I)
qed

end

subsection \<open>The data a line keeps\<close>

lemma coord_write_data:
  "n < 8 \<Longrightarrow> line_data (memcpy_to_eeprom_with_checksum (coord_addr n) (take 12 bs) g) = line_data g"
  by (simp add: line_data_def frame_simps coord_write_outside)

lemma line_data_upd [simp]: "line_data (upd_gc f g) = line_data g" "line_data (upd_modal k g) = line_data g"
  by (simp_all add: upd_modal_def upd_gc_def line_data_def)

lemma modes_upd:
  "modes_ok (upd_gc (gc_position_update k) g) = modes_ok g" "modes_ok (upd_gc (gc_coord_system_update k) g) = modes_ok g"
  "modes_ok (upd_gc (gc_coord_offset_update k) g) = modes_ok g"
  "modal_ok m \<Longrightarrow> modes_ok g \<Longrightarrow> modes_ok (upd_modal (mod_plane_select_update (\<lambda>_. mod_plane_select m)) g)"
  "modal_ok m \<Longrightarrow> modes_ok g \<Longrightarrow> modes_ok (upd_modal (mod_units_update (\<lambda>_. mod_units m)) g)"
  "modal_ok m \<Longrightarrow> modes_ok g \<Longrightarrow> modes_ok (upd_modal (mod_coord_select_update (\<lambda>_. mod_coord_select m)) g)"
  "modal_ok m \<Longrightarrow> modes_ok g \<Longrightarrow> modes_ok (upd_modal (mod_distance_update (\<lambda>_. mod_distance m)) g)"
  "modal_ok m \<Longrightarrow> modes_ok g \<Longrightarrow> modes_ok (upd_modal (mod_motion_update (\<lambda>_. mod_motion m)) g)"
  by (simp_all add: upd_modal_def upd_gc_def modes_ok_def modal_ok_def)

lemma exec_values_keep:
  "line_data (snd (gc_exec_values p g)) = line_data g"
  "modal_ok (gp_modal p) \<Longrightarrow> modes_ok g \<Longrightarrow> modes_ok (snd (gc_exec_values p g))"
  by (simp_all add: gc_exec_values_def Let_def upd_modal_def upd_gc_def modes_ok_def line_data_def modal_ok_def)

interpretation ex: gcode_closed "\<lambda>h. line_data h = c \<and> modes_ok h" for c
proof unfold_locales
  show "line_data (memcpy_to_eeprom_with_checksum (coord_addr n) (take 12 bs) g) = c
      \<and> modes_ok (memcpy_to_eeprom_with_checksum (coord_addr n) (take 12 bs) g)"
    if "n < 8" "line_data g = c \<and> modes_ok g" for n bs g
    using that by (simp add: coord_write_data modes_ok_def frame_simps)
qed (auto simp: keeps modes_upd exec_values_keep ld.parser md.parser
    dest: ld.prep_buffer md.prep_buffer ld.run_irq md.run_irq)

lemma execute_line_data:
  "gc_execute_line l g = Some (e, h) \<Longrightarrow> modes_ok g \<Longrightarrow> line_data h = line_data g \<and> modes_ok h"
  using ex.execute_line [of l g e h "line_data g"] by simp

text \<open>A line to try the properties on.\<close>

lemma execute_bare_word:
  "\<exists>h. gc_execute_line (bytes ''X'' @ [0]) grbl_zero = Some (STATUS_BAD_NUMBER_FORMAT, h)"
proof -
  have "gc_parse (bytes ''X'' @ [0]) grbl_zero = Some (Inl STATUS_BAD_NUMBER_FORMAT)"
    unfolding gc_parse_def
    by (subst gc_words.simps) (simp add: gc_is_jog_def line_at_def bytes_def byte_def gc_word_def read_float_def)
  then show ?thesis by (simp add: gc_execute_line_def)
qed

section \<open>Properties\<close>

text \<open>
  C31. The interpreter always comes back from reading a line that is shorter than 255 characters (the
  line buffer has 48): its 8-bit index never wraps and each word moves it on.
\<close>
theorem gc_parse_returns:
  assumes "length l < 255"
  shows "\<exists>r. gc_parse l g = Some r"
  using gc_words_terminates [OF assms] by (simp add: gc_parse_def)

theorem gc_parse_returns_witness:
  "\<exists>r. gc_parse (bytes ''G1X10F200'' @ [0]) grbl_zero = Some r"
  by (rule gc_parse_returns) (simp add: bytes_def)

text \<open>
  C10. A G-code line that is answered with an error other than 7 is not executed at all: the whole
  machine state is what it was before the line. Error 7, a failed read of coordinate data, is left out, because by
  then the record has been rewritten, which has drained the planner.
\<close>
theorem gc_error_no_effect:
  assumes "gc_execute_line l g = Some (e, h)"
    and "e \<noteq> STATUS_OK" and "e \<noteq> STATUS_SETTING_READ_FAIL"
  shows "h = g"
  using assms
  by (auto simp: gc_execute_line_def Option.bind_eq_Some_conv split_sum_ex split: if_splits sum.split_asm
      dest: check_effect jog_error_effect)

theorem gc_error_no_effect_witness:
  "gc_execute_line (bytes ''X'' @ [0]) grbl_zero = Some (STATUS_BAD_NUMBER_FORMAT, grbl_zero)"
proof -
  obtain h where h: "gc_execute_line (bytes ''X'' @ [0]) grbl_zero = Some (STATUS_BAD_NUMBER_FORMAT, h)"
    using execute_bare_word by blast
  have "h = grbl_zero" by (rule gc_error_no_effect [OF h]) (simp_all add: grbl_consts)
  with h show ?thesis by simp
qed

text \<open>
  C18. The modal state of the parser is always a legal one: after any line, accepted or not, the active
  motion, feed rate, unit, distance and spindle modes are ones that a command can select, the work coordinate
  system is one of the six, and the plane is XY whatever plane the line asked for.
\<close>
theorem gcode_modes_legal:
  assumes "gc_execute_line l g = Some (e, h)" and "modal_ok (gc_modal (gc_state g))"
  shows "modal_ok (gc_modal (gc_state h))"
  using execute_line_data [OF assms(1)] assms(2) by (simp add: modes_ok_def)

theorem gcode_modes_legal_witness:
  "\<exists>e h. gc_execute_line (bytes ''X'' @ [0]) grbl_zero = Some (e, h) \<and> modal_ok (gc_modal (gc_state h))"
proof -
  obtain e h where h: "gc_execute_line (bytes ''X'' @ [0]) grbl_zero = Some (e, h)"
    using execute_bare_word by blast
  have "modal_ok (gc_modal (gc_state h))"
    by (rule gcode_modes_legal [OF h])
      (simp add: modal_ok_def grbl_zero_def parser_state_zero_def gc_modal_zero_def grbl_consts)
  with h show ?thesis by blast
qed

text \<open>
  C19. No G-code line reaches the settings: whatever the line does and however it is answered, the settings
  and the line buffer are unchanged, and so is every byte of the EEPROM outside the eight records
  of coordinate data at addresses 512 to 615.
\<close>
theorem gcode_keeps_settings:
  assumes "gc_execute_line l g = Some (e, h)" and "modal_ok (gc_modal (gc_state g))"
  shows "settings h = settings g \<and> line h = line g \<and> (\<forall>i. i < 512 \<or> 616 \<le> i \<longrightarrow> eeprom h i = eeprom g i)"
proof -
  have *: "line_data h = line_data g"
    using execute_line_data [OF assms(1)] assms(2) by (simp add: modes_ok_def)
  then have "outside_coords (eeprom h) i = outside_coords (eeprom g) i" for i
    by (simp add: line_data_def)
  then have "eeprom h i = eeprom g i" if "i < 512 \<or> 616 \<le> i" for i
    using that by (metis outside_coords_def not_le)
  with * show ?thesis by (simp add: line_data_def)
qed

theorem gcode_keeps_settings_witness:
  "\<exists>e h. gc_execute_line (bytes ''X'' @ [0]) grbl_zero = Some (e, h) \<and> settings h = settings_zero"
proof -
  obtain e h where h: "gc_execute_line (bytes ''X'' @ [0]) grbl_zero = Some (e, h)"
    using execute_bare_word by blast
  have "settings h = settings grbl_zero"
    using gcode_keeps_settings [OF h]
    by (simp add: modal_ok_def grbl_zero_def parser_state_zero_def gc_modal_zero_def grbl_consts)
  with h show ?thesis by (auto simp: grbl_zero_def)
qed

end
