(* ===== verification/Protocol_Properties.thy ===== *)
theory Protocol_Properties
  imports Protocol Gcode_Properties
begin

text \<open>
  The main loop. The character filter against a reference function on whole lines; an invariant
  of the settings and the parser modes for everything a host can make the controller do, stated on
  a step relation that the main loop is shown to follow.
\<close>

section \<open>The character filter\<close>

text \<open>
  The text of a line: without blanks, control characters, block delete and comments, in upper case. The
  flag tells whether a comment in parentheses is open.
\<close>

definition upcase :: "u8 \<Rightarrow> u8" where
  "upcase c = (if byte CHR ''a'' \<le> c \<and> c \<le> byte CHR ''z'' then c - byte CHR ''a'' + byte CHR ''A'' else c)"

fun line_text :: "bool \<Rightarrow> u8 list \<Rightarrow> u8 list" where
  "line_text comment [] = []"
| "line_text True (c # cs) = line_text (c \<noteq> byte CHR '')'') cs"
| "line_text False (c # cs) =
     (if c \<le> byte CHR '' '' \<or> c = byte CHR ''/'' then line_text False cs
      else if c = byte CHR ''('' then line_text True cs
      else if c = byte CHR '';'' then []
      else upcase c # line_text False cs)"

text \<open>What the filter has reached: \<open>t\<close> is stored, or the line is too long.\<close>

definition line_ok :: "u8 list \<Rightarrow> line_state \<Rightarrow> bool" where
  "line_ok t s \<longleftrightarrow> bit_isfalse (ls_flags s) LINE_FLAG_OVERFLOW \<and> length t \<le> 47
     \<and> length (ls_line s) = 48 \<and> ls_counter s = of_nat (length t) \<and> take (length t) (ls_line s) = t"

definition line_long :: "line_state \<Rightarrow> bool" where
  "line_long s \<longleftrightarrow> bit_istrue (ls_flags s) LINE_FLAG_OVERFLOW \<and> length (ls_line s) = 48"

lemma line_flags_stay:
  assumes "ls_flags s = LINE_FLAG_OVERFLOW \<or> ls_flags s = LINE_FLAG_COMMENT_SEMICOLON"
  shows "fold line_char cs s = s"
  using assms
proof (induction cs)
  case (Cons c cs)
  then have "line_char c s = s" by (auto simp: line_char_def line_flag_consts bit_macros)
  with Cons show ?case by simp
qed simp

lemma line_store_ok:
  assumes "line_ok t s" and "ls_flags s = 0" and "length t < 47"
  shows "line_ok (t @ [c]) (line_store c s)"
proof -
  from assms(1) have "unat (ls_counter s) = length t" "length t < length (ls_line s)"
    by (auto simp: line_ok_def unat_of_nat_u8)
  with assms show ?thesis
    by (simp add: line_ok_def line_store_def take_Suc_conv_app_nth bit_macros add.commute)
qed

text \<open>A character of the text is stored, or the line is too long; the others only change the comment flag.\<close>

definition in_text :: "u8 \<Rightarrow> bool" where
  "in_text c \<longleftrightarrow> c > byte CHR '' '' \<and> c \<noteq> byte CHR ''/'' \<and> c \<noteq> byte CHR ''('' \<and> c \<noteq> byte CHR '';''"

lemma line_char_text:
  assumes "line_ok t s" and "ls_flags s = 0" and "in_text c"
  shows "length t = 47 \<Longrightarrow> line_char c s = s\<lparr>ls_flags := LINE_FLAG_OVERFLOW\<rparr>"
    and "length t < 47 \<Longrightarrow> ls_flags (line_char c s) = 0 \<and> line_ok (t @ [upcase c]) (line_char c s)"
proof -
  have full: "ls_counter s \<ge> LINE_BUFFER_SIZE - 1 \<longleftrightarrow> length t = 47"
    using assms(1) by (auto simp: line_ok_def LINE_BUFFER_SIZE_def word_le_nat_alt unat_of_nat_u8)
  then show "length t = 47 \<Longrightarrow> line_char c s = s\<lparr>ls_flags := LINE_FLAG_OVERFLOW\<rparr>"
    using assms(2,3) by (auto simp: line_char_def in_text_def)
  assume short: "length t < 47"
  then have "line_char c s = line_store (upcase c) s"
    using assms(2,3) full by (auto simp: line_char_def upcase_def in_text_def)
  with line_store_ok [OF assms(1,2) short] assms(2) show "ls_flags (line_char c s) = 0 \<and> line_ok (t @ [upcase c]) (line_char c s)"
    by (simp add: line_store_def)
qed

lemma line_char_skipped:
  assumes "ls_flags s = 0"
  shows "c \<le> byte CHR '' '' \<or> c = byte CHR ''/'' \<Longrightarrow> line_char c s = s"
    and "c = byte CHR ''('' \<Longrightarrow> line_char c s = s\<lparr>ls_flags := LINE_FLAG_COMMENT_PARENTHESES\<rparr>"
    and "c = byte CHR '';'' \<Longrightarrow> line_char c s = s\<lparr>ls_flags := LINE_FLAG_COMMENT_SEMICOLON\<rparr>"
  using assms by (auto simp: line_char_def byte_def)

lemma line_filter_run:
  assumes "line_ok t s" and "ls_flags s = (if comment then LINE_FLAG_COMMENT_PARENTHESES else 0)"
  shows "if length (t @ line_text comment cs) \<le> 47 then line_ok (t @ line_text comment cs) (fold line_char cs s)
    else line_long (fold line_char cs s)"
  using assms
proof (induction comment cs arbitrary: t s rule: line_text.induct)
  case (1 comment)
  then show ?case by (simp add: line_ok_def)
next
  case (2 c cs)
  then have "line_ok t (line_char c s)"
    and "ls_flags (line_char c s) = (if c \<noteq> byte CHR '')'' then LINE_FLAG_COMMENT_PARENTHESES else 0)"
    by (auto simp: line_char_def line_ok_def line_flag_consts bit_macros)
  with "2.IH" show ?case by simp
next
  case (3 c cs)
  have flags: "ls_flags s = 0" using "3.prems"(2) by simp
  consider "in_text c" | "c \<le> byte CHR '' '' \<or> c = byte CHR ''/''" | "c = byte CHR ''(''" | "c = byte CHR '';''"
    unfolding in_text_def by force
  then show ?case
  proof cases
    case 1
    have tx: "line_text False (c # cs) = upcase c # line_text False cs" using 1 by (auto simp: in_text_def)
    note char = line_char_text [OF "3.prems"(1) flags 1]
    show ?thesis
    proof (cases "length t = 47")
      case True
      with char(1) line_flags_stay [of "line_char c s" cs] "3.prems"(1) show ?thesis
        by (simp add: tx line_long_def line_ok_def line_flag_consts bit_macros del: line_text.simps)
    next
      case False
      then have "length t < 47" using "3.prems"(1) by (simp add: line_ok_def)
      with char(2) "3.IH"(3) [of "t @ [upcase c]" "line_char c s"] 1 flags show ?thesis
        by (auto simp: tx in_text_def simp del: line_text.simps)
    qed
  next
    case 2
    with line_char_skipped(1) [OF flags] "3.IH"(1) "3.prems" show ?thesis by simp
  next
    case 3
    note line_char_skipped(2) [OF flags 3]
    moreover from this have "line_ok t (line_char c s)" "ls_flags (line_char c s) = LINE_FLAG_COMMENT_PARENTHESES"
      using "3.prems"(1) by (simp_all add: line_ok_def line_flag_consts bit_macros)
    ultimately show ?thesis using 3 "3.IH"(2) [of t "line_char c s"] by (auto simp: byte_def)
  next
    case 4
    with line_char_skipped(3) [OF flags 4] line_flags_stay [of "line_char c s" cs] "3.prems"(1) show ?thesis
      by (simp add: byte_def line_ok_def line_flag_consts bit_macros)
  qed
qed

section \<open>Conditions on the controller\<close>

text \<open>
  What a condition must survive, beyond lines of G-code, to hold along every run: lines and EEPROM bytes, the
  settings commands, the received characters and a new start.
\<close>

locale controller_closed = gcode_closed I for I :: "grbl \<Rightarrow> bool" +
  assumes eeprom_bytes [closed]: "I (eeprom_put_char a v g) = I g" "I (memcpy_to_eeprom_with_checksum a bs g) = I g"
    and line_bytes [closed]: "length l = length (line g) \<Longrightarrow> I (g\<lparr>line := l\<rparr>) = I g"
    "I g \<Longrightarrow> length l = 48 \<Longrightarrow> I (g\<lparr>line := l\<rparr>)"
    "I g \<Longrightarrow> line_at (line g) c \<noteq> 0 \<Longrightarrow> I (g\<lparr>line := shift_line (unat (c + 1)) (line g)\<rparr>)"
    and default_settings [closed]: "I g \<Longrightarrow> I (g\<lparr>settings := defaults\<rparr>)"
    and store_setting: "settings_store_global_setting n x g = Some (e, h) \<Longrightarrow> I g \<longrightarrow> I h"
    and reading [closed]: "I g \<Longrightarrow> I (snd (serial_read g))" "I g \<Longrightarrow> I (serial_reset_read_buffer g)"
    and start [closed]: "I g \<Longrightarrow> I (g\<lparr>gc_state := parser_state_zero\<rparr>)" "I g \<Longrightarrow> I (g\<lparr>sys_probe_position := [0, 0, 0]\<rparr>)"
begin

lemma lines [closed]:
  "length l = length (line g) \<Longrightarrow> I (set_line l g) = I g" "I g \<Longrightarrow> length l = 48 \<Longrightarrow> I (set_line l g)"
  "I g \<Longrightarrow> line_at (line g) c \<noteq> 0 \<Longrightarrow> I (set_line (shift_line (unat (c + 1)) (line g)) g)"
  by (simp_all add: set_line_def closed)

lemma startup_line: "settings_store_startup_line n l g = Some h \<Longrightarrow> I g \<longrightarrow> I h"
  by (auto simp: settings_store_startup_line_def closed dest!: synchronize)

lemma coord: "settings_write_coord_data n f g = Some h \<Longrightarrow> I g \<longrightarrow> I h"
  by (auto simp: settings_write_coord_data_def closed dest!: synchronize)

lemma coords: "each (\<lambda>n. settings_write_coord_data n f) ns g = Some h \<Longrightarrow> I g \<longrightarrow> I h"
  by (induction ns arbitrary: g) (auto simp: Option.bind_eq_Some_conv dest!: coord)

lemma read_startup: "settings_read_startup_line n g = Some (r, l, h) \<Longrightarrow> (I g \<longrightarrow> I h) \<and> length l = 48"
  by (auto simp: settings_read_startup_line_def Let_def LINE_BUFFER_SIZE_def
      split: prod.splits if_split_asm dest!: startup_line memcpy_from_length)

lemma read_coord: "settings_read_coord_data n g = Some (r, v, h) \<Longrightarrow> I g \<longrightarrow> I h"
  by (auto simp: settings_read_coord_data_def split: prod.splits if_split_asm dest: coord)

lemma read_build: "settings_read_build_info g = (r, l, h) \<Longrightarrow> (I g \<longrightarrow> I h) \<and> length l = 48"
  by (auto simp: settings_read_build_info_def settings_store_build_info_def closed Let_def LINE_BUFFER_SIZE_def
      split: prod.splits if_split_asm dest!: memcpy_from_length)

lemma restore: "settings_restore m g = Some h \<Longrightarrow> I g \<longrightarrow> I h"
proof
  assume run: "settings_restore m g = Some h" and I: "I g"
  let ?w = "if bit_istrue m SETTINGS_RESTORE_DEFAULTS then write_global_settings (g\<lparr>settings := defaults\<rparr>) else g"
  have w: "I ?w" using I by (simp add: write_global_settings_def closed)
  obtain k where k: "(if bit_istrue m SETTINGS_RESTORE_PARAMETERS
      then each (\<lambda>i. settings_write_coord_data i (\<lambda>g. vec0)) [0, 1, 2, 3, 4, 5, 6, 7] ?w else Some ?w) = Some k"
    and h: "I h = I k"
    using run by (auto simp: settings_restore_def Let_def closed simp del: each.simps)
  show "I h" unfolding h using k w by (auto simp del: each.simps split: if_split_asm dest!: coords)
qed

subsection \<open>Commands\<close>

lemma ngc: "report_ngc_parameters g = Some h \<Longrightarrow> I g \<longrightarrow> I h"
proof -
  have "ngc_loop ns g = Some (r, h) \<Longrightarrow> I g \<longrightarrow> I h" for ns g r h
  proof (induction ns arbitrary: g)
    case (Cons n ns)
    from Cons.prems show ?case
      by (auto simp: closed Option.bind_eq_Some_conv split: if_split_asm dest!: Cons.IH read_coord)
  qed simp
  then show "report_ngc_parameters g = Some h \<Longrightarrow> I g \<longrightarrow> I h"
    by (auto simp: closed report_ngc_parameters_def Let_def simp del: ngc_loop.simps split: if_split_asm)
qed

lemma startup: "system_execute_startup g = Some h \<Longrightarrow> I g \<longrightarrow> I h"
proof -
  have "startup_loop ns g = Some h \<Longrightarrow> I g \<longrightarrow> I h" for ns g
  proof (induction ns arbitrary: g)
    case (Cons n ns)
    from Cons.prems show ?case
      by (auto simp: closed Let_def Option.bind_eq_Some_conv split: if_split_asm
          dest!: Cons.IH execute_line read_startup)
  qed simp
  then show "system_execute_startup g = Some h \<Longrightarrow> I g \<longrightarrow> I h"
    unfolding system_execute_startup_def .
qed

lemma startup_lines: "startup_report ns g = Some h \<Longrightarrow> I g \<longrightarrow> I h"
proof (induction ns arbitrary: g)
  case (Cons n ns)
  from Cons.prems show ?case
    by (auto simp: closed Let_def Option.bind_eq_Some_conv split: if_split_asm
        dest!: Cons.IH read_startup)
qed simp

lemma store: "cmd_store b c g = Some (e, h) \<Longrightarrow> I g \<longrightarrow> I h"
  by (auto simp: cmd_store_def closed byte_def Let_def Option.bind_eq_Some_conv split: option.splits if_split_asm
      dest!: startup_line execute_line store_setting)

lemma short: "I g \<Longrightarrow> I (snd (cmd_short c g))"
  by (simp add: closed cmd_short_def cmd_check_mode_def cmd_unlock_def)

lemma home: "cmd_home g = Some (e, h) \<Longrightarrow> I g \<longrightarrow> I h"
  by (auto simp: closed cmd_home_def Let_def Option.bind_eq_Some_conv split: if_split_asm
      dest!: homing startup)

lemma long: "cmd_long c g = Some (e, h) \<Longrightarrow> I g \<longrightarrow> I h"
  by (auto simp: closed cmd_long_def cmd_sleep_def cmd_build_info_def cmd_restore_def cmd_startup_def Let_def
      simp del: startup_report.simps split: if_split_asm prod.splits
      dest!: home store restore ngc startup_lines read_build)

lemma system_line: "system_execute_line g = Some (e, h) \<Longrightarrow> I g \<longrightarrow> I h"
  by (auto simp: closed system_execute_line_def Let_def split: if_split_asm
      dest!: execute_line long) (metis short snd_conv)

lemma answer: "answer_line f g = Some h \<Longrightarrow> I g \<longrightarrow> I h"
  by (auto simp: closed answer_line_def report_buffer_query_def print_uint8_base10_def printInteger_def Let_def
      split: if_split_asm dest!: execute_line system_line)

lemma enter_loop: "protocol_start g = Some h \<Longrightarrow> I g \<longrightarrow> I h"
  by (auto simp: closed protocol_start_def Let_def Option.bind_eq_Some_conv split: if_split_asm
      dest!: startup execute_realtime)

lemma reset: "system_reset g = Some h \<Longrightarrow> I g \<longrightarrow> I h"
proof -
  have init: "gc_init g = Some h \<Longrightarrow> I g \<longrightarrow> I h" for g h
    by (auto simp: closed gc_init_def Let_def split: if_split_asm dest!: read_coord)
  have probe: "I (probe_init g) = I g" for g
    by (simp add: closed probe_init_def Let_def)
  show "system_reset g = Some h \<Longrightarrow> I g \<longrightarrow> I h"
    by (auto simp: closed probe system_reset_def Let_def dest!: init)
qed

end

section \<open>The controller as a step relation\<close>

text \<open>
  What a controller does between power-up and the next one: it polls the realtime flags, takes a
  received character, stores a character of a line, answers a line whatever flags the filter left, starts
  the cycle, enters the main loop, and initialises after an abort. The host and the interrupts choose.
\<close>

inductive controller_step :: "grbl \<Rightarrow> grbl \<Rightarrow> bool" where
  Poll: "protocol_execute_realtime g = Some h \<Longrightarrow> controller_step g h"
| Receive: "serial_read g = (c, h) \<Longrightarrow> controller_step g h"
| Character: "s = line_char c \<lparr>ls_line = line g, ls_flags = f, ls_counter = n\<rparr>
    \<Longrightarrow> controller_step g (g\<lparr>line := ls_line s\<rparr>)"
| Answer: "sys_abort (sys g) = 0 \<Longrightarrow> answer_line f (g\<lparr>line := (line g)[unat (n :: u8) := 0]\<rparr>) = Some h
    \<Longrightarrow> controller_step g h"
| Cycle: "controller_step g (protocol_auto_cycle_start g)"
| Start: "protocol_start g = Some h \<Longrightarrow> controller_step g h"
| Reset: "system_reset g = Some h \<Longrightarrow> controller_step g h"

inductive_cases controller_stepE: "controller_step g h"

lemma line_char_length: "length (ls_line (line_char c s)) = length (ls_line s)"
  by (simp add: line_char_def line_store_def)

context controller_closed
begin

lemma step: "controller_step g h \<Longrightarrow> I g \<Longrightarrow> I h"
proof (induction rule: controller_step.induct)
  case (Receive g c h)
  then show ?case using reading(1) [of g] by simp
qed (auto simp: closed line_char_length dest!: execute_realtime answer enter_loop reset)

lemma steps: "controller_step\<^sup>*\<^sup>* g h \<Longrightarrow> I g \<Longrightarrow> I h"
  by (induction rule: rtranclp_induct) (auto dest: step)

end

section \<open>Legal states\<close>

text \<open>The parser modes are legal and soft limits are on only with homing.\<close>

definition machine_ok :: "grbl \<Rightarrow> bool" where
  "machine_ok g \<longleftrightarrow> modes_ok g \<and> soft_limit_ok (settings g)"

lemma modes_set_value: "set_value_setting p v g = Some (Inr h) \<Longrightarrow> modes_ok h = modes_ok g"
proof -
  have "modes_ok (set_flag m v g) = modes_ok g" for m v g
    by (simp add: set_flag_def modes_ok_def)
  moreover have "modes_ok (g\<lparr>settings := s\<rparr>) = modes_ok g" for g s
    by (simp add: modes_ok_def)
  ultimately show "set_value_setting p v g = Some (Inr h) \<Longrightarrow> modes_ok h = modes_ok g"
    by (auto simp: keeps set_value_setting_def Let_def split: if_split_asm dest!: md.wco_change)
qed

lemma modes_store: "settings_store_global_setting p v g = Some (e, h) \<Longrightarrow> modes_ok h = modes_ok g"
  by (auto simp: settings_store_global_setting_def write_global_settings_def modes_ok_def frame_simps split_sum_ex
      split: if_split_asm option.splits prod.splits dest!: modes_set_value [unfolded modes_ok_def])

lemma machine_okD: "machine_ok g \<Longrightarrow> modes_ok g" "machine_ok g \<Longrightarrow> soft_limit_ok (settings g)"
  by (simp_all add: machine_ok_def)

interpretation mo: realtime_frame machine_ok
  by unfold_locales (auto simp: machine_ok_def modes_ok_def dest: gc_core_modal)

lemma machine_upd [simp]:
  "machine_ok (eeprom_put_char a v g) = machine_ok g" "machine_ok (memcpy_to_eeprom_with_checksum a bs g) = machine_ok g"
  "machine_ok (g\<lparr>line := l\<rparr>) = machine_ok g" "settings (upd_gc f g) = settings g" "settings (upd_modal k g) = settings g"
  "settings (snd (gc_exec_values p g)) = settings g"
  by (simp_all add: machine_ok_def modes_ok_def frame_simps upd_modal_def upd_gc_def gc_exec_values_def Let_def)

lemma machine_modes:
  "machine_ok (upd_gc (gc_position_update f) g) = machine_ok g" "machine_ok (upd_gc (gc_coord_system_update f) g) = machine_ok g"
  "machine_ok (upd_gc (gc_coord_offset_update f) g) = machine_ok g"
  "machine_ok (upd_modal k g) \<longleftrightarrow> modes_ok (upd_modal k g) \<and> soft_limit_ok (settings g)"
  "machine_ok (serial_reset_read_buffer g) = machine_ok g"
  by (simp_all add: machine_ok_def modes_upd serial_reset_read_buffer_def) (simp_all add: modes_ok_def)

interpretation ok: controller_closed machine_ok
proof unfold_locales
  fix g h k e m l n x and p :: gc_parse_t and i :: irq and a :: gc_modal_t
  show "st_prep_buffer g = Some h \<Longrightarrow> machine_ok g \<longrightarrow> machine_ok h"
    "run_irq i g = Some h \<Longrightarrow> machine_ok g \<longrightarrow> machine_ok h"
    by (simp_all add: mo.prep_buffer mo.run_irq)
  show "machine_ok g \<Longrightarrow> modes_ok g" by (simp add: machine_ok_def)
  show "settings_store_global_setting n x g = Some (e, h) \<Longrightarrow> machine_ok g \<longrightarrow> machine_ok h"
    by (auto simp: machine_ok_def dest: modes_store store_soft)
  show "machine_ok g \<Longrightarrow> machine_ok (g\<lparr>settings := defaults\<rparr>)"
    by (simp add: machine_ok_def modes_ok_def soft_limit_ok_def defaults_def bit_macros)
  show "machine_ok g \<Longrightarrow> machine_ok (g\<lparr>gc_state := parser_state_zero\<rparr>)"
    by (simp add: machine_ok_def modes_ok_def modal_ok_def parser_state_zero_def gc_modal_zero_def grbl_consts)
  show "modal_ok (gp_modal p) \<Longrightarrow> machine_ok g \<Longrightarrow> machine_ok (snd (gc_exec_values p g))"
    by (simp add: machine_ok_def exec_values_keep)
qed (auto simp: keeps machine_modes modes_upd mo.parser machine_okD)

text \<open>The main loop makes such steps.\<close>

abbreviation controller_steps :: "grbl \<Rightarrow> grbl \<Rightarrow> bool" where
  "controller_steps \<equiv> controller_step\<^sup>*\<^sup>*"

lemmas step_into = converse_rtranclp_into_rtranclp [of controller_step]

definition loop_state :: "grbl + u8 \<times> u8 \<times> grbl \<Rightarrow> grbl" where
  "loop_state r = (case r of Inl g \<Rightarrow> g | Inr (f, n, g) \<Rightarrow> g)"

lemma line_end_steps: "line_end f n g = Some r \<Longrightarrow> controller_steps g (case r of Inl h \<Rightarrow> h | Inr h \<Rightarrow> h)"
proof -
  assume run: "line_end f n g = Some r"
  then obtain k where poll: "protocol_execute_realtime g = Some k"
    by (auto simp: line_end_def Option.bind_eq_Some_conv)
  have "controller_steps k (case r of Inl h \<Rightarrow> h | Inr h \<Rightarrow> h)"
  proof (cases "sys_abort (sys k) = 0")
    case True
    with run poll obtain h where "answer_line f (k\<lparr>line := (line k)[unat n := 0]\<rparr>) = Some h" "r = Inr h"
      by (auto simp: line_end_def)
    with True show ?thesis by (auto intro: controller_step.Answer)
  next
    case False
    with run poll show ?thesis by (auto simp: line_end_def)
  qed
  with poll show ?thesis by (blast intro: step_into controller_step.Poll)
qed

lemma char_loop_steps: "char_loop f n g = Some r \<Longrightarrow> controller_steps g (loop_state r)"
  apply (erule char_loop.raw_induct [rotated, where P = "\<lambda>f n g r. controller_steps g (loop_state r)"])
  subgoal premises prems for loop f n g r
  proof -
    obtain c h where read: "serial_read g = (c, h)" by fastforce
    have "controller_steps h (loop_state r)"
    proof (cases "c = SERIAL_NO_DATA")
      case True
      with prems(2) read show ?thesis by (auto simp: loop_state_def)
    next
      case False
      show ?thesis
      proof (cases "c = 10 \<or> c = 13")
        case True
        with prems(2) read False obtain e where e: "line_end f n h = Some e"
          and r: "(case e of Inl g \<Rightarrow> Some (Inl g) | Inr g \<Rightarrow> loop 0 0 g) = Some r"
          by (auto simp: Option.bind_eq_Some_conv)
        from r line_end_steps [OF e] show ?thesis
          by (cases e) (auto simp: loop_state_def dest: prems(1) intro: rtranclp_trans)
      next
        case no: False
        from prems(2) read False no have
          "controller_steps (h\<lparr>line := ls_line (line_char c \<lparr>ls_line = line h, ls_flags = f, ls_counter = n\<rparr>)\<rparr>) (loop_state r)"
          by (simp add: Let_def prems(1))
        then show ?thesis by (rule step_into [OF controller_step.Character [OF refl]])
      qed
    qed
    with read show ?thesis by (blast intro: step_into controller_step.Receive)
  qed
  done

lemma primary_loop_steps: "primary_loop f n g = Some h \<Longrightarrow> controller_steps g h"
  apply (erule primary_loop.raw_induct [rotated, where P = "\<lambda>f n g h. controller_steps g h"])
  subgoal premises prems for loop f n g h
  proof -
    from prems(2) obtain r where r: "char_loop f n g = Some r"
      by (auto simp: Option.bind_eq_Some_conv)
    have "controller_steps (loop_state r) h"
    proof (cases r)
      case (Inl k)
      with prems(2) r show ?thesis by (simp add: loop_state_def)
    next
      case (Inr t)
      obtain f' n' k where t: "t = (f', n', k)" by (cases t)
      from prems(2) r Inr t obtain j where j: "protocol_execute_realtime (protocol_auto_cycle_start k) = Some j"
        and h: "(if sys_abort (sys j) \<noteq> 0 then Some j else loop f' n' j) = Some h"
        by (auto simp: Option.bind_eq_Some_conv)
      from h have "controller_steps j h" by (auto dest: prems(1) split: if_split_asm)
      then have "controller_steps k h"
        by (blast intro: step_into controller_step.Cycle controller_step.Poll j)
      with Inr t show ?thesis by (simp add: loop_state_def)
    qed
    with char_loop_steps [OF r] show ?thesis by (rule rtranclp_trans)
  qed
  done

section \<open>Properties\<close>

text \<open>
  C12. The character filter stores the text of the line - comments, blanks and block delete removed, letters
  in upper case - in the order received, and reports an overflow exactly when that text has more than 47
  characters. It never writes outside the 48 bytes of the line buffer.
\<close>
theorem line_filter:
  assumes "length l = 48"
  shows "let s = fold line_char cs \<lparr>ls_line = l, ls_flags = 0, ls_counter = 0\<rparr>; t = line_text False cs
    in length (ls_line s) = 48
      \<and> bit_istrue (ls_flags s) LINE_FLAG_OVERFLOW = (length t > 47)
      \<and> (length t \<le> 47 \<longrightarrow> take (unat (ls_counter s)) (ls_line s) = t)"
proof -
  let ?s = "\<lparr>ls_line = l, ls_flags = 0, ls_counter = 0 :: u8\<rparr>"
  have "line_ok [] ?s" using assms by (simp add: line_ok_def bit_macros)
  from line_filter_run [OF this, of False cs] show ?thesis
    by (auto simp: Let_def line_ok_def line_long_def bit_isfalse_iff unat_of_nat_u8 split: if_split_asm)
qed

theorem line_filter_witness:
  "let s = fold line_char (bytes ''g0 (up) x;z'') \<lparr>ls_line = replicate 48 0, ls_flags = 0, ls_counter = 0\<rparr>
    in take (unat (ls_counter s)) (ls_line s) = bytes ''G0X''"
proof -
  have "line_text False (bytes ''g0 (up) x;z'') = bytes ''G0X''"
    by (simp add: bytes_def byte_def upcase_def)
  with line_filter [of "replicate 48 0" "bytes ''g0 (up) x;z''"] show ?thesis
    by (simp add: Let_def bytes_def del: fold_simps)
qed

text \<open>
  C7. Whatever the host sends and the interrupts do, the parser modes stay legal and soft limits are enabled
  only while homing is: the invariant holds after any number of steps of the controller, lines of G-code,
  settings commands, restores of the defaults, alarms and resets included.
\<close>
theorem controller_invariant:
  assumes "controller_step\<^sup>*\<^sup>* g h" and "machine_ok g"
  shows "machine_ok h"
  using assms by (rule ok.steps)

theorem controller_invariant_witness:
  "controller_step grbl_zero (protocol_auto_cycle_start grbl_zero) \<and> machine_ok (protocol_auto_cycle_start grbl_zero)"
proof -
  have "controller_step\<^sup>*\<^sup>* grbl_zero (protocol_auto_cycle_start grbl_zero)"
    by (blast intro: controller_step.Cycle)
  moreover have "machine_ok grbl_zero"
    by (simp add: machine_ok_def modes_ok_def modal_ok_def soft_limit_ok_def grbl_zero_def settings_zero_def
        parser_state_zero_def gc_modal_zero_def grbl_consts bit_macros)
  ultimately have "machine_ok (protocol_auto_cycle_start grbl_zero)"
    by (rule controller_invariant)
  then show ?thesis by (simp add: controller_step.Cycle)
qed

text \<open>
  C11. The program follows the step relation: whenever the main loop, entered anywhere or from an
  initialisation, comes back to the loop of main.c, the state it leaves is reached by steps of the controller.
\<close>
theorem main_cycle_follows_steps:
  assumes "main_cycle g = Some h \<or> primary_loop line_flags char_counter g = Some h"
  shows "controller_step\<^sup>*\<^sup>* g h"
  using assms
  by (auto simp: main_cycle_def protocol_main_loop_def Option.bind_eq_Some_conv dest!: primary_loop_steps
      intro: step_into [OF controller_step.Reset] step_into [OF controller_step.Start])

theorem main_cycle_follows_steps_witness:
  "\<exists>h. primary_loop 0 0 (system_set_exec_state_flag EXEC_RESET grbl_zero) = Some h
     \<and> controller_step\<^sup>*\<^sup>* (system_set_exec_state_flag EXEC_RESET grbl_zero) h"
proof -
  let ?g = "system_set_exec_state_flag EXEC_RESET grbl_zero"
  have "serial_read ?g = (SERIAL_NO_DATA, ?g)"
    by (simp add: serial_read_def grbl_zero_defs system_set_exec_state_flag_def Let_def)
  moreover have "protocol_auto_cycle_start ?g = ?g"
    by (simp add: protocol_auto_cycle_start_def plan_get_current_block_def grbl_zero_defs system_set_exec_state_flag_def)
  moreover obtain h where "protocol_execute_realtime ?g = Some h" "sys_abort (sys h) \<noteq> 0"
    by (simp add: grbl_zero_defs grbl_consts bit_macros protocol_execute_realtime_def protocol_exec_rt_system_def
        poll_def rt_alarm_def rt_state_flags_def system_set_exec_state_flag_def Let_def sys_setters)
  ultimately have h: "primary_loop 0 0 ?g = Some h"
    by (subst primary_loop.simps, subst char_loop.simps) simp
  with main_cycle_follows_steps [of ?g h 0 0] show ?thesis by blast
qed

text \<open>
  C40. \<open>$H\<close> with an argument, which this configuration does not support, is answered as an invalid statement but
  leaves the machine in the homing state: the state is set before the argument is looked at and no path sets
  it back, so that afterwards every command that needs an idle machine is refused.
\<close>
theorem homing_argument_sticks:
  assumes "line_at (line g) 1 = byte CHR ''H''" and "line_at (line g) 2 \<noteq> 0"
    and "sys_state (sys g) \<in> {STATE_IDLE, STATE_ALARM}"
    and "bit_istrue (set_flags (settings g)) BITFLAG_HOMING_ENABLE" and "\<not> system_check_safety_door_ajar g"
  shows "\<exists>h. system_execute_line g = Some (STATUS_INVALID_STATEMENT, h) \<and> sys_state (sys h) = STATE_HOMING
    \<and> (line_at (line h) 1 \<in> set (bytes ''#HSIRN0123456789'') \<longrightarrow> system_execute_line h = Some (STATUS_IDLE_ERROR, h))"
proof -
  let ?h = "set_state STATE_HOMING g"
  have "cmd_home g = Some (STATUS_INVALID_STATEMENT, ?h)"
    using assms by (simp add: cmd_home_def bit_isfalse_iff Let_def set_state_def)
  then have "system_execute_line g = Some (STATUS_INVALID_STATEMENT, ?h)"
    using assms(1,3) by (auto simp: system_execute_line_def cmd_long_def bytes_def byte_def Let_def)
  moreover have "sys_state (sys ?h) = STATE_HOMING" by (simp add: set_state_def)
  moreover have "system_execute_line ?h = Some (STATUS_IDLE_ERROR, ?h)"
    if "line_at (line ?h) 1 \<in> set (bytes ''#HSIRN0123456789'')"
    using that by (auto simp: system_execute_line_def cmd_long_def bytes_def byte_def Let_def set_state_def grbl_consts)
  ultimately show ?thesis by blast
qed

theorem homing_argument_sticks_witness:
  "\<exists>g h. line g = bytes ''$HX'' @ [0] \<and> sys_state (sys g) = STATE_IDLE
     \<and> system_execute_line g = Some (STATUS_INVALID_STATEMENT, h) \<and> sys_state (sys h) = STATE_HOMING"
proof -
  define g where "g = grbl_zero\<lparr>line := bytes ''$HX'' @ [0], settings := settings_zero\<lparr>set_flags := BITFLAG_HOMING_ENABLE\<rparr>\<rparr>"
  have "line_at (line g) 1 = byte CHR ''H''" "line_at (line g) 2 \<noteq> 0"
    by (simp_all add: g_def line_at_def bytes_def byte_def)
  moreover have "sys_state (sys g) = STATE_IDLE" by (simp add: g_def grbl_zero_def system_zero_def grbl_consts)
  moreover have "bit_istrue (set_flags (settings g)) BITFLAG_HOMING_ENABLE" "\<not> system_check_safety_door_ajar g"
    by (simp_all add: g_def bit_macros grbl_consts BITFLAG_HOMING_ENABLE_def system_check_safety_door_ajar_def)
  ultimately obtain h where "system_execute_line g = Some (STATUS_INVALID_STATEMENT, h)" "sys_state (sys h) = STATE_HOMING"
    using homing_argument_sticks [of g] by auto
  moreover have "line g = bytes ''$HX'' @ [0]" "sys_state (sys g) = STATE_IDLE"
    by (simp_all add: g_def grbl_zero_def system_zero_def grbl_consts)
  ultimately show ?thesis by blast
qed

end
