(* ===== verification/Memory_Properties.thy ===== *)
theory Memory_Properties
  imports Memory Protocol_Properties
begin

text \<open>
  The arrays, indices and pointers along every run of the controller: the condition of theory Memory
  as an instance of the conditions that the controller keeps.
\<close>

definition controller_memory :: "grbl \<Rightarrow> bool" where
  "controller_memory g \<longleftrightarrow> modes_ok g \<and> memory_ok g"

lemma memory_settings:
  assumes "settings_store_global_setting n x g = Some (e, h)"
  shows "memory_ok g \<longrightarrow> memory_ok h"
proof -
  have bytes: "memory_ok (eeprom_put_char a v g) = memory_ok g" "memory_ok (memcpy_to_eeprom_with_checksum a bs g) = memory_ok g" for a v bs g
    using memcpy_to_eeprom_only [of a bs g] by (auto simp: eeprom_put_char_eq memory_fields)
  have masks: "memory_ok g \<Longrightarrow> memory_ok (st_generate_step_dir_invert_masks g)" for g
    by (rule memory_elsewhere [OF stepper_elsewhere(4)]) (simp_all add: masks_ok memory_motion)
  have flag: "memory_ok (set_flag m v g) = memory_ok g" for m v g
    by (simp add: set_flag_def memory_fields)
  have "set_value_setting p v g = Some (Inr h) \<Longrightarrow> memory_ok g \<longrightarrow> memory_ok h" for p v g h
    by (auto simp: set_value_setting_def Let_def memory_fields masks flag mem.pins split: if_split_asm dest!: mem.wco_change)
  with assms show ?thesis
    by (auto simp: settings_store_global_setting_def write_global_settings_def bytes memory_fields split_sum_ex
        split: if_split_asm option.splits prod.splits)
qed

lemma memory_shift:
  assumes "memory_ok g" and "line_at (line g) c \<noteq> 0"
  shows "memory_ok (g\<lparr>line := shift_line (unat (c + 1)) (line g)\<rparr>)"
proof -
  let ?k = "unat (c + 1)" and ?l = "line g"
  have len: "length ?l = 48" using assms(1) by (simp add: memory_ok_def storage_ok_def)
  with assms(2) have "unat c < 48" by (simp add: line_at_def split: if_split_asm)
  then have k: "?k = Suc (unat c)" by (simp add: unat_word_ariths)
  have "length (takeWhile (\<lambda>c. c \<noteq> 0) (drop ?k ?l)) \<le> 47 - unat c"
    using length_takeWhile_le [of "\<lambda>c. c \<noteq> 0" "drop ?k ?l"] len k by simp
  with len k have "length (shift_line ?k ?l) = 48" by (simp add: shift_line_def Let_def)
  with assms(1) len show ?thesis by (simp add: memory_fields)
qed

lemma memory_read: "memory_ok g \<Longrightarrow> memory_ok (snd (serial_read g))" "memory_ok g \<Longrightarrow> memory_ok (serial_reset_read_buffer g)"
proof -
  have "transport_ok g \<Longrightarrow> transport_ok (snd (serial_read g))"
    by (auto simp: transport_ok_def serial_read_wf) (auto simp: serial_read_def Let_def tx_ok_def tx_wf_def llp_bufs_wf_def)
  then show "memory_ok g \<Longrightarrow> memory_ok (snd (serial_read g))"
    by (auto simp: memory_ok_def) (auto simp: storage_ok_def motion_ok_def serial_read_def Let_def)
  show "memory_ok g \<Longrightarrow> memory_ok (serial_reset_read_buffer g)"
    by (simp add: serial_reset_read_buffer_def memory_ok_def storage_ok_def motion_ok_def transport_ok_def rx_wf_def
        tx_ok_def tx_wf_def llp_bufs_wf_def)
qed

lemma memory_upd: "memory_ok (upd_gc f g) = memory_ok g" "memory_ok (upd_modal k g) = memory_ok g"
  by (simp_all add: upd_modal_def upd_gc_def memory_fields)

lemma modes_data: "modes_ok (g\<lparr>line := l\<rparr>) = modes_ok g" "modes_ok (g\<lparr>settings := s\<rparr>) = modes_ok g"
  "modes_ok (serial_reset_read_buffer g) = modes_ok g"
  by (simp_all add: modes_ok_def serial_reset_read_buffer_def)

lemma memory_values: "memory_ok (snd (gc_exec_values p g)) = memory_ok g"
  by (simp add: gc_exec_values_def Let_def upd_modal_def upd_gc_def memory_fields)

lemmas mem_ops = mem.serial_write mem.planner_ops mem.stepper_ops mem.probe_position

interpretation cm: controller_closed controller_memory
proof unfold_locales
  fix g h :: grbl and e :: u8 and n x and k i bs l
  have io: "memory_ok (eeprom_put_char a v g) = memory_ok g" "memory_ok (memcpy_to_eeprom_with_checksum b bs g) = memory_ok g"
    "modes_ok (eeprom_put_char a v g) = modes_ok g" "modes_ok (memcpy_to_eeprom_with_checksum b bs g) = modes_ok g" for a v b bs g
    using memcpy_to_eeprom_only [of b bs g] by (auto simp: eeprom_put_char_eq memory_fields modes_ok_def)
  show "st_prep_buffer g = Some h \<Longrightarrow> controller_memory g \<longrightarrow> controller_memory h"
    by (auto simp: controller_memory_def dest: mem.prep_buffer md.prep_buffer)
  show "run_irq k g = Some h \<Longrightarrow> controller_memory g \<longrightarrow> controller_memory h"
    by (auto simp: controller_memory_def dest: mem.irq md.run_irq)
  show "settings_store_global_setting n x g = Some (e, h) \<Longrightarrow> controller_memory g \<longrightarrow> controller_memory h"
    by (auto simp: controller_memory_def dest: memory_settings modes_store)
  show "controller_memory (eeprom_put_char a v g) = controller_memory g" for a v
    by (simp add: controller_memory_def io)
  show "controller_memory (memcpy_to_eeprom_with_checksum b bs g) = controller_memory g" for b bs
    by (simp add: controller_memory_def io)
  show "controller_memory g \<Longrightarrow> controller_memory (memcpy_to_eeprom_with_checksum b bs g)" for b bs
    by (simp add: controller_memory_def io)
  show "controller_memory g \<Longrightarrow> controller_memory (g\<lparr>gc_state := parser_state_zero\<rparr>)"
    by (simp add: controller_memory_def memory_fields modes_ok_def modal_ok_def parser_state_zero_def gc_modal_zero_def grbl_consts)
  show "controller_memory g \<Longrightarrow> length l = 48 \<Longrightarrow> controller_memory (g\<lparr>line := l\<rparr>)"
    by (auto simp: controller_memory_def modes_ok_def memory_ok_def storage_ok_def motion_ok_def transport_ok_def rx_wf_def
        tx_ok_def tx_wf_def llp_bufs_wf_def)
qed (auto simp: controller_memory_def keeps mem_ops memory_fields modes_upd exec_values_keep md.parser memory_values
    memory_upd memory_shift memory_read modes_data)

section \<open>Power-up\<close>

text \<open>The static memory before \<open>main\<close>, with any EEPROM, any input pins and any behaviour of the outside world.\<close>

definition cold :: "(u16 \<Rightarrow> u8) \<Rightarrow> u8 \<Rightarrow> u8 \<Rightarrow> world_t \<Rightarrow> grbl" where
  "cold e pinb pinc w = grbl_zero\<lparr>eeprom := e, hw := hw_zero\<lparr>PINB := pinb, PINC := pinc\<rparr>, world := w\<rparr>"

lemma cold_memory: "controller_memory (cold e pinb pinc w)"
  by (simp add: controller_memory_def cold_def memory_ok_def storage_ok_def motion_ok_def transport_ok_def planner_typed_def
      stepper_typed_def first_block_def unprepared_def grbl_zero_defs rx_wf_def tx_ok_def tx_wf_def llp_bufs_wf_def
      llp_zero_wf RX_RING_BUFFER_def TX_RING_BUFFER_def modes_ok_def modal_ok_def gc_modal_zero_def grbl_consts
      plan_block_zero_def planner_t_zero_def vec0_def stepper_t_zero_def st_prep_zero_def PREP_FLAG_RECALCULATE_def bit_macros)

lemma power_up_memory: "power_up g = Some h \<Longrightarrow> controller_memory g \<Longrightarrow> controller_memory h"
proof -
  assume up: "power_up g = Some h" and ok: "controller_memory g"
  have parser: "llp_parser_wf p \<Longrightarrow> llp_parser_wf (llp_parser_init p)" for p
    by (rule llp_init_wf) (simp add: llp_parser_wf_def)
  have init: "controller_memory (serial_init g)"
    using ok parser
    by (auto simp: controller_memory_def serial_init_def llp_transport_init_def Let_def memory_ok_def storage_ok_def motion_ok_def
        transport_ok_def rx_wf_def tx_ok_def tx_wf_def llp_bufs_wf_def modes_ok_def)
  have settings: "controller_memory (g\<lparr>settings := s\<rparr>) = controller_memory g" for g s
    by (simp add: controller_memory_def memory_fields modes_data)
  have "settings_init g = Some h \<Longrightarrow> controller_memory g \<longrightarrow> controller_memory h" for g h
    by (auto simp: settings_init_def read_global_settings_def settings cm.messages cm.reports split: prod.splits if_split_asm
        dest!: cm.restore)
  then obtain k where k: "settings_init (serial_init g) = Some k" "controller_memory k"
    using init up by (auto simp: power_up_def)
  let ?j = "system_init (stepper_init k)"
  have j: "controller_memory ?j"
    using k(2) by (simp add: stepper_init_def system_init_def Let_def cm.ports)
  then have "length (sys_position ?j) = 3" by (simp add: controller_memory_def memory_ok_def storage_ok_def motion_ok_def)
  with k(1) j up show ?thesis
    by (auto simp: power_up_def Let_def cm.setters cm.positions split: if_split_asm)
qed

text \<open>
  C8. The program never leaves its memory. From power-up on, with any content of the EEPROM, after whatever the
  host sends and the interrupts do, every static array has its declared length, every ring index and every
  stored pointer lies within its array, and the step interrupt never follows a NULL block: when it has
  a segment to execute, the block of that segment is known.
\<close>
theorem memory_safe:
  assumes "power_up (cold e pinb pinc w) = Some g" and "controller_step\<^sup>*\<^sup>* g h"
  shows "memory_ok h \<and> (st_exec_segment (st (stepper h)) \<noteq> None \<longrightarrow> st_exec_block (st (stepper h)) \<noteq> None)"
proof -
  have "memory_ok h"
    using cm.steps [OF assms(2)] power_up_memory [OF assms(1) cold_memory] by (simp add: controller_memory_def)
  then show ?thesis by (auto simp: memory_ok_def storage_ok_def motion_ok_def first_block_def)
qed

text \<open>An EEPROM of zeroes with the version byte holds settings with a good checksum.\<close>

definition blank_eeprom :: "u16 \<Rightarrow> u8" where
  "blank_eeprom a = (if a = 0 then SETTINGS_VERSION else 0)"

lemma blank_settings:
  assumes "eeprom g = blank_eeprom"
  shows "\<exists>bs. memcpy_from_eeprom_with_checksum EEPROM_ADDR_GLOBAL 85 g = (bs, True)"
proof -
  have zero: "eeprom_at i g = 0" if "0 < i" "i < 1024" for i
  proof -
    have "unat (EEAR (of_nat i)) \<noteq> unat (0 :: u16)" using that by (simp add: unat_EEAR)
    then show ?thesis by (auto simp: eeprom_at_def eeprom_get_char_def blank_eeprom_def assms)
  qed
  have "eeprom_block 1 85 g = replicate 85 0"
    by (rule nth_equalityI) (simp_all add: eeprom_block_def zero del: upt_Suc)
  moreover have "foldl checksum_add 0 (replicate n 0) = 0" for n
    by (induction n) (simp_all add: checksum_add_def)
  ultimately have "memcpy_from_eeprom_with_checksum (of_nat 1) 85 g = (replicate 85 0, True)"
    unfolding memcpy_from_eq by (simp add: checksum_def zero)
  then show ?thesis by (simp add: EEPROM_ADDR_GLOBAL_def)
qed

theorem memory_safe_witness:
  "\<exists>g. power_up (cold blank_eeprom 0xFF 0xFF world_idle) = Some g \<and> memory_ok (protocol_auto_cycle_start g)"
proof -
  let ?g = "serial_init (cold blank_eeprom 0xFF 0xFF world_idle)"
  have e: "eeprom ?g = blank_eeprom" by (simp add: serial_init_def llp_transport_init_def cold_def Let_def)
  have "eeprom_get_char 0 ?g = SETTINGS_VERSION"
    by (simp add: eeprom_get_char_def e blank_eeprom_def EEAR_def)
  then obtain g where g: "power_up (cold blank_eeprom 0xFF 0xFF world_idle) = Some g"
    using blank_settings [OF e] by (auto simp: power_up_def settings_init_def read_global_settings_def Let_def)
  have "memory_ok (protocol_auto_cycle_start g)"
    using memory_safe [OF g r_into_rtranclp [of controller_step, OF controller_step.Cycle]] by blast
  with g show ?thesis by blast
qed

end
