(* ===== verification/Planner_Speeds.thy ===== *)
theory Planner_Speeds
  imports Planner_Properties
begin

text \<open>
  What the velocity planning guarantees at the junctions of the queue, from a reset of the planner on.
\<close>

section \<open>Speeds at the junctions\<close>

text \<open>The entry speed of a block respects its limit, the limit respects the junction, and the entry speed can be
  reached from the block before it.\<close>

definition limit_kept :: "grbl \<Rightarrow> u8 \<Rightarrow> bool" where
  "limit_kept g i \<longleftrightarrow> \<not> f_lt (pb_max_entry_speed_sqr (plan_block g i)) (pb_entry_speed_sqr (plan_block g i))"

definition junction_kept :: "grbl \<Rightarrow> u8 \<Rightarrow> bool" where
  "junction_kept g i \<longleftrightarrow>
     \<not> f_lt (pb_max_junction_speed_sqr (plan_block g i)) (pb_max_entry_speed_sqr (plan_block g i))"

definition reachable_from :: "grbl \<Rightarrow> u8 \<Rightarrow> u8 \<Rightarrow> bool" where
  "reachable_from g i j \<longleftrightarrow>
     (f_lt (pb_entry_speed_sqr (plan_block g i)) (pb_entry_speed_sqr (plan_block g j)) \<longrightarrow>
      \<not> f_lt (f_add (pb_entry_speed_sqr (plan_block g i)) (accel_distance (plan_block g i)))
          (pb_entry_speed_sqr (plan_block g j)))"

text \<open>The state in which the planner works: the stepper prepares the oldest block or none.\<close>

definition replannable :: "u8 \<Rightarrow> u8 \<Rightarrow> grbl \<Rightarrow> bool" where
  "replannable t h g \<longleftrightarrow> length (block_buffer (planner g)) = 12 \<and> block_buffer_tail (planner g) = t
     \<and> block_buffer_head (planner g) = h \<and> (pl_block (stepper g) = None \<or> pl_block (stepper g) = Some t)"

lemma block_of_entry:
  "length (block_buffer (planner g)) = 12 \<Longrightarrow> i < BLOCK_BUFFER_SIZE \<Longrightarrow>
   plan_block (set_entry_speed_sqr i v g) j = (if j = i then (plan_block g i)\<lparr>pb_entry_speed_sqr := v\<rparr> else plan_block g j)"
  by (auto simp: plan_block_def set_entry_speed_sqr_def set_plan_block_def BLOCK_BUFFER_SIZE_def word_less_nat_alt
      word_unat_eq_iff)

lemma block_of_planned [simp]: "plan_block (set_planned i g) j = plan_block g j"
  by (simp add: plan_block_def set_planned_def)

lemma replannable_simps [simp]:
  "replannable t h (set_entry_speed_sqr i v g) = replannable t h g"
  "replannable t h (set_planned i g) = replannable t h g"
  by (simp_all add: replannable_def set_entry_speed_sqr_def set_plan_block_def set_planned_def)

lemma limit_planned [simp]: "limit_kept (set_planned i g) j = limit_kept g j" "reachable_from (set_planned i g) j k = reachable_from g j k"
  by (simp_all add: limit_kept_def reachable_from_def)

lemma update_parameters:
  assumes "replannable t h g" and "t < BLOCK_BUFFER_SIZE"
  shows "replannable t h (st_update_plan_block_parameters g)"
    and "j \<noteq> t \<Longrightarrow> plan_block (st_update_plan_block_parameters g) j = plan_block g j"
proof -
  have "plan_block (x\<lparr>stepper := s\<rparr>) j = plan_block x j" for x s by (simp add: plan_block_def)
  with assms show "j \<noteq> t \<Longrightarrow> plan_block (st_update_plan_block_parameters g) j = plan_block g j"
    by (auto simp: st_update_plan_block_parameters_def replannable_def Let_def block_of_entry split: option.split)
  show "replannable t h (st_update_plan_block_parameters g)"
    using assms
    by (auto simp: st_update_plan_block_parameters_def replannable_def Let_def set_entry_speed_sqr_def
        set_plan_block_def split: option.split)
qed

lemma reverse_step_limits:
  assumes "replannable t h g" and "t < BLOCK_BUFFER_SIZE" and "i < BLOCK_BUFFER_SIZE"
  shows "replannable t h (reverse_step nxt i g)"
    and "i \<noteq> t \<Longrightarrow> limit_kept (reverse_step nxt i g) i"
    and "j \<noteq> t \<Longrightarrow> limit_kept g j \<Longrightarrow> limit_kept (reverse_step nxt i g) j"
    and "j \<noteq> t \<Longrightarrow> j \<noteq> i \<Longrightarrow> plan_block (reverse_step nxt i g) j = plan_block g j"
proof -
  define k where "k = (if plan_prev_block_index i = block_buffer_tail (planner g) then st_update_plan_block_parameters g else g)"
  have k: "replannable t h k" "j \<noteq> t \<Longrightarrow> plan_block k j = plan_block g j" for j
    using update_parameters [OF assms(1,2)] assms(1) by (simp_all add: k_def)
  have len: "length (block_buffer (planner k)) = 12" using k(1) by (simp add: replannable_def)
  let ?b = "plan_block k i"
  have step: "reverse_step nxt i g = (if \<not> f_eq (pb_entry_speed_sqr ?b) (pb_max_entry_speed_sqr ?b)
      then set_entry_speed_sqr i (let v = f_add (pb_entry_speed_sqr (plan_block k nxt)) (accel_distance ?b) in
        if f_lt v (pb_max_entry_speed_sqr ?b) then v else pb_max_entry_speed_sqr ?b) k else k)"
    unfolding reverse_step_def k_def Let_def by simp
  show "replannable t h (reverse_step nxt i g)" using k(1) by (simp add: step)
  have "f_eq x y \<Longrightarrow> \<not> f_lt y x" for x y by (auto simp: f_eq_def f_lt_def f_cmp_def Let_def)
  then show i: "i \<noteq> t \<Longrightarrow> limit_kept (reverse_step nxt i g) i"
    by (auto simp: step limit_kept_def block_of_entry len assms(3) Let_def dest: f_lt_asym)
  show "limit_kept (reverse_step nxt i g) j" if "j \<noteq> t" "limit_kept g j"
    using that i k(2) [of j] by (cases "j = i") (auto simp: step limit_kept_def block_of_entry len assms(3))
  show "j \<noteq> t \<Longrightarrow> j \<noteq> i \<Longrightarrow> plan_block (reverse_step nxt i g) j = plan_block g j"
    using k(2) [of j] by (simp add: step block_of_entry len assms(3))
qed

text \<open>
  The reverse pass, from place \<open>p + k\<close> of the queue down to the planned block at place \<open>p\<close>,
  leaves the blocks between the first and the planned one alone and brings the others to their limits.
\<close>

lemma slot_distinct: "t < BLOCK_BUFFER_SIZE \<Longrightarrow> i < 12 \<Longrightarrow> j < 12 \<Longrightarrow> plan_slot t i = plan_slot t j \<longleftrightarrow> i = j"
  by (simp add: plan.slot_eq plan_ring_size)

lemma slot_not_tail: "t < BLOCK_BUFFER_SIZE \<Longrightarrow> 0 < j \<Longrightarrow> j < 12 \<Longrightarrow> plan_slot t j \<noteq> t"
  using slot_distinct [of t j 0] by (simp add: plan.slot_0)

lemma reverse_pass_limits:
  assumes "replannable t h g" and "t < BLOCK_BUFFER_SIZE" and "block_buffer_planned (planner g) = plan_slot t p"
    and "p + k < 12" and "k < n" and "\<And>j. p + k < j \<Longrightarrow> j < m \<Longrightarrow> limit_kept g (plan_slot t j)" and "m \<le> 12"
  defines "r \<equiv> \<lambda>n nxt k g. plan_reverse_pass n nxt (plan_slot t (p + k)) g"
  shows "replannable t h (r n nxt k g) \<and> block_buffer_planned (planner (r n nxt k g)) = plan_slot t p
    \<and> (\<forall>j. p < j \<and> j < m \<longrightarrow> limit_kept (r n nxt k g) (plan_slot t j))
    \<and> (\<forall>j. 0 < j \<and> j \<le> p \<longrightarrow> plan_block (r n nxt k g) (plan_slot t j) = plan_block g (plan_slot t j))"
  using assms(1,3-6)
proof (induction k arbitrary: n nxt g)
  case 0
  then obtain n' where "n = Suc n'" by (cases n) auto
  with 0 show ?case by (simp add: r_def reverse_pass_Suc del: round_defs)
next
  case (Suc k)
  from Suc.prems(4) obtain n' where n: "n = Suc n'" by (cases n) auto
  let ?i = "plan_slot t (p + Suc k)" and ?g = "reverse_step nxt (plan_slot t (p + Suc k)) g"
  note ne = slot_not_tail [OF assms(2)]
  have differ: "?i \<noteq> plan_slot t p" using slot_distinct [OF assms(2), of "p + Suc k" p] Suc.prems(3) by simp
  note step = reverse_step_limits [OF Suc.prems(1) assms(2) plan.slot_less [of t "p + Suc k"], where nxt = nxt]
  have "limit_kept ?g (plan_slot t j)" if "p + k < j" "j < m" for j
  proof (cases "j = p + Suc k")
    case True
    with step(2) ne [of j] Suc.prems(3) show ?thesis by simp
  next
    case False
    with that have "limit_kept g (plan_slot t j)" by (intro Suc.prems(5)) simp_all
    with step(3) ne [of j] that assms(7) show ?thesis by simp
  qed
  moreover have "plan_block ?g (plan_slot t j) = plan_block g (plan_slot t j)" if "0 < j" "j \<le> p" for j
    using step(4) ne [of j] that Suc.prems(3) slot_distinct [OF assms(2), of j "p + Suc k"] by simp
  moreover have "r n nxt (Suc k) g = r n' ?i k ?g"
    using differ Suc.prems(2) n by (simp add: r_def reverse_pass_Suc del: round_defs)
  ultimately show ?case
    using Suc.IH [of ?g n' ?i] Suc.prems n step(1) by simp
qed

lemma forward_step_limits:
  assumes "replannable t h g" and "i < BLOCK_BUFFER_SIZE" and "c \<noteq> i"
  shows "replannable t h (forward_step c i g)"
    and "reachable_from (forward_step c i g) c i"
    and "limit_kept g j \<Longrightarrow> limit_kept (forward_step c i g) j"
    and "j \<noteq> i \<Longrightarrow> plan_block (forward_step c i g) j = plan_block g j"
    and "block_buffer_planned (planner (forward_step c i g)) \<in> {i, block_buffer_planned (planner g)}"
proof -
  have len: "length (block_buffer (planner g)) = 12" using assms(1) by (simp add: replannable_def)
  let ?c = "plan_block g c" and ?b = "plan_block g i"
  define v where "v = f_add (pb_entry_speed_sqr ?c) (accel_distance ?c)"
  define slower where "slower \<longleftrightarrow> f_lt (pb_entry_speed_sqr ?c) (pb_entry_speed_sqr ?b) \<and> f_lt v (pb_entry_speed_sqr ?b)"
  define k where "k = (if slower then set_planned i (set_entry_speed_sqr i v g) else g)"
  have step: "forward_step c i g = k \<or> forward_step c i g = set_planned i k"
    by (auto simp: forward_step_def k_def slower_def v_def Let_def)
  then have block: "plan_block (forward_step c i g) j
      = (if j = i \<and> slower then ?b\<lparr>pb_entry_speed_sqr := v\<rparr> else plan_block g j)" for j
    by (auto simp: k_def block_of_entry len assms(2))
  show "replannable t h (forward_step c i g)"
    using step assms(1) by (auto simp: k_def)
  show "reachable_from (forward_step c i g) c i"
    using assms(3) by (auto simp: reachable_from_def block slower_def v_def)
  show "j \<noteq> i \<Longrightarrow> plan_block (forward_step c i g) j = plan_block g j"
    by (simp add: block)
  show "block_buffer_planned (planner (forward_step c i g)) \<in> {i, block_buffer_planned (planner g)}"
    using step by (auto simp: k_def set_planned_def)
  show "limit_kept g j \<Longrightarrow> limit_kept (forward_step c i g) j"
    by (auto simp: limit_kept_def block slower_def dest: f_lt_trans)
qed

text \<open>
  The forward pass, from the planned block at place \<open>p\<close> to the head at place \<open>Suc p + k\<close>: what held of
  the limits behind place \<open>l\<close> and of the reachable speeds behind place \<open>q\<close> holds up to the head.
\<close>

lemma forward_pass_limits:
  assumes "replannable t (plan_slot t (Suc p + k)) g" and "t < BLOCK_BUFFER_SIZE" and "Suc p + k < 12" and "k < n"
    and "\<And>j. q < j \<Longrightarrow> j \<le> p \<Longrightarrow> reachable_from g (plan_slot t (j - 1)) (plan_slot t j)"
    and "\<And>j. l < j \<Longrightarrow> j < Suc p + k \<Longrightarrow> limit_kept g (plan_slot t j)"
    and "\<exists>i \<le> p. block_buffer_planned (planner g) = plan_slot t i"
  defines "r \<equiv> \<lambda>n p g. plan_forward_pass n (plan_slot t p) (plan_slot t (Suc p)) g"
  shows "(\<forall>j. l < j \<and> j < Suc p + k \<longrightarrow> limit_kept (r n p g) (plan_slot t j))
    \<and> (\<forall>j. q < j \<and> j < Suc p + k \<longrightarrow> reachable_from (r n p g) (plan_slot t (j - 1)) (plan_slot t j))
    \<and> (\<exists>i < Suc p + k. block_buffer_planned (planner (r n p g)) = plan_slot t i)"
  using assms(1,3-7)
proof (induction k arbitrary: n p g)
  case 0
  then obtain n' where n: "n = Suc n'" by (cases n) auto
  have "block_buffer_head (planner g) = plan_slot t (Suc p)" using "0.prems"(1) by (simp add: replannable_def)
  with n have "r n p g = g" by (simp add: r_def forward_pass_Suc del: round_defs)
  with "0.prems" show ?case by (auto simp: less_Suc_eq_le)
next
  case (Suc k)
  from Suc.prems(3) obtain n' where n: "n = Suc n'" by (cases n) auto
  let ?c = "plan_slot t p" and ?i = "plan_slot t (Suc p)" and ?g = "forward_step (plan_slot t p) (plan_slot t (Suc p)) g"
  have differ: "plan_slot t j \<noteq> ?i" if "j < 12" "j \<noteq> Suc p" for j
    using slot_distinct [OF assms(2), of j "Suc p"] that Suc.prems(2) by simp
  have ne: "?i \<noteq> block_buffer_head (planner g)"
    using Suc.prems(1,2) differ [of "Suc p + Suc k"] by (auto simp: replannable_def)
  have "?c \<noteq> ?i" using differ [of p] Suc.prems(2) by simp
  note step = forward_step_limits [OF Suc.prems(1) plan.slot_less this]
  have reach: "reachable_from ?g (plan_slot t (j - 1)) (plan_slot t j)" if "q < j" "j \<le> Suc p" for j
  proof (cases "j = Suc p")
    case True
    then show ?thesis using step(2) by simp
  next
    case False
    with that Suc.prems(2,4) differ [of j] differ [of "j - 1"] step(4) show ?thesis
      by (simp add: reachable_from_def)
  qed
  have planned: "\<exists>i \<le> Suc p. block_buffer_planned (planner ?g) = plan_slot t i"
    using step(5) Suc.prems(6) by (auto intro: le_SucI)
  have "r n p g = r n' (Suc p) ?g" using ne n by (simp add: r_def forward_pass_Suc del: round_defs)
  then show ?case
    using Suc.IH [of "Suc p" ?g n'] Suc.prems n step(1,3) reach planned by simp
qed

text \<open>The first half of a recalculation, with at least two blocks from the planned one on.\<close>

lemma reverse_part:
  assumes "planner_ok g" and t: "t = block_buffer_tail (planner g)"
    and planned: "block_buffer_planned (planner g) = plan_slot t p" and k: "plan_count g = Suc (Suc (p + k))"
    and "pl_block (stepper g) = None \<or> pl_block (stepper g) = Some t"
  obtains g2 where "replannable t (block_buffer_head (planner g)) g2" "block_buffer_planned (planner g2) = plan_slot t p"
    "\<And>j. p < j \<Longrightarrow> j < plan_count g \<Longrightarrow> limit_kept g2 (plan_slot t j)"
    "\<And>j. 0 < j \<Longrightarrow> j \<le> p \<Longrightarrow> plan_block g2 (plan_slot t j) = plan_block g (plan_slot t j)"
    "planner_recalculate g = plan_forward_pass 12 (plan_slot t p) (plan_slot t (Suc p)) g2"
proof -
  let ?h = "block_buffer_head (planner g)"
  have tl: "t < BLOCK_BUFFER_SIZE" "?h < BLOCK_BUFFER_SIZE" using assms(1) by (simp_all add: planner_ok_def Let_def t)
  have head: "?h = plan_slot t (plan_count g)" using plan.slot_head [OF tl(2,1)] by (simp add: plan_count_def t plan_ring_size)
  have small: "plan_count g < 12" by (simp add: plan_count_def ring_len_def)
  note distinct = slot_distinct [OF tl(1)]
  have r: "replannable t ?h g" using assms(1,5) by (simp add: replannable_def planner_ok_def Let_def t)
  let ?last = "plan_slot t (Suc (p + k))" and ?prev = "plan_slot t (p + k)"
  have prev_head: "plan_prev_block_index ?h = ?last" by (simp add: head k)
  have differ: "?last \<noteq> plan_slot t p" using distinct [of "Suc (p + k)" p] small k by simp
  define g1 where "g1 = set_entry_speed_sqr ?last (f_min (pb_max_entry_speed_sqr (plan_block g ?last)) (accel_distance (plan_block g ?last))) g"
  have len: "length (block_buffer (planner g)) = 12" using r by (simp add: replannable_def)
  have g1: "replannable t ?h g1" "limit_kept g1 ?last" "block_buffer_planned (planner g1) = plan_slot t p"
    using r len by (simp_all add: g1_def limit_kept_def block_of_entry plan.slot_less f_min_limit planned)
  have g1_other: "plan_block g1 (plan_slot t j) = plan_block g (plan_slot t j)" if "j \<le> p" for j
    using that distinct [of j "Suc (p + k)"] small k len by (simp add: g1_def block_of_entry plan.slot_less)
  define g2 where "g2 = (if ?prev = plan_slot t p then if ?prev = t then st_update_plan_block_parameters g1 else g1
     else plan_reverse_pass 12 ?last ?prev g1)"
  have g2: "replannable t ?h g2 \<and> block_buffer_planned (planner g2) = plan_slot t p
    \<and> (\<forall>j. p < j \<and> j < plan_count g \<longrightarrow> limit_kept g2 (plan_slot t j))
    \<and> (\<forall>j. 0 < j \<and> j \<le> p \<longrightarrow> plan_block g2 (plan_slot t j) = plan_block g1 (plan_slot t j))"
  proof (cases "k = 0")
    case True
    have "limit_kept g1 (plan_slot t j)" if "p < j" "j < plan_count g" for j
      using that k True g1(2) by (simp add: less_Suc_eq)
    moreover have "plan_block g2 (plan_slot t j) = plan_block g1 (plan_slot t j)" if "0 < j" "j < 12" for j
      using True update_parameters(2) [OF g1(1) tl(1)] slot_not_tail [OF tl(1) that] by (simp add: g2_def)
    moreover have "replannable t ?h g2 \<and> block_buffer_planned (planner g2) = plan_slot t p"
      using True g1 update_parameters(1) [OF g1(1) tl(1)] by (simp add: g2_def)
    ultimately show ?thesis using small k by (simp add: limit_kept_def)
  next
    case False
    then have "?prev \<noteq> plan_slot t p" using distinct [of "p + k" p] small k by simp
    moreover have "limit_kept g1 (plan_slot t j)" if "p + k < j" "j < plan_count g" for j
      using that k g1(2) by (simp add: less_Suc_eq)
    ultimately show ?thesis
      using reverse_pass_limits [OF g1(1) tl(1) g1(3), of k 12 "plan_count g" ?last] small k
      by (simp add: g2_def del: round_defs)
  qed
  have tail1: "block_buffer_tail (planner g1) = t" using g1(1) by (simp add: replannable_def)
  have planned2: "block_buffer_planned (planner g2) = plan_slot t p" using g2 by simp
  have "planner_recalculate g = plan_forward_pass 12 (plan_slot t p) (plan_slot t (Suc p)) g2"
    unfolding planner_recalculate_def prev_head Let_def planned if_not_P [OF differ] g1_def [symmetric]
      g1(3) tail1 prev_slot g2_def [symmetric] planned2 next_slot ..
  with g2 g1_other show ?thesis by (intro that [of g2]) simp_all
qed

text \<open>
  One recalculation of a queue that is not empty, with the planned block at place \<open>p\<close>: if the blocks up
  to the planned one kept their limits and could be reached, then all blocks do.
\<close>

lemma recalculate_limits:
  assumes "planner_ok g" and t: "t = block_buffer_tail (planner g)"
    and planned: "block_buffer_planned (planner g) = plan_slot t p" and "p < plan_count g"
    and "pl_block (stepper g) = None \<or> pl_block (stepper g) = Some t"
    and limits: "\<And>j. 0 < j \<Longrightarrow> j \<le> p \<Longrightarrow> limit_kept g (plan_slot t j)"
    and reach: "\<And>j. 1 < j \<Longrightarrow> j \<le> p \<Longrightarrow> reachable_from g (plan_slot t (j - 1)) (plan_slot t j)"
  defines "h \<equiv> planner_recalculate g"
  shows "(\<forall>j. 0 < j \<and> j < plan_count g \<longrightarrow> limit_kept h (plan_slot t j))
    \<and> (\<forall>j. min p 1 < j \<and> j < plan_count g \<longrightarrow> reachable_from h (plan_slot t (j - 1)) (plan_slot t j))
    \<and> (\<exists>i < plan_count g. block_buffer_planned (planner h) = plan_slot t i)"
proof -
  let ?h = "block_buffer_head (planner g)"
  have tl: "t < BLOCK_BUFFER_SIZE" "?h < BLOCK_BUFFER_SIZE" using assms(1) by (simp_all add: planner_ok_def Let_def t)
  have head: "?h = plan_slot t (plan_count g)" using plan.slot_head [OF tl(2,1)] by (simp add: plan_count_def t plan_ring_size)
  have small: "plan_count g < 12" by (simp add: plan_count_def ring_len_def)
  show ?thesis
  proof (cases "plan_count g = Suc p")
    case True
    then have "h = g" using head planned by (simp add: h_def planner_recalculate_def)
    with True limits reach planned show ?thesis by (cases p) (auto simp: less_Suc_eq_le)
  next
    case False
    define k where "k = plan_count g - p - 2"
    then have k: "plan_count g = Suc (Suc (p + k))" using assms(4) False by simp
    obtain g2 where g2: "replannable t ?h g2" "block_buffer_planned (planner g2) = plan_slot t p"
      "\<And>j. p < j \<Longrightarrow> j < plan_count g \<Longrightarrow> limit_kept g2 (plan_slot t j)"
      "\<And>j. 0 < j \<Longrightarrow> j \<le> p \<Longrightarrow> plan_block g2 (plan_slot t j) = plan_block g (plan_slot t j)"
      and h: "h = plan_forward_pass 12 (plan_slot t p) (plan_slot t (Suc p)) g2"
      using reverse_part [OF assms(1-3) _ assms(5), of k] k unfolding h_def by blast
    have "limit_kept g2 (plan_slot t j)" if "0 < j" "j < plan_count g" for j
      using that g2(3,4) [of j] limits [of j] by (cases "p < j") (simp_all add: limit_kept_def)
    moreover have "reachable_from g2 (plan_slot t (j - 1)) (plan_slot t j)" if "min p 1 < j" "j \<le> p" for j
      using that g2(4) [of j] g2(4) [of "j - 1"] reach [of j] by (cases p) (simp_all add: reachable_from_def)
    ultimately show ?thesis
      using forward_pass_limits [of t p "Suc k" g2 12 "min p 1" 0] g2(1,2) tl(1) small k head
      by (auto simp: h simp del: round_defs)
  qed
qed

section \<open>The planner along a run\<close>

text \<open>The limit of a block against its junction is untouched by a recalculation.\<close>

definition entry_limits :: "grbl \<Rightarrow> f32 list" where
  "entry_limits g = map pb_max_entry_speed_sqr (block_buffer (planner g))"

lemma entry_limits_simps [simp]:
  "entry_limits (set_entry_speed_sqr i v g) = entry_limits g" "entry_limits (set_planned i g) = entry_limits g"
  by (simp_all add: entry_limits_def set_entry_speed_sqr_def set_plan_block_def set_planned_def plan_block_def
      map_update_same)

lemma entry_limits_update [simp]: "entry_limits (st_update_plan_block_parameters g) = entry_limits g"
proof -
  have "entry_limits (h\<lparr>stepper := s\<rparr>) = entry_limits h" for h s by (simp add: entry_limits_def)
  then show ?thesis by (simp add: st_update_plan_block_parameters_def Let_def split: option.split)
qed

lemma entry_limits_reverse [simp]: "entry_limits (plan_reverse_pass n c i g) = entry_limits g"
  by (induction n c i g rule: plan_reverse_pass.induct) (simp_all add: Let_def)

lemma entry_limits_forward [simp]: "entry_limits (plan_forward_pass n c i g) = entry_limits g"
  by (induction n c i g rule: plan_forward_pass.induct) (simp_all add: Let_def)

lemma entry_limits_recalculate [simp]: "entry_limits (planner_recalculate g) = entry_limits g"
  by (simp add: planner_recalculate_def Let_def del: round_defs)

lemma junction_of_limits:
  assumes "motions h = motions g" and "entry_limits h = entry_limits g" and "length (block_buffer (planner g)) = 12"
    and "i < BLOCK_BUFFER_SIZE"
  shows "junction_kept h i = junction_kept g i"
proof -
  have i: "unat i < 12" using assms(4) by (simp add: word_less_nat_alt plan_ring_size)
  have m: "map motion (block_buffer (planner h)) = map motion (block_buffer (planner g))" using assms(1) by (simp add: motions_def)
  then have len: "length (block_buffer (planner h)) = 12" using assms(3) by (metis length_map)
  have "motion (plan_block h i) = motion (plan_block g i)"
    using arg_cong [OF m, of "\<lambda>xs. xs ! unat i"] i len assms(3) by (simp add: plan_block_def)
  then have "pb_max_junction_speed_sqr (plan_block h i) = pb_max_junction_speed_sqr (plan_block g i)"
    by (auto simp: motion_def dest: arg_cong [of _ _ pb_max_junction_speed_sqr])
  moreover have "pb_max_entry_speed_sqr (plan_block h i) = pb_max_entry_speed_sqr (plan_block g i)"
    using arg_cong [OF assms(2), of "\<lambda>xs. xs ! unat i"] i len assms(3) by (simp add: plan_block_def entry_limits_def)
  ultimately show ?thesis by (simp add: junction_kept_def)
qed

text \<open>
  The steps in which planner and stepper change the queue: a line enters, a prepared block leaves, the
  stepper shortens the first block or takes up its speed, the overrides change, a hold ends, the planner is reset.
\<close>

inductive planner_step :: "grbl \<Rightarrow> grbl \<Rightarrow> bool" where
  line: "\<not> plan_check_full_buffer g \<Longrightarrow> planner_step g (snd (plan_buffer_line target pd g))"
| discard: "pl_block (stepper g) = None \<Longrightarrow> planner_step g (plan_discard_current_block g)"
| first: "planner h = (planner (set_plan_block (block_buffer_tail (planner g)) b g))\<lparr>pl := q\<rparr> \<Longrightarrow>
    pl_block (stepper h) \<in> {None, Some (block_buffer_tail (planner g))} \<Longrightarrow> planner_step g h"
| hold_end: "block_buffer_head (planner g) \<noteq> block_buffer_tail (planner g) \<Longrightarrow>
    planner_step g (plan_cycle_reinitialize g)"
| override: "block_buffer_head (planner g) \<noteq> block_buffer_tail (planner g) \<Longrightarrow>
    planner_step g (plan_cycle_reinitialize (plan_update_velocity_profile_parameters g))"
| reset: "planner h = planner (plan_reset g) \<Longrightarrow> pl_block (stepper h) = None \<Longrightarrow> planner_step g h"

definition speeds_ok :: "grbl \<Rightarrow> bool" where
  "speeds_ok g \<longleftrightarrow> planner_ok g \<and> (let t = block_buffer_tail (planner g) in
     (pl_block (stepper g) = None \<or> pl_block (stepper g) = Some t)
     \<and> (\<exists>p. block_buffer_planned (planner g) = plan_slot t p \<and> (p < plan_count g \<or> p = 0))
     \<and> (\<forall>j. 0 < j \<and> j < plan_count g \<longrightarrow> limit_kept g (plan_slot t j) \<and> junction_kept g (plan_slot t j)
          \<and> (1 < j \<longrightarrow> reachable_from g (plan_slot t (j - 1)) (plan_slot t j))))"

lemma block_of_set:
  "length (block_buffer (planner g)) = 12 \<Longrightarrow> i < BLOCK_BUFFER_SIZE \<Longrightarrow>
   plan_block (set_plan_block i b g) j = (if j = i then b else plan_block g j)"
  by (auto simp: plan_block_def set_plan_block_def BLOCK_BUFFER_SIZE_def word_less_nat_alt word_unat_eq_iff)

lemma count_motions: "motions h = motions g \<Longrightarrow> plan_count h = plan_count g"
  "motions h = motions g \<Longrightarrow> block_buffer_tail (planner h) = block_buffer_tail (planner g)"
  by (simp_all add: motions_def plan_count_def)

text \<open>A block outside the queue, or the first block of it, may be changed at will.\<close>

lemma speeds_other_block:
  assumes "speeds_ok g" and "planner h = (planner (set_plan_block i b g))\<lparr>pl := q\<rparr>"
    and "i = block_buffer_tail (planner g) \<or> i = block_buffer_head (planner g)"
    and "pl_block (stepper h) = None \<or> pl_block (stepper h) = Some (block_buffer_tail (planner g))"
  shows "speeds_ok h"
proof -
  let ?t = "block_buffer_tail (planner g)"
  have g: "planner_ok g" "?t < BLOCK_BUFFER_SIZE" "block_buffer_head (planner g) < BLOCK_BUFFER_SIZE"
    "length (block_buffer (planner g)) = 12"
    using assms(1) by (simp_all add: speeds_ok_def planner_ok_def Let_def)
  have small: "plan_count g < 12" by (simp add: plan_count_def ring_len_def)
  have i: "i < BLOCK_BUFFER_SIZE" using assms(3) g by auto
  have "plan_slot ?t j \<noteq> i" if "0 < j" "j < plan_count g" for j
    using assms(3) that small slot_not_tail [OF g(2), of j] slot_distinct [OF g(2), of j "plan_count g"]
      plan.slot_head [OF g(3,2)] by (auto simp: plan_count_def plan_ring_size)
  then have keep: "plan_block h (plan_slot ?t j) = plan_block g (plan_slot ?t j)" if "0 < j" "j < plan_count g" for j
    using that block_of_set [OF g(4) i, of b] by (simp add: plan_block_def assms(2))
  have "planner_ok h" "block_buffer_tail (planner h) = ?t" "plan_count h = plan_count g"
    "block_buffer_planned (planner h) = block_buffer_planned (planner g)"
    using g(1) by (simp_all add: planner_ok_def plan_count_def assms(2) set_plan_block_def Let_def)
  with assms(1,4) keep show ?thesis
    by (auto simp: speeds_ok_def limit_kept_def junction_kept_def reachable_from_def Let_def)
qed

lemma slot_shift: "plan_slot (plan_slot t (Suc 0)) j = plan_slot t (Suc j)"
  by (simp add: word_unat_eq_iff plan.slot_unat mod_add_left_eq)

lemma recalculate_stepper: "pl_block (stepper (planner_recalculate g)) \<in> {None, pl_block (stepper g)}"
proof -
  have u: "pl_block (stepper (st_update_plan_block_parameters g)) = None" for g
    by (auto simp: st_update_plan_block_parameters_def Let_def split: option.split)
  have e: "pl_block (stepper (set_entry_speed_sqr i v g)) = pl_block (stepper g)"
    "pl_block (stepper (set_planned i g)) = pl_block (stepper g)" for i v g
    by (simp_all add: set_entry_speed_sqr_def set_plan_block_def set_planned_def)
  have r: "pl_block (stepper (plan_reverse_pass n c i g)) \<in> {None, pl_block (stepper g)}" for n c i g
    by (induction n c i g rule: plan_reverse_pass.induct) (auto simp: Let_def u e)
  have f: "pl_block (stepper (plan_forward_pass n c i g)) = pl_block (stepper g)" for n c i g
    by (induction n c i g rule: plan_forward_pass.induct) (simp_all add: Let_def e)
  have "pl_block (stepper x) = pl_block (stepper g) \<Longrightarrow>
      pl_block (stepper (plan_reverse_pass n c i x)) = None \<or> pl_block (stepper (plan_reverse_pass n c i x)) = pl_block (stepper g)"
    for n c i x using r [of n c i x] by simp
  then show ?thesis
    by (simp add: planner_recalculate_def Let_def f e u del: round_defs)
qed

text \<open>A line is stored outside the queue, or enters it as its last block.\<close>

lemma buffer_line_cases:
  obtains (stored) b where "snd (plan_buffer_line target pd g) = set_plan_block (block_buffer_head (planner g)) b g"
  | (entered) k b q where "snd (plan_buffer_line target pd g) = planner_recalculate k" "stepper k = stepper g" "settings k = settings g"
      "planner k = (planner (set_plan_block (block_buffer_head (planner g)) b g))\<lparr>pl := q,
         block_buffer_head := next_buffer_head (planner g),
         next_buffer_head := plan_next_block_index (next_buffer_head (planner g))\<rparr>"
      "\<not> f_lt (pb_max_junction_speed_sqr b) (pb_max_entry_speed_sqr b)"
proof (cases "\<exists>b. snd (plan_buffer_line target pd g) = set_plan_block (block_buffer_head (planner g)) b g")
  case False
  have "\<not> f_lt (pb_max_junction_speed_sqr (plan_compute_profile_parameters b v w))
      (pb_max_entry_speed_sqr (plan_compute_profile_parameters b v w))" for b v w
    by (auto simp: plan_compute_profile_parameters_def Let_def f_lt_irrefl)
  moreover from False obtain b v w q where
    "snd (plan_buffer_line target pd g) = planner_recalculate (g\<lparr>planner :=
       (planner (set_plan_block (block_buffer_head (planner g)) (plan_compute_profile_parameters b v w) g))\<lparr>pl := q,
         block_buffer_head := next_buffer_head (planner g),
         next_buffer_head := plan_next_block_index (next_buffer_head (planner g))\<rparr>\<rparr>)"
    by atomize_elim (auto simp: plan_buffer_line_def Let_def split_def set_plan_block_def split: if_splits)
  ultimately show ?thesis
    by (intro entered [of "g\<lparr>planner := (planner (set_plan_block (block_buffer_head (planner g)) (plan_compute_profile_parameters b v w) g))\<lparr>pl := q,
         block_buffer_head := next_buffer_head (planner g),
         next_buffer_head := plan_next_block_index (next_buffer_head (planner g))\<rparr>\<rparr>" q "plan_compute_profile_parameters b v w"])
      simp_all
qed blast

text \<open>Recalculating a queue that is not empty.\<close>

lemma speeds_recalculate:
  assumes "planner_ok g" and t: "t = block_buffer_tail (planner g)" and "pl_block (stepper g) = None \<or> pl_block (stepper g) = Some t"
    and "block_buffer_planned (planner g) = plan_slot t p" and "p < plan_count g"
    and "\<And>j. 0 < j \<Longrightarrow> j \<le> p \<Longrightarrow> limit_kept g (plan_slot t j)"
    and "\<And>j. 1 < j \<Longrightarrow> j \<le> p \<Longrightarrow> reachable_from g (plan_slot t (j - 1)) (plan_slot t j)"
    and "\<And>j. 0 < j \<Longrightarrow> j < plan_count g \<Longrightarrow> junction_kept g (plan_slot t j)"
  shows "speeds_ok (planner_recalculate g)"
proof -
  let ?h = "planner_recalculate g"
  have "pl_block (stepper ?h) = None \<or> pl_block (stepper ?h) = Some t" using recalculate_stepper [of g] assms(3) by auto
  moreover have "junction_kept ?h (plan_slot t j)" if "0 < j" "j < plan_count g" for j
    using junction_of_limits [of ?h g "plan_slot t j"] assms(1,8) that plan.slot_less
    by (simp add: planner_ok_def Let_def)
  ultimately show ?thesis
    using recalculate_limits [OF assms(1,2,4,5,3,6,7)] recalculate_queue(1) [OF assms(1)] count_motions [of ?h g]
    by (auto simp: speeds_ok_def Let_def t)
qed

lemma speeds_line:
  assumes "speeds_ok g" and "\<not> plan_check_full_buffer g"
  shows "speeds_ok (snd (plan_buffer_line target pd g))"
proof (cases rule: buffer_line_cases [of target pd g])
  case (stored b)
  show ?thesis
    using speeds_other_block [OF assms(1), where i = "block_buffer_head (planner g)" and b = b and q = "pl (planner g)"] stored assms(1)
    by (simp add: speeds_ok_def Let_def set_plan_block_def)
next
  case (entered k b q)
  let ?t = "block_buffer_tail (planner g)" and ?h = "block_buffer_head (planner g)"
  have g: "planner_ok g" "?t < BLOCK_BUFFER_SIZE" "?h < BLOCK_BUFFER_SIZE" "length (block_buffer (planner g)) = 12"
    "next_buffer_head (planner g) = plan_next_block_index ?h" "plan_next_block_index ?h \<noteq> ?t"
    using assms by (auto simp: speeds_ok_def planner_ok_def plan_check_full_buffer_def Let_def)
  have k: "planner_ok k" "block_buffer_tail (planner k) = ?t" "plan_count k = Suc (plan_count g)"
    using g plan.len_put [OF g(3,2,6)]
    by (simp_all add: entered planner_ok_def plan_count_def Let_def plan.nxt_less plan_ring_size set_plan_block_def)
  have small: "plan_count k < 12" by (simp add: plan_count_def ring_len_def)
  have head: "?h = plan_slot ?t (plan_count g)" using plan.slot_head [OF g(3,2)] by (simp add: plan_count_def plan_ring_size)
  have block: "plan_block k (plan_slot ?t j) = (if j = plan_count g then b else plan_block g (plan_slot ?t j))"
    if "j \<le> plan_count g" for j
    using that slot_distinct [OF g(2), of j "plan_count g"] small k(3) block_of_set [OF g(4,3), of b "plan_slot ?t j"] head
    by (simp add: plan_block_def entered set_plan_block_def)
  obtain p where p: "block_buffer_planned (planner g) = plan_slot ?t p" "p < plan_count g \<or> p = 0"
    using assms(1) by (auto simp: speeds_ok_def Let_def)
  have old: "limit_kept g (plan_slot ?t j)" "junction_kept g (plan_slot ?t j)"
    "1 < j \<Longrightarrow> reachable_from g (plan_slot ?t (j - 1)) (plan_slot ?t j)"
    if "0 < j" "j < plan_count g" for j
    using assms(1) that by (simp_all add: speeds_ok_def Let_def)
  show ?thesis
    unfolding entered(1)
  proof (rule speeds_recalculate [OF k(1) k(2) [symmetric], of p])
    show "pl_block (stepper k) = None \<or> pl_block (stepper k) = Some ?t"
      using assms(1) by (simp add: entered speeds_ok_def Let_def)
    show "block_buffer_planned (planner k) = plan_slot ?t p" using p(1) by (simp add: entered set_plan_block_def)
    show "p < plan_count k" using p(2) k(3) by auto
    fix j :: nat
    show "0 < j \<Longrightarrow> j \<le> p \<Longrightarrow> limit_kept k (plan_slot ?t j)"
      using p(2) old(1) [of j] block [of j] by (auto simp: limit_kept_def)
    show "1 < j \<Longrightarrow> j \<le> p \<Longrightarrow> reachable_from k (plan_slot ?t (j - 1)) (plan_slot ?t j)"
      using p(2) old(3) [of j] block [of j] block [of "j - 1"] by (auto simp: reachable_from_def)
    show "0 < j \<Longrightarrow> j < plan_count k \<Longrightarrow> junction_kept k (plan_slot ?t j)"
      using old(2) [of j] block [of j] entered(5) k(3) by (auto simp: junction_kept_def)
  qed
qed

lemma speeds_discard:
  assumes "speeds_ok g" and "pl_block (stepper g) = None"
  shows "speeds_ok (plan_discard_current_block g)"
proof (cases "block_buffer_head (planner g) = block_buffer_tail (planner g)")
  case True
  then show ?thesis using assms(1) by (simp add: plan_discard_current_block_def Let_def)
next
  case False
  let ?h = "plan_discard_current_block g" and ?t = "block_buffer_tail (planner g)"
  let ?t' = "plan_slot ?t (Suc 0)"
  have g: "planner_ok g" "?t < BLOCK_BUFFER_SIZE" "block_buffer_head (planner g) < BLOCK_BUFFER_SIZE"
    using assms(1) by (simp_all add: speeds_ok_def planner_ok_def Let_def)
  have t': "plan_next_block_index ?t = ?t'" using next_slot [of ?t 0] by (simp add: plan.slot_0 g(2) del: next_slot)
  have slot: "plan_slot ?t' j = plan_slot ?t (Suc j)" for j by (rule slot_shift)
  have count: "plan_count g = Suc (plan_count ?h)"
    using plan.len_get [OF g(3,2) False] False
    by (simp add: plan_count_def plan_discard_current_block_def Let_def plan_ring_size)
  obtain p where p: "block_buffer_planned (planner g) = plan_slot ?t p" "p < plan_count g \<or> p = 0"
    using assms(1) by (auto simp: speeds_ok_def Let_def)
  have small: "plan_count g < 12" by (simp add: plan_count_def ring_len_def)
  have tail: "block_buffer_tail (planner ?h) = ?t'"
    using False t' by (simp add: plan_discard_current_block_def Let_def)
  have block: "plan_block ?h i = plan_block g i" for i
    by (simp add: plan_block_def plan_discard_current_block_def Let_def)
  have planned: "block_buffer_planned (planner ?h) = (if p = 0 then ?t' else plan_slot ?t p)"
    using False p t' slot_not_tail [OF g(2), of p] small plan.slot_0 [OF g(2)]
    by (auto simp: plan_discard_current_block_def Let_def)
  have "\<exists>p'. block_buffer_planned (planner ?h) = plan_slot ?t' p' \<and> (p' < plan_count ?h \<or> p' = 0)"
  proof (cases p)
    case 0
    then show ?thesis using planned plan.slot_0 [OF plan.slot_less] by (intro exI [of _ 0]) simp
  next
    case (Suc p')
    then show ?thesis using planned p(2) count by (intro exI [of _ p']) (simp add: slot)
  qed
  moreover have "pl_block (stepper ?h) = None"
    using assms(2) by (simp add: plan_discard_current_block_def Let_def)
  ultimately show ?thesis
    using assms(1) discard_queue(1) [OF g(1)] count
    by (auto simp: speeds_ok_def Let_def tail slot limit_kept_def junction_kept_def reachable_from_def block)
qed

lemma junction_profiles: "junction_kept g i \<Longrightarrow> length (block_buffer (planner g)) = 12 \<Longrightarrow> j < BLOCK_BUFFER_SIZE \<Longrightarrow>
   junction_kept (snd (plan_update_profiles n j v g)) i"
proof (induction n j v g rule: plan_update_profiles.induct)
  case (2 n j v g)
  have "junction_kept (profile_step j v g) i"
    using 2(2-4) block_of_set [of g j _ i]
    by (auto simp: profile_step_def junction_kept_def plan_compute_profile_parameters_def Let_def f_lt_irrefl)
  then show ?case
    using 2 by (simp add: update_profiles_Suc plan.nxt_less profile_step_def Let_def set_plan_block_def del: round_defs)
qed simp

lemma speeds_reinitialize:
  assumes "planner_ok g" and "t = block_buffer_tail (planner g)" and "block_buffer_head (planner g) \<noteq> t"
    and "pl_block (stepper g) = None \<or> pl_block (stepper g) = Some t"
    and "\<And>j. 0 < j \<Longrightarrow> j < plan_count g \<Longrightarrow> junction_kept g (plan_slot t j)"
  shows "speeds_ok (plan_cycle_reinitialize g)"
proof -
  have tl: "t < BLOCK_BUFFER_SIZE" using assms(1,2) by (simp add: planner_ok_def Let_def)
  define k where "k = set_planned t (st_update_plan_block_parameters g)"
  have m: "motions k = motions g" "entry_limits k = entry_limits g" by (simp_all add: k_def)
  have k: "planner_ok k" using planning_keeps(1) [OF assms(1) m(1)] tl by (simp add: k_def)
  have "pl_block (stepper k) = None"
    using assms(4) by (auto simp: k_def set_planned_def st_update_plan_block_parameters_def Let_def split: option.split)
  moreover have "0 < plan_count g"
    using assms(3) plan.empty_iff [of "block_buffer_head (planner g)" t "block_buffer (planner g)"] assms(1,2) tl
    by (auto simp: plan_count_def planner_ok_def Let_def plan_ring_size ring_list_def)
  moreover have "junction_kept k (plan_slot t j)" if "0 < j" "j < plan_count g" for j
    using junction_of_limits [OF m, of "plan_slot t j"] assms(1,5) that plan.slot_less
    by (simp add: planner_ok_def Let_def)
  ultimately have "speeds_ok (planner_recalculate k)"
    using count_motions [OF m(1)] assms(2)
    by (intro speeds_recalculate [OF k, of t 0]) (auto simp: k_def set_planned_def plan.slot_0 [OF tl [unfolded assms(2)]])
  then show ?thesis
    by (simp add: plan_cycle_reinitialize_def Let_def k_def assms(2) [symmetric] count_motions(2) [OF motions_update])
qed

lemma planner_step_speeds:
  assumes "planner_step g h" and "speeds_ok g"
  shows "speeds_ok h"
  using assms
proof (cases rule: planner_step.cases)
  case (first b q)
  with speeds_other_block [OF assms(2) first(1)] show ?thesis by simp
next
  case reset
  then show ?thesis
    using assms(2) plan.slot_0 [of 0]
    by (auto simp: speeds_ok_def planner_ok_def plan_reset_def plan_reset_buffer_def Let_def plan_count_def ring_len_def
        plan_next_block_index_def ring_next_def BLOCK_BUFFER_SIZE_def intro: exI [of _ 0])
next
  case override
  let ?h = "plan_update_velocity_profile_parameters g" and ?t = "block_buffer_tail (planner g)"
  have g: "planner_ok g" using assms(2) by (simp add: speeds_ok_def)
  have m: "motions ?h = motions g" by simp
  have p: "pl_block (stepper (snd (plan_update_profiles n i v g))) = pl_block (stepper g)
      \<and> block_buffer_planned (planner (snd (plan_update_profiles n i v g))) = block_buffer_planned (planner g)" for n i v g
    by (induction n i v g rule: plan_update_profiles.induct) (simp_all add: Let_def set_plan_block_def)
  then have keep: "pl_block (stepper ?h) = pl_block (stepper g)"
    "block_buffer_planned (planner ?h) = block_buffer_planned (planner g)"
    by (simp_all add: plan_update_velocity_profile_parameters_def split_def Let_def del: round_defs)
  then have ok: "planner_ok ?h" using planning_keeps(1) [OF g m] g by (simp add: planned_ok_def planner_ok_def Let_def)
  have "junction_kept ?h i \<longleftrightarrow> junction_kept (snd (plan_update_profiles 12 ?t SOME_LARGE_VALUE g)) i" for i
    by (simp add: plan_update_velocity_profile_parameters_def split_def Let_def junction_kept_def plan_block_def del: round_defs)
  then have "junction_kept ?h (plan_slot ?t j)" if "0 < j" "j < plan_count g" for j
    using junction_profiles [of g "plan_slot ?t j" ?t 12] assms(2) that
    by (simp add: speeds_ok_def planner_ok_def Let_def del: round_defs)
  moreover have "block_buffer_head (planner ?h) = block_buffer_head (planner g)" using m by (simp add: motions_def)
  ultimately show ?thesis
    using speeds_reinitialize [OF ok count_motions(2) [OF m, symmetric]] override assms(2) keep count_motions(1) [OF m]
    by (simp add: speeds_ok_def Let_def)
next
  case hold_end
  with speeds_reinitialize [of g, OF _ refl] assms(2) show ?thesis
    by (simp add: speeds_ok_def [of g] Let_def)
qed (auto intro: speeds_line speeds_discard)

lemma speeds_run: "planner_step\<^sup>*\<^sup>* g h \<Longrightarrow> speeds_ok g \<Longrightarrow> speeds_ok h"
  by (induction rule: rtranclp_induct) (auto intro: planner_step_speeds)

section \<open>Properties\<close>

text \<open>
  C15. From a reset of the planner on, through any sequence of lines, completed blocks, overrides, holds and
  changes that the stepper makes to the first block, no block of the queue but the first has an entry speed above
  its limit, which is not above the limit of its junction; and from the third block on, none enters faster than
  its predecessor can reach by accelerating over its length.
\<close>
theorem junction_speeds_respected:
  assumes "length (block_buffer (planner g)) = 12" and "pl_block (stepper g) = None"
    and "planner_step\<^sup>*\<^sup>* (plan_reset g) h" and "t = block_buffer_tail (planner h)"
    and "0 < j" and "j < plan_count h" and "c = plan_block h (plan_slot t (j - 1))" and "b = plan_block h (plan_slot t j)"
  shows "\<not> f_lt (pb_max_entry_speed_sqr b) (pb_entry_speed_sqr b)
    \<and> \<not> f_lt (pb_max_junction_speed_sqr b) (pb_max_entry_speed_sqr b)
    \<and> (1 < j \<and> f_lt (pb_entry_speed_sqr c) (pb_entry_speed_sqr b) \<longrightarrow>
       \<not> f_lt (f_add (pb_entry_speed_sqr c) (accel_distance c)) (pb_entry_speed_sqr b))"
proof -
  have "planner_ok (plan_reset g)" "block_buffer_planned (planner (plan_reset g)) = plan_slot 0 0"
    using assms(1) plan.slot_0 [of 0]
    by (simp_all add: planner_ok_def plan_reset_def plan_reset_buffer_def Let_def plan_next_block_index_def
        ring_next_def BLOCK_BUFFER_SIZE_def)
  then have "speeds_ok (plan_reset g)"
    using assms(2) by (auto simp: speeds_ok_def plan_count_def ring_len_def plan_reset_def plan_reset_buffer_def)
  then show ?thesis
    using speeds_run [OF assms(3)] assms(4-8)
    by (auto simp: speeds_ok_def Let_def limit_kept_def junction_kept_def reachable_from_def)
qed

text \<open>Three lines of one step each, to and fro.\<close>

lemma settings_recalculate: "settings (planner_recalculate g) = settings g"
proof -
  have e: "settings (set_entry_speed_sqr i v g) = settings g" "settings (set_planned i g) = settings g"
    "settings (st_update_plan_block_parameters g) = settings g" for i v g
    by (simp_all add: set_entry_speed_sqr_def set_plan_block_def set_planned_def st_update_plan_block_parameters_def
        Let_def split: option.split)
  have "settings (plan_reverse_pass n c i g) = settings g" for n c i g
    by (induction n c i g rule: plan_reverse_pass.induct) (simp_all add: Let_def e)
  moreover have "settings (plan_forward_pass n c i g) = settings g" for n c i g
    by (induction n c i g rule: plan_forward_pass.induct) (simp_all add: Let_def e)
  ultimately show ?thesis by (simp add: planner_recalculate_def Let_def e del: round_defs)
qed

lemma line_of_steps:
  assumes "planner_ok g" and "plan_count g < 11" and "bit_isfalse (pd_condition pd) PL_COND_FLAG_SYSTEM_MOTION"
    and "foldl max 0 (line_steps g target) \<noteq> 0"
  defines "h \<equiv> snd (plan_buffer_line target pd g)"
  shows "planner_step g h" "planner_ok h" "plan_count h = Suc (plan_count g)" "settings h = settings g"
    "pl_position (pl (planner h)) = plan_target_steps g target"
proof -
  let ?h = "block_buffer_head (planner g)" and ?t = "block_buffer_tail (planner g)"
  have g: "?t < BLOCK_BUFFER_SIZE" "?h < BLOCK_BUFFER_SIZE" "next_buffer_head (planner g) = plan_next_block_index ?h"
    using assms(1) by (simp_all add: planner_ok_def Let_def)
  have room: "\<not> plan_check_full_buffer g"
    using plan.full_iff [OF g(2,1)] assms(2) g(3) by (simp add: plan_check_full_buffer_def plan_count_def plan_ring_size)
  then show "planner_step g h" unfolding h_def by (rule line)
  have "plan_buffer_line target pd g = (True, h)"
    using buffer_line_result [OF assms(3), of target g] assms(4) by (simp add: h_def prod_eq_iff)
  note cases = buffer_line_enters [OF this assms(3)]
  obtain b k where k: "motions k = (map motion ((block_buffer (planner g))[unat ?h := b]), ?t,
      next_buffer_head (planner g), plan_next_block_index (next_buffer_head (planner g)), plan_target_steps g target)"
    "planned_ok k = planned_ok g" "h = planner_recalculate k" by (rule cases) blast
  have "planned_ok k" using k(2) assms(1) by (simp add: planner_ok_iff)
  note ok = enter_queue(1) [OF assms(1) room this k(1)]
  then show "planner_ok h" using recalculate_queue(1) k(3) by simp
  have m: "motions h = motions k" by (simp add: k(3))
  then show "pl_position (pl (planner h)) = plan_target_steps g target" using k(1) by (simp add: motions_def)
  show "plan_count h = Suc (plan_count g)"
    using plan.len_put [OF g(2,1)] room g(3) k(1) count_motions(1) [OF m]
    by (auto simp: motions_def plan_count_def plan_check_full_buffer_def plan_ring_size)
  show "settings h = settings g"
    by (cases rule: buffer_line_cases [of target pd g]) (auto simp: h_def settings_recalculate set_plan_block_def)
qed

theorem junction_speeds_respected_witness:
  "\<exists>h. plan_count h = 3 \<and> (let b = plan_block h (plan_slot (block_buffer_tail (planner h)) 2) in
     \<not> f_lt (pb_max_entry_speed_sqr b) (pb_entry_speed_sqr b)
     \<and> \<not> f_lt (pb_max_junction_speed_sqr b) (pb_max_entry_speed_sqr b))"
proof -
  let ?one = "0x3F800000 :: f32"
  have dec: "f_decode ?one = FNum False 8388608 (- 23)" "f_decode 0 = FNum False 0 (- 149)" by (simp_all add: f_decode_def)
  have mul: "f_mul ?one ?one = ?one" "f_mul 0 ?one = 0"
    by (simp_all add: f_mul_def dec f_round_def sign_bits_def Let_def)
  define s where "s = settings_zero\<lparr>set_steps_per_mm := [?one, ?one, ?one]\<rparr>"
  define pd where "pd = \<lparr>pd_feed_rate = 0, pd_spindle_speed = 0, pd_condition = 0\<rparr>"
  have normal: "bit_isfalse (pd_condition pd) PL_COND_FLAG_SYSTEM_MOTION" by (simp add: pd_def bit_macros)
  have steps: "plan_target_steps g [?one, 0, 0] = [1, 0, 0]" "plan_target_steps g [0, 0, 0] = [0, 0, 0]"
    if "settings g = s" for g
    by (simp_all add: plan_target_steps_def that s_def mul f_lround_def f_round_int_def dec signed_sig_def)
  define go where "go = (\<lambda>n p g. planner_step\<^sup>*\<^sup>* (plan_reset (grbl_zero\<lparr>settings := s\<rparr>)) g \<and> planner_ok g
     \<and> plan_count g = n \<and> settings g = s \<and> pl_position (pl (planner g)) = p)"
  have out: "\<exists>h. go (Suc n) [1, 0, 0] h" if "go n [0, 0, 0] g" "n < 11" for n g
    using line_of_steps [of g pd "[?one, 0, 0]"] steps [of g] that normal
    by (auto simp: go_def line_steps_def labs32_def intro: rtranclp.rtrancl_into_rtrancl)
  have again: "\<exists>h. go (Suc n) [0, 0, 0] h" if "go n [1, 0, 0] g" "n < 11" for n g
    using line_of_steps [of g pd "[0, 0, 0]"] steps [of g] that normal
    by (auto simp: go_def line_steps_def labs32_def intro: rtranclp.rtrancl_into_rtrancl)
  have "go 0 [0, 0, 0] (plan_reset (grbl_zero\<lparr>settings := s\<rparr>))"
    by (simp add: go_def plan_reset_def plan_reset_buffer_def planner_ok_def grbl_zero_def planner_zero_def Let_def
        plan_count_def ring_len_def planner_t_zero_def BLOCK_BUFFER_SIZE_def plan_next_block_index_def ring_next_def)
  from out [OF this] again out obtain h where h: "go 3 [1, 0, 0] h" by (fastforce simp: numeral_eq_Suc)
  have start: "length (block_buffer (planner (grbl_zero\<lparr>settings := s\<rparr>))) = 12" "pl_block (stepper (grbl_zero\<lparr>settings := s\<rparr>)) = None"
    by (simp_all add: grbl_zero_def planner_zero_def stepper_zero_def)
  show ?thesis
    using junction_speeds_respected [OF start, of h _ 2, OF _ refl _ _ refl refl] h
    by (intro exI [of _ h]) (simp add: go_def Let_def)
qed

end
