(* ===== verification/Cfloat_Integers.thy ===== *)
theory Cfloat_Integers
  imports Cfloat_Properties
begin

text \<open>
  Step counts as floats. A natural number below $2^{24}$ is a float exactly; converting it, rounding it up,
  and subtracting a smaller one from it are exact.
\<close>

section \<open>Exact rounding\<close>

lemma bit_len_eq: "2 ^ k \<le> n \<Longrightarrow> n < 2 ^ Suc k \<Longrightarrow> bit_len n = Suc k"
proof -
  assume k: "2 ^ k \<le> n" "n < 2 ^ Suc k"
  then have "0 < n" by (metis gr0I le_zero_eq power_not_zero zero_neq_numeral)
  with bit_len_le [OF this k(2)] bit_len_less [OF k(1)] show ?thesis by simp
qed

lemma bit_len_shift: "0 < n \<Longrightarrow> bit_len (n * 2 ^ j) = bit_len n + j"
proof -
  assume n: "0 < n"
  then obtain k where k: "bit_len n = Suc k" using bit_len_less [of 0 n] by (cases "bit_len n") auto
  then have "2 ^ k \<le> n" "n < 2 ^ Suc k" using bit_len_bounds [OF n] by simp_all
  then have "2 ^ (k + j) \<le> n * 2 ^ j" "n * 2 ^ j < 2 ^ Suc (k + j)" by (simp_all add: power_add)
  from bit_len_eq [OF this] k show ?thesis by simp
qed

text \<open>Rounding a number below $2^{24}$, in whichever scaling it was computed.\<close>

lemma round_sig_exact:
  assumes "0 < n" and "n < 2 ^ 24"
  shows "round_sig (n * 2 ^ j) (- int j) (int (bit_len n) - 24) = n * 2 ^ (24 - bit_len n)"
proof -
  have L: "bit_len n \<le> 24" by (rule bit_len_le [OF assms])
  show ?thesis
  proof (cases "j \<le> 24 - bit_len n")
    case True
    then have "nat (- int j - (int (bit_len n) - 24)) + j = 24 - bit_len n" using L by simp
    then have "n * 2 ^ j * 2 ^ nat (- int j - (int (bit_len n) - 24)) = n * 2 ^ (24 - bit_len n)"
      by (metis add.commute mult.assoc power_add)
    moreover have "j + bit_len n \<le> 24" using True L by simp
    then have "int (bit_len n) - 24 \<le> - int j" by linarith
    ultimately show ?thesis by (simp add: round_sig_def)
  next
    case False
    define d where "d = nat (int (bit_len n) - 24 + int j)"
    have "j = (24 - bit_len n) + d" using False L by (simp add: d_def)
    then have shift: "n * 2 ^ j = (n * 2 ^ (24 - bit_len n)) * 2 ^ d" by (simp add: power_add)
    have "24 < j + bit_len n" using False by simp
    then have "\<not> int (bit_len n) - 24 \<le> - int j" by linarith
    moreover have "int (bit_len n) - 24 - - int j = int (bit_len n) - 24 + int j" by simp
    ultimately show ?thesis
      unfolding round_sig_def shift by (simp only: if_False d_def [symmetric] Let_def) simp
  qed
qed

lemma round_exact:
  assumes "0 < n" and "n < 2 ^ 24"
  shows "f_decode (f_round s (n * 2 ^ j) (- int j)) = FNum s (n * 2 ^ (24 - bit_len n)) (int (bit_len n) - 24)"
proof -
  define L where "L = bit_len n"
  have L: "0 < L" "L \<le> 24" "2 ^ (L - 1) \<le> n" "n < 2 ^ L"
    using bit_len_less [of 0 n] bit_len_le [OF assms] bit_len_bounds [OF assms(1)] assms(1) by (simp_all add: L_def)
  define sig where "sig = n * 2 ^ (24 - L)"
  have "(2 :: nat) ^ 23 = 2 ^ (L - 1) * 2 ^ (24 - L)" "(2 :: nat) ^ 24 = 2 ^ L * 2 ^ (24 - L)"
    using L(1,2) by (simp_all add: power_add [symmetric])
  moreover have "2 ^ (L - 1) * 2 ^ (24 - L) \<le> sig" "sig < 2 ^ L * 2 ^ (24 - L)"
    using L(3,4) by (simp_all add: sig_def)
  ultimately have sig: "2 ^ 23 \<le> sig" "sig < 2 ^ 24" by linarith+
  define k where "k = sig + (L + 125) * 2 ^ 23"
  have q: "int L - 24 = max (- int j + int (bit_len (n * 2 ^ j)) - 24) (- 149)"
    using L(1) by (simp add: bit_len_shift [OF assms(1)] L_def)
  have "int sig + (int L - 24 + 149) * 2 ^ 23 = int k" by (simp add: k_def)
  then have k: "k = nat (int (round_sig (n * 2 ^ j) (- int j) (int L - 24)) + (int L - 24 + 149) * 2 ^ 23)"
    unfolding L_def round_sig_exact [OF assms] sig_def by (simp only: nat_int)
  have small: "k < 255 * 2 ^ 23" using sig L(2) by (simp add: k_def)
  have "f_round s (n * 2 ^ j) (- int j) = sign_bits s k"
    by (subst f_round_eq [OF _ q k]) (use assms(1) small in simp_all)
  moreover have "f_decode (sign_bits s k) = FNum s sig (int L - 24)"
  proof -
    obtain f where f: "sig = 2 ^ 23 + f" "f < 2 ^ 23" using sig by (auto simp: le_iff_add)
    then have "k = f + (L + 126) * 2 ^ 23" by (simp add: k_def)
    moreover have "(f + (L + 126) * 2 ^ 23) div 2 ^ 23 = L + 126" using f(2) by (subst div_mult_self1) simp_all
    moreover have "(f + (L + 126) * 2 ^ 23) mod 2 ^ 23 = f" using f(2) by (subst mod_mult_self1) simp
    ultimately have "k div 2 ^ 23 = L + 126" "k mod 2 ^ 23 = f" by simp_all
    then show ?thesis by (simp add: decode_sign_bits [OF small] f(1))
  qed
  ultimately show ?thesis by (simp add: sig_def L_def)
qed

section \<open>Natural numbers below the precision\<close>

definition f_nat :: "f32 \<Rightarrow> nat \<Rightarrow> bool" where
  "f_nat x n \<longleftrightarrow> n < 2 ^ 24 \<and>
     (case f_decode x of FNum s m e \<Rightarrow> (s \<longrightarrow> n = 0) \<and> e \<le> 0 \<and> m = n * 2 ^ nat (- e) | _ \<Rightarrow> False)"

lemma f_natE:
  assumes "f_nat x n"
  obtains s j where "f_decode x = FNum s (n * 2 ^ j) (- int j)" "n < 2 ^ 24" "s \<longrightarrow> n = 0"
proof -
  obtain s m e where "f_decode x = FNum s m e" "n < 2 ^ 24" "s \<longrightarrow> n = 0" "e \<le> 0" "m = n * 2 ^ nat (- e)"
    using assms by (auto simp: f_nat_def split: fval.split_asm)
  with that [of s "nat (- e)"] show ?thesis by simp
qed

lemma f_nat_sign_bits: "f_nat (sign_bits s 0) 0"
  by (simp add: f_nat_def decode_sign_bits)

lemma f_nat_round: "n < 2 ^ 24 \<Longrightarrow> f_nat (f_round False (n * 2 ^ j) (- int j)) n"
proof -
  assume n: "n < 2 ^ 24"
  show ?thesis
  proof (cases "n = 0")
    case True
    then show ?thesis using f_nat_sign_bits [of False] by (simp add: f_round_def)
  next
    case False
    then have "bit_len n \<le> 24" using bit_len_le [OF _ n] by simp
    then show ?thesis using False round_exact [of n False j] n by (simp add: f_nat_def nat_diff_distrib)
  qed
qed

lemma f_nat_of_int: "n < 2 ^ 24 \<Longrightarrow> f_nat (f_of_int (int n)) n"
  using f_nat_round [of n 0] by (simp add: f_of_int_def)

lemma f_nat_trunc: "f_nat x n \<Longrightarrow> f_trunc_int x = Some (int n)"
  by (erule f_natE) (auto simp: f_trunc_int_def signed_sig_def)

lemma f_nat_unique: "f_nat x m \<Longrightarrow> f_nat x n \<Longrightarrow> m = n"
  using f_nat_trunc [of x m] f_nat_trunc [of x n] by simp

lemma f_nat_is_int: "f_nat x n \<Longrightarrow> f_is_int x"
  by (erule f_natE) (auto simp: f_is_int_def)

lemma f_nat_ceil: "f_nat x n \<Longrightarrow> f_nat (f_ceil x) n"
proof -
  assume x: "f_nat x n"
  then have "n < 2 ^ 24" by (simp add: f_nat_def)
  then show ?thesis
    using f_nat_of_int [of n] f_nat_sign_bits
    by (simp add: f_ceil_def f_nat_trunc [OF x] f_nat_is_int [OF x] f_of_part_def)
qed

lemma f_nat_to_u16: "f_nat x n \<Longrightarrow> n < 2 ^ 16 \<Longrightarrow> unat (f_to_u16 ub x) = n"
  by (simp add: f_to_u16_def f_to_int_def f_nat_trunc unat_of_nat take_bit_eq_mod)

lemma unat_fields: "unat (x :: f32) div 2 ^ 23 mod 256 = unat (take_bit 8 (drop_bit 23 x))" "unat x mod 2 ^ 23 = unat (take_bit 23 x)"
  unfolding unsigned_take_bit_eq unat_drop_bit_eq unfolding take_bit_eq_mod drop_bit_eq_div by simp_all

lemma decode_neg:
  assumes "f_decode x = FNum s m e"
  shows "f_decode (f_neg x) = FNum (\<not> s) m e"
proof -
  have "take_bit 8 (drop_bit 23 (f_neg x)) = take_bit 8 (drop_bit 23 x)" "take_bit 23 (f_neg x) = take_bit 23 x"
    by (simp_all add: f_neg_def take_bit_xor drop_bit_xor)
  then have "unat (f_neg x) div 2 ^ 23 mod 256 = unat x div 2 ^ 23 mod 256" "unat (f_neg x) mod 2 ^ 23 = unat x mod 2 ^ 23"
    unfolding unat_fields by simp_all
  moreover have "bit (f_neg x) 31 \<longleftrightarrow> \<not> bit x 31" by (simp add: f_neg_def bit_simps)
  ultimately show ?thesis using assms unfolding f_decode_def Let_def by (auto split: if_split_asm)
qed

lemma f_nat_sub:
  assumes "f_nat x a" and "f_nat y b" and "b \<le> a"
  shows "f_nat (f_sub x y) (a - b)"
proof -
  obtain s j where x: "f_decode x = FNum s (a * 2 ^ j) (- int j)" "a < 2 ^ 24" "s \<longrightarrow> a = 0" by (rule f_natE [OF assms(1)])
  obtain t k where y: "f_decode y = FNum t (b * 2 ^ k) (- int k)" "t \<longrightarrow> b = 0" by (rule f_natE [OF assms(2)])
  define l where "l = max j k"
  have "min (- int j) (- int k) = - int l" by (simp add: l_def)
  moreover have "signed_sig s (a * 2 ^ j) * 2 ^ nat (- int j + int l) = int a * 2 ^ l"
    "signed_sig (\<not> t) (b * 2 ^ k) * 2 ^ nat (- int k + int l) = - (int b * 2 ^ l)"
  proof -
    have "l = j + nat (- int j + int l)" "l = k + nat (- int k + int l)" by (simp_all add: l_def)
    then have "(2 :: int) ^ l = 2 ^ j * 2 ^ nat (- int j + int l)" "(2 :: int) ^ l = 2 ^ k * 2 ^ nat (- int k + int l)"
      by (metis power_add)+
    then show "signed_sig s (a * 2 ^ j) * 2 ^ nat (- int j + int l) = int a * 2 ^ l"
      "signed_sig (\<not> t) (b * 2 ^ k) * 2 ^ nat (- int k + int l) = - (int b * 2 ^ l)"
      using x(3) y(2) by (auto simp: signed_sig_def)
  qed
  moreover have "int a * 2 ^ l - int b * 2 ^ l = int ((a - b) * 2 ^ l)"
    using assms(3) by (simp add: of_nat_diff algebra_simps)
  ultimately have "f_sub x y = (if a - b = 0 then sign_bits (s \<and> \<not> t) 0 else f_round False ((a - b) * 2 ^ l) (- int l))"
    by (simp add: f_sub_def f_add_def x(1) decode_neg [OF y(1)] Let_def del: of_nat_mult of_nat_diff)
  then show ?thesis using f_nat_sign_bits f_nat_round [of "a - b" l] x(2) by simp
qed

text \<open>A number of steps that is the product with a zero distance is zero.\<close>

lemma f_nat_mul_zero:
  assumes "f_nat (f_ceil (f_mul v x)) n" and "f_nat x 0"
  shows "n = 0"
proof -
  obtain s j where x: "f_decode x = FNum s 0 (- int j)" using f_natE [OF assms(2)] by auto
  obtain t m e where v: "f_decode v = FNum t m e \<or> f_mul v x = f_nan"
    by (cases "f_decode v") (auto simp: f_mul_def x)
  have "f_decode f_nan = FNan" by (simp add: f_nan_def f_decode_def)
  moreover have "f_ceil f_nan = f_nan" by (simp add: f_ceil_def f_trunc_int_def calculation)
  ultimately have "f_mul v x \<noteq> f_nan" using assms(1) by (auto simp: f_nat_def)
  with v have "f_mul v x = sign_bits (t \<noteq> s) 0" by (simp add: f_mul_def x f_round_def)
  with assms(1) show ?thesis using f_nat_ceil [OF f_nat_sign_bits] f_nat_unique by metis
qed

text \<open>A number that is equal to zero, and one that is not.\<close>

lemma f_eq_zero: "f_eq x 0 \<Longrightarrow> f_nat x 0"
proof -
  have "f_decode 0 = FNum False 0 (- 149)" by (simp add: f_decode_def)
  moreover assume "f_eq x 0"
  ultimately obtain s m e where x: "f_decode x = FNum s m e" "m = 0 \<or> e + 149 < 0 \<and> False"
    by (auto simp: f_eq_def f_cmp_def signed_sig_def split: fval.split_asm if_split_asm)
  then have "m = 0" by simp
  have "e \<le> 0"
  proof (rule ccontr)
    assume "\<not> e \<le> 0"
    then have "unat x div 2 ^ 23 mod 256 \<noteq> 0" "m = 2 ^ 23 + unat x mod 2 ^ 23"
      using x(1) by (auto simp: f_decode_def Let_def split: if_split_asm)
    with \<open>m = 0\<close> show False by simp
  qed
  with x \<open>m = 0\<close> show ?thesis by (simp add: f_nat_def)
qed

end
