(* ===== verification/Step_Motion.thy ===== *)
theory Step_Motion
  imports Stepper_Properties Memory Cfloat_Integers
begin

text \<open>
  The machine position with every step that is still to come - from the segment being executed, the segments
  in the ring, the block being prepared and the blocks of the planner - and the invariant under which it is
  well defined. A step interrupt (\<open>isr_timer1_compa\<close>) keeps both, and is one of the counted interrupts left.
\<close>

section \<open>Ideal motion\<close>

text \<open>
  One axis of a block that takes \<open>m\<close> more increments: a step for each whole event count, the rest in the
  counter (here from zero on).
\<close>

definition axis_add :: "st_block_t \<Rightarrow> nat \<Rightarrow> nat \<Rightarrow> u32 \<times> nat \<Rightarrow> u32 \<times> nat" where
  "axis_add b idx m a = (let n = unat (sb_step_event_count b) in
     (fst a + pulses b idx ((snd a + m) div n), (snd a + m) mod n))"

lemma axis_add_add: "axis_add b idx m (axis_add b idx l a) = axis_add b idx (l + m) a"
proof -
  define n z where "n = unat (sb_step_event_count b)" and "z = snd a + l"
  have "(z + m) div n = z div n + (z mod n + m) div n \<and> (z + m) mod n = (z mod n + m) mod n"
  proof (cases "n = 0")
    case False
    have "z + m = (z mod n + m) + n * (z div n)" by simp
    with False show ?thesis by (metis add.commute div_mult_self2 mod_add_left_eq)
  qed simp
  then show ?thesis by (simp add: axis_add_def Let_def n_def z_def pulses_add add.assoc)
qed

text \<open>
  An axis with the block in execution: the index of the block, the position and the counter. Another block
  starts its counter in the middle.
\<close>

definition ideal_add :: "st_block_t list \<Rightarrow> nat \<Rightarrow> u8 \<Rightarrow> nat \<Rightarrow> u8 \<times> u32 \<times> nat \<Rightarrow> u8 \<times> u32 \<times> nat" where
  "ideal_add bs idx k m a = (let b = bs ! unat k in
     (k, axis_add b idx m (fst (snd a), if fst a = k then snd (snd a) else unat (sb_step_event_count b) div 2 - 1)))"

lemma ideal_add_add: "ideal_add bs idx k m (ideal_add bs idx k l a) = ideal_add bs idx k (l + m) a"
  by (simp add: ideal_add_def Let_def axis_add_add)

definition seg_increment :: "st_block_t list \<Rightarrow> nat \<Rightarrow> segment_t \<Rightarrow> nat" where
  "seg_increment bs idx sg =
     unat (seg_n_step sg) * (unat (sb_steps (bs ! unat (seg_st_block_index sg)) ! idx) div 2 ^ unat (seg_amass_level sg))"

definition ideal_run :: "st_block_t list \<Rightarrow> nat \<Rightarrow> segment_t list \<Rightarrow> u8 \<times> u32 \<times> nat \<Rightarrow> u8 \<times> u32 \<times> nat" where
  "ideal_run bs idx sgs a = foldl (\<lambda>a sg. ideal_add bs idx (seg_st_block_index sg) (seg_increment bs idx sg) a) a sgs"

lemma ideal_run_simps [simp]:
  "ideal_run bs idx [] a = a"
  "ideal_run bs idx (sg # sgs) a = ideal_run bs idx sgs (ideal_add bs idx (seg_st_block_index sg) (seg_increment bs idx sg) a)"
  "ideal_run bs idx (sgs @ [sg]) a = ideal_add bs idx (seg_st_block_index sg) (seg_increment bs idx sg) (ideal_run bs idx sgs a)"
  by (simp_all add: ideal_run_def)

lemma ideal_run_other:
  assumes "k \<notin> seg_st_block_index ` set sgs"
  shows "ideal_run (bs[unat k := b]) idx sgs a = ideal_run bs idx sgs a"
  using assms by (induction sgs arbitrary: a) (auto simp: ideal_add_def seg_increment_def Let_def word_unat_eq_iff)

section \<open>The position to come\<close>

abbreviation exec_index :: "grbl \<Rightarrow> u8" where "exec_index g \<equiv> st_exec_block_index (st (stepper g))"
abbreviation exec_segment :: "grbl \<Rightarrow> u8 option" where "exec_segment g \<equiv> st_exec_segment (st (stepper g))"
abbreviation prep_index :: "grbl \<Rightarrow> u8" where "prep_index g \<equiv> prep_st_block_index (prep (stepper g))"
abbreviation st_blocks :: "grbl \<Rightarrow> st_block_t list" where "st_blocks g \<equiv> st_block_buffer (stepper g)"

definition axis_now :: "grbl \<Rightarrow> nat \<Rightarrow> u8 \<times> u32 \<times> nat" where
  "axis_now g idx = (exec_index g, sys_position g ! idx, unat (counters g ! idx) - 1)"

text \<open>At the end of the segment in execution, and of the segments that wait.\<close>

definition axis_ahead :: "grbl \<Rightarrow> nat \<Rightarrow> u8 \<times> u32 \<times> nat" where
  "axis_ahead g idx = (if exec_segment g = None then axis_now g idx
     else (exec_index g, axis_add (exec_block g) idx
       (unat (st_step_count (st (stepper g))) * unat (st_steps (st (stepper g)) ! idx)) (snd (axis_now g idx))))"

definition waiting :: "grbl \<Rightarrow> segment_t list" where
  "waiting g = (if exec_segment g = None then seg_queue g else tl (seg_queue g))"

definition queue_ahead :: "grbl \<Rightarrow> nat \<Rightarrow> u8 \<times> u32 \<times> nat" where
  "queue_ahead g idx = ideal_run (st_blocks g) idx (waiting g) (axis_ahead g idx)"

text \<open>The interrupts until the segment in execution is done, and until the ring is empty.\<close>

definition exec_ticks :: "grbl \<Rightarrow> nat" where
  "exec_ticks g = (if exec_segment g = None then 0 else unat (st_step_count (st (stepper g))))"

definition ticks_left :: "grbl \<Rightarrow> nat" where
  "ticks_left g = exec_ticks g + sum_list (map (\<lambda>sg. unat (seg_n_step sg)) (waiting g))"

text \<open>At the end of the block being prepared, and of all blocks.\<close>

definition steps_left :: "grbl \<Rightarrow> nat" where
  "steps_left g = nat (the (f_trunc_int (prep_steps_remaining (prep (stepper g)))))"

definition block_ahead :: "grbl \<Rightarrow> nat \<Rightarrow> u8 \<times> u32 \<times> nat" where
  "block_ahead g idx = (if unprepared (stepper g) then queue_ahead g idx
     else ideal_add (st_blocks g) idx (prep_index g)
       (steps_left g * unat (sb_steps (st_blocks g ! unat (prep_index g)) ! idx)) (queue_ahead g idx))"

definition blocks_left :: "grbl \<Rightarrow> plan_block_t list" where
  "blocks_left g = (if unprepared (stepper g) then plan_queue g else tl (plan_queue g))"

definition position_to_come :: "grbl \<Rightarrow> nat \<Rightarrow> u32" where
  "position_to_come g idx = fst (snd (block_ahead g idx)) + sum_list (map (\<lambda>b. block_move b idx) (blocks_left g))"

section \<open>What holds between two operations\<close>

text \<open>Consecutive segments belong to the same block or to the next one.\<close>

fun chain :: "u8 \<Rightarrow> u8 list \<Rightarrow> bool" where
  "chain k [] = True"
| "chain k (x # xs) = ((x = k \<or> x = st_next_block_index k) \<and> chain x xs)"

lemma chain_append [simp]: "chain k (xs @ ys) \<longleftrightarrow> chain k xs \<and> chain (last (k # xs)) ys"
  by (induction xs arbitrary: k) auto

definition good_block :: "st_block_t \<Rightarrow> bool" where
  "good_block b \<longleftrightarrow> (let n = unat (sb_step_event_count b) in
     1 < n \<and> 2 * n < 2 ^ 32 \<and> length (sb_steps b) = 3 \<and> (\<forall>idx < 3. unat (sb_steps b ! idx) \<le> n))"

lemma ready_block:
  "ready k g \<longleftrightarrow> \<not> busy (stepper g) \<and> exec_segment g = None \<and> length (sys_position g) = 3 \<and> good_block (st_blocks g ! unat k)"
  by (simp add: ready_def good_block_def Let_def)

definition good_plan :: "plan_block_t \<Rightarrow> bool" where
  "good_plan b \<longleftrightarrow> length (pb_steps b) = 3 \<and> 0 < unat (pb_step_event_count b) \<and> unat (pb_step_event_count b) < 2 ^ 24
     \<and> (\<forall>idx < 3. unat (pb_steps b ! idx) \<le> unat (pb_step_event_count b))"

definition wait_indices :: "grbl \<Rightarrow> u8 list" where
  "wait_indices g = map seg_st_block_index (waiting g)"

definition last_index :: "grbl \<Rightarrow> u8" where
  "last_index g = last (exec_index g # wait_indices g)"

text \<open>The executing side: ring, waiting segments, and the Bresenham data while they are in use.\<close>

definition exec_inv :: "grbl \<Rightarrow> bool" where
  "exec_inv g \<longleftrightarrow> \<not> busy (stepper g) \<and> segment_next_head (stepper g) = ring_next SEGMENT_BUFFER_SIZE (segment_buffer_head (stepper g))
     \<and> chain (exec_index g) (wait_indices g)
     \<and> (\<forall>sg \<in> set (waiting g). 0 < unat (seg_n_step sg) \<and> good_block (st_blocks g ! unat (seg_st_block_index sg)))
     \<and> (exec_segment g \<noteq> None \<longrightarrow> loaded (exec_index g) g \<and> st_step_count (st (stepper g)) \<noteq> 0
         \<and> seg_queue g \<noteq> [] \<and> seg_st_block_index (hd (seg_queue g)) = exec_index g)
     \<and> (working (exec_index g) g \<or> (\<forall>k. wait_indices g \<noteq> [] \<and> k = hd (wait_indices g)
           \<or> wait_indices g = [] \<and> \<not> unprepared (stepper g) \<and> k = prep_index g \<longrightarrow> k \<noteq> exec_index g))"

text \<open>The preparing side: the block in preparation is the first of the planner.\<close>

definition prep_inv :: "grbl \<Rightarrow> bool" where
  "prep_inv g \<longleftrightarrow> \<not> f_lt (prep_mm_complete (prep (stepper g))) 0
     \<and> (if unprepared (stepper g) then prep_index g = last_index g
        else (prep_index g = last_index g \<or> prep_index g = st_next_block_index (last_index g))
          \<and> plan_queue g \<noteq> [] \<and> st_blocks g ! unat (prep_index g) = block_data (hd (plan_queue g))
          \<and> f_nat (prep_steps_remaining (prep (stepper g))) (steps_left g)
          \<and> (pl_block (stepper g) \<noteq> None \<longrightarrow> pl_block (stepper g) = Some (block_buffer_tail (planner g))
              \<and> bit_isfalse (prep_recalculate_flag (prep (stepper g))) PREP_FLAG_RECALCULATE))"

definition motion_inv :: "grbl \<Rightarrow> bool" where
  "motion_inv g \<longleftrightarrow> motion_ok g \<and> planner_ok g \<and> exec_inv g \<and> prep_inv g \<and> (\<forall>b \<in> set (plan_queue g). good_plan b)"

definition steps_conserved :: "grbl \<Rightarrow> bool" where
  "steps_conserved g \<longleftrightarrow> (\<forall>idx < 3. position_to_come g idx = pl_position (pl (planner g)) ! idx)"

section \<open>The step interrupt\<close>

lemma axis_step:
  assumes "loaded i g" and "h = st_finish_step (st_step_axes k)" and "stepper k = (stepper g)\<lparr>busy := b\<rparr>"
    and "sys_position k = sys_position g" and "idx < 3"
  shows "snd (axis_now h idx) = axis_add (exec_block g) idx (unat (st_steps (st (stepper g)) ! idx)) (snd (axis_now g idx))"
proof -
  note step = interrupt_step [OF assms(1-4)]
  let ?n = "unat (sb_step_event_count (exec_block g))"
  let ?s = "unat (st_steps (st (stepper g)) ! idx)" and ?c = "unat (counters g ! idx)" and ?d = "unat (counters h ! idx)"
  obtain m where m: "sys_position h ! idx = sys_position g ! idx + pulses (exec_block g) idx m"
    "?d + ?n * m = ?c + ?s"
    using step(2) assms(5) unfolding moved_def by blast
  have "0 < ?d" "?d \<le> ?n" "0 < ?c"
    using step(1) same_exec_block [OF step(3)] assms(1,5) by (auto simp: working_def loaded_def)
  then have "?c - 1 + ?s = (?d - 1) + ?n * m" "?d - 1 < ?n" using m(2) by linarith+
  then have "(?c - 1 + ?s) div ?n = m" "(?c - 1 + ?s) mod ?n = ?d - 1" by simp_all
  with m(1) show ?thesis by (simp add: axis_now_def axis_add_def)
qed

text \<open>One interrupt in a loaded segment.\<close>

lemma seg_queue_cong:
  "segment_buffer (stepper h) = segment_buffer (stepper g) \<Longrightarrow> segment_buffer_head (stepper h) = segment_buffer_head (stepper g)
    \<Longrightarrow> segment_buffer_tail (stepper h) = segment_buffer_tail (stepper g) \<Longrightarrow> seg_queue h = seg_queue g"
  by (simp add: seg_queue_def)

lemma loaded_interrupt:
  assumes "loaded e g" and "e = exec_index g" and "st_step_count (st (stepper g)) \<noteq> 0" and "seg_queue g \<noteq> []" "seg_indices g"
    and "h = st_finish_step (st_step_axes k)" and "stepper k = (stepper g)\<lparr>busy := b\<rparr>" and "sys_position k = sys_position g"
  shows "waiting h = waiting g" "exec_index h = e" "st_blocks h = st_blocks g" "working e h" "\<not> busy (stepper h)"
    and "exec_segment h \<noteq> None \<Longrightarrow> loaded e h \<and> st_step_count (st (stepper h)) \<noteq> 0 \<and> seg_queue h = seg_queue g"
    and "idx < 3 \<Longrightarrow> axis_ahead h idx = axis_ahead g idx" and "exec_ticks g = Suc (exec_ticks h)"
proof -
  note step = interrupt_step [OF assms(1,6-8)]
  let ?c = "st_step_count (st (stepper g))"
  show same: "exec_index h = e" "st_blocks h = st_blocks g" using step(3) assms(2) by (simp_all add: same_buffers_def)
  show "working e h" by (rule step)
  have some: "exec_segment g \<noteq> None" using assms(1) by (simp add: loaded_def)
  have exec: "exec_block h = exec_block g" using step(3) by (rule same_exec_block)
  have ahead: "axis_ahead g idx = (e, axis_add (exec_block g) idx (unat ?c * unat (st_steps (st (stepper g)) ! idx)) (snd (axis_now g idx)))" for idx
    using some assms(2) by (auto simp: axis_ahead_def)
  have "waiting h = waiting g \<and> \<not> busy (stepper h)
    \<and> (exec_segment h \<noteq> None \<longrightarrow> loaded e h \<and> st_step_count (st (stepper h)) \<noteq> 0 \<and> seg_queue h = seg_queue g)
    \<and> (idx < 3 \<longrightarrow> axis_ahead h idx = axis_ahead g idx) \<and> exec_ticks g = Suc (exec_ticks h)" for idx
  proof (cases "?c = 1")
    case True
    have "exec_segment h = None" "\<not> busy (stepper h)" using step(5) [OF True] by (simp_all add: done_segment_def)
    moreover have "seg_queue h = tl (seg_queue g)"
      using step(5) [OF True] assms(4,5) seg_queue_Cons(3) [of g "hd (seg_queue g)" "tl (seg_queue g)" h]
      by (simp add: done_segment_def)
    moreover have "axis_now h idx = (e, snd (axis_now h idx))" by (simp add: axis_now_def same)
    ultimately show ?thesis
      using some True axis_step [OF assms(1,6-8), of idx]
      by (auto simp: waiting_def ahead exec_ticks_def) (simp add: axis_ahead_def)
  next
    case False
    have load: "loaded e h" by (rule step(4) [OF False])
    then have someh: "exec_segment h \<noteq> None" "\<not> busy (stepper h)" by (simp_all add: loaded_def)
    have q: "seg_queue h = seg_queue g" using step(3,7) False by (intro seg_queue_cong) (simp_all add: same_buffers_def)
    have c: "unat ?c = Suc (unat (?c - 1))" using assms(3) by (simp add: unat_sub word_le_nat_alt word_unat_eq_iff)
    have "?c - 1 \<noteq> 0" using False by simp
    with load someh q show ?thesis
      using some step(6,8) axis_step [OF assms(1,6-8), of idx]
      by (auto simp: waiting_def ahead c exec axis_add_add exec_ticks_def) (simp add: axis_ahead_def same exec axis_add_add)
  qed
  then show "waiting h = waiting g" "\<not> busy (stepper h)"
    "exec_segment h \<noteq> None \<Longrightarrow> loaded e h \<and> st_step_count (st (stepper h)) \<noteq> 0 \<and> seg_queue h = seg_queue g"
    "idx < 3 \<Longrightarrow> axis_ahead h idx = axis_ahead g idx" "exec_ticks g = Suc (exec_ticks h)" by blast+
qed

text \<open>The next segment of the ring becomes the one in execution.\<close>

lemma motion_ok_indices: "motion_ok g \<Longrightarrow> seg_indices g"
  by (simp add: motion_ok_def stepper_typed_def seg_indices_def SEGMENT_BUFFER_SIZE_def)

lemma loading:
  assumes inv: "exec_inv g" "motion_ok g" and none: "exec_segment g = None" and queue: "seg_queue g = sg # ss"
  defines "s \<equiv> st_load_segment g" and "i \<equiv> seg_st_block_index sg"
  shows "loaded i s" "exec_index s = i" "st_step_count (st (stepper s)) \<noteq> 0" "seg_queue s = seg_queue g" "seg_indices s"
    and "idx < 3 \<Longrightarrow> axis_ahead s idx = ideal_add (st_blocks g) idx i (seg_increment (st_blocks g) idx sg) (axis_now g idx)"
    and "exec_ticks s = unat (seg_n_step sg)"
proof -
  have waits: "waiting g = sg # ss" "wait_indices g = i # map seg_st_block_index ss"
    using none queue by (simp_all add: waiting_def wait_indices_def i_def)
  note q = seg_queue_Cons [OF queue motion_ok_indices [OF inv(2)]]
  have "ready i g" "0 < unat (seg_n_step sg)"
    using inv none waits(1) by (auto simp: ready_block exec_inv_def motion_ok_def i_def)
  moreover have "working i g \<or> exec_index g \<noteq> i"
    using inv(1) by (auto simp: exec_inv_def waits(2))
  ultimately have load: "loaded i s" "exec_block s = st_blocks g ! unat i" "sys_position s = sys_position g"
    "st_step_count (st (stepper s)) = seg_n_step sg" "exec_index g = i \<Longrightarrow> counters s = counters g"
    "exec_index g \<noteq> i \<Longrightarrow> counters s = replicate 3 (drop_bit 1 (sb_step_event_count (st_blocks g ! unat i)))"
    "\<And>idx. idx < 3 \<Longrightarrow> st_steps (st (stepper s)) ! idx = drop_bit (unat (seg_amass_level sg)) (sb_steps (st_blocks g ! unat i) ! idx)"
    and n: "0 < unat (seg_n_step sg)"
    using segment_loading [of i g sg] q(2) by (simp_all add: s_def i_def)
  show "loaded i s" by (rule load)
  then show index: "exec_index s = i" by (simp add: loaded_def working_def)
  show "st_step_count (st (stepper s)) \<noteq> 0" using n by (auto simp: load(4))
  show "seg_queue s = seg_queue g" "seg_indices s"
    using motion_ok_indices [OF inv(2)] by (simp_all add: s_def st_load_segment_def seg_queue_def seg_indices_def Let_def)
  have some: "exec_segment s \<noteq> None" using load(1) by (simp add: loaded_def)
  then show "exec_ticks s = unat (seg_n_step sg)" by (auto simp: exec_ticks_def load(4))
  assume idx: "idx < 3"
  have "unat (counters s ! idx) - 1 = (if exec_index g = i then unat (counters g ! idx) - 1
      else unat (sb_step_event_count (st_blocks g ! unat i)) div 2 - 1)"
    using load(5,6) idx by (auto simp: drop_u32)
  with idx some show "axis_ahead s idx = ideal_add (st_blocks g) idx i (seg_increment (st_blocks g) idx sg) (axis_now g idx)"
    by (auto simp: axis_ahead_def ideal_add_def axis_now_def index load(2,3,4,7) seg_increment_def i_def [symmetric] drop_u32 Let_def)
qed

lemma interrupt_frame:
  "planner (isr_timer1_compa g) = planner g" "prep (stepper (isr_timer1_compa g)) = prep (stepper g)"
  "pl_block (stepper (isr_timer1_compa g)) = pl_block (stepper g)"
  "segment_next_head (stepper (isr_timer1_compa g)) = segment_next_head (stepper g)"
  "segment_buffer_head (stepper (isr_timer1_compa g)) = segment_buffer_head (stepper g)"
  "unprepared (stepper (isr_timer1_compa g)) = unprepared (stepper g)"
  by (simp_all add: isr_timer1_compa_def st_finish_step_def st_step_axes_def st_load_segment_def probe_state_monitor_def
      st_go_idle_def st_set_enable_pin_def system_set_exec_state_flag_def unprepared_def Let_def split_def)

text \<open>What an interrupt keeps.\<close>

definition exec_kept :: "grbl \<Rightarrow> grbl \<Rightarrow> bool" where
  "exec_kept g h \<longleftrightarrow> exec_inv h \<and> last_index h = last_index g \<and> st_blocks h = st_blocks g
     \<and> (\<forall>idx < 3. queue_ahead h idx = queue_ahead g idx)"

text \<open>All that the executing side reads.\<close>

definition exec_view :: "grbl \<Rightarrow> _" where
  "exec_view g = ((st_blocks g, seg_queue g, segment_buffer_head (stepper g), segment_next_head (stepper g), busy (stepper g)),
     (counters g, st_steps (st (stepper g)), st_step_count (st (stepper g)), exec_index g, st_exec_block (st (stepper g)),
      exec_segment g), sys_position g, prep_index g, unprepared (stepper g))"

lemma exec_view_kept: "exec_view h = exec_view g \<Longrightarrow> exec_inv g \<Longrightarrow> exec_kept g h"
proof -
  assume v: "exec_view h = exec_view g" and inv: "exec_inv g"
  have q: "seg_queue h = seg_queue g" using v by (simp add: exec_view_def)
  with v have w: "waiting h = waiting g" by (simp add: exec_view_def waiting_def)
  have b: "exec_block h = exec_block g" using v by (simp add: exec_view_def exec_block_def)
  with v have wl: "working e h = working e g" "loaded e h = loaded e g" for e by (simp_all add: exec_view_def working_def loaded_def)
  have "axis_now h idx = axis_now g idx" for idx using v by (simp add: exec_view_def axis_now_def)
  then have "axis_ahead h idx = axis_ahead g idx" for idx using v b by (simp add: exec_view_def axis_ahead_def)
  then have "queue_ahead h idx = queue_ahead g idx" for idx using v w by (simp add: exec_view_def queue_ahead_def)
  moreover have "last_index h = last_index g" using v w by (simp add: exec_view_def last_index_def wait_indices_def)
  moreover have "exec_inv h"
    using inv v q w wl unfolding exec_inv_def wait_indices_def by (simp add: exec_view_def)
  ultimately show ?thesis using v by (simp add: exec_kept_def exec_view_def)
qed

lemma exec_view_ticks: "exec_view h = exec_view g \<Longrightarrow> ticks_left h = ticks_left g"
  by (simp add: exec_view_def ticks_left_def exec_ticks_def waiting_def)

lemma interrupt_idle:
  assumes "exec_inv g" and "exec_segment g = None" and "segment_buffer_head (stepper g) = segment_buffer_tail (stepper g)"
  shows "exec_kept g (isr_timer1_compa g)" "ticks_left (isr_timer1_compa g) = ticks_left g - 1"
proof -
  let ?h = "isr_timer1_compa g"
  have "\<not> busy (stepper g)" using assms(1) by (simp add: exec_inv_def)
  then have view: "exec_view ?h = exec_view g"
    using assms(2,3)
    by (simp add: isr_timer1_compa_def st_go_idle_def st_set_enable_pin_def system_set_exec_state_flag_def Let_def
        exec_view_def counters_def unprepared_def seg_queue_def)
  then show "exec_kept g ?h" using assms(1) by (rule exec_view_kept)
  have "ticks_left g = 0" using assms(2,3) by (simp add: ticks_left_def exec_ticks_def waiting_def seg_queue_def ring_list_def ring_len_def)
  with exec_view_ticks [OF view] show "ticks_left ?h = ticks_left g - 1" by simp
qed

text \<open>An interrupt in the segment that \<open>s\<close> has loaded.\<close>

lemma interrupt_kept:
  assumes inv: "exec_inv g" and load: "loaded e s" "exec_index s = e" "st_step_count (st (stepper s)) \<noteq> 0" "seg_queue s = seg_queue g" "seg_indices s"
    and queue: "seg_queue g \<noteq> []" "seg_st_block_index (hd (seg_queue g)) = e" and blocks: "st_blocks s = st_blocks g"
    and ahead: "\<And>idx. idx < 3 \<Longrightarrow> ideal_run (st_blocks g) idx (tl (seg_queue g)) (axis_ahead s idx) = queue_ahead g idx"
    and last: "last (e # map seg_st_block_index (tl (seg_queue g))) = last_index g"
    and chain: "chain e (map seg_st_block_index (tl (seg_queue g)))" and waits: "set (tl (seg_queue g)) \<subseteq> set (waiting g)"
    and ticks: "exec_ticks s + sum_list (map (\<lambda>sg. unat (seg_n_step sg)) (tl (seg_queue g))) = ticks_left g"
    and k: "isr_timer1_compa g = st_finish_step (st_step_axes k)" "stepper k = (stepper s)\<lparr>busy := True\<rparr>" "sys_position k = sys_position s"
  shows "exec_kept g (isr_timer1_compa g)" "ticks_left (isr_timer1_compa g) = ticks_left g - 1"
proof -
  let ?h = "isr_timer1_compa g"
  have "seg_queue s \<noteq> []" using load(4) queue(1) by simp
  note int = loaded_interrupt [OF load(1) load(2) [symmetric] load(3) this load(5) k]
  have "exec_segment s \<noteq> None" using load(1) by (simp add: loaded_def)
  then have w: "waiting ?h = tl (seg_queue g)" using int(1) load(4) by (auto simp: waiting_def)
  have "queue_ahead ?h idx = queue_ahead g idx" if "idx < 3" for idx
    using ahead [OF that] int(7) [OF that] int(3) blocks by (simp add: queue_ahead_def w)
  moreover have "last_index ?h = last_index g" using last by (simp add: last_index_def wait_indices_def w int(2))
  moreover have "exec_inv ?h"
    using inv int(2-6) blocks chain waits queue load(4)
    unfolding exec_inv_def wait_indices_def w interrupt_frame by auto
  ultimately show "exec_kept g ?h" using int(3) blocks by (simp add: exec_kept_def)
  show "ticks_left ?h = ticks_left g - 1" using int(8) ticks by (simp add: ticks_left_def w)
qed

lemma interrupt_exec:
  assumes inv: "exec_inv g" and ok: "motion_ok g"
  shows "exec_kept g (isr_timer1_compa g) \<and> ticks_left (isr_timer1_compa g) = ticks_left g - 1"
proof (cases "exec_segment g = None")
  case some: False
  let ?e = "exec_index g"
  have load: "loaded ?e g" "st_step_count (st (stepper g)) \<noteq> 0" "seg_queue g \<noteq> []" "seg_st_block_index (hd (seg_queue g)) = ?e"
    using inv some by (simp_all add: exec_inv_def)
  obtain k where k: "isr_timer1_compa g = st_finish_step (st_step_axes k)" "stepper k = (stepper g)\<lparr>busy := True\<rparr>"
    "sys_position k = sys_position g"
    using interrupt_running [of g] inv some by (auto simp: exec_inv_def)
  have w: "waiting g = tl (seg_queue g)" using some by (auto simp: waiting_def)
  have "exec_ticks g + sum_list (map (\<lambda>sg. unat (seg_n_step sg)) (tl (seg_queue g))) = ticks_left g"
    by (simp add: ticks_left_def w)
  note kept = interrupt_kept [OF inv load(1) refl load(2) refl motion_ok_indices [OF ok] load(3,4) refl _ _ _ _ this k]
  show ?thesis
    by (intro conjI; rule kept) (use inv w in \<open>auto simp: queue_ahead_def last_index_def wait_indices_def exec_inv_def\<close>)
next
  case none: True
  show ?thesis
  proof (cases "seg_queue g")
    case Nil
    have "segment_buffer_head (stepper g) = segment_buffer_tail (stepper g)"
      using seg.empty_iff [of "segment_buffer_head (stepper g)" "segment_buffer_tail (stepper g)" "segment_buffer (stepper g)"]
        motion_ok_indices [OF ok] Nil by (simp add: seg_queue_def seg_indices_def segment_ring_size)
    with inv none show ?thesis by (simp add: interrupt_idle)
  next
    case (Cons sg ss)
    let ?s = "st_load_segment g" and ?i = "seg_st_block_index sg"
    note load = loading [OF inv ok none Cons]
    have w: "waiting g = sg # ss" using none Cons by (simp add: waiting_def)
    have blocks: "st_blocks ?s = st_blocks g" and pos: "sys_position ?s = sys_position g"
      by (simp_all add: st_load_segment_def Let_def)
    obtain k where k: "isr_timer1_compa g = st_finish_step (st_step_axes k)" "stepper k = (stepper ?s)\<lparr>busy := True\<rparr>"
      "sys_position k = sys_position ?s"
      using interrupt_loading [of g] inv none seg_queue_Cons(1) [OF Cons motion_ok_indices [OF ok]] pos by (auto simp: exec_inv_def)
    have "axis_ahead g idx = axis_now g idx" for idx using none by (simp add: axis_ahead_def)
    then have ahead: "ideal_run (st_blocks g) idx (tl (seg_queue g)) (axis_ahead ?s idx) = queue_ahead g idx" if "idx < 3" for idx
      by (simp add: Cons queue_ahead_def w load(6) [OF that])
    have "exec_ticks ?s + sum_list (map (\<lambda>sg. unat (seg_n_step sg)) (tl (seg_queue g))) = ticks_left g"
      using none by (simp add: ticks_left_def w Cons load(7) exec_ticks_def [of g])
    note kept = interrupt_kept [OF inv load(1-5) _ _ blocks ahead _ _ _ this k]
    show ?thesis
      by (intro conjI; rule kept) (use inv w Cons in \<open>auto simp: last_index_def wait_indices_def exec_inv_def\<close>)
  qed
qed

text \<open>The preparing side does not depend on how far the interrupt is.\<close>

lemma exec_kept_motion:
  assumes kept: "exec_kept g h" and ok: "motion_ok h" and inv: "motion_inv g" and frame: "planner h = planner g"
    "prep (stepper h) = prep (stepper g)" "pl_block (stepper h) = pl_block (stepper g)"
  shows "motion_inv h" "idx < 3 \<Longrightarrow> position_to_come h idx = position_to_come g idx"
proof -
  have u: "unprepared (stepper h) = unprepared (stepper g)" "plan_queue h = plan_queue g" "planner_ok h = planner_ok g"
    "steps_left h = steps_left g"
    using frame by (simp_all add: unprepared_def plan_queue_def planner_ok_def steps_left_def)
  have "last_index h = last_index g" "st_blocks h = st_blocks g" using kept by (simp_all add: exec_kept_def)
  then have "prep_inv h" using inv u frame by (simp add: motion_inv_def prep_inv_def)
  with ok inv u kept show "motion_inv h" by (simp add: motion_inv_def exec_kept_def)
  show "idx < 3 \<Longrightarrow> position_to_come h idx = position_to_come g idx"
    using kept u frame by (simp add: position_to_come_def block_ahead_def blocks_left_def exec_kept_def)
qed

end
