(* ===== verification/Step_Blocks.thy ===== *)
theory Step_Blocks
  imports Step_Motion
begin

text \<open>
  \<open>st_prep_block_ready\<close> takes the next block of the planner without losing a step: the five entries of
  the Bresenham data are enough for the segments that wait, and all steps of the block are to come.
\<close>

section \<open>A block is loaded\<close>

text \<open>The index of the new block is not in use: the ring holds at most four segments when it is taken.\<close>

lemma st_next_nat: "unat k < 5 \<Longrightarrow> unat (st_next_block_index k) = (unat k + 1) mod 5"
proof -
  assume k: "unat k < 5"
  then have "unat (k + 1) = unat k + 1" by (simp add: unat_word_ariths)
  with k show ?thesis
    by (auto simp: st_next_block_index_def SEGMENT_BUFFER_SIZE_def Let_def word_unat_eq_iff)
qed

lemma chain_nat:
  assumes "chain a xs" and "a < 5"
  shows "\<exists>d \<le> length xs. unat (last (a # xs)) = (unat a + d) mod 5 \<and> (\<forall>x \<in> set (a # xs). \<exists>j \<le> d. unat x = (unat a + j) mod 5)"
  using assms
proof (induction xs arbitrary: a)
  case Nil
  then show ?case by (auto simp: word_less_nat_alt)
next
  case (Cons x xs)
  have a: "unat a < 5" using Cons.prems(2) by (simp add: word_less_nat_alt)
  have "x < 5" using Cons.prems by (auto simp: st_index_less)
  with Cons obtain d where d: "d \<le> length xs" "unat (last (x # xs)) = (unat x + d) mod 5"
    "\<forall>y \<in> set (x # xs). \<exists>j \<le> d. unat y = (unat x + j) mod 5" by fastforce
  show ?case
  proof (cases "x = a")
    case True
    with d show ?thesis by (intro exI [of _ d]) auto
  next
    case False
    then have x: "unat x = (unat a + 1) mod 5"
      using Cons.prems(1) a st_next_nat by simp
    have shift: "(unat x + j) mod 5 = (unat a + Suc j) mod 5" for j unfolding x by (simp add: mod_add_left_eq)
    have "\<exists>j \<le> Suc d. unat y = (unat a + j) mod 5" if "y \<in> set (a # x # xs)" for y
    proof (cases "y = a")
      case True
      with a show ?thesis by (intro exI [of _ 0]) simp
    next
      case False
      with that d(3) obtain j where "j \<le> d" "unat y = (unat x + j) mod 5" by auto
      then show ?thesis by (intro exI [of _ "Suc j"]) (simp only: shift, simp)
    qed
    with d(1,2) show ?thesis by (intro exI [of _ "Suc d"]) (simp only: shift, simp)
  qed
qed


lemma chain_fresh:
  assumes "chain a xs" and "a < 5" and "length xs \<le> 3"
  shows "st_next_block_index (last (a # xs)) \<notin> set (a # xs)"
proof
  let ?l = "last (a # xs)"
  obtain d where d: "d \<le> length xs" "unat ?l = (unat a + d) mod 5" "\<forall>x \<in> set (a # xs). \<exists>j \<le> d. unat x = (unat a + j) mod 5"
    using chain_nat [OF assms(1,2)] by blast
  assume "st_next_block_index ?l \<in> set (a # xs)"
  then obtain j where j: "j \<le> d" "unat (st_next_block_index ?l) = (unat a + j) mod 5" using d(3) by blast
  have "unat (st_next_block_index ?l) = (unat a + Suc d) mod 5"
    using st_next_nat [of ?l] d(2) by (simp add: mod_Suc_eq)
  with j(2) have "(unat a + Suc d) mod 5 = (unat a + j) mod 5" by simp
  moreover have "j \<le> d" "d \<le> 3" using j(1) d(1) assms(3) by simp_all
  ultimately show False by presburger
qed

lemma queue_indices:
  assumes ok: "motion_ok g" and inv: "exec_inv g" and unprep: "prep_index g = last_index g"
    and room: "segment_buffer_tail (stepper g) \<noteq> segment_next_head (stepper g)"
  shows "st_next_block_index (prep_index g) \<notin> seg_st_block_index ` set (seg_queue g)"
proof -
  let ?s = "stepper g"
  have ix: "segment_buffer_head ?s < SEGMENT_BUFFER_SIZE" "segment_buffer_tail ?s < SEGMENT_BUFFER_SIZE"
    using motion_ok_indices [OF ok] by (simp_all add: seg_indices_def)
  have "length (seg_queue g) < 6" "length (seg_queue g) \<noteq> 5"
    using seg.full_iff [OF ix] seg.len_bound [of "segment_buffer_head ?s" "segment_buffer_tail ?s"] room inv
    by (auto simp: seg_queue_def segment_ring_size exec_inv_def)
  then have len: "length (seg_queue g) \<le> 4" by simp
  show ?thesis
  proof (cases "seg_queue g")
    case (Cons sg ss)
    let ?x = "seg_st_block_index sg" and ?xs = "map seg_st_block_index ss"
    have ch: "chain (exec_index g) (wait_indices g)" and e5: "exec_index g < 5"
      using inv ok by (simp_all add: exec_inv_def motion_ok_def stepper_typed_def)
    have "chain ?x ?xs \<and> ?x < 5 \<and> last (?x # ?xs) = last_index g"
    proof (cases "exec_segment g = None")
      case True
      with Cons have "wait_indices g = ?x # ?xs" by (simp add: wait_indices_def waiting_def)
      with ch e5 show ?thesis by (auto simp: last_index_def st_index_less)
    next
      case False
      with Cons have "wait_indices g = ?xs" by (auto simp: wait_indices_def waiting_def)
      moreover have "?x = exec_index g" using inv False Cons by (simp add: exec_inv_def)
      ultimately show ?thesis using ch e5 by (simp add: last_index_def)
    qed
    with chain_fresh [of ?x ?xs] len unprep Cons show ?thesis by (auto simp: image_iff)
  qed simp
qed

text \<open>The velocity profile does not touch the steps.\<close>

lemma profile_kept:
  obtains p where "st_compute_profile i g = set_prep p g" and "prep_st_block_index p = prep_index g"
    and "prep_steps_remaining p = prep_steps_remaining (prep (stepper g))" and "\<not> f_lt (prep_mm_complete p) 0"
    and "bit_isfalse (prep_recalculate_flag p) PREP_FLAG_RECALCULATE
      = bit_isfalse (prep_recalculate_flag (prep (stepper g))) PREP_FLAG_RECALCULATE"
proof -
  have flag: "bit_isfalse (bit_true f PREP_FLAG_DECEL_OVERRIDE) PREP_FLAG_RECALCULATE = bit_isfalse f PREP_FLAG_RECALCULATE" for f
    by (simp add: bit_macros PREP_FLAG_DECEL_OVERRIDE_def PREP_FLAG_RECALCULATE_def bit.conj_disj_distrib2)
  define p where "p = prep (stepper (st_compute_profile i g))"
  have "st_compute_profile i g = set_prep p g"
    by (simp add: p_def st_compute_profile_def set_prep_def Let_def)
  moreover have "prep_st_block_index p = prep_index g \<and> prep_steps_remaining p = prep_steps_remaining (prep (stepper g))
    \<and> \<not> f_lt (prep_mm_complete p) 0 \<and> bit_isfalse (prep_recalculate_flag p) PREP_FLAG_RECALCULATE
      = bit_isfalse (prep_recalculate_flag (prep (stepper g))) PREP_FLAG_RECALCULATE"
    by (simp add: p_def st_compute_profile_def set_prep_def st_profile_hold_def st_profile_normal_def flag Let_def)
  ultimately show ?thesis using that by blast
qed


text \<open>The new Bresenham data and the new index, seen from the executing side.\<close>

lemma st_next_other: "unat k < 5 \<Longrightarrow> st_next_block_index k \<noteq> k"
proof
  assume k: "unat k < 5" "st_next_block_index k = k"
  with st_next_nat [OF k(1)] have "(unat k + 1) mod 5 = unat k" by simp
  with k(1) show False by presburger
qed

text \<open>Other Bresenham data at an index that no queued segment has.\<close>

lemma store_exec:
  assumes inv: "exec_inv g" and fresh: "k \<notin> seg_st_block_index ` set (seg_queue g)"
    and h: "stepper h = (stepper g)\<lparr>pl_block := Some i, st_prep_block := x, prep := p, st_block_buffer := (st_blocks g)[unat k := b]\<rparr>"
      "sys_position h = sys_position g"
  shows "waiting h = waiting g" "wait_indices h = wait_indices g" "seg_queue h = seg_queue g" "queue_ahead h idx = queue_ahead g idx"
    and "k \<noteq> exec_index g \<Longrightarrow> working e h = working e g" "k \<noteq> exec_index g \<Longrightarrow> loaded e h = loaded e g"
    and "exec_segment g \<noteq> None \<Longrightarrow> k \<noteq> exec_index g"
    and "sg \<in> set (waiting g) \<Longrightarrow> st_blocks h ! unat (seg_st_block_index sg) = st_blocks g ! unat (seg_st_block_index sg)"
proof -
  let ?e = "exec_index g"
  show q: "seg_queue h = seg_queue g" by (simp add: seg_queue_def h(1))
  then show w: "waiting h = waiting g" "wait_indices h = wait_indices g" by (simp_all add: waiting_def wait_indices_def h(1))
  have "set (waiting g) \<subseteq> set (seg_queue g)" by (cases "seg_queue g") (auto simp: waiting_def)
  with fresh have other: "k \<notin> seg_st_block_index ` set (waiting g)" by blast
  show busy: "k \<noteq> ?e" if "exec_segment g \<noteq> None"
  proof -
    have "seg_queue g \<noteq> []" "seg_st_block_index (hd (seg_queue g)) = ?e" using inv that by (simp_all add: exec_inv_def)
    then have "?e \<in> seg_st_block_index ` set (seg_queue g)" by (metis hd_in_set image_eqI)
    with fresh show ?thesis by auto
  qed
  have same: "exec_block h = exec_block g" if "k \<noteq> ?e" "st_exec_block (st (stepper g)) = Some ?e"
    using that by (simp add: exec_block_def h(1) word_unat_eq_iff)
  then show "k \<noteq> ?e \<Longrightarrow> working e h = working e g" "k \<noteq> ?e \<Longrightarrow> loaded e h = loaded e g"
    by (auto simp: working_def loaded_def counters_def h(1,2))
  have "exec_block h = exec_block g" if "exec_segment g \<noteq> None"
    using same [OF busy [OF that]] inv that by (simp add: exec_inv_def loaded_def working_def)
  then have "axis_ahead h idx = axis_ahead g idx"
    by (auto simp: axis_ahead_def axis_now_def counters_def h(1,2))
  then show "queue_ahead h idx = queue_ahead g idx"
    using ideal_run_other [OF other] by (simp add: queue_ahead_def w h(1))
  show "st_blocks h ! unat (seg_st_block_index sg) = st_blocks g ! unat (seg_st_block_index sg)" if "sg \<in> set (waiting g)"
  proof -
    have "seg_st_block_index sg \<noteq> k" using other that by (metis image_eqI)
    then show ?thesis by (simp add: h(1) word_unat_eq_iff)
  qed
qed

lemma load_exec:
  assumes inv: "exec_inv g" and ok: "motion_ok g" and unprep: "unprepared (stepper g)" "prep_index g = last_index g"
    and room: "segment_buffer_tail (stepper g) \<noteq> segment_next_head (stepper g)"
    and h: "stepper h = (stepper g)\<lparr>pl_block := Some i, st_prep_block := x, prep := p,
        st_block_buffer := (st_blocks g)[unat (st_next_block_index (prep_index g)) := b]\<rparr>"
      "sys_position h = sys_position g" "prep_st_block_index p = st_next_block_index (prep_index g)"
  shows "exec_inv h" "last_index h = last_index g" "queue_ahead h idx = queue_ahead g idx"
proof -
  let ?k = "st_next_block_index (prep_index g)" and ?e = "exec_index g"
  have fresh: "?k \<notin> seg_st_block_index ` set (seg_queue g)" by (rule queue_indices [OF ok inv unprep(2) room])
  note same = store_exec [OF inv fresh h(1,2)]
  show "last_index h = last_index g" "queue_ahead h idx = queue_ahead g idx"
    using same(2,4) by (simp_all add: last_index_def h(1))
  have live: "working ?e h \<or> (\<forall>k. wait_indices g \<noteq> [] \<and> k = hd (wait_indices g) \<or> wait_indices g = [] \<and> k = ?k \<longrightarrow> k \<noteq> ?e)"
  proof (cases "?k = ?e")
    case True
    have "prep_index g \<noteq> ?k" using ok st_next_other [of "prep_index g"] by (auto simp: motion_ok_def stepper_typed_def word_less_nat_alt)
    then have "wait_indices g \<noteq> []" using True unprep(2) by (auto simp: last_index_def)
    moreover have "hd (wait_indices g) \<in> seg_st_block_index ` set (seg_queue g)" if "wait_indices g \<noteq> []"
      using that by (cases "seg_queue g") (auto simp: wait_indices_def waiting_def hd_map split: if_split_asm)
    ultimately show ?thesis using fresh True by auto
  next
    case False
    with same(5) inv show ?thesis by (auto simp: exec_inv_def)
  qed
  have "\<not> unprepared (stepper h)" "prep_index h = ?k" "exec_index h = ?e" "exec_segment h = exec_segment g"
    "st_step_count (st (stepper h)) = st_step_count (st (stepper g))" "busy (stepper h) = busy (stepper g)"
    "segment_next_head (stepper h) = segment_next_head (stepper g)" "segment_buffer_head (stepper h) = segment_buffer_head (stepper g)"
    by (simp_all add: unprepared_def h)
  then show "exec_inv h"
    using inv same(6,7,8) live unfolding exec_inv_def same(1-3) by auto
qed

lemma current_block:
  assumes "planner_ok g" and "plan_get_current_block g = Some i"
  shows "i = block_buffer_tail (planner g)" "plan_queue g = motion (plan_block g i) # tl (plan_queue g)"
proof -
  let ?p = "planner g"
  show i: "i = block_buffer_tail ?p" using assms(2) by (simp add: plan_get_current_block_def split: if_split_asm)
  have "ring_list 12 (block_buffer ?p) (block_buffer_head ?p) (block_buffer_tail ?p)
      = block_buffer ?p ! unat (block_buffer_tail ?p)
        # ring_list 12 (block_buffer ?p) (block_buffer_head ?p) (plan_next_block_index (block_buffer_tail ?p))"
    using plan.get [of "block_buffer_head ?p" "block_buffer_tail ?p" "block_buffer ?p"] assms
    by (auto simp: planner_ok_def plan_get_current_block_def plan_ring_size Let_def split: if_split_asm)
  then show "plan_queue g = motion (plan_block g i) # tl (plan_queue g)" by (simp add: plan_queue_def plan_block_def i)
qed

lemma block_data_motion [simp]: "block_data (motion b) = block_data b" "block_data (b\<lparr>pb_millimeters := m\<rparr>) = block_data b"
  by (simp_all add: block_data_def motion_def)

lemma load_kept:
  fixes g :: grbl and i :: u8
  defines "k \<equiv> st_next_block_index (prep_index g)"
  obtains p where "stepper (st_load_block i g) = (stepper g)\<lparr>st_prep_block := Some k,
      st_block_buffer := (st_blocks g)[unat k := block_data (plan_block g i)], prep := p\<rparr>"
    and "prep_st_block_index p = k" and "prep_steps_remaining p = f_of_u32 (pb_step_event_count (plan_block g i))"
    and "bit_isfalse (prep_recalculate_flag p) PREP_FLAG_RECALCULATE
      = bit_isfalse (prep_recalculate_flag (prep (stepper g))) PREP_FLAG_RECALCULATE"
    and "motions (st_load_block i g) = motions g" and "planned_ok (st_load_block i g) = planned_ok g"
    and "sys_position (st_load_block i g) = sys_position g"
proof -
  have flag: "bit_isfalse (bit_false f PREP_FLAG_DECEL_OVERRIDE) PREP_FLAG_RECALCULATE = bit_isfalse f PREP_FLAG_RECALCULATE" for f
    by (simp add: bit_macros PREP_FLAG_DECEL_OVERRIDE_def PREP_FLAG_RECALCULATE_def and.assoc)
  have planner: "motions (set_prep q h) = motions h" "planned_ok (set_prep q h) = planned_ok h"
    "motions (h\<lparr>stepper := s\<rparr>) = motions h" "planned_ok (h\<lparr>stepper := s\<rparr>) = planned_ok h" for q h s
    by (simp_all add: motions_def planned_ok_def set_prep_def)
  show ?thesis
  proof (rule that [of "prep (stepper (st_load_block i g))"])
    show "motions (st_load_block i g) = motions g" "planned_ok (st_load_block i g) = planned_ok g"
      by (simp_all add: st_load_block_def Let_def planner)
  qed (simp_all add: st_load_block_def Let_def set_entry_speed_sqr_def set_plan_block_def set_prep_def k_def block_data_def flag)
qed

text \<open>The first block of the planner, whose steps are all to come, becomes the one in preparation.\<close>

lemma f_nat_u32: "unat w < 2 ^ 24 \<Longrightarrow> f_nat (f_of_u32 w) (unat w)"
  using f_nat_of_int [of "unat w"] by (simp add: f_of_u32_def)

lemma steps_left_eq: "f_nat (prep_steps_remaining (prep (stepper g))) n \<Longrightarrow> steps_left g = n"
  by (simp add: steps_left_def f_nat_trunc)

lemma block_data_count: "good_plan b \<Longrightarrow> unat (sb_step_event_count (block_data b)) = 8 * unat (pb_step_event_count b)"
  and block_data_steps: "good_plan b \<Longrightarrow> idx < 3 \<Longrightarrow> unat (sb_steps (block_data b) ! idx) = 8 * unat (pb_steps b ! idx)"
  and block_data_good: "good_plan b \<Longrightarrow> good_block (block_data b)"
proof -
  assume b: "good_plan b"
  then have N: "unat (pb_step_event_count b) < 2 ^ 28" by (simp add: good_plan_def)
  show c: "unat (sb_step_event_count (block_data b)) = 8 * unat (pb_step_event_count b)"
    using push3_u32 [OF N] by (simp add: block_data_def MAX_AMASS_LEVEL_def)
  have s: "unat (sb_steps (block_data b) ! idx) = 8 * unat (pb_steps b ! idx)" if "idx < 3" for idx
  proof -
    have "unat (pb_steps b ! idx) < 2 ^ 28" using b that N by (auto simp: good_plan_def intro: le_less_trans)
    from push3_u32 [OF this] b that show ?thesis by (simp add: block_data_def MAX_AMASS_LEVEL_def good_plan_def)
  qed
  then show "idx < 3 \<Longrightarrow> unat (sb_steps (block_data b) ! idx) = 8 * unat (pb_steps b ! idx)" .
  have "length (sb_steps (block_data b)) = 3" using b by (simp add: block_data_def good_plan_def)
  with b c s show "good_block (block_data b)" by (auto simp: good_block_def good_plan_def Let_def)
qed

text \<open>All steps of a block from the start of its counter.\<close>

lemma whole_block:
  assumes "good_plan b" and "idx < 3" and "bs ! unat k = block_data b" and "fst a \<noteq> k"
  shows "fst (snd (ideal_add bs idx k (unat (pb_step_event_count b) * unat (sb_steps (block_data b) ! idx)) a))
    = fst (snd a) + block_move b idx"
proof -
  let ?N = "unat (pb_step_event_count b)" and ?s = "unat (pb_steps b ! idx)"
  have N: "0 < ?N" using assms(1) by (simp add: good_plan_def)
  have "8 * ?N div 2 - 1 + ?N * (8 * ?s) = (4 * ?N - 1) + (8 * ?N) * ?s" by simp
  moreover have "((4 * ?N - 1) + (8 * ?N) * ?s) div (8 * ?N) = ?s" using N by (subst div_mult_self2) simp_all
  ultimately have "(8 * ?N div 2 - 1 + ?N * (8 * ?s)) div (8 * ?N) = ?s" by (simp only:)
  moreover have "pulses (block_data b) idx ?s = block_move b idx" by (simp add: pulses_def block_move_def block_data_def)
  ultimately show ?thesis
    using assms(3,4) by (simp add: ideal_add_def axis_add_def Let_def block_data_count [OF assms(1)] block_data_steps [OF assms(1,2)])
qed

lemma fst_ideal_run: "fst (ideal_run bs idx sgs a) = last (fst a # map seg_st_block_index sgs)"
  by (induction sgs arbitrary: a) (auto simp: ideal_add_def Let_def)

lemma fst_queue_ahead: "fst (queue_ahead g idx) = last_index g"
  by (simp add: queue_ahead_def fst_ideal_run last_index_def wait_indices_def axis_ahead_def axis_now_def)


text \<open>
  Two ways to take up the first block of the planner: replanning interrupted it and its profile is computed
  anew, or its Bresenham data are stored under the next index.
\<close>

definition resumed :: "grbl \<Rightarrow> grbl \<Rightarrow> u8 \<Rightarrow> st_prep_t \<Rightarrow> bool" where
  "resumed g h i p \<longleftrightarrow> plan_get_current_block g = Some i \<and> \<not> unprepared (stepper g) \<and> pl_block (stepper g) = None
     \<and> stepper h = (stepper g)\<lparr>pl_block := Some i, prep := p\<rparr> \<and> planner h = planner g \<and> sys_position h = sys_position g
     \<and> prep_st_block_index p = prep_index g \<and> prep_steps_remaining p = prep_steps_remaining (prep (stepper g))
     \<and> \<not> f_lt (prep_mm_complete p) 0 \<and> bit_isfalse (prep_recalculate_flag p) PREP_FLAG_RECALCULATE"

definition taken :: "grbl \<Rightarrow> grbl \<Rightarrow> u8 \<Rightarrow> st_prep_t \<Rightarrow> bool" where
  "taken g h i p \<longleftrightarrow> plan_get_current_block g = Some i \<and> unprepared (stepper g)
     \<and> stepper h = (stepper g)\<lparr>pl_block := Some i, st_prep_block := Some (st_next_block_index (prep_index g)), prep := p,
         st_block_buffer := (st_blocks g)[unat (st_next_block_index (prep_index g)) := block_data (plan_block g i)]\<rparr>
     \<and> motions h = motions g \<and> planned_ok h = planned_ok g \<and> sys_position h = sys_position g
     \<and> prep_st_block_index p = st_next_block_index (prep_index g)
     \<and> prep_steps_remaining p = f_of_u32 (pb_step_event_count (plan_block g i))
     \<and> \<not> f_lt (prep_mm_complete p) 0 \<and> bit_isfalse (prep_recalculate_flag p) PREP_FLAG_RECALCULATE"

lemma resume_block:
  assumes "plan_get_current_block g = Some i" and "\<not> unprepared (stepper g)" and "pl_block (stepper g) = None"
    and "h = st_compute_profile i (set_prep ((prep (stepper g))\<lparr>prep_recalculate_flag := 0\<rparr>) (g\<lparr>stepper := (stepper g)\<lparr>pl_block := Some i\<rparr>\<rparr>))"
  shows "\<exists>p. resumed g h i p"
proof -
  define b where "b = set_prep ((prep (stepper g))\<lparr>prep_recalculate_flag := 0\<rparr>) (g\<lparr>stepper := (stepper g)\<lparr>pl_block := Some i\<rparr>\<rparr>)"
  obtain p where p: "st_compute_profile i b = set_prep p b" "prep_st_block_index p = prep_index b"
    "prep_steps_remaining p = prep_steps_remaining (prep (stepper b))" "\<not> f_lt (prep_mm_complete p) 0"
    "bit_isfalse (prep_recalculate_flag p) PREP_FLAG_RECALCULATE
      = bit_isfalse (prep_recalculate_flag (prep (stepper b))) PREP_FLAG_RECALCULATE"
    by (rule profile_kept)
  have "resumed g h i p"
    using assms p by (simp add: resumed_def b_def [symmetric]) (simp add: b_def set_prep_def bit_isfalse_def)
  then show ?thesis by blast
qed

lemma take_block:
  assumes "plan_get_current_block g = Some i" and "unprepared (stepper g)"
    and h: "h = st_compute_profile i (st_load_block i (g\<lparr>stepper := (stepper g)\<lparr>pl_block := Some i\<rparr>\<rparr>))"
  shows "\<exists>p. taken g h i p"
proof -
  define a where "a = g\<lparr>stepper := (stepper g)\<lparr>pl_block := Some i\<rparr>\<rparr>"
  obtain q where q: "stepper (st_load_block i a) = (stepper a)\<lparr>st_prep_block := Some (st_next_block_index (prep_index a)),
      st_block_buffer := (st_blocks a)[unat (st_next_block_index (prep_index a)) := block_data (plan_block a i)], prep := q\<rparr>"
    "prep_st_block_index q = st_next_block_index (prep_index a)" "prep_steps_remaining q = f_of_u32 (pb_step_event_count (plan_block a i))"
    "bit_isfalse (prep_recalculate_flag q) PREP_FLAG_RECALCULATE
      = bit_isfalse (prep_recalculate_flag (prep (stepper a))) PREP_FLAG_RECALCULATE"
    "motions (st_load_block i a) = motions a" "planned_ok (st_load_block i a) = planned_ok a"
    "sys_position (st_load_block i a) = sys_position a"
    by (rule load_kept)
  obtain p where p: "st_compute_profile i (st_load_block i a) = set_prep p (st_load_block i a)"
    "prep_st_block_index p = prep_index (st_load_block i a)"
    "prep_steps_remaining p = prep_steps_remaining (prep (stepper (st_load_block i a)))" "\<not> f_lt (prep_mm_complete p) 0"
    "bit_isfalse (prep_recalculate_flag p) PREP_FLAG_RECALCULATE
      = bit_isfalse (prep_recalculate_flag (prep (stepper (st_load_block i a)))) PREP_FLAG_RECALCULATE"
    by (rule profile_kept)
  have a: "motions a = motions g" "planned_ok a = planned_ok g" "plan_block a i = plan_block g i" "prep (stepper a) = prep (stepper g)"
    "sys_position a = sys_position g"
    by (simp_all add: a_def motions_def planned_ok_def plan_block_def)
  have m: "motions (set_prep p k) = motions k" "planned_ok (set_prep p k) = planned_ok k" for k
    by (simp_all add: motions_def planned_ok_def set_prep_def)
  have hp: "h = set_prep p (st_load_block i a)" using h p(1) by (simp add: a_def)
  have "bit_isfalse (prep_recalculate_flag (prep (stepper g))) PREP_FLAG_RECALCULATE" using assms(2) by (simp add: unprepared_def)
  then have "taken g h i p"
    using assms(1,2) p(2-5) q m a by (simp add: taken_def hp) (simp add: set_prep_def q(1) a_def)
  then show ?thesis by blast
qed

lemma ready_cases:
  assumes "st_prep_block_ready g = Some (i, h)" and "\<not> sc_true STEP_CONTROL_EXECUTE_SYS_MOTION g"
  obtains "pl_block (stepper g) = Some i" "h = g" | p where "resumed g h i p" | p where "taken g h i p"
proof (cases "pl_block (stepper g)")
  case (Some j)
  with assms(1) have "i = j" "h = g" by (simp_all add: st_prep_block_ready_def)
  with Some show ?thesis by (intro that(1)) simp_all
next
  case None
  let ?flag = "bit_istrue (prep_recalculate_flag (prep (stepper g))) PREP_FLAG_RECALCULATE"
  define a where "a = g\<lparr>stepper := (stepper g)\<lparr>pl_block := Some i\<rparr>\<rparr>"
  have u: "unprepared (stepper g) \<longleftrightarrow> \<not> ?flag" using None by (simp add: unprepared_def bit_isfalse_iff)
  have cur: "plan_get_current_block g = Some i"
    using assms None by (auto simp: st_prep_block_ready_def Let_def split: option.split_asm)
  then have "h = st_compute_profile i (if ?flag then set_prep ((prep (stepper g))\<lparr>prep_recalculate_flag := 0\<rparr>) a else st_load_block i a)"
    using assms None by (auto simp: st_prep_block_ready_def Let_def a_def)
  then show ?thesis
    using resume_block [OF cur _ None] take_block [OF cur] that(2,3) u by (cases ?flag) (auto simp: a_def)
qed

lemma resumed_motion:
  assumes inv: "motion_inv g" and ok: "motion_ok h" and resumed: "resumed g h i p"
  shows "motion_inv h \<and> pl_block (stepper h) = Some i \<and> (\<forall>idx < 3. position_to_come h idx = position_to_come g idx)
    \<and> pl_position (pl (planner h)) = pl_position (pl (planner g))"
proof -
  note r = resumed [unfolded resumed_def]
  have tail: "i = block_buffer_tail (planner g)" using current_block [of g i] r inv by (simp add: motion_inv_def)
  have "pl_block (stepper h) = Some i" using r by simp
  then have "\<not> unprepared (stepper h)" by (simp add: unprepared_def)
  moreover have "\<not> unprepared (stepper g)" using r by blast
  ultimately have u: "unprepared (stepper h) = unprepared (stepper g)" by simp
  have view: "exec_view h = exec_view g"
    unfolding exec_view_def u using r by (simp add: counters_def seg_queue_def)
  have left: "plan_queue h = plan_queue g" "planner_ok h = planner_ok g" "steps_left h = steps_left g"
    "prep_index h = prep_index g"
    using r by (simp_all add: plan_queue_def planner_ok_def steps_left_def)
  have kept: "exec_kept g h" using view inv by (intro exec_view_kept) (simp_all add: motion_inv_def)
  then have "prep_inv h" using inv r u left tail by (simp add: motion_inv_def prep_inv_def exec_kept_def)
  with kept ok inv left have "motion_inv h" by (simp add: motion_inv_def exec_kept_def)
  with kept left u r show ?thesis
    by (simp add: position_to_come_def block_ahead_def blocks_left_def exec_kept_def)
qed

lemma taken_same:
  assumes inv: "motion_inv g" and taken: "taken g h i p" and room: "segment_buffer_tail (stepper g) \<noteq> segment_next_head (stepper g)"
  shows "exec_inv h" "last_index h = last_index g" "queue_ahead h idx = queue_ahead g idx" "prep_index g = last_index g"
    and "planner_ok h" "plan_queue h = plan_queue g" "i = block_buffer_tail (planner g)"
    and "plan_queue g = motion (plan_block g i) # tl (plan_queue g)" "good_plan (plan_block g i)"
    and "pl_position (pl (planner h)) = pl_position (pl (planner g))" "block_buffer_tail (planner h) = block_buffer_tail (planner g)"
proof -
  note t = taken [unfolded taken_def]
  have all: "exec_inv g" "motion_ok g" "planner_ok g" using inv by (simp_all add: motion_inv_def)
  show last: "prep_index g = last_index g" using inv t by (simp add: motion_inv_def prep_inv_def)
  show "exec_inv h" "last_index h = last_index g" "queue_ahead h idx = queue_ahead g idx"
    using load_exec [OF all(1,2) _ last room] t by blast+
  have "planned_ok h" using all(3) t by (simp add: planner_ok_iff)
  then show "planner_ok h" "plan_queue h = plan_queue g" using planning_keeps [OF all(3)] t by blast+
  show "i = block_buffer_tail (planner g)" and cur: "plan_queue g = motion (plan_block g i) # tl (plan_queue g)"
    using current_block [OF all(3)] t by blast+
  have "motion (plan_block g i) \<in> set (plan_queue g)" using cur by (metis list.set_intros(1))
  then show "good_plan (plan_block g i)" using inv by (auto simp: motion_inv_def good_plan_def motion_def)
  show "pl_position (pl (planner h)) = pl_position (pl (planner g))" "block_buffer_tail (planner h) = block_buffer_tail (planner g)"
    using t by (simp_all add: motions_def)
qed

lemma taken_block:
  assumes inv: "motion_inv g" and taken: "taken g h i p" and good: "good_plan (plan_block g i)"
  defines "k \<equiv> st_next_block_index (prep_index g)"
  shows "\<not> unprepared (stepper h)" "prep_index h = k" "pl_block (stepper h) = Some i" "prep (stepper h) = p" "k \<noteq> prep_index g"
    and "f_nat (prep_steps_remaining p) (steps_left h)" "steps_left h = unat (pb_step_event_count (plan_block g i))"
    and "st_blocks h ! unat k = block_data (plan_block g i)"
proof -
  note t = taken [unfolded taken_def]
  have k5: "prep_index g < 5" "length (st_blocks g) = 5" using inv by (simp_all add: motion_inv_def motion_ok_def stepper_typed_def)
  show u: "\<not> unprepared (stepper h)" "prep_index h = k" "pl_block (stepper h) = Some i" "prep (stepper h) = p"
    using t by (simp_all add: unprepared_def k_def)
  show "k \<noteq> prep_index g" using chain_fresh [of "prep_index g" "[]"] k5 by (auto simp: k_def)
  have "unat (pb_step_event_count (plan_block g i)) < 2 ^ 24" using good by (simp add: good_plan_def)
  then have nat: "f_nat (prep_steps_remaining p) (unat (pb_step_event_count (plan_block g i)))" using f_nat_u32 t by simp
  then show "steps_left h = unat (pb_step_event_count (plan_block g i))" by (intro steps_left_eq) (simp add: u)
  with nat show "f_nat (prep_steps_remaining p) (steps_left h)" by simp
  have "unat k < length (st_blocks g)"
    using k5 st_next_nat [of "prep_index g"] by (simp add: word_less_nat_alt k_def)
  then show "st_blocks h ! unat k = block_data (plan_block g i)" using t by (simp add: k_def)
qed

lemma taken_motion:
  assumes inv: "motion_inv g" and ok: "motion_ok h" and taken: "taken g h i p"
    and room: "segment_buffer_tail (stepper g) \<noteq> segment_next_head (stepper g)"
  shows "motion_inv h \<and> pl_block (stepper h) = Some i \<and> (\<forall>idx < 3. position_to_come h idx = position_to_come g idx)
    \<and> pl_position (pl (planner h)) = pl_position (pl (planner g))"
proof -
  note t = taken [unfolded taken_def] and s = taken_same [OF inv taken room]
  note b = taken_block [OF inv taken s(9)]
  let ?b = "plan_block g i"
  have "plan_queue g \<noteq> []" "block_data (hd (plan_queue g)) = block_data ?b"
    by (metis s(8) list.distinct(1)) (metis s(8) block_data_motion(1) list.sel(1))
  then have "prep_inv h"
    using t b s(7,11) by (simp add: prep_inv_def s(2,4,6))
  with ok inv s(1,5,6) have "motion_inv h" by (simp add: motion_inv_def)
  moreover have "position_to_come h idx = position_to_come g idx" if idx: "idx < 3" for idx
  proof -
    have "fst (queue_ahead g idx) \<noteq> st_next_block_index (prep_index g)" using s(4) b(5) by (simp add: fst_queue_ahead)
    from whole_block [OF s(9) idx b(8) this]
    have "fst (snd (block_ahead h idx)) = fst (snd (queue_ahead g idx)) + block_move ?b idx"
      using b by (simp add: block_ahead_def s(3))
    moreover have "block_move (motion ?b) idx = block_move ?b idx" by (simp add: block_move_def motion_def)
    moreover have "sum_list (map (\<lambda>b. block_move b idx) (plan_queue g))
        = block_move (motion ?b) idx + sum_list (map (\<lambda>b. block_move b idx) (tl (plan_queue g)))"
      by (subst s(8)) simp
    ultimately show ?thesis
      using t b(1) s(6) by (simp add: position_to_come_def blocks_left_def block_ahead_def)
  qed
  ultimately show ?thesis using b(3) s(10) by simp
qed

lemma ready_motion:
  assumes inv: "motion_inv g" and ready: "st_prep_block_ready g = Some (i, h)"
    and sys: "\<not> sc_true STEP_CONTROL_EXECUTE_SYS_MOTION g" and room: "segment_buffer_tail (stepper g) \<noteq> segment_next_head (stepper g)"
  shows "motion_inv h \<and> pl_block (stepper h) = Some i \<and> (\<forall>idx < 3. position_to_come h idx = position_to_come g idx)
    \<and> pl_position (pl (planner h)) = pl_position (pl (planner g))"
proof -
  have ok: "motion_ok h" using block_ready [OF ready] inv by (simp add: motion_inv_def)
  from ready sys show ?thesis
    by (cases rule: ready_cases) (use inv resumed_motion [OF inv ok] taken_motion [OF inv ok _ room] in auto)
qed

end
