(* ===== verification/Step_Segments.thy ===== *)
theory Step_Segments
  imports Step_Blocks
begin

text \<open>
  \<open>st_prep_segment\<close> queues a segment and takes exactly its steps from the block being prepared,
  whatever its smoothing level and whatever its speed.
\<close>

section \<open>A segment is queued\<close>

text \<open>
  What a round of the preparation is for: it takes at least one step of the block and, so that the
  16-bit count with the smoothing level does not overflow, fewer than 8192.
\<close>

definition seg_progress :: "grbl \<Rightarrow> grbl \<Rightarrow> bool" where
  "seg_progress g h \<longleftrightarrow> (segment_buffer_head (stepper h) \<noteq> segment_buffer_head (stepper g) \<longrightarrow>
     f_nat (prep_steps_remaining (prep (stepper h))) (steps_left h) \<and> steps_left h < steps_left g
     \<and> steps_left g - steps_left h < 8192)"

lemma new_segment_steps:
  assumes "new_segment ub p q sg" and "f_nat (prep_steps_remaining p) m" and "f_nat (prep_steps_remaining q) n"
    and "n < m" and "m - n < 8192"
  shows "unat (seg_n_step sg) = (m - n) * 2 ^ unat (seg_amass_level sg)" "unat (seg_amass_level sg) \<le> 3"
proof -
  obtain c s where sg: "sg = st_segment_timing c s"
    and n: "seg_n_step s = f_to_u16 ub (f_sub (f_ceil (prep_steps_remaining p)) (prep_steps_remaining q))"
    using assms(1) unfolding new_segment_def by blast
  have "f_nat (f_sub (f_ceil (prep_steps_remaining p)) (prep_steps_remaining q)) (m - n)"
    using assms(2-4) by (intro f_nat_sub f_nat_ceil) simp_all
  from f_nat_to_u16 [OF this, of ub] assms(5) have steps: "unat (seg_n_step s) = m - n" by (simp add: n)
  show level: "unat (seg_amass_level sg) \<le> 3" by (simp add: sg st_segment_timing_def Let_def)
  then have "(2 :: nat) ^ unat (seg_amass_level sg) \<le> 2 ^ 3" by (intro power_increasing) simp_all
  then have "2 ^ unat (seg_amass_level sg) * (m - n) \<le> 8 * (m - n)" by (intro mult_le_mono1) simp
  with assms(5) have "2 ^ unat (seg_amass_level sg) * (m - n) < 65536" by linarith
  moreover have "seg_n_step sg = push_bit (unat (seg_amass_level sg)) (seg_n_step s)"
    by (simp add: sg st_segment_timing_def Let_def)
  ultimately show "unat (seg_n_step sg) = (m - n) * 2 ^ unat (seg_amass_level sg)"
    by (simp only: unsigned_push_bit_eq steps) (simp add: take_bit_eq_mod push_bit_eq_mult mult.commute)
qed

lemma seg_queue_head:
  assumes "seg_indices g"
  shows "ring_list 6 ((segment_buffer (stepper g))[unat (segment_buffer_head (stepper g)) := x]) (segment_buffer_head (stepper g))
    (segment_buffer_tail (stepper g)) = seg_queue g"
  using seg.index_neq_head [of "segment_buffer_head (stepper g)" "segment_buffer_tail (stepper g)"] assms
  by (auto simp: ring_list_def seg_queue_def seg_indices_def segment_ring_size)

text \<open>The executing side sees one more waiting segment.\<close>

lemma push_exec:
  assumes inv: "exec_inv g" and ok: "motion_ok g" and prep: "\<not> unprepared (stepper g)"
      "prep_index g = last_index g \<or> prep_index g = st_next_block_index (last_index g)" "good_block (st_blocks g ! unat (prep_index g))"
    and room: "segment_buffer_tail (stepper g) \<noteq> segment_next_head (stepper g)"
    and sg: "seg_st_block_index sg = prep_index g" "0 < unat (seg_n_step sg)"
    and h: "stepper h = (push_segment (put_segment sg p (stepper g)))\<lparr>pl_block := x\<rparr>" "sys_position h = sys_position g"
  shows "exec_inv h" "last_index h = prep_index g"
    "queue_ahead h idx = ideal_add (st_blocks g) idx (prep_index g) (seg_increment (st_blocks g) idx sg) (queue_ahead g idx)"
proof -
  let ?hd = "segment_buffer_head (stepper g)" and ?tl = "segment_buffer_tail (stepper g)"
  have ix: "?hd < SEGMENT_BUFFER_SIZE" "?tl < SEGMENT_BUFFER_SIZE" "length (segment_buffer (stepper g)) = unat SEGMENT_BUFFER_SIZE"
    "segment_next_head (stepper g) = ring_next SEGMENT_BUFFER_SIZE ?hd"
    using motion_ok_indices [OF ok] ok inv by (simp_all add: seg_indices_def segment_ring_size motion_ok_def stepper_typed_def exec_inv_def)
  have "ring_next SEGMENT_BUFFER_SIZE ?hd \<noteq> ?tl" using room ix(4) by simp
  from seg.put [OF ix(1,2) this ix(3), of sg] have q: "seg_queue h = seg_queue g @ [sg]"
    by (simp add: seg_queue_def h(1) push_segment_def put_segment_def ix(4) segment_ring_size)
  have e: "exec_segment h = exec_segment g" "exec_index h = exec_index g" "st_blocks h = st_blocks g"
    by (simp_all add: h(1) push_segment_def put_segment_def)
  have "exec_segment g \<noteq> None \<longrightarrow> seg_queue g \<noteq> []" using inv by (simp add: exec_inv_def)
  then have w: "waiting h = waiting g @ [sg]" by (auto simp: waiting_def q e)
  then have wi: "wait_indices h = wait_indices g @ [prep_index g]" by (simp add: wait_indices_def sg(1))
  show "last_index h = prep_index g" by (simp add: last_index_def wi)
  have same: "exec_block h = exec_block g" "counters h = counters g" "busy (stepper h) = busy (stepper g)"
    "st (stepper h) = st (stepper g)"
    by (simp_all add: exec_block_def counters_def h(1) push_segment_def put_segment_def)
  then have "axis_ahead h idx = axis_ahead g idx" by (simp add: axis_ahead_def axis_now_def h(2))
  then show "queue_ahead h idx = ideal_add (st_blocks g) idx (prep_index g) (seg_increment (st_blocks g) idx sg) (queue_ahead g idx)"
    by (simp add: queue_ahead_def w e sg(1))
  have "working k h = working k g" "loaded k h = loaded k g" for k
    using same h(2) by (simp_all add: working_def loaded_def)
  moreover have "segment_next_head (stepper h) = ring_next SEGMENT_BUFFER_SIZE (segment_buffer_head (stepper h))"
    by (simp add: h(1) push_segment_def put_segment_def)
  moreover have "working (exec_index g) g \<or> hd (wait_indices g @ [prep_index g]) \<noteq> exec_index g"
    using inv prep(1) by (cases "wait_indices g") (auto simp: exec_inv_def)
  moreover have "chain (exec_index g) (wait_indices g @ [prep_index g])"
    using inv prep(2) by (simp add: exec_inv_def last_index_def)
  ultimately show "exec_inv h"
    using inv same prep(3) sg unfolding exec_inv_def w wi q e by auto
qed


text \<open>The block being prepared stays the first of the planner; only its remaining distance changes.\<close>

lemma queue_first:
  assumes "planner_ok g" and "plan_queue g \<noteq> []"
  shows "plan_queue (set_plan_block (block_buffer_tail (planner g)) b g) = motion b # tl (plan_queue g)"
proof -
  let ?p = "planner g"
  have ok: "block_buffer_tail ?p < BLOCK_BUFFER_SIZE" "length (block_buffer ?p) = 12"
    using assms(1) by (simp_all add: planner_ok_def Let_def)
  define rl where "rl = ring_list 12 (block_buffer ?p) (block_buffer_head ?p) (block_buffer_tail ?p)"
  have "ring_list 12 ((block_buffer ?p)[unat (block_buffer_tail ?p) := b]) (block_buffer_head ?p) (block_buffer_tail ?p) = rl[0 := b]"
  proof (rule nth_equalityI)
    fix k
    assume k: "k < length (ring_list 12 ((block_buffer ?p)[unat (block_buffer_tail ?p) := b]) (block_buffer_head ?p) (block_buffer_tail ?p))"
    then have k: "k < ring_len (unat BLOCK_BUFFER_SIZE) (block_buffer_head ?p) (block_buffer_tail ?p)" by (simp add: plan_ring_size)
    then have "k < 12" using plan.len_bound [of "block_buffer_head ?p" "block_buffer_tail ?p"] by (simp add: plan_ring_size)
    then have "plan_slot (block_buffer_tail ?p) k = block_buffer_tail ?p \<longleftrightarrow> k = 0"
      using plan.slot_eq [OF ok(1), of k 0] plan.slot_0 [OF ok(1)] by (simp add: plan_ring_size)
    moreover have "unat (block_buffer_tail ?p) < 12" using ok(1) by (simp add: BLOCK_BUFFER_SIZE_def word_less_nat_alt)
    ultimately show "ring_list 12 ((block_buffer ?p)[unat (block_buffer_tail ?p) := b]) (block_buffer_head ?p) (block_buffer_tail ?p) ! k
        = rl[0 := b] ! k"
      using k ok(2) unfolding rl_def plan_ring_size
      by (auto simp: plan.list_nth [OF k, unfolded plan_ring_size] nth_list_update word_unat_eq_iff)
  qed (simp add: rl_def)
  moreover have "plan_queue g = map motion rl" by (simp add: plan_queue_def rl_def)
  ultimately show ?thesis using assms(2) by (cases rl) (simp_all add: plan_queue_def set_plan_block_def)
qed

lemma motion_millimeters: "motion ((plan_block g i)\<lparr>pb_millimeters := m\<rparr>) = (motion (plan_block g i))\<lparr>pb_millimeters := m\<rparr>"
  by (simp add: motion_def)

lemma zero_distance: "f_eq x y \<Longrightarrow> \<not> f_lt 0 x \<Longrightarrow> \<not> f_lt y 0 \<Longrightarrow> f_nat x 0"
proof (rule f_eq_zero)
  have "f_decode 0 = FNum False 0 (- 149)" by (simp add: f_decode_def)
  then show "f_eq x y \<Longrightarrow> \<not> f_lt 0 x \<Longrightarrow> \<not> f_lt y 0 \<Longrightarrow> f_eq x 0"
    by (auto simp: f_eq_def f_lt_def f_cmp_def Let_def signed_sig_def)
qed

lemma increment_steps:
  assumes "unat (seg_n_step sg) = d * 2 ^ l" and "unat (seg_amass_level sg) = l" and "l \<le> 3" and "bs ! unat (seg_st_block_index sg) = b"
    and "unat (sb_steps b ! idx) = 8 * s"
  shows "seg_increment bs idx sg = d * unat (sb_steps b ! idx)"
proof -
  have "(2 :: nat) ^ l dvd 2 ^ 3" by (rule le_imp_power_dvd [OF assms(3)])
  then have "2 ^ l dvd 8 * s" by simp
  then show ?thesis using assms by (simp add: seg_increment_def)
qed


text \<open>A round that has no step to execute leaves everything in place.\<close>

lemma bail_motion:
  assumes inv: "motion_inv g" and ok: "motion_ok h" and base: "prep_base p = prep_base (prep (stepper g))"
    and h: "stepper h = put_segment sg p (stepper g)" "planner h = planner g" "sys_position h = sys_position g"
  shows "motion_inv h" "idx < 3 \<Longrightarrow> position_to_come h idx = position_to_come g idx"
proof -
  have "seg_indices g" using inv by (simp add: motion_inv_def motion_ok_indices)
  then have q: "seg_queue h = seg_queue g" using seg_queue_head by (simp add: seg_queue_def h(1) put_segment_def)
  have same: "unprepared (stepper h) = unprepared (stepper g)" "prep_index h = prep_index g" "pl_block (stepper h) = pl_block (stepper g)"
    "prep_base (prep (stepper h)) = prep_base (prep (stepper g))" "steps_left h = steps_left g"
    using base by (simp_all add: prep_base_def unprepared_def steps_left_def h(1) put_segment_def)
  have "exec_view h = exec_view g"
    using same q h(3) by (simp add: exec_view_def counters_def) (simp add: h(1) put_segment_def)
  then have kept: "exec_kept g h" using inv by (intro exec_view_kept) (simp_all add: motion_inv_def)
  have left: "plan_queue h = plan_queue g" "planner_ok h = planner_ok g" using h(2) by (simp_all add: plan_queue_def planner_ok_def)
  then have "prep_inv h"
    using inv same kept h(2) by (simp add: motion_inv_def prep_inv_def exec_kept_def prep_base_def)
  with kept ok inv left show "motion_inv h" by (simp add: motion_inv_def exec_kept_def)
  show "idx < 3 \<Longrightarrow> position_to_come h idx = position_to_come g idx"
    using kept left same by (simp add: position_to_come_def block_ahead_def blocks_left_def exec_kept_def)
qed

text \<open>
  A round from \<open>g\<close> to \<open>h\<close> that queues a segment: the block \<open>i\<close> goes on (\<open>x\<close> is it), or ends
  with no step left.
\<close>

definition pushed :: "grbl \<Rightarrow> grbl \<Rightarrow> u8 \<Rightarrow> st_prep_t \<Rightarrow> segment_t \<Rightarrow> u8 option \<Rightarrow> f32 \<Rightarrow> bool" where
  "pushed g h i p sg x mm \<longleftrightarrow>
     prep_base p = prep_base ((prep (stepper g))\<lparr>prep_steps_remaining := prep_steps_remaining p\<rparr>)
     \<and> seg_st_block_index sg = prep_st_block_index p \<and> new_segment (w_cast (world g)) (prep (stepper g)) p sg
     \<and> stepper h = (push_segment (put_segment sg p (stepper g)))\<lparr>pl_block := x\<rparr> \<and> sys_position h = sys_position g
     \<and> pl_position (pl (planner h)) = pl_position (pl (planner g)) \<and> planner_ok h
     \<and> (x = Some i \<and> plan_queue h = (hd (plan_queue g))\<lparr>pb_millimeters := mm\<rparr> # tl (plan_queue g)
          \<and> block_buffer_tail (planner h) = block_buffer_tail (planner g)
        \<or> x = None \<and> plan_queue h = tl (plan_queue g) \<and> steps_left h = 0)"

lemma pushed_same:
  assumes "pushed g h i p sg x mm"
  shows "prep (stepper h) = p" "prep_index h = prep_index g" "prep_st_block_index p = prep_index g" "st_blocks h = st_blocks g"
    "pl_block (stepper h) = x" "prep_mm_complete p = prep_mm_complete (prep (stepper g))"
    "prep_recalculate_flag p = prep_recalculate_flag (prep (stepper g))"
    "segment_buffer_head (stepper h) = segment_next_head (stepper g)"
  using assms by (simp_all add: pushed_def push_segment_def put_segment_def prep_base_def)

lemma preparing:
  assumes "motion_inv g" and "pl_block (stepper g) = Some i"
  shows "\<not> unprepared (stepper g)" "prep_index g = last_index g \<or> prep_index g = st_next_block_index (last_index g)"
    "plan_queue g \<noteq> []" "good_plan (hd (plan_queue g))" "st_blocks g ! unat (prep_index g) = block_data (hd (plan_queue g))"
    "f_nat (prep_steps_remaining (prep (stepper g))) (steps_left g)" "i = block_buffer_tail (planner g)"
    "bit_isfalse (prep_recalculate_flag (prep (stepper g))) PREP_FLAG_RECALCULATE"
    "\<not> f_lt (prep_mm_complete (prep (stepper g))) 0"
  using assms by (auto simp: motion_inv_def prep_inv_def unprepared_def)

lemma queued_head:
  "exec_inv g \<Longrightarrow> segment_next_head (stepper g) \<noteq> segment_buffer_head (stepper g)"
  by (auto simp: exec_inv_def ring_next_def Let_def SEGMENT_BUFFER_SIZE_def)

lemma pushed_steps:
  assumes inv: "motion_inv g" and pl: "pl_block (stepper g) = Some i" and push: "pushed g h i p sg x mm" and progress: "seg_progress g h"
  shows "f_nat (prep_steps_remaining p) (steps_left h)" "steps_left h < steps_left g"
    "unat (seg_n_step sg) = (steps_left g - steps_left h) * 2 ^ unat (seg_amass_level sg)" "unat (seg_amass_level sg) \<le> 3"
proof -
  have "exec_inv g" using inv by (simp add: motion_inv_def)
  then have left: "f_nat (prep_steps_remaining p) (steps_left h)" "steps_left h < steps_left g" "steps_left g - steps_left h < 8192"
    using progress queued_head [of g] pushed_same(1,8) [OF push] by (simp_all add: seg_progress_def)
  then show "f_nat (prep_steps_remaining p) (steps_left h)" "steps_left h < steps_left g" by simp_all
  have "new_segment (w_cast (world g)) (prep (stepper g)) p sg" using push by (simp add: pushed_def)
  from new_segment_steps [OF this preparing(6) [OF inv pl] left]
  show "unat (seg_n_step sg) = (steps_left g - steps_left h) * 2 ^ unat (seg_amass_level sg)" "unat (seg_amass_level sg) \<le> 3" .
qed

lemma pushed_exec:
  assumes inv: "motion_inv g" and pl: "pl_block (stepper g) = Some i" and push: "pushed g h i p sg x mm" and progress: "seg_progress g h"
    and room: "segment_buffer_tail (stepper g) \<noteq> segment_next_head (stepper g)"
  shows "exec_inv h" "last_index h = prep_index g"
    "queue_ahead h idx = ideal_add (st_blocks g) idx (prep_index g) (seg_increment (st_blocks g) idx sg) (queue_ahead g idx)"
proof -
  note prep = preparing [OF inv pl]
  have "0 < unat (seg_n_step sg)" using pushed_steps(2,3) [OF inv pl push progress] by simp
  moreover have "good_block (st_blocks g ! unat (prep_index g))" using block_data_good [OF prep(4)] prep(5) by simp
  moreover have "exec_inv g" "motion_ok g" using inv by (simp_all add: motion_inv_def)
  ultimately show "exec_inv h" "last_index h = prep_index g"
    "queue_ahead h idx = ideal_add (st_blocks g) idx (prep_index g) (seg_increment (st_blocks g) idx sg) (queue_ahead g idx)"
    using push_exec [where g = g and sg = sg and h = h and p = p and x = x] push prep(1,2) room pushed_same(3) [OF push] by (simp_all add: pushed_def)
qed

lemma pushed_inv:
  assumes inv: "motion_inv g" and pl: "pl_block (stepper g) = Some i" and push: "pushed g h i p sg x mm" and progress: "seg_progress g h"
    and room: "segment_buffer_tail (stepper g) \<noteq> segment_next_head (stepper g)" and ok: "motion_ok h"
  shows "motion_inv h"
proof -
  note prep = preparing [OF inv pl] and same = pushed_same [OF push]
  have u: "unprepared (stepper h) \<longleftrightarrow> x = None" using prep(8) by (simp add: unprepared_def same)
  have cont: "x = Some i \<and> plan_queue h = (hd (plan_queue g))\<lparr>pb_millimeters := mm\<rparr> # tl (plan_queue g)
      \<and> block_buffer_tail (planner h) = block_buffer_tail (planner g)
    \<or> x = None \<and> plan_queue h = tl (plan_queue g) \<and> steps_left h = 0" using push by (simp add: pushed_def)
  then have "prep_inv h"
    using pushed_exec(2) [OF inv pl push progress room] prep pushed_steps(1) [OF inv pl push progress] same u
    by (auto simp: prep_inv_def)
  moreover have "\<forall>b \<in> set (plan_queue h). good_plan b"
  proof -
    have "good_plan ((hd (plan_queue g))\<lparr>pb_millimeters := mm\<rparr>)" using prep(4) by (simp add: good_plan_def)
    then show ?thesis using cont inv prep(3) by (cases "plan_queue g") (auto simp: motion_inv_def)
  qed
  ultimately show ?thesis
    using ok push pushed_exec(1) [OF inv pl push progress room] by (simp add: motion_inv_def pushed_def)
qed

lemma pushed_position:
  assumes inv: "motion_inv g" and pl: "pl_block (stepper g) = Some i" and push: "pushed g h i p sg x mm" and progress: "seg_progress g h"
    and room: "segment_buffer_tail (stepper g) \<noteq> segment_next_head (stepper g)" and idx: "idx < 3"
  shows "position_to_come h idx = position_to_come g idx"
proof -
  note prep = preparing [OF inv pl] and same = pushed_same [OF push] and n = pushed_steps [OF inv pl push progress]
    and exec = pushed_exec(3) [OF inv pl push progress room]
  let ?p = "prep_index g" and ?s = "unat (sb_steps (block_data (hd (plan_queue g))) ! idx)"
  have u: "unprepared (stepper h) \<longleftrightarrow> x = None" using prep(8) by (simp add: unprepared_def same)
  have x: "x = Some i \<and> plan_queue h = (hd (plan_queue g))\<lparr>pb_millimeters := mm\<rparr> # tl (plan_queue g)
    \<or> x = None \<and> plan_queue h = tl (plan_queue g) \<and> steps_left h = 0" using push by (auto simp: pushed_def)
  have "seg_st_block_index sg = ?p" using push same(3) by (simp add: pushed_def)
  then have "seg_increment (st_blocks g) idx sg = (steps_left g - steps_left h) * ?s"
    using prep(5) block_data_steps [OF prep(4) idx] by (intro increment_steps [OF n(3) refl n(4)]) simp_all
  moreover have "(steps_left g - steps_left h) * ?s + steps_left h * ?s = steps_left g * ?s"
    using n(2) by (simp add: distrib_right [symmetric])
  ultimately have "block_ahead g idx = ideal_add (st_blocks g) idx ?p (steps_left h * ?s) (queue_ahead h idx)"
    using prep(1) by (simp add: block_ahead_def exec ideal_add_add prep(5))
  moreover have "ideal_add (st_blocks g) idx ?p (0 * ?s) (queue_ahead h idx) = queue_ahead h idx"
    by (simp add: exec ideal_add_add)
  ultimately have "block_ahead h idx = block_ahead g idx"
    using x by (auto simp: block_ahead_def u same prep(5))
  moreover have "blocks_left h = blocks_left g" using x prep(1) by (auto simp: blocks_left_def u)
  ultimately show ?thesis by (simp add: position_to_come_def)
qed

text \<open>The planner after the remaining distance of its first block is stored.\<close>

lemma shortened_planner:
  assumes inv: "motion_inv g" and pl: "pl_block (stepper g) = Some i"
    and k: "planner k = planner (set_plan_block i ((plan_block g i)\<lparr>pb_millimeters := mm\<rparr>) g)"
  shows "plan_queue k = (hd (plan_queue g))\<lparr>pb_millimeters := mm\<rparr> # tl (plan_queue g)" "planner_ok k"
    "pl_position (pl (planner k)) = pl_position (pl (planner g))" "block_buffer_tail (planner k) = block_buffer_tail (planner g)"
proof -
  note prep = preparing [OF inv pl]
  have ok: "planner_ok g" using inv by (simp add: motion_inv_def)
  have "block_buffer_head (planner g) \<noteq> block_buffer_tail (planner g)"
    using prep(3) by (auto simp: plan_queue_def ring_list_def ring_len_def)
  then have "plan_get_current_block g = Some i" by (simp add: plan_get_current_block_def prep(7))
  with ok have "plan_queue g = motion (plan_block g i) # tl (plan_queue g)" by (intro current_block)
  then have cur: "hd (plan_queue g) = motion (plan_block g i)" by (metis list.sel(1))
  have "plan_queue k = plan_queue (set_plan_block i ((plan_block g i)\<lparr>pb_millimeters := mm\<rparr>) g)"
    by (simp add: plan_queue_def k)
  also have "\<dots> = (hd (plan_queue g))\<lparr>pb_millimeters := mm\<rparr> # tl (plan_queue g)"
    using queue_first [OF ok prep(3)] by (simp add: motion_millimeters cur prep(7) [symmetric])
  finally show "plan_queue k = (hd (plan_queue g))\<lparr>pb_millimeters := mm\<rparr> # tl (plan_queue g)" .
  show "planner_ok k" "pl_position (pl (planner k)) = pl_position (pl (planner g))"
    "block_buffer_tail (planner k) = block_buffer_tail (planner g)"
    using ok k by (simp_all add: planner_ok_def set_plan_block_def Let_def)
qed

text \<open>A block whose distance is used up has no step left.\<close>

lemma no_steps_left:
  assumes inv: "motion_inv g" and pl: "pl_block (stepper g) = Some i" and progress: "seg_progress g h"
    and zero: "f_eq mm (prep_mm_complete p)" "\<not> f_lt 0 mm" and left: "prep_steps_remaining p = f_ceil (f_mul (prep_step_per_mm p) mm)"
    and p: "prep (stepper h) = p" "prep_mm_complete p = prep_mm_complete (prep (stepper g))"
    and head: "segment_buffer_head (stepper h) = segment_next_head (stepper g)"
  shows "steps_left h = 0"
proof -
  have "f_nat mm 0" using preparing(9) [OF inv pl] by (intro zero_distance [OF zero]) (simp add: p(2))
  moreover have "segment_buffer_head (stepper h) \<noteq> segment_buffer_head (stepper g)"
    using inv queued_head [of g] by (simp add: head motion_inv_def)
  ultimately show ?thesis
    using progress f_nat_mul_zero [of "prep_step_per_mm p" mm "steps_left h"] left p(1) by (simp add: seg_progress_def)
qed

lemma segment_pushed:
  assumes inv: "motion_inv g" and pl: "pl_block (stepper g) = Some i" and progress: "seg_progress g h"
    and base: "prep_base p = prep_base ((prep (stepper g))\<lparr>prep_steps_remaining := prep_steps_remaining p\<rparr>)"
    and sg: "seg_st_block_index sg = prep_st_block_index p" "new_segment (w_cast (world g)) (prep (stepper g)) p sg"
    and left: "prep_steps_remaining p = f_ceil (f_mul (prep_step_per_mm p) mm)"
    and k: "k = set_plan_block i ((plan_block g i)\<lparr>pb_millimeters := mm\<rparr>) (g\<lparr>stepper := push_segment (put_segment sg p (stepper g))\<rparr>)"
    and h: "h = set_step_control (bit_true (sys_step_control (sys g)) STEP_CONTROL_END_MOTION) k
        \<or> h = plan_discard_current_block (k\<lparr>stepper := (stepper k)\<lparr>pl_block := None\<rparr>\<rparr>)
          \<and> f_eq mm (prep_mm_complete p) \<and> \<not> f_lt 0 mm \<or> h = k"
  shows "pushed g h i p sg (pl_block (stepper h)) mm"
proof -
  have ks: "stepper k = (push_segment (put_segment sg p (stepper g)))" "sys_position k = sys_position g"
    "planner k = planner (set_plan_block i ((plan_block g i)\<lparr>pb_millimeters := mm\<rparr>) g)"
    by (simp_all add: k set_plan_block_def)
  note plan = shortened_planner [OF inv pl ks(3)]
  from h consider (go) "stepper h = stepper k" "planner h = planner k" "sys_position h = sys_position k"
    | (discard) "h = plan_discard_current_block (k\<lparr>stepper := (stepper k)\<lparr>pl_block := None\<rparr>\<rparr>)" "f_eq mm (prep_mm_complete p)" "\<not> f_lt 0 mm"
    by (auto simp: set_step_control_def)
  then show ?thesis
  proof cases
    case go
    then have "plan_queue h = plan_queue k" "planner_ok h = planner_ok k" by (simp_all add: plan_queue_def planner_ok_def)
    with go show ?thesis using base sg ks plan pl by (simp add: pushed_def push_segment_def put_segment_def)
  next
    case discard
    have s: "planner h = planner (plan_discard_current_block k)" "stepper h = (push_segment (put_segment sg p (stepper g)))\<lparr>pl_block := None\<rparr>"
      "sys_position h = sys_position g" "pl_position (pl (planner h)) = pl_position (pl (planner g))"
      using ks plan(3) by (simp_all add: discard(1) plan_discard_current_block_def Let_def)
    have "plan_queue h = plan_queue (plan_discard_current_block k)" "planner_ok h = planner_ok (plan_discard_current_block k)"
      by (simp_all add: plan_queue_def planner_ok_def s(1))
    then have "planner_ok h" "plan_queue h = tl (plan_queue g)" using discard_queue [OF plan(2)] plan(1) by simp_all
    moreover have "steps_left h = 0"
      using base by (intro no_steps_left [OF inv pl progress discard(2,3) left]) (simp_all add: s(2) push_segment_def put_segment_def prep_base_def)
    ultimately show ?thesis using base sg s(2-4) by (simp add: pushed_def)
  qed
qed

lemma segment_motion:
  assumes inv: "motion_inv g" and run: "st_prep_segment i g = Some (c, h)" and pl: "pl_block (stepper g) = Some i"
    and room: "segment_buffer_tail (stepper g) \<noteq> segment_next_head (stepper g)" and progress: "seg_progress g h"
  shows "motion_inv h \<and> (\<forall>idx < 3. position_to_come h idx = position_to_come g idx)
    \<and> pl_position (pl (planner h)) = pl_position (pl (planner g))"
proof -
  have "i < 12" using inv preparing(7) [OF inv pl] by (simp add: motion_inv_def motion_indices)
  with run inv pl room have ok: "motion_ok h" by (auto simp: motion_inv_def intro: prep_segment_ok)
  from run show ?thesis
  proof (cases rule: prep_segment_cases)
    case (1 p sg)
    have "stepper h = put_segment sg p (stepper g)" "planner h = planner g" "sys_position h = sys_position g"
      by (simp_all add: 1(3) set_step_control_def)
    with bail_motion [OF inv ok 1(1)] show ?thesis by simp
  next
    case (2 p sg k mm)
    have push: "pushed g h i p sg (pl_block (stepper h)) mm"
      by (rule segment_pushed [OF inv pl progress 2(1,2,5,6,3,4)])
    then have "pl_position (pl (planner h)) = pl_position (pl (planner g))" by (simp add: pushed_def)
    with pushed_inv [OF inv pl push progress room ok] pushed_position [OF inv pl push progress room] show ?thesis by simp
  qed
qed

end
