(* ===== verification/Step_Runs.thy ===== *)
theory Step_Runs
  imports Step_Segments
begin

text \<open>
  No step is lost. Lines, segment preparation, step interrupts and replanning, in any order, keep the position
  to come equal to the position of the planner. After a restart it is so; when the planner has no block left,
  the counted interrupts empty the segment ring and leave the machine at the position of the planner.
\<close>

section \<open>Planning\<close>

text \<open>What planning may do to the stepper: take the block back from the preparation.\<close>

definition freed :: "grbl \<Rightarrow> grbl \<Rightarrow> bool" where
  "freed g h \<longleftrightarrow> (stepper h = stepper g \<or> stepper h = released (stepper g)) \<and> sys_position h = sys_position g"

lemma freed_refl [intro, simp]: "freed g g"
  by (simp add: freed_def)

lemma freed_trans [trans]: "freed g h \<Longrightarrow> freed h k \<Longrightarrow> freed g k"
proof -
  have "released (released s) = released s" for s by (simp add: released_def)
  then show "freed g h \<Longrightarrow> freed h k \<Longrightarrow> freed g k" by (auto simp: freed_def)
qed

lemma freed_simple [simp, intro]:
  "freed g (set_plan_block i b g)" "freed g (set_entry_speed_sqr i v g)" "freed g (set_planned i g)"
  "freed g (st_update_plan_block_parameters g)" "freed g (g\<lparr>planner := p\<rparr>)"
  by (auto simp: freed_def set_entry_speed_sqr_def set_plan_block_def set_planned_def released_def
      st_update_plan_block_parameters_def Let_def split: option.split)

lemmas freed_after [intro] = freed_simple [THEN freed_trans [rotated]]

lemma freed_steps: "freed g (reverse_step c i g)" "freed g (forward_step c i g)" "freed g (profile_step i v g)"
  by (auto simp: reverse_step_def forward_step_def profile_step_def Let_def)

lemma freed_passes:
  "freed g (plan_reverse_pass n c i g)" "freed g (plan_forward_pass n c i g)" "freed g (snd (plan_update_profiles n i v g))"
proof -
  show "freed g (plan_reverse_pass n c i g)"
    by (induction n arbitrary: c i g) (auto simp: round_simps simp del: round_defs(2,4,6) intro: freed_trans [OF freed_steps(1)])
  show "freed g (plan_forward_pass n c i g)"
    by (induction n arbitrary: c i g) (auto simp: round_simps simp del: round_defs(2,4,6) intro: freed_trans [OF freed_steps(2)])
  show "freed g (snd (plan_update_profiles n i v g))"
    by (induction n arbitrary: i v g) (auto simp: round_simps simp del: round_defs(2,4,6) intro: freed_trans [OF freed_steps(3)])
qed

lemma freed_recalculate: "freed g (planner_recalculate g)"
  by (auto simp: planner_recalculate_def Let_def simp del: round_defs
      intro: freed_trans [OF _ freed_passes(1)] freed_trans [OF _ freed_passes(2)])


text \<open>New blocks at the end of the queue, or none.\<close>

lemma planner_motion:
  assumes inv: "motion_inv g" and ok: "motion_ok h" "planner_ok h" and freed: "freed g h"
    and queue: "plan_queue h = plan_queue g @ bs" "\<forall>b \<in> set bs. good_plan b"
    and tail: "block_buffer_tail (planner h) = block_buffer_tail (planner g)"
  shows "motion_inv h"
    "idx < 3 \<Longrightarrow> position_to_come h idx = position_to_come g idx + sum_list (map (\<lambda>b. block_move b idx) bs)"
proof -
  let ?s = "stepper g"
  have pos: "sys_position h = sys_position g" using freed by (simp add: freed_def)
  have st: "stepper h = ?s \<or> pl_block ?s \<noteq> None \<and> stepper h = ?s\<lparr>pl_block := None,
      prep := (prep ?s)\<lparr>prep_recalculate_flag := bit_true (prep_recalculate_flag (prep ?s)) PREP_FLAG_RECALCULATE\<rparr>\<rparr>"
    using freed by (simp add: freed_def released_def split: if_split_asm)
  then have u: "unprepared (stepper h) = unprepared ?s"
    by (elim disjE) (simp_all add: unprepared_def bit_isfalse_iff PREP_FLAG_RECALCULATE_def)
  have same: "prep_index h = prep_index g" "steps_left h = steps_left g" "prep_mm_complete (prep (stepper h)) = prep_mm_complete (prep ?s)"
    "prep_steps_remaining (prep (stepper h)) = prep_steps_remaining (prep ?s)"
    and block: "pl_block (stepper h) = None \<or> pl_block (stepper h) = pl_block ?s
      \<and> prep_recalculate_flag (prep (stepper h)) = prep_recalculate_flag (prep ?s)"
    using st by (auto simp: steps_left_def)
  have "seg_queue h = seg_queue g" "counters h = counters g" using st by (auto simp: seg_queue_def counters_def)
  then have "exec_view h = exec_view g"
    using st pos u same(1) by (auto simp: exec_view_def)
  then have kept: "exec_kept g h" using inv by (intro exec_view_kept) (simp_all add: motion_inv_def)
  have first: "plan_queue h \<noteq> [] \<and> hd (plan_queue h) = hd (plan_queue g)" if "\<not> unprepared ?s"
    using inv that queue(1) by (simp add: motion_inv_def prep_inv_def)
  have "prep_inv h"
  proof (cases "unprepared ?s")
    case True
    then show ?thesis using inv kept u same by (simp add: motion_inv_def prep_inv_def exec_kept_def)
  next
    case False
    have "pl_block (stepper h) \<noteq> None \<longrightarrow> pl_block (stepper h) = Some (block_buffer_tail (planner g))
        \<and> bit_isfalse (prep_recalculate_flag (prep (stepper h))) PREP_FLAG_RECALCULATE"
      using inv False block by (auto simp: motion_inv_def prep_inv_def)
    with False show ?thesis using inv kept u same first [OF False] tail by (simp add: motion_inv_def prep_inv_def exec_kept_def)
  qed
  with kept ok inv queue show "motion_inv h" by (auto simp: motion_inv_def exec_kept_def)
  have "blocks_left h = blocks_left g @ bs"
    using inv queue(1) u by (auto simp: blocks_left_def motion_inv_def prep_inv_def)
  then show "idx < 3 \<Longrightarrow> position_to_come h idx = position_to_come g idx + sum_list (map (\<lambda>b. block_move b idx) bs)"
    using kept u same by (simp add: position_to_come_def block_ahead_def exec_kept_def)
qed

lemma replanning:
  assumes inv: "motion_inv g" and ok: "motion_ok h" and freed: "freed g h" and keep: "motions h = motions g" "planned_ok h"
  shows "motion_inv h \<and> (\<forall>idx < 3. position_to_come h idx = position_to_come g idx)
    \<and> pl_position (pl (planner h)) = pl_position (pl (planner g))"
proof -
  have "planner_ok g" using inv by (simp add: motion_inv_def)
  note plan = planning_keeps [OF this keep]
  have "block_buffer_tail (planner h) = block_buffer_tail (planner g)" "pl_position (pl (planner h)) = pl_position (pl (planner g))"
    using keep(1) by (simp_all add: motions_def)
  with planner_motion [OF inv ok plan(1) freed, of "[]"] plan(2) show ?thesis by simp
qed

lemma planned_velocity: "planned_ok (plan_update_velocity_profile_parameters g) = planned_ok g"
proof -
  have "planned_ok (snd (plan_update_profiles n i v g)) = planned_ok g" for n i v
    by (induction n i v g rule: plan_update_profiles.induct) (simp_all add: Let_def)
  moreover have "planned_ok (h\<lparr>planner := (planner h)\<lparr>pl := x\<rparr>\<rparr>) = planned_ok h" for h x by (simp add: planned_ok_def)
  ultimately show ?thesis by (simp add: plan_update_velocity_profile_parameters_def Let_def split_def)
qed

lemma replanning_operations:
  assumes "motion_inv g" and "h = plan_cycle_reinitialize g \<or> h = plan_update_velocity_profile_parameters g
    \<or> h = st_update_plan_block_parameters g"
  shows "motion_inv h \<and> (\<forall>idx < 3. position_to_come h idx = position_to_come g idx)
    \<and> pl_position (pl (planner h)) = pl_position (pl (planner g))"
proof -
  have g: "motion_ok g" "planned_ok g" using assms(1) by (simp_all add: motion_inv_def planner_ok_iff)
  have tail: "block_buffer_tail (planner g) < BLOCK_BUFFER_SIZE" using g(1) by (simp add: motion_indices BLOCK_BUFFER_SIZE_def)
  have "freed g (plan_cycle_reinitialize g)"
    by (auto simp: plan_cycle_reinitialize_def Let_def intro: freed_trans [OF _ freed_recalculate])
  moreover have "planned_ok (plan_cycle_reinitialize g)"
    using tail motions_update [of g] by (auto simp: plan_cycle_reinitialize_def Let_def motions_def intro!: planned_recalculate)
  moreover have "freed g (plan_update_velocity_profile_parameters g)"
    by (auto simp: plan_update_velocity_profile_parameters_def Let_def split_def intro: freed_passes simp del: round_defs)
  ultimately show ?thesis
    using assms(2) replanning [OF assms(1), of h] g reinitialize_ok [of g] velocity_ok [of g] update_parameters_ok [of g]
    by (auto simp: planned_velocity)
qed


section \<open>A line\<close>

text \<open>A line short enough that its steps fit the precision of a float.\<close>

definition short_line :: "grbl \<Rightarrow> f32 list \<Rightarrow> bool" where
  "short_line g target \<longleftrightarrow> foldl max 0 (line_steps g target) < 2 ^ 24"

lemma max_three: "length xs = 3 \<Longrightarrow> idx < 3 \<Longrightarrow> unat (xs ! idx) \<le> unat (foldl max 0 xs :: u32)"
proof -
  assume "length xs = 3" "idx < 3"
  then obtain a b c where "xs = [a, b, c]" by (auto simp: numeral_3_eq_3 length_Suc_conv)
  moreover have "idx \<in> {0, 1, 2}" using \<open>idx < 3\<close> by auto
  ultimately show ?thesis by (auto simp: word_le_nat_alt [symmetric] max_def)
qed

lemma empty_line:
  assumes inv: "motion_inv g" and line: "plan_buffer_line target pd g = (False, h)"
    and normal: "bit_isfalse (pd_condition pd) PL_COND_FLAG_SYSTEM_MOTION"
  shows "motion_inv h \<and> (\<forall>idx < 3. position_to_come h idx = position_to_come g idx)
    \<and> pl_position (pl (planner h)) = pl_position (pl (planner g))"
proof -
  let ?p = "planner g"
  obtain b where h: "h = set_plan_block (block_buffer_head ?p) b g"
    using line normal by (auto simp: plan_buffer_line_def Let_def split_def bit_macros split: if_split_asm)
  have ok: "motion_ok h" using buffer_line_ok [of g target pd] line inv by (simp add: motion_inv_def)
  have ix: "block_buffer_head ?p < BLOCK_BUFFER_SIZE" "block_buffer_tail ?p < BLOCK_BUFFER_SIZE" "planner_ok g"
    using inv by (simp_all add: motion_inv_def planner_ok_def Let_def)
  have plan: "planner_ok h" "block_buffer_tail (planner h) = block_buffer_tail ?p" "pl_position (pl (planner h)) = pl_position (pl ?p)"
    using ix(3) by (simp_all add: h planner_ok_def set_plan_block_def Let_def)
  have "plan_queue h = plan_queue g"
    using plan.index_neq_head [OF ix(1,2)]
    by (auto simp: h plan_queue_def set_plan_block_def ring_list_def plan_ring_size)
  with planner_motion [OF inv ok plan(1) _ _ _ plan(2), of "[]"] plan(3) show ?thesis by (simp add: h)
qed

lemma freed_line: "freed g (snd (plan_buffer_line target pd g))"
  by (auto simp: plan_buffer_line_def Let_def split_def intro: freed_trans [OF _ freed_recalculate])

lemma full_line:
  assumes inv: "motion_inv g" and line: "plan_buffer_line target pd g = (True, h)" and room: "\<not> plan_check_full_buffer g"
    and normal: "bit_isfalse (pd_condition pd) PL_COND_FLAG_SYSTEM_MOTION"
    and positive: "\<And>idx. idx < 3 \<Longrightarrow> f_positive (set_steps_per_mm (settings g) ! idx)" and short: "short_line g target"
  shows "motion_inv h \<and> (\<forall>idx < 3. position_to_come h idx + pl_position (pl (planner g)) ! idx
    = position_to_come g idx + pl_position (pl (planner h)) ! idx)"
proof -
  obtain b k where k: "motions k = (map motion ((block_buffer (planner g))[unat (block_buffer_head (planner g)) := b]),
       block_buffer_tail (planner g), next_buffer_head (planner g), plan_next_block_index (next_buffer_head (planner g)),
       plan_target_steps g target)"
    and kp: "planned_ok k = planned_ok g" and h: "h = planner_recalculate k"
    and b: "pb_steps b = line_steps g target" "pb_step_event_count b = foldl max 0 (pb_steps b)" "pb_step_event_count b \<noteq> 0"
    and dir: "pb_direction_bits b = plan_direction_bits
           (plan_deltas g (plan_target_steps g target) (pl_position (pl (planner g))))"
    by (rule buffer_line_enters [OF line normal]) blast
  have g: "planner_ok g" "planned_ok k" using inv kp by (simp_all add: motion_inv_def planner_ok_iff)
  note enter = enter_queue [OF g(1) room g(2) k]
  have queue: "planner_ok h" "plan_queue h = plan_queue g @ [motion b]"
    using recalculate_queue [OF enter(1)] enter(2) by (simp_all add: h)
  have pos: "block_buffer_tail (planner h) = block_buffer_tail (planner g)" "pl_position (pl (planner h)) = plan_target_steps g target"
    using k motions_recalculate [of k] by (simp_all add: h motions_def)
  have ok: "motion_ok h" using buffer_line_ok [of g target pd] line inv by (simp add: motion_inv_def)
  have freed: "freed g h" using freed_line [of g target pd] line by simp
  have "length (line_steps g target) = 3" by (simp add: line_steps_def)
  moreover have "unat (foldl max 0 (line_steps g target)) < 2 ^ 24" using short by (simp add: short_line_def word_less_nat_alt)
  ultimately have "good_plan (motion b)"
    using b max_three [of "line_steps g target"] by (auto simp: good_plan_def motion_def unat_gt_0)
  then have new: "\<forall>c \<in> set [motion b]. good_plan c" by simp
  have "block_move (motion b) idx = block_move b idx" for idx by (simp add: block_move_def motion_def)
  moreover have "pl_position (pl (planner g)) ! idx + block_move b idx = plan_target_steps g target ! idx" if "idx < 3" for idx
    by (rule block_reaches [OF b(1) that positive [OF that] dir])
  ultimately show ?thesis
    using planner_motion [OF inv ok queue(1) freed queue(2) new pos(1)] pos(2) by (auto simp: add.assoc add.commute)
qed

section \<open>Runs\<close>

text \<open>
  The operations that move the machine, in any order: the step interrupt, a round of the preparation that
  makes progress, a new line, and replanning; and whatever leaves motion alone.
\<close>

inductive motion_step :: "grbl \<Rightarrow> grbl \<Rightarrow> bool" where
  interrupt: "motion_step g (isr_timer1_compa g)"
| prepare: "segment_buffer_tail (stepper g) \<noteq> segment_next_head (stepper g) \<Longrightarrow> \<not> sc_true STEP_CONTROL_EXECUTE_SYS_MOTION g
    \<Longrightarrow> st_prep_block_ready g = Some (i, k) \<Longrightarrow> st_prep_segment i k = Some (c, h) \<Longrightarrow> seg_progress k h \<Longrightarrow> motion_step g h"
| line: "plan_buffer_line target pd g = (r, h) \<Longrightarrow> \<not> plan_check_full_buffer g
    \<Longrightarrow> bit_isfalse (pd_condition pd) PL_COND_FLAG_SYSTEM_MOTION
    \<Longrightarrow> (\<And>idx. idx < 3 \<Longrightarrow> f_positive (set_steps_per_mm (settings g) ! idx)) \<Longrightarrow> short_line g target \<Longrightarrow> motion_step g h"
| reinitialize: "motion_step g (plan_cycle_reinitialize g)"
| override: "motion_step g (plan_update_velocity_profile_parameters g)"
| update: "motion_step g (st_update_plan_block_parameters g)"
| wake_up: "motion_step g (st_wake_up g)"
| go_idle: "motion_step g (st_go_idle g)"
| elsewhere: "stepper h = stepper g \<Longrightarrow> planner h = planner g \<Longrightarrow> sys_position h = sys_position g \<Longrightarrow> motion_step g h"

lemma timers_motion:
  assumes inv: "motion_inv g" and "h = st_wake_up g \<or> h = st_go_idle g \<or> stepper h = stepper g \<and> planner h = planner g \<and> sys_position h = sys_position g"
  shows "motion_inv h \<and> (\<forall>idx < 3. position_to_come h idx = position_to_come g idx) \<and> pl_position (pl (planner h)) = pl_position (pl (planner g))"
proof -
  have busy: "\<not> busy (stepper g)" "motion_ok g" using inv by (simp_all add: motion_inv_def exec_inv_def)
  have frame: "planner h = planner g" "prep (stepper h) = prep (stepper g)" "pl_block (stepper h) = pl_block (stepper g)"
    using assms(2) by (auto simp: st_wake_up_def st_go_idle_def st_set_enable_pin_def Let_def)
  have "exec_view h = exec_view g"
    using assms(2) busy(1)
    by (auto simp: st_wake_up_def st_go_idle_def st_set_enable_pin_def Let_def exec_view_def counters_def seg_queue_def unprepared_def)
  then have "exec_kept g h" using inv by (intro exec_view_kept) (simp_all add: motion_inv_def)
  moreover have "motion_ok h"
    using assms(2) busy(2) wake_up_ok [of g] idle_ok [of g] by (elim disjE) (simp_all add: motion_ok_def)
  ultimately show ?thesis using exec_kept_motion [OF _ _ inv frame] frame by simp
qed

lemma step_motion:
  assumes "motion_step g h" and "motion_inv g"
  shows "motion_inv h \<and> (\<forall>idx < 3. position_to_come h idx + pl_position (pl (planner g)) ! idx
    = position_to_come g idx + pl_position (pl (planner h)) ! idx)"
  using assms
proof cases
  case interrupt
  have "exec_kept g h" "motion_ok h" unfolding interrupt using assms(2) by (simp_all add: motion_inv_def interrupt_exec timer1_ok)
  moreover have "planner h = planner g" "prep (stepper h) = prep (stepper g)" "pl_block (stepper h) = pl_block (stepper g)"
    by (simp_all add: interrupt interrupt_frame)
  ultimately show ?thesis using exec_kept_motion [OF _ _ assms(2)] by simp
next
  case (prepare i k c)
  note ready = ready_motion [OF assms(2) prepare(3,2,1)]
  have "segment_buffer_tail (stepper k) \<noteq> segment_next_head (stepper k)"
    using block_ready [OF prepare(3)] prepare(1) assms(2) by (simp add: motion_inv_def)
  with segment_motion [of k i c h] ready prepare(4,5) show ?thesis by simp
next
  case (line target pd r)
  show ?thesis
  proof (cases r)
    case True
    with line full_line [OF assms(2)] show ?thesis by simp
  next
    case False
    with line empty_line [OF assms(2)] show ?thesis by simp
  qed
next
  case reinitialize
  with replanning_operations [OF assms(2), of h] show ?thesis by simp
next
  case override
  with replanning_operations [OF assms(2), of h] show ?thesis by simp
next
  case update
  with replanning_operations [OF assms(2), of h] show ?thesis by simp
qed (use timers_motion [OF assms(2), of h] in simp_all)

lemma run_motion:
  assumes "motion_step\<^sup>*\<^sup>* g h" and "motion_inv g" and "steps_conserved g"
  shows "motion_inv h \<and> steps_conserved h"
  using assms
proof (induction rule: rtranclp_induct)
  case (step h k)
  then have h: "motion_inv h" "steps_conserved h" by simp_all
  with step_motion [OF step.hyps(2) h(1)] show ?case by (auto simp: steps_conserved_def)
qed simp

section \<open>A restart\<close>

text \<open>The part of the main loop's initialisation that concerns motion (\<open>main.c\<close>).\<close>

definition restarted :: "grbl \<Rightarrow> grbl" where
  "restarted g = plan_sync_position (st_reset (plan_reset g))"

lemma restarted_fields:
  "planner (restarted g) = (planner g)\<lparr>block_buffer_tail := 0, block_buffer_head := 0, next_buffer_head := 1,
     block_buffer_planned := 0, pl := planner_t_zero\<lparr>pl_position := sys_position g\<rparr>\<rparr>"
  "sys_position (restarted g) = sys_position g" "settings (restarted g) = settings g" "sys (restarted g) = sys g" "world (restarted g) = world g"
  "stepper (restarted g) = (let m = stepper (st_generate_step_dir_invert_masks g) in (stepper g)\<lparr>prep := st_prep_zero,
     st := stepper_t_zero\<lparr>st_dir_outbits := dir_port_invert_mask m\<rparr>, pl_block := None, segment_buffer_tail := 0,
     segment_buffer_head := 0, segment_next_head := 1, busy := False,
     step_port_invert_mask := step_port_invert_mask m, dir_port_invert_mask := dir_port_invert_mask m\<rparr>)"
  by (simp_all add: restarted_def plan_sync_position_def plan_reset_def plan_reset_buffer_def st_reset_def st_go_idle_def
      st_set_enable_pin_def st_generate_step_dir_invert_masks_def Let_def)

lemma restarted_motion:
  assumes "motion_ok g"
  shows "motion_inv (restarted g)" "steps_conserved (restarted g)"
proof -
  let ?r = "restarted g"
  have ok: "motion_ok ?r" using assms by (simp add: restarted_def plan_reset_ok st_reset_ok plan_sync_ok)
  have queues: "seg_queue ?r = []" "plan_queue ?r = []"
    by (simp_all add: seg_queue_def plan_queue_def ring_list_def ring_len_def restarted_fields Let_def)
  have none: "exec_segment ?r = None" "exec_index ?r = 0" "prep_index ?r = 0" "unprepared (stepper ?r)"
    by (simp_all add: restarted_fields Let_def stepper_t_zero_def st_prep_zero_def unprepared_def bit_macros)
  have waits: "waiting ?r = []" "wait_indices ?r = []" by (simp_all add: waiting_def wait_indices_def none queues)
  have "exec_inv ?r"
    by (simp add: exec_inv_def none waits) (simp add: restarted_fields Let_def ring_next_def SEGMENT_BUFFER_SIZE_def)
  moreover have "prep_inv ?r"
    by (simp add: prep_inv_def none last_index_def waits) (simp add: restarted_fields Let_def st_prep_zero_def)
  moreover have "planner_ok ?r"
    using assms by (simp add: motion_ok_def planner_typed_def planner_ok_def restarted_fields BLOCK_BUFFER_SIZE_def
        plan_next_block_index_def ring_next_def Let_def)
  ultimately show "motion_inv ?r" using ok by (simp add: motion_inv_def queues)
  have "block_ahead ?r idx = axis_now ?r idx" for idx
    by (simp add: block_ahead_def none queue_ahead_def waits axis_ahead_def)
  moreover have "blocks_left ?r = []" by (simp add: blocks_left_def none queues)
  ultimately show "steps_conserved ?r"
    by (simp add: steps_conserved_def position_to_come_def axis_now_def) (simp add: restarted_fields)
qed

section \<open>The ring runs empty\<close>

lemma interrupt_motion:
  assumes "motion_inv g"
  shows "motion_inv (isr_timer1_compa g)" "steps_conserved g \<Longrightarrow> steps_conserved (isr_timer1_compa g)"
    "planner (isr_timer1_compa g) = planner g" "unprepared (stepper (isr_timer1_compa g)) = unprepared (stepper g)"
    "ticks_left (isr_timer1_compa g) = ticks_left g - 1"
  using step_motion [OF motion_step.interrupt assms] interrupt_exec [of g] assms
  by (auto simp: motion_inv_def interrupt_frame steps_conserved_def)

lemma interrupts_motion:
  assumes "motion_inv g" and "steps_conserved g"
  defines "h \<equiv> \<lambda>n. (isr_timer1_compa ^^ n) g"
  shows "motion_inv (h n) \<and> steps_conserved (h n) \<and> planner (h n) = planner g
    \<and> unprepared (stepper (h n)) = unprepared (stepper g) \<and> ticks_left (h n) = ticks_left g - n"
  unfolding h_def by (induction n) (simp_all add: assms interrupt_motion)

text \<open>Without interrupts left nothing is in execution, and without blocks nothing is to come.\<close>

lemma no_ticks:
  assumes "motion_inv g" and "ticks_left g = 0"
  shows "exec_segment g = None" "seg_queue g = []"
proof -
  have inv: "exec_inv g" using assms(1) by (simp add: motion_inv_def)
  show none: "exec_segment g = None"
    using inv assms(2) by (auto simp: exec_inv_def ticks_left_def exec_ticks_def unat_eq_zero split: if_split_asm)
  show "seg_queue g = []"
    using inv assms(2) none by (cases "seg_queue g") (auto simp: exec_inv_def ticks_left_def waiting_def)
qed

lemma nothing_to_come:
  assumes "motion_inv g" and "steps_conserved g" and "ticks_left g = 0" and "plan_queue g = []"
  shows "sys_position g = pl_position (pl (planner g))"
proof (rule nth_equalityI)
  have ok: "motion_ok g" using assms(1) by (simp add: motion_inv_def)
  then show "length (sys_position g) = length (pl_position (pl (planner g)))" by (simp add: motion_ok_def planner_typed_def)
  fix idx
  assume "idx < length (sys_position g)"
  then have idx: "idx < 3" using ok by (simp add: motion_ok_def)
  have "unprepared (stepper g)" using assms(1,4) by (auto simp: motion_inv_def prep_inv_def split: if_split_asm)
  then have "position_to_come g idx = sys_position g ! idx"
    using no_ticks [OF assms(1,3)] assms(4)
    by (simp add: position_to_come_def block_ahead_def blocks_left_def queue_ahead_def waiting_def axis_ahead_def axis_now_def)
  then show "sys_position g ! idx = pl_position (pl (planner g)) ! idx"
    using assms(2) idx by (simp add: steps_conserved_def)
qed

end
