(* ===== verification/Step_Example.thy ===== *)
theory Step_Example
  imports Step_Runs
begin

text \<open>
  A concrete run: a line of one millimetre, one step per millimetre, is planned, taken up by the segment
  generator and cut into a single segment. Every float operation of the planner and of the velocity profile is
  evaluated by the rules of \<open>Cfloat\<close>; square roots through the correctness of \<open>isqrt\<close>.
\<close>

section \<open>Evaluating floats\<close>

lemma round_eval:
  assumes "2 ^ j \<le> m" and "m < 2 ^ Suc j" and "n = int (round_sig m e (max (e + int j - 23) (- 149))) + (max (e + int j - 23) (- 149) + 149) * 2 ^ 23"
    and "n < 255 * 2 ^ 23"
  shows "f_round s m e = sign_bits s (nat n)"
proof -
  have L: "bit_len m = Suc j" by (rule bit_len_eq [OF assms(1,2)])
  have m: "0 < m" using assms(1) by (metis gr0I le_zero_eq power_not_zero zero_neq_numeral)
  have q: "max (e + int j - 23) (- 149) = max (e + int (bit_len m) - 24) (- 149)" by (simp add: L)
  have "f_round s m e = (if nat n \<ge> 255 * 2 ^ 23 then f_inf s else sign_bits s (nat n))"
    by (rule f_round_eq [OF m q]) (simp only: assms(3))
  moreover have "\<not> 255 * 2 ^ 23 \<le> nat n" using assms(4) by (cases "0 \<le> n") (simp_all add: le_nat_iff)
  ultimately show ?thesis by simp
qed

lemma round_zero: "f_round s 0 e = sign_bits s 0"
  by (simp add: f_round_def)

lemma bit_len_24: "bit_len 8388608 = 24" "bit_len 12288000 = 24"
  using bit_len_eq [of 23 8388608] bit_len_eq [of 23 12288000] by simp_all

lemma isqrt_bounds: "isqrt n * isqrt n \<le> n \<and> n < (isqrt n + 1) * (isqrt n + 1)"
proof (induction n rule: isqrt.induct)
  case (1 n)
  show ?case
  proof (cases "n = 0")
    case False
    define r where "r = isqrt (n div 4)"
    have "r * r \<le> n div 4" "n div 4 < (r + 1) * (r + 1)" using 1 False by (simp_all add: r_def)
    then have "(2 * r) * (2 * r) \<le> n" "n < (2 * r + 2) * (2 * r + 2)" by (simp_all add: algebra_simps)
    with False show ?thesis by (subst (1 2 3 4) isqrt.simps) (auto simp: r_def [symmetric] Let_def algebra_simps)
  qed (simp add: isqrt.simps [of 0])
qed

lemma isqrt_eq: "r * r \<le> n \<Longrightarrow> n < (r + 1) * (r + 1) \<Longrightarrow> isqrt n = r"
proof -
  assume r: "r * r \<le> n" "n < (r + 1) * (r + 1)"
  have "isqrt n \<le> r"
  proof (rule ccontr)
    assume "\<not> isqrt n \<le> r"
    then have "(r + 1) * (r + 1) \<le> isqrt n * isqrt n" by (intro mult_le_mono) simp_all
    with isqrt_bounds [of n] r show False by simp
  qed
  moreover have "r \<le> isqrt n"
  proof (rule ccontr)
    assume "\<not> r \<le> isqrt n"
    then have "(isqrt n + 1) * (isqrt n + 1) \<le> r * r" by (intro mult_le_mono) simp_all
    with isqrt_bounds [of n] r show False by simp
  qed
  ultimately show ?thesis by simp
qed

lemma float_decode:
  "f_decode 0x3F800000 = FNum False 8388608 (- 23)" "f_decode 0x45BB8000 = FNum False 12288000 (- 11)" "f_decode 0x47800000 = FNum False 8388608 (- 7)" "f_decode 0x4D800000 = FNum False 8388608 (5)" "f_decode 0x3FA00000 = FNum False 10485760 (- 23)" "f_decode 0x3F000000 = FNum False 8388608 (- 24)" "f_decode 0x31000000 = FNum False 8388608 (- 52)" "f_decode 0x4F800000 = FNum False 8388608 (9)" "f_decode 0x40000000 = FNum False 8388608 (- 22)" "f_decode 0x4E000000 = FNum False 8388608 (6)" "f_decode 0x392EC33E = FNum False 11453246 (- 36)" "f_decode 0x472EC33E = FNum False 11453246 (- 8)" "f_decode 0x46AEC33E = FNum False 11453246 (- 9)" "f_decode 0x46800000 = FNum False 8388608 (- 9)" "f_decode 0x38800000 = FNum False 8388608 (- 37)" "f_decode 0x38DD867C = FNum False 14517884 (- 37)" "f_decode 0x406E9BFA = FNum False 15637498 (- 22)" "f_decode 0xBE800000 = FNum True 8388608 (- 25)" "f_decode 0xC02E9BFA = FNum True 11443194 (- 22)" "f_decode 0x41000000 = FNum False 8388608 (- 20)" "f_decode 0x39000000 = FNum False 8388608 (- 36)"
  "f_decode 0 = FNum False 0 (- 149)"
  by (simp_all add: f_decode_def bit_iff_odd Let_def)

lemmas float_neg = float_decode [THEN decode_neg]

lemma float_mul:
  "f_mul 0x3F800000 0x3F800000 = 0x3F800000"
  "f_mul 0 0x3F800000 = 0"
  "f_mul 0x47800000 0x47800000 = 0x4F800000"
  "f_mul 0x31000000 0 = 0"
  "f_mul 0x3F000000 0x3F800000 = 0x3F000000"
  "f_mul 0x31000000 0x4F800000 = 0x41000000"
  "f_mul 0x40000000 0x4D800000 = 0x4E000000"
  "f_mul 0x4E000000 0x3F000000 = 0x4D800000"
  "f_mul 0x4D800000 0x392EC33E = 0x472EC33E"
  "f_mul 0x3F000000 0x472EC33E = 0x46AEC33E"
  "f_mul 0x392EC33E 0x46AEC33E = 0x406E9BFA"
  "f_mul 0x40000000 0x3F000000 = 0x3F800000"
  "f_mul 0x4D800000 0x38DD867C = 0x46DD867C"
  "f_mul 0x3F800000 0 = 0"
  by (simp_all add: f_mul_def round_zero float_decode round_eval [where j = 46] round_sig_def sign_bits_def Let_def)

lemma float_div:
  "f_div 0x3F800000 0x45BB8000 = 0x392EC33E"
  "f_div 0x3F800000 0x3F800000 = 0x3F800000"
  "f_div 0 0x3F800000 = 0"
  "f_div 0x47800000 0x3F800000 = 0x47800000"
  "f_div 0x4D800000 0x3F800000 = 0x4D800000"
  "f_div 0x3FA00000 0x3F800000 = 0x3FA00000"
  "f_div 0x3F000000 0x4D800000 = 0x31000000"
  "f_div 0x3F800000 0x46800000 = 0x38800000"
  by (simp_all add: f_div_def bit_len_24 round_zero float_decode round_eval [where j = 51] round_eval [where j = 52] round_sig_def sign_bits_def Let_def)

lemma float_add:
  "f_add 0 0x3F800000 = 0x3F800000"
  "f_add 0x3F800000 0 = 0x3F800000"
  "f_add 0x4D800000 0 = 0x4D800000"
  "f_add 0 0x46AEC33E = 0x46AEC33E"
  "f_add 0 0x46800000 = 0x46800000"
  "f_add 0 0x38800000 = 0x38800000"
  "f_add 0x46800000 0 = 0x46800000"
  "f_add 0x38800000 0x38800000 = 0x39000000"
  by (simp_all add: f_add_def signed_sig_def float_decode round_eval [where j = 24] round_eval [where j = 135] round_eval [where j = 149] round_eval [where j = 163] round_eval [where j = 177] round_sig_def sign_bits_def Let_def)

lemma float_sub:
  "f_sub 0 0 = 0"
  "f_sub 0x4F800000 0 = 0x4F800000"
  "f_sub 0x3F800000 0x3FA00000 = 0xBE800000"
  "f_sub 0x3F800000 0x406E9BFA = 0xC02E9BFA"
  "f_sub 0x3F800000 0x3F000000 = 0x3F000000"
  "f_sub 0x392EC33E 0x38800000 = 0x38DD867C"
  "f_sub 0x3F000000 0 = 0x3F000000"
  by (simp_all add: f_sub_def f_add_def float_neg signed_sig_def float_decode round_eval [where j = 21] round_eval [where j = 23] round_eval [where j = 24] round_eval [where j = 148] round_eval [where j = 181] round_sig_def sign_bits_def Let_def)

lemma float_sqrt: "f_sqrt 0 = 0" "f_sqrt 0x3F800000 = 0x3F800000" "f_sqrt 0x4D800000 = 0x46800000"
  using isqrt_eq [of "2 ^ 39" "2 ^ 78"]
  by (simp_all add: f_sqrt_def float_decode sign_bits_def round_eval [where j = 40] round_sig_def Let_def)

lemmas float_order = f_lt_def f_le_def f_eq_def f_cmp_def signed_sig_def float_decode

lemma float_constants:
  "f_of_int 1 = 0x3F800000" "f_of_int 2 = 0x40000000" "f_half = 0x3F000000" "f_two = 0x40000000" "DT_SEGMENT = 0x392EC33E"
  "REQ_MM_INCREMENT_SCALAR = 0x3FA00000" "SOME_LARGE_VALUE = 0x7E967699" "MINIMUM_FEED_RATE = 0x3F800000"
proof -
  show ints: "f_of_int 1 = 0x3F800000" "f_of_int 2 = 0x40000000"
    by (simp_all add: f_of_int_def round_eval [where j = 0] round_eval [where j = 1] round_sig_def sign_bits_def Let_def)
  have "f_of_int 6000 = 0x45BB8000"
    by (simp add: f_of_int_def round_eval [where j = 12] round_sig_def sign_bits_def Let_def)
  with ints show "f_two = 0x40000000" "DT_SEGMENT = 0x392EC33E" "MINIMUM_FEED_RATE = 0x3F800000"
    by (simp_all add: f_two_def DT_SEGMENT_def MINIMUM_FEED_RATE_def float_div)
  show "f_half = 0x3F000000" "REQ_MM_INCREMENT_SCALAR = 0x3FA00000" "SOME_LARGE_VALUE = 0x7E967699"
    by (simp_all add: f_half_def REQ_MM_INCREMENT_SCALAR_def SOME_LARGE_VALUE_def f_dec_def round_eval [where j = 31]
        round_eval [where j = 35] round_eval [where j = 155] round_sig_def sign_bits_def Let_def)
qed

section \<open>A line\<close>

definition demo :: grbl where
  "demo = grbl_zero\<lparr>settings := settings_zero\<lparr>set_steps_per_mm := [0x3F800000, 0x3F800000, 0x3F800000],
     set_max_rate := [0x47800000, 0x47800000, 0x47800000],
     set_acceleration := [0x4D800000, 0x4D800000, 0x4D800000]\<rparr>\<rparr>"

definition demo_b where "demo_b = plan_block_zero\<lparr>pb_steps := [1, 0, 0], pb_step_event_count := 1, pb_condition := 4,
    pb_millimeters := 0x3F800000, pb_acceleration := 0x4D800000, pb_rapid_rate := 0x47800000, pb_programmed_rate := 0x47800000\<rparr>"

definition demo_pd where "demo_pd = \<lparr>pd_feed_rate = 0x47800000, pd_spindle_speed = 0, pd_condition = 4\<rparr>"

lemma demo_steps: "plan_target_steps (restarted demo) [0x3F800000, 0, 0] = [1, 0, 0]"
  by (simp add: plan_target_steps_def restarted_fields demo_def float_mul f_lround_def f_round_int_def float_decode signed_sig_def)

lemma demo_values: "plan_block_values (restarted demo) (plan_block_zero\<lparr>pb_condition := 4, pb_steps := [1, 0, 0], pb_step_event_count := 1, pb_direction_bits := 0\<rparr>) [0x3F800000, 0, 0] 0x47800000
  = (demo_b, [0x3F800000, 0, 0])"
  by (simp add: plan_block_values_def restarted_fields demo_def convert_delta_vector_to_unit_vector_def limit_value_by_axis_maximum_def
     f_min_def f_nonzero_def f_abs_def float_mul float_div float_add float_sqrt float_constants float_order demo_b_def bit_macros PL_COND_FLAG_RAPID_MOTION_def PL_COND_FLAG_INVERSE_TIME_def PL_COND_FLAG_SYSTEM_MOTION_def Let_def plan_block_zero_def f_decode_def)


definition demo_planned :: "grbl \<Rightarrow> bool" where
  "demo_planned h \<longleftrightarrow> h = (restarted demo)\<lparr>planner := planner h\<rparr>
     \<and> block_buffer (planner h) = (replicate 12 plan_block_zero)[0 := demo_b]
     \<and> block_buffer_tail (planner h) = 0 \<and> block_buffer_head (planner h) = 1 \<and> pl_position (pl (planner h)) = [1, 0, 0]"

lemma demo_planned_same:
  assumes "demo_planned h"
  shows "stepper h = stepper (restarted demo)" "sys h = sys demo" "settings h = settings demo" "sys_position h = [0, 0, 0]"
proof -
  have "h = (restarted demo)\<lparr>planner := planner h\<rparr>" using assms by (simp add: demo_planned_def)
  then obtain p where "h = (restarted demo)\<lparr>planner := p\<rparr>" by blast
  then show "stepper h = stepper (restarted demo)" "sys h = sys demo" "settings h = settings demo" "sys_position h = [0, 0, 0]"
    by (simp_all add: restarted_fields(2-5) demo_def grbl_zero_def)
qed

lemma demo_line: "\<exists>h. plan_buffer_line [0x3F800000, 0, 0] demo_pd (restarted demo) = (True, h) \<and> demo_planned h"
proof -
  let ?r = "plan_buffer_line [0x3F800000, 0, 0] demo_pd (restarted demo)"
  have pos: "pl_position (pl (planner (restarted demo))) = [0, 0, 0]" "sys_position demo = [0, 0, 0]" by (simp_all add: restarted_fields demo_def grbl_zero_def)
  have delta: "plan_deltas (restarted demo) [1, 0, 0] [0, 0, 0] = [0x3F800000, 0, 0]"
  proof -
    have "f_of_int 0 = 0" by (simp add: f_of_int_def round_zero sign_bits_def)
    then show ?thesis by (simp add: plan_deltas_def f_of_i32_def float_constants restarted_fields demo_def float_div)
  qed
  have dirs: "plan_direction_bits [0x3F800000, 0, 0] = 0"
    by (simp add: plan_direction_bits_def float_order Let_def)
  have nominal: "plan_compute_profile_nominal_speed (restarted demo) demo_b = 0x47800000"
    by (simp add: plan_compute_profile_nominal_speed_def demo_b_def PL_COND_FLAG_RAPID_MOTION_def PL_COND_FLAG_NO_FEED_OVERRIDE_def
      bit_macros float_constants float_order Let_def)
  have params: "plan_compute_profile_parameters demo_b 0x47800000 0 = demo_b"
    by (simp add: plan_compute_profile_parameters_def demo_b_def plan_block_zero_def float_order f_mul_def round_zero sign_bits_def Let_def)
  have planner: "planner (restarted demo) = planner_zero\<lparr>next_buffer_head := 1\<rparr>"
    by (simp add: restarted_fields demo_def grbl_zero_def planner_zero_def planner_t_zero_def)
  have "fst ?r \<and> demo_planned (snd ?r)"
    using pos unfolding planner
    by (simp add: demo_planned_def plan_buffer_line_def demo_steps demo_pd_def PL_COND_FLAG_SYSTEM_MOTION_def bit_macros labs32_def delta dirs
        demo_values nominal params planner planner_recalculate_def plan_prev_block_index_def set_plan_block_def planner_zero_def
        planner_t_zero_def Let_def)
  then show ?thesis by (metis prod.collapse)
qed

definition demo_prep :: st_prep_t where
  "demo_prep = st_prep_zero\<lparr>prep_st_block_index := 1, prep_steps_remaining := 0x3F800000, prep_step_per_mm := 0x3F800000,
     prep_req_mm_increment := 0x3FA00000, prep_maximum_speed := 0x46800000, prep_accelerate_until := 0x3F000000,
     prep_decelerate_after := 0x3F000000\<rparr>"

lemma demo_profile:
  assumes "plan_block k 0 = demo_b" "sys k = sys demo" "plan_get_exec_block_exit_speed_sqr k = 0"
    "prep (stepper k) = st_prep_zero\<lparr>prep_st_block_index := 1, prep_steps_remaining := 0x3F800000, prep_step_per_mm := 0x3F800000,
       prep_req_mm_increment := 0x3FA00000\<rparr>"
  shows "st_compute_profile 0 k = set_prep demo_prep k"
proof -
  have nominal: "plan_compute_profile_nominal_speed k demo_b = 0x47800000"
    by (simp add: plan_compute_profile_nominal_speed_def assms demo_b_def PL_COND_FLAG_RAPID_MOTION_def PL_COND_FLAG_NO_FEED_OVERRIDE_def
      bit_macros float_constants float_order demo_def grbl_zero_def system_zero_def Let_def)
  have "st_profile_normal demo_b 0x31000000 0 0x47800000 (demo_prep\<lparr>prep_accelerate_until := 0x3F800000, prep_decelerate_after := 0, prep_maximum_speed := 0\<rparr>)
    = demo_prep"
    by (simp add: st_profile_normal_def demo_b_def plan_block_zero_def demo_prep_def st_prep_zero_def
      float_mul float_add float_sub float_sqrt float_constants float_order Let_def)
  moreover have "\<not> sc_true STEP_CONTROL_EXECUTE_HOLD k" "\<not> sc_true STEP_CONTROL_EXECUTE_SYS_MOTION k"
    by (simp_all add: sc_true_def assms(2) demo_def grbl_zero_def system_zero_def)
  moreover have "f_div f_half (pb_acceleration demo_b) = 0x31000000" "pb_millimeters demo_b = 0x3F800000"
    by (simp_all add: float_constants float_div demo_b_def)
  ultimately show ?thesis
    by (simp add: st_compute_profile_def assms(1,3,4) nominal float_sqrt demo_prep_def st_prep_zero_def RAMP_ACCEL_def Let_def)
qed

lemma demo_ready:
  assumes h: "demo_planned h"
  shows "\<exists>k. st_prep_block_ready h = Some (0, k) \<and> prep (stepper k) = demo_prep \<and> planner k = planner h \<and> sys k = sys demo"
proof -
  note assms = h [unfolded demo_planned_def, THEN conjunct1] h [unfolded demo_planned_def, THEN conjunct2]
  note st = demo_planned_same [OF h]
  have queue: "plan_get_current_block h = Some 0"
    using assms by (simp add: plan_get_current_block_def Let_def)
  have block: "plan_block h 0 = demo_b" using assms(2) by (simp add: plan_block_def)
  let ?l = "st_load_block 0 (h\<lparr>stepper := (stepper h)\<lparr>pl_block := Some 0\<rparr>\<rparr>)"
  have "prep (stepper ?l) = st_prep_zero\<lparr>prep_st_block_index := 1, prep_steps_remaining := 0x3F800000, prep_step_per_mm := 0x3F800000,
       prep_req_mm_increment := 0x3FA00000\<rparr> \<and> planner ?l = planner h \<and> sys ?l = sys demo"
    using block by (simp add: st_load_block_def st restarted_fields(6) plan_block_def demo_def grbl_zero_def system_zero_def sc_true_def
      st_prep_zero_def PREP_FLAG_DECEL_OVERRIDE_def bit_macros st_next_block_index_def SEGMENT_BUFFER_SIZE_def f_of_u32_def demo_b_def plan_block_zero_def
      float_constants float_div float_sqrt set_prep_def Let_def)
  then have load: "prep (stepper ?l) = st_prep_zero\<lparr>prep_st_block_index := 1, prep_steps_remaining := 0x3F800000, prep_step_per_mm := 0x3F800000,
       prep_req_mm_increment := 0x3FA00000\<rparr>" "planner ?l = planner h" "sys ?l = sys demo" by blast+
  have exit: "plan_get_exec_block_exit_speed_sqr ?l = 0"
    using load(2) assms by (simp add: plan_get_exec_block_exit_speed_sqr_def plan_next_block_index_def ring_next_def
      BLOCK_BUFFER_SIZE_def Let_def)
  have l: "plan_block ?l 0 = demo_b" using load(2) block by (simp add: plan_block_def)
  have "pl_block (stepper h) = None" "prep_recalculate_flag (prep (stepper h)) = 0"
    by (simp_all add: st restarted_fields(6) st_prep_zero_def Let_def)
  moreover have "\<not> sc_true STEP_CONTROL_EXECUTE_SYS_MOTION h"
    by (simp add: sc_true_def st demo_def grbl_zero_def system_zero_def)
  ultimately have "st_prep_block_ready h = Some (0, set_prep demo_prep ?l)"
    using queue demo_profile [OF l load(3) exit load(1)] by (simp add: st_prep_block_ready_def bit_macros Let_def)
  with load(2,3) show ?thesis by (simp add: set_prep_def)
qed

lemma ramp_step1: "st_ramp_step demo_b demo_prep 0x392EC33E 0x3F800000
  = (demo_prep\<lparr>prep_current_speed := 0x46800000, prep_ramp_type := RAMP_DECEL\<rparr>, 0x38800000, 0x3F000000)"
  by (simp add: st_ramp_step_def demo_b_def demo_prep_def st_prep_zero_def RAMP_ACCEL_def RAMP_CRUISE_def RAMP_DECEL_def RAMP_DECEL_OVERRIDE_def
     float_mul float_add float_sub float_div float_constants float_order Let_def)

lemma ramp_step2: "st_ramp_step demo_b (demo_prep\<lparr>prep_current_speed := 0x46800000, prep_ramp_type := RAMP_DECEL\<rparr>) 0x38DD867C 0x3F000000
  = (demo_prep\<lparr>prep_current_speed := 0, prep_ramp_type := RAMP_DECEL\<rparr>, 0x38800000, 0)"
proof -
  have "f_decode 0x46DD867C = FNum False 14517884 (- 9)" by (simp add: f_decode_def bit_iff_odd Let_def)
  then have "\<not> f_lt 0x46DD867C 0x46800000" by (simp add: float_order)
  then show ?thesis
  by (simp add: st_ramp_step_def demo_b_def demo_prep_def st_prep_zero_def RAMP_ACCEL_def RAMP_CRUISE_def RAMP_DECEL_def RAMP_DECEL_OVERRIDE_def
     float_mul float_add float_sub float_div float_constants  Let_def)
qed

lemma prep_complete: "prep_mm_complete demo_prep = 0"
  by (simp add: demo_prep_def st_prep_zero_def)

lemma demo_ramp: "st_ramp_loop demo_b 0 demo_prep 0x392EC33E 0 0x392EC33E 0x3F800000
  = Some (demo_prep\<lparr>prep_current_speed := 0, prep_ramp_type := RAMP_DECEL\<rparr>, 0x39000000, 0)"
  by (subst st_ramp_loop.simps, subst st_ramp_loop.simps)
    (simp add: ramp_step1 ramp_step2 prep_complete float_add float_sub float_order)

lemma demo_segment:
  assumes h: "demo_planned h" and k: "sys k = sys demo" "prep (stepper k) = demo_prep" "planner k = planner h"
  shows "\<exists>c s. st_prep_segment 0 k = Some (c, s) \<and> prep_steps_remaining (prep (stepper s)) = 0
    \<and> block_buffer_tail (planner s) = block_buffer_head (planner s) \<and> pl_position (pl (planner s)) = [1, 0, 0]"
proof -
  have b: "plan_block k 0 = demo_b" "block_buffer_tail (planner k) = 0" "block_buffer_head (planner k) = 1" "pl_position (pl (planner k)) = [1, 0, 0]"
    using h by (simp_all add: demo_planned_def plan_block_def k(3))
  have sc: "sys_step_control (sys k) = 0" by (simp add: k(1) demo_def grbl_zero_def system_zero_def)
  have m: "pb_millimeters demo_b = 0x3F800000" "prep_req_mm_increment demo_prep = 0x3FA00000"
    "prep_step_per_mm demo_prep = 0x3F800000" "f_lt 0xBE800000 0" "f_eq 0 0" "\<not> f_lt 0 0"
    by (simp_all add: demo_b_def demo_prep_def float_order)
  have ceil: "f_ceil 0 = 0"
    by (simp add: f_ceil_def f_trunc_int_def f_of_part_def f_sign_def f_is_int_def float_order f_of_int_def round_zero sign_bits_def)
  show ?thesis
    by (auto simp: st_prep_segment_def b k(2) m float_sub float_constants(5) demo_ramp float_mul ceil prep_complete sc sc_true_def
        set_prep_def set_plan_block_def plan_discard_current_block_def plan_next_block_index_def ring_next_def BLOCK_BUFFER_SIZE_def Let_def)
qed

section \<open>A run\<close>

lemma demo_ok: "motion_ok demo"
  by (simp add: demo_def grbl_zero_def motion_ok_def planner_typed_def stepper_typed_def first_block_def unprepared_def planner_zero_def
      plan_block_zero_def planner_t_zero_def stepper_zero_def stepper_t_zero_def st_prep_zero_def vec0_def bit_macros)

lemma demo_planning: "\<exists>h. motion_step (restarted demo) h \<and> demo_planned h"
proof -
  let ?g = "restarted demo" and ?t = "[0x3F800000, 0, 0] :: f32 list"
  obtain h where h: "plan_buffer_line ?t demo_pd ?g = (True, h)" "demo_planned h" using demo_line by blast
  have "\<not> plan_check_full_buffer ?g"
    by (simp add: plan_check_full_buffer_def restarted_fields)
  moreover have "bit_isfalse (pd_condition demo_pd) PL_COND_FLAG_SYSTEM_MOTION"
    by (simp add: demo_pd_def PL_COND_FLAG_SYSTEM_MOTION_def bit_macros)
  moreover have "f_positive (set_steps_per_mm (settings ?g) ! idx)" if "idx < 3" for idx
    using that by (auto simp: restarted_fields demo_def f_positive_def float_decode numeral_3_eq_3 less_Suc_eq)
  moreover have "short_line ?g ?t"
    by (simp add: short_line_def line_steps_def demo_steps labs32_def) (simp add: restarted_fields demo_def grbl_zero_def)
  ultimately have "motion_step ?g h" using motion_step.line [OF h(1)] by simp
  with h(2) show ?thesis by blast
qed

lemma demo_preparing:
  assumes "demo_planned h"
  shows "\<exists>s. motion_step h s \<and> plan_queue s = [] \<and> pl_position (pl (planner s)) = [1, 0, 0]"
proof -
  note st = demo_planned_same [OF assms]
  obtain k where k: "st_prep_block_ready h = Some (0, k)" "prep (stepper k) = demo_prep" "planner k = planner h" "sys k = sys demo"
    using demo_ready [OF assms] by blast
  obtain c s where s: "st_prep_segment 0 k = Some (c, s)" "prep_steps_remaining (prep (stepper s)) = 0"
    "block_buffer_tail (planner s) = block_buffer_head (planner s)" "pl_position (pl (planner s)) = [1, 0, 0]"
    using demo_segment [OF assms k(4,2,3)] by blast
  have trunc: "f_trunc_int 0 = Some 0" "f_trunc_int 0x3F800000 = Some 1" by (simp_all add: f_trunc_int_def float_decode signed_sig_def)
  have "steps_left s = 0" "steps_left k = 1" by (simp_all add: steps_left_def s(2) k(2) demo_prep_def trunc)
  moreover have "f_nat 0 0" using f_nat_sign_bits [of False] by (simp add: sign_bits_def)
  ultimately have "seg_progress k s" by (simp add: seg_progress_def s(2))
  moreover have "segment_buffer_tail (stepper h) \<noteq> segment_next_head (stepper h)"
    by (simp add: st restarted_fields Let_def)
  moreover have "\<not> sc_true STEP_CONTROL_EXECUTE_SYS_MOTION h"
    by (simp add: sc_true_def st demo_def grbl_zero_def system_zero_def)
  ultimately have "motion_step h s" using k(1) s(1) by (intro motion_step.prepare)
  moreover have "plan_queue s = []" using s(3) by (simp add: plan_queue_def ring_list_def ring_len_def)
  ultimately show ?thesis using s(4) by blast
qed

end
