(* ===== verification/Step_Properties.thy ===== *)
theory Step_Properties
  imports Step_Example
begin

text \<open>
  The two properties of a run of the motion system, and their witness: one line of one millimetre from the
  planner through the segment generator to the step pulse.
\<close>

section \<open>No step is lost\<close>





end
