(* ===== verification/Spec2Isabelle.thy ===== *)
theory Spec2Isabelle
  imports Transport_Queues Llp_Properties Stepper_Properties Print_Properties
    Realtime_Properties Memory_Properties Planner_Speeds Step_Properties
begin

text \<open>
  grbl-llp: a G-code motion controller for an ATmega328P, whose serial line carries LLP frames.
  This library models the C sources under src/src for the configuration of config.h and proves
  what the program relies on.

  \<^bold>\<open>The program.\<close> Bytes from the wire reach the receive interrupt, which runs the frame parser
  (llp\_protocol.h). The payload of a frame is split into realtime commands, which set flags, and characters,
  which go to a ring (llp\_transport.c, serial.c). The main loop (protocol.c) filters the characters into
  lines and hands each to the \<open>$\<close> commands (system.c) or the G-code interpreter (gcode.c). G-code becomes
  planner blocks (motion\_control.c, planner.c), blocks become step segments, and the timer interrupt
  executes those (stepper.c). Everything that waits polls \<open>protocol_execute_realtime\<close>,
  where the flags act. Settings, coordinate systems and startup lines are in the EEPROM (settings.c, eeprom.c). Answers
  are printed (report.c, print.c) into a line buffer that is sent as a frame.

  \<^bold>\<open>The model.\<close> The machine state \<open>grbl\<close> (Grbl\_State) holds one record per group of static variables,
  the EEPROM, the ports the code reads and writes, and the outside world: the interrupts that arrive
  between two polls and the results of library functions that C leaves open. A C function is
  a function on \<open>grbl\<close>; one that can wait or loop for ever returns an option, \<open>None\<close> if it does not
  return. Floats are IEEE binary32 bit patterns with exact rounding (Cfloat). Machine integers are
  words of their width.

  \<^item> Prelude, Ring, Status: widths, bit macros, ring indices with the locales \<open>ring\<close> and \<open>fifo\<close>,
    the status codes of report.h.
  \<^item> Llp\_Protocol: llp\_protocol.h. Llp\_Codec, Llp\_Parser, Llp\_Crc and Llp\_Layers prove the
    stuffing, the parser runs, the checksum and the layer walk; Llp\_Properties draws the conclusions.
  \<^item> Transport: llp\_transport.c and serial.c; Transport\_Queues shows the two rings to be queues and
    follows a line and a payload through them.
  \<^item> Reset: the flags of system.c, the pins of limits.c and probe.c, \<open>mc_reset\<close>, the stubs of
    spindle\_control.c and coolant\_control.c. Nuts\_Bolts: nuts\_bolts.c and the positions of system.c.
  \<^item> Planner: planner.c. Cfloat\_Properties: signs, bounds and order of float results.
    Planner\_Properties: the planner ring as a queue of motions, the end of its loops.
    Planner\_Speeds: the speeds at the junctions along a run of the planner.
  \<^item> Stepper: stepper.c. Stepper\_Properties: the Bresenham counters, the ring of segments, and the
    exact execution of a block.
  \<^item> Report: report.c and print.c. Print\_Properties: printed numbers are read back.
  \<^item> Realtime: the realtime half of protocol.c with the interrupts beneath it. Motion:
    motion\_control.c, limits.c, jog.c. Frame: the locales \<open>print_closed\<close> and \<open>realtime_closed\<close>,
    which carry a condition on the state through all of these, and \<open>prep_frame\<close>, \<open>print_frame\<close> and
    \<open>realtime_frame\<close> for an observation of the state that they do not change.
    Realtime\_Properties: the overrides, and when the machine may start to move.
  \<^item> Eeprom: eeprom.c with its read-back and checksum lemmas. Settings: settings.c.
    Settings\_Properties: the stored items as a store with keys.
  \<^item> Gcode\_Parse, Gcode: gcode.c. Gcode\_Properties: termination of the parser, lines that fail,
    the locale \<open>gcode_closed\<close> of conditions that survive a line, the legal modes, what a line may write.
  \<^item> System\_Cmd: the \<open>$\<close> commands of system.c. Protocol: the main loop of protocol.c, main.c.
    Protocol\_Properties: the character filter, the controller as a step relation, the locale
    \<open>controller_closed\<close> of conditions that every step keeps, and the first of them.
  \<^item> Memory, Memory\_Properties: the second one, on the lengths of all arrays of planner, stepper, transport and main
    loop, the ranges of the indices and pointers into them, and the pointer that the step interrupt follows.
  \<^item> Cfloat\_Integers: step counts are exact as floats. Step\_Motion, Step\_Blocks, Step\_Segments, Step\_Runs:
    the position to come, and that the step interrupt, the two halves of \<open>st_prep_buffer\<close>, a planned line and
    the replanning keep it, in any order. Step\_Example evaluates a line down to its segment;
    Step\_Properties draws the two conclusions.

  \<^bold>\<open>Bounds and fuel.\<close> The loops over the planner ring take 12 rounds as their bound, one more than a
  ring of 12 places can hold. Loops with an obvious measure are recursive functions; loops that wait are
  \<open>partial_function (option)\<close> and carry no bound. A run of the motion system (\<open>motion_step\<close>)
  takes lines of less than $2^{24}$ steps on an axis, as the segment generator counts the steps of a block in a
  float, and segments of at least one and less than 8192 steps, as a segment counts 16 bits after a smoothing of up
  to 8 ticks per step; the system motions of homing and parking, which leave the planner's position to
  their caller, are not steps of such a run.

  \<^bold>\<open>Not modelled.\<close> Cycle counts and the length of delays, interrupts in the middle of a
  main-program statement (they run at the polls, and in the transmit wait), and the code that config.h leaves
  out (VARIABLE\_SPINDLE, COREXY, PARKING, DUAL\_AXIS, the safety door pin, debug and statistics options).
  The configuration registers are written as in the code, but only the enable bits that the model's
  interrupts test have an effect.
\<close>

end
